(* ===== verification/Prelude.thy ===== *)
theory Prelude
  imports Main "HOL-Library.Char_ord" "HOL-Library.List_Lexorder" "HOL-Library.Product_Lexorder"
begin

text \<open>
  Shared vocabulary of the development.  It holds the named theorem collections, the
  lexicographic-order lemmas used for timestamp columns, the meaning given to the row-level
  SQL statements of \<^verbatim>\<open>src/broker_core.go\<close> (tables are lists of rows in rowid order), and two
  interfaces: \<open>keyed_table\<close>, the contract of a table with a primary key, and
  \<open>inductive_invariant\<close>, the contract of a step relation with an invariant.
\<close>

named_theorems table_simps "rewriting rules for the SQL row operations"
named_theorems op_defs "definitions of the operations of a component"

type_synonym bytes = string

section \<open>Lexicographic order on strings\<close>

text \<open>
  SQLite compares TEXT columns bytewise (BINARY collation); on \<open>string\<close> that is the
  lexicographic order of \<open>List_Lexorder\<close> over the byte order of \<open>Char_ord\<close>.
\<close>

lemma less_append_same_length:
  fixes xs ys us vs :: "'a::linorder list"
  assumes "length xs = length ys"
  shows "xs @ us < ys @ vs \<longleftrightarrow> xs < ys \<or> (xs = ys \<and> us < vs)"
  using assms by (induction xs ys rule: list_induct2) auto

lemma less_append_prefix:
  fixes xs ys us vs :: "'a::linorder list"
  assumes "length xs = length ys" and "xs < ys"
  shows "xs @ us < ys @ vs"
  using assms by (simp add: less_append_same_length)

section \<open>Rows and tables\<close>

text \<open>
  \<open>SELECT ... WHERE P LIMIT 1\<close>, \<open>UPDATE ... SET f WHERE P\<close>, \<open>DELETE ... WHERE P\<close>,
  \<open>INSERT\<close> into a table with a primary key (a conflicting insert is refused and leaves the
  table as it was, which is also the meaning of \<open>INSERT OR IGNORE\<close>), and the upsert of
  \<open>ON CONFLICT DO UPDATE\<close> and \<open>INSERT OR REPLACE\<close>.
\<close>

definition select_one :: "('r \<Rightarrow> bool) \<Rightarrow> 'r list \<Rightarrow> 'r option" where
  "select_one P tbl = List.find P tbl"

definition update_where :: "('r \<Rightarrow> bool) \<Rightarrow> ('r \<Rightarrow> 'r) \<Rightarrow> 'r list \<Rightarrow> 'r list" where
  "update_where P f tbl = map (\<lambda>r. if P r then f r else r) tbl"

definition delete_where :: "('r \<Rightarrow> bool) \<Rightarrow> 'r list \<Rightarrow> 'r list" where
  "delete_where P tbl = filter (\<lambda>r. \<not> P r) tbl"

definition insert_row :: "('r \<Rightarrow> 'k) \<Rightarrow> 'r \<Rightarrow> 'r list \<Rightarrow> 'r list" where
  "insert_row key r tbl = (if key r \<in> set (map key tbl) then tbl else tbl @ [r])"

definition upsert_row :: "('r \<Rightarrow> 'k) \<Rightarrow> 'r \<Rightarrow> 'r list \<Rightarrow> 'r list" where
  "upsert_row key r tbl =
     (if key r \<in> set (map key tbl) then update_where (\<lambda>x. key x = key r) (\<lambda>_. r) tbl
      else tbl @ [r])"

definition lookup_row :: "('r \<Rightarrow> 'k) \<Rightarrow> 'k \<Rightarrow> 'r list \<Rightarrow> 'r option" where
  "lookup_row key k tbl = select_one (\<lambda>r. key r = k) tbl"

definition unique_key :: "('r \<Rightarrow> 'k) \<Rightarrow> 'r list \<Rightarrow> bool" where
  "unique_key key tbl \<longleftrightarrow> distinct (map key tbl)"

lemma select_one_None [table_simps]:
  "select_one P tbl = None \<longleftrightarrow> (\<forall>r \<in> set tbl. \<not> P r)"
  by (auto simp: select_one_def find_None_iff)

lemma select_one_SomeD: "select_one P tbl = Some r \<Longrightarrow> r \<in> set tbl \<and> P r"
  by (auto simp: select_one_def find_Some_iff)

lemma select_one_append:
  "select_one P (xs @ ys) = (case select_one P xs of None \<Rightarrow> select_one P ys | Some r \<Rightarrow> Some r)"
  by (induction xs) (auto simp: select_one_def)

lemma select_one_ex: "r \<in> set tbl \<Longrightarrow> P r \<Longrightarrow> \<exists>r'. select_one P tbl = Some r'"
  by (metis not_None_eq select_one_None)

lemma in_update_where:
  "r' \<in> set (update_where P f tbl) \<longleftrightarrow> (\<exists>r \<in> set tbl. r' = (if P r then f r else r))"
  by (auto simp: update_where_def)

lemma in_delete_where [table_simps]: "r \<in> set (delete_where P tbl) \<longleftrightarrow> r \<in> set tbl \<and> \<not> P r"
  by (auto simp: delete_where_def)

lemma map_update_where [table_simps]:
  "(\<And>r. P r \<Longrightarrow> g (f r) = g r) \<Longrightarrow> map g (update_where P f tbl) = map g tbl"
  by (auto simp: update_where_def)

lemma length_update_where [table_simps]: "length (update_where P f tbl) = length tbl"
  by (simp add: update_where_def)

lemma lookup_row_Some_iff:
  "unique_key key tbl \<Longrightarrow> lookup_row key k tbl = Some r \<longleftrightarrow> r \<in> set tbl \<and> key r = k"
proof
  assume u: "unique_key key tbl" and r: "r \<in> set tbl \<and> key r = k"
  then obtain r' where r': "lookup_row key k tbl = Some r'"
    using select_one_ex[of r tbl "\<lambda>r. key r = k"] by (auto simp: lookup_row_def)
  then have "r' \<in> set tbl \<and> key r' = k"
    by (auto simp: lookup_row_def dest: select_one_SomeD)
  with u r have "r' = r" by (auto simp: unique_key_def distinct_map inj_on_def)
  with r' show "lookup_row key k tbl = Some r" by simp
qed (auto simp: lookup_row_def dest: select_one_SomeD)

lemma lookup_row_None_iff: "lookup_row key k tbl = None \<longleftrightarrow> k \<notin> key ` set tbl"
  by (auto simp: lookup_row_def table_simps)

lemma unique_insert_row: "unique_key key tbl \<Longrightarrow> unique_key key (insert_row key r tbl)"
  by (auto simp: unique_key_def insert_row_def)

lemma map_key_replace: "map key (update_where (\<lambda>x. key x = key r) (\<lambda>_. r) tbl) = map key tbl"
  by (auto simp: update_where_def)

lemma unique_upsert_row: "unique_key key tbl \<Longrightarrow> unique_key key (upsert_row key r tbl)"
  by (simp add: unique_key_def upsert_row_def map_key_replace)

lemma unique_delete_where: "unique_key key tbl \<Longrightarrow> unique_key key (delete_where P tbl)"
  by (simp add: unique_key_def delete_where_def distinct_map_filter)

lemma unique_update_where:
  "unique_key key tbl \<Longrightarrow> (\<And>r. P r \<Longrightarrow> key (f r) = key r) \<Longrightarrow> unique_key key (update_where P f tbl)"
  by (simp add: unique_key_def map_update_where)

lemmas unique_key_preserved =
  unique_insert_row unique_upsert_row unique_delete_where unique_update_where

section \<open>The contract of a keyed table\<close>

text \<open>
  What a client of a table with a primary key relies on: the lookup after an insert that does
  not replace, after one that does, and after a deletion, and that every operation keeps the
  key unique.
\<close>

locale keyed_table =
  fixes lookup :: "'k \<Rightarrow> 'tbl \<Rightarrow> 'r option"
    and put_new :: "'r \<Rightarrow> 'tbl \<Rightarrow> 'tbl"
    and put :: "'r \<Rightarrow> 'tbl \<Rightarrow> 'tbl"
    and drop_key :: "'k \<Rightarrow> 'tbl \<Rightarrow> 'tbl"
    and row_key :: "'r \<Rightarrow> 'k"
    and ok :: "'tbl \<Rightarrow> bool"
  assumes lookup_put_new:
      "ok t \<Longrightarrow> lookup k (put_new r t) =
         (if k = row_key r \<and> lookup k t = None then Some r else lookup k t)"
    and lookup_put: "ok t \<Longrightarrow> lookup k (put r t) = (if k = row_key r then Some r else lookup k t)"
    and lookup_drop: "ok t \<Longrightarrow> lookup k (drop_key k' t) = (if k = k' then None else lookup k t)"
    and ok_put_new: "ok t \<Longrightarrow> ok (put_new r t)"
    and ok_put: "ok t \<Longrightarrow> ok (put r t)"
    and ok_drop: "ok t \<Longrightarrow> ok (drop_key k t)"
begin

lemma put_new_keeps_old: "ok t \<Longrightarrow> lookup k t = Some r0 \<Longrightarrow> lookup k (put_new r t) = Some r0"
  by (simp add: lookup_put_new)

lemma put_overrides: "ok t \<Longrightarrow> lookup (row_key r) (put r t) = Some r"
  by (simp add: lookup_put)

lemma put_twice:
  "ok t \<Longrightarrow> row_key r = row_key r' \<Longrightarrow> lookup k (put r' (put r t)) = lookup k (put r' t)"
  by (simp add: lookup_put ok_put)

lemma reinsert_after_drop:
  "ok t \<Longrightarrow> lookup (row_key r) (put_new r (drop_key (row_key r) t)) = Some r"
  by (simp add: lookup_put_new lookup_drop ok_drop)

end

lemma lookup_row_eqI:
  assumes "unique_key key t" and "unique_key key' t'"
    and "\<And>x. x \<in> set t \<and> key x = k \<longleftrightarrow> x \<in> set t' \<and> key' x = k"
  shows "lookup_row key k t = lookup_row key' k t'"
  using assms lookup_row_Some_iff[OF assms(1)] lookup_row_Some_iff[OF assms(2)]
  by (metis not_None_eq)

lemma lookup_insert_row:
  assumes u: "unique_key key t"
  shows "lookup_row key k (insert_row key r t) =
     (if k = key r \<and> lookup_row key k t = None then Some r else lookup_row key k t)"
proof -
  have u': "unique_key key (insert_row key r t)" using u by (rule unique_insert_row)
  show ?thesis
  proof (cases "k = key r \<and> lookup_row key k t = None")
    case True
    then have "r \<in> set (insert_row key r t)" by (auto simp: insert_row_def lookup_row_None_iff)
    with True show ?thesis by (auto simp: lookup_row_Some_iff[OF u'])
  next
    case False
    then have "lookup_row key k (insert_row key r t) = lookup_row key k t"
      by (intro lookup_row_eqI u u') (auto simp: insert_row_def lookup_row_None_iff)
    with False show ?thesis by auto
  qed
qed

lemma lookup_upsert_row:
  assumes u: "unique_key key t"
  shows "lookup_row key k (upsert_row key r t) =
    (if k = key r then Some r else lookup_row key k t)"
proof -
  have u': "unique_key key (upsert_row key r t)" using u by (rule unique_upsert_row)
  show ?thesis
  proof (cases "k = key r")
    case True
    have "r \<in> set (upsert_row key r t)" by (auto simp: upsert_row_def in_update_where)
    with True show ?thesis by (auto simp: lookup_row_Some_iff[OF u'])
  next
    case False
    then have "lookup_row key k (upsert_row key r t) = lookup_row key k t"
      by (intro lookup_row_eqI u u') (auto simp: upsert_row_def in_update_where)
    with False show ?thesis by simp
  qed
qed

lemma lookup_delete_key:
  assumes u: "unique_key key t"
  shows "lookup_row key k (delete_where (\<lambda>r. key r = k') t) =
    (if k = k' then None else lookup_row key k t)"
proof (cases "k = k'")
  case True
  then show ?thesis by (auto simp: lookup_row_None_iff table_simps)
next
  case False
  then have "lookup_row key k (delete_where (\<lambda>r. key r = k') t) = lookup_row key k t"
    by (intro lookup_row_eqI u unique_delete_where) (auto simp: table_simps)
  with False show ?thesis by simp
qed

lemma lookup_update_where:
  assumes "\<And>r. P r \<Longrightarrow> key (f r) = key r"
  shows "lookup_row key k (update_where P f t) =
    map_option (\<lambda>r. if P r then f r else r) (lookup_row key k t)"
  using assms by (induction t) (auto simp: lookup_row_def select_one_def update_where_def)

lemma lookup_delete_where:
  assumes "unique_key key t"
  shows "lookup_row key k (delete_where P t) =
    (case lookup_row key k t of None \<Rightarrow> None | Some r \<Rightarrow> if P r then None else Some r)"
proof (cases "lookup_row key k t")
  case None
  then have "lookup_row key k (delete_where P t) = None"
    by (auto simp: lookup_row_None_iff table_simps)
  with None show ?thesis by simp
next
  case (Some r)
  then have r: "r \<in> set t" "key r = k" using lookup_row_Some_iff[OF assms] by auto
  have only: "x \<in> set t \<Longrightarrow> key x = k \<Longrightarrow> x = r" for x
    using r assms by (auto simp: unique_key_def distinct_map inj_on_def)
  show ?thesis
  proof (cases "P r")
    case True
    with only have "lookup_row key k (delete_where P t) = None"
      by (auto simp: lookup_row_None_iff table_simps)
    with Some True show ?thesis by simp
  next
    case False
    with r have "lookup_row key k (delete_where P t) = Some r"
      using lookup_row_Some_iff[OF unique_delete_where[OF assms]] by (auto simp: table_simps)
    with Some False show ?thesis by simp
  qed
qed

lemma lookup_row_snoc:
  "lookup_row key k (t @ [r]) =
    (case lookup_row key k t of None \<Rightarrow> if key r = k then Some r else None | Some x \<Rightarrow> Some x)"
  unfolding lookup_row_def select_one_append by (simp add: select_one_def split: option.split)

section \<open>The contract of a step relation with an invariant\<close>

locale inductive_invariant =
  fixes start :: "'s \<Rightarrow> bool"
    and step :: "'s \<Rightarrow> 's \<Rightarrow> bool"
    and holds :: "'s \<Rightarrow> bool"
  assumes holds_start: "start s \<Longrightarrow> holds s"
    and holds_step: "holds s \<Longrightarrow> step s s' \<Longrightarrow> holds s'"
begin

lemma holds_steps: "step\<^sup>*\<^sup>* s s' \<Longrightarrow> holds s \<Longrightarrow> holds s'"
  by (induction rule: rtranclp_induct) (auto intro: holds_step)

lemma holds_reachable: "start s \<Longrightarrow> step\<^sup>*\<^sup>* s s' \<Longrightarrow> holds s'"
  using holds_start holds_steps by blast

end

end
