(* ===== verification/GoLib.thy ===== *)
theory GoLib
  imports Prelude "HOL-Library.Word"
begin

text \<open>
  The part of the Go standard library that the sources call on plain data: the string helpers
  of package \<open>strings\<close>, decimal and hexadecimal formatting, the \<^verbatim>\<open>%q\<close> verb, the raw URL
  variant of base64, and 64-bit wrap-around arithmetic.  A Go string is a byte sequence, here
  \<open>string\<close>; Unicode white space beyond ASCII is not trimmed, and \<^verbatim>\<open>%q\<close> leaves bytes above
  127 as they are (the sources only quote printable names).
\<close>

section \<open>Package strings\<close>

definition hasPrefix :: "string \<Rightarrow> string \<Rightarrow> bool" where
  "hasPrefix s p \<longleftrightarrow> take (length p) s = p"

definition trimPrefix :: "string \<Rightarrow> string \<Rightarrow> string" where
  "trimPrefix s p = (if hasPrefix s p then drop (length p) s else s)"

fun contains :: "string \<Rightarrow> string \<Rightarrow> bool" where
  "contains [] sub \<longleftrightarrow> sub = []"
| "contains (c # cs) sub \<longleftrightarrow> hasPrefix (c # cs) sub \<or> contains cs sub"

definition isSpace :: "char \<Rightarrow> bool" where
  "isSpace c \<longleftrightarrow> c \<in> {CHR 0x09, CHR 0x0A, CHR 0x0B, CHR 0x0C, CHR 0x0D, CHR 0x20}"

definition trimSpace :: "string \<Rightarrow> string" where
  "trimSpace s = rev (dropWhile isSpace (rev (dropWhile isSpace s)))"

text \<open>\<open>strings.IndexByte\<close> as an option and \<open>strings.Split\<close> with a one-byte separator.\<close>

fun indexByte :: "string \<Rightarrow> char \<Rightarrow> nat option" where
  "indexByte [] c = None"
| "indexByte (x # xs) c = (if x = c then Some 0 else map_option Suc (indexByte xs c))"

fun splitByte :: "char \<Rightarrow> string \<Rightarrow> string list" where
  "splitByte c [] = [[]]"
| "splitByte c (x # xs) =
     (if x = c then [] # splitByte c xs
      else (case splitByte c xs of [] \<Rightarrow> [[x]] | p # ps \<Rightarrow> (x # p) # ps))"

fun joinStr :: "string \<Rightarrow> string list \<Rightarrow> string" where
  "joinStr sep [] = []"
| "joinStr sep [s] = s"
| "joinStr sep (s # ss) = s @ sep @ joinStr sep ss"

lemma hasPrefix_append [simp]: "hasPrefix (p @ s) p"
  by (simp add: hasPrefix_def)

lemma hasPrefix_iff: "hasPrefix s p \<longleftrightarrow> (\<exists>t. s = p @ t)"
  unfolding hasPrefix_def by (metis append_eq_conv_conj append_take_drop_id)

lemma trimPrefix_append [simp]: "trimPrefix (p @ s) p = s"
  by (simp add: trimPrefix_def)

lemma trimPrefix_noop: "\<not> hasPrefix s p \<Longrightarrow> trimPrefix s p = s"
  by (simp add: trimPrefix_def)

lemma trimPrefix_fixed: "p \<noteq> [] \<Longrightarrow> trimPrefix s p = s \<longleftrightarrow> \<not> hasPrefix s p"
  by (auto simp: trimPrefix_def hasPrefix_iff)

lemma contains_iff: "contains s sub \<longleftrightarrow> (\<exists>a b. s = a @ sub @ b)"
proof (induction s)
  case (Cons c cs)
  have "contains (c # cs) sub \<longleftrightarrow> (\<exists>t. c # cs = sub @ t) \<or> (\<exists>a b. cs = a @ sub @ b)"
    using Cons.IH by (simp add: hasPrefix_iff)
  also have "\<dots> \<longleftrightarrow> (\<exists>a b. c # cs = a @ sub @ b)"
    by (metis append_Cons append_Nil neq_Nil_conv list.inject)
  finally show ?case .
qed auto

lemma containsI: "contains (a @ sub @ b) sub"
  by (auto simp: contains_iff)

lemma splitByte_nonempty [simp]: "splitByte c s \<noteq> []"
  by (cases s) (auto split: list.splits)

lemma joinStr_splitByte: "joinStr [c] (splitByte c s) = s"
proof (induction s)
  case (Cons x xs)
  obtain p ps where s: "splitByte c xs = p # ps" by (cases "splitByte c xs") auto
  with Cons show ?case by (cases ps) auto
qed simp

lemma splitByte_parts: "p \<in> set (splitByte c s) \<Longrightarrow> c \<notin> set p"
  by (induction s arbitrary: p) (auto split: if_splits list.splits)

lemma dropWhile_idem: "dropWhile P (dropWhile P xs) = dropWhile P xs"
  by (induction xs) auto

lemma trimSpace_idle:
  assumes "s = [] \<or> (\<not> isSpace (hd s) \<and> \<not> isSpace (last s))"
  shows "trimSpace s = s"
proof (cases "s = []")
  case False
  then have "dropWhile isSpace s = s" using assms by (cases s) auto
  moreover from False have "dropWhile isSpace (rev s) = rev s"
    using assms by (cases s rule: rev_cases) auto
  ultimately show ?thesis by (simp add: trimSpace_def)
qed (simp add: trimSpace_def)

section \<open>Decimal and hexadecimal digits\<close>

definition digitc :: "nat \<Rightarrow> char" where
  "digitc d = char_of (48 + d mod 10)"

definition isDigit :: "char \<Rightarrow> bool" where
  "isDigit c \<longleftrightarrow> 48 \<le> (of_char c :: nat) \<and> (of_char c :: nat) \<le> 57"

definition digitVal :: "char \<Rightarrow> nat" where
  "digitVal c = of_char c - 48"

fun natDigits :: "nat \<Rightarrow> string" where
  "natDigits n = (if n < 10 then [digitc n] else natDigits (n div 10) @ [digitc (n mod 10)])"

declare natDigits.simps [simp del]

definition itoa :: "int \<Rightarrow> string" where
  "itoa i = (if i < 0 then CHR ''-'' # natDigits (nat (- i)) else natDigits (nat i))"

definition digitsVal :: "string \<Rightarrow> nat" where
  "digitsVal s = foldl (\<lambda>a c. 10 * a + digitVal c) 0 s"

text \<open>Fixed-width zero padding, the \<open>appendInt\<close> of \<open>time.Format\<close> for a value that fits.\<close>

fun padDigits :: "nat \<Rightarrow> nat \<Rightarrow> string" where
  "padDigits 0 n = []"
| "padDigits (Suc w) n = padDigits w (n div 10) @ [digitc (n mod 10)]"

lemma of_char_digitc [simp]: "of_char (digitc d) = (48 + d mod 10 :: nat)"
  by (simp add: digitc_def)

lemma isDigit_digitc [simp]: "isDigit (digitc d)"
  unfolding isDigit_def by simp

lemma digitVal_digitc [simp]: "digitVal (digitc d) = d mod 10"
  by (simp add: digitVal_def)

lemma digitc_less_iff: "a < 10 \<Longrightarrow> b < 10 \<Longrightarrow> digitc a < digitc b \<longleftrightarrow> a < b"
  by (simp add: less_char_def)

lemma digitc_eq_iff: "a < 10 \<Longrightarrow> b < 10 \<Longrightarrow> digitc a = digitc b \<longleftrightarrow> a = b"
  by (metis digitVal_digitc mod_less)

lemma digitc_numeral [simp]:
  "digitc 0 = CHR ''0''" "digitc 1 = CHR ''1''" "digitc (Suc 0) = CHR ''1''" "digitc 2 = CHR ''2''"
  "digitc 3 = CHR ''3''" "digitc 4 = CHR ''4''" "digitc 5 = CHR ''5''" "digitc 6 = CHR ''6''"
  "digitc 7 = CHR ''7''" "digitc 8 = CHR ''8''" "digitc 9 = CHR ''9''"
  by code_simp+

lemma natDigits_nonempty [simp]: "natDigits n \<noteq> []"
  by (subst natDigits.simps) simp

lemma natDigits_isDigit: "c \<in> set (natDigits n) \<Longrightarrow> isDigit c"
proof (induction n arbitrary: c rule: natDigits.induct)
  case (1 n)
  then show ?case by (subst (asm) (2) natDigits.simps) (auto split: if_splits)
qed

lemma digitsVal_snoc: "digitsVal (s @ [c]) = 10 * digitsVal s + digitVal c"
  by (simp add: digitsVal_def)

lemma digitsVal_natDigits [simp]: "digitsVal (natDigits n) = n"
proof (induction n rule: natDigits.induct)
  case (1 n)
  show ?case
  proof (cases "n < 10")
    case True
    then show ?thesis by (subst natDigits.simps) (simp add: digitsVal_def)
  next
    case False
    with "1.IH" show ?thesis by (subst natDigits.simps) (simp add: digitsVal_snoc)
  qed
qed

lemma natDigits_inj: "natDigits m = natDigits n \<longleftrightarrow> m = n"
  by (metis digitsVal_natDigits)

lemma length_padDigits [simp]: "length (padDigits w n) = w"
  by (induction w n rule: padDigits.induct) auto

lemma less_by_div_mod:
  "0 < k \<Longrightarrow> m < n \<longleftrightarrow> m div k < n div k \<or> (m div k = n div k \<and> m mod k < n mod k)"
  for m n k :: nat
proof (cases "m div k = n div k")
  case True
  then have "m < n \<longleftrightarrow> k * (n div k) + m mod k < k * (n div k) + n mod k"
    by (metis mult_div_mod_eq)
  with True show ?thesis by (simp only: nat_add_left_cancel_less) simp
next
  case False
  then show ?thesis using div_le_mono[of m n k] div_le_mono[of n m k] by linarith
qed

lemma padDigits_less_iff:
  "m < 10 ^ w \<Longrightarrow> n < 10 ^ w \<Longrightarrow> padDigits w m < padDigits w n \<longleftrightarrow> m < n"
proof (induction w arbitrary: m n)
  case (Suc w)
  have md: "m div 10 < 10 ^ w" "n div 10 < 10 ^ w" using Suc.prems by (auto simp: less_mult_imp_div_less)
  have eq: "padDigits w (m div 10) = padDigits w (n div 10) \<longleftrightarrow> m div 10 = n div 10"
    using Suc.IH[OF md] Suc.IH[OF md(2) md(1)] by (metis less_irrefl linorder_neqE_nat)
  show ?case
    using Suc.IH[OF md] eq
    by (simp add: less_append_same_length digitc_less_iff less_by_div_mod[where m = m and n = n and k = 10])
qed simp

lemma padDigits_eq_iff:
  "m < 10 ^ w \<Longrightarrow> n < 10 ^ w \<Longrightarrow> padDigits w m = padDigits w n \<longleftrightarrow> m = n"
  using padDigits_less_iff[of m w n] padDigits_less_iff[of n w m] by (metis less_irrefl linorder_neqE_nat)

definition hexc :: "nat \<Rightarrow> char" where
  "hexc d = (if d < 10 then digitc d else char_of (87 + d))"

definition hexEncode :: "string \<Rightarrow> string" where
  "hexEncode b = concat (map (\<lambda>c. [hexc (of_char c div 16), hexc (of_char c mod 16)]) b)"

lemma length_hexEncode: "length (hexEncode b) = 2 * length b"
  by (induction b) (auto simp: hexEncode_def)

lemma of_char_hexc: "d < 16 \<Longrightarrow> of_char (hexc d) = (if d < 10 then 48 + d else 87 + d)"
  by (simp add: hexc_def)

lemma hexc_inj:
  assumes "a < 16" and "b < 16"
  shows "hexc a = hexc b \<longleftrightarrow> a = b"
proof
  assume "hexc a = hexc b"
  then have "(of_char (hexc a) :: nat) = of_char (hexc b)" by (rule arg_cong)
  then show "a = b"
    unfolding of_char_hexc[OF assms(1)] of_char_hexc[OF assms(2)] by (simp split: if_splits)
qed simp

lemma hexEncode_inj: "hexEncode a = hexEncode b \<longleftrightarrow> a = b"
proof (induction a arbitrary: b)
  case Nil
  then show ?case by (cases b) (auto simp: hexEncode_def)
next
  case (Cons x xs)
  show ?case
  proof (cases b)
    case (Cons y ys)
    have "of_char x div 16 = (of_char y div 16 :: nat) \<and> of_char x mod 16 = (of_char y mod 16 :: nat)
        \<longleftrightarrow> x = y"
      by (metis div_mult_mod_eq of_char_eq_iff)
    moreover have "of_char c div 16 < (16 :: nat)" for c :: char
      using nat_of_char_less_256[of c] by (simp add: less_mult_imp_div_less)
    ultimately show ?thesis using Cons.IH[of ys] Cons
      by (simp add: hexEncode_def hexc_inj) blast
  qed (simp add: hexEncode_def)
qed

section \<open>The \<open>%q\<close> verb\<close>

definition quoteByte :: "char \<Rightarrow> string" where
  "quoteByte c =
     (if c = CHR 0x22 then [CHR 0x5C, CHR 0x22]
      else if c = CHR 0x5C then [CHR 0x5C, CHR 0x5C]
      else if c = CHR 0x07 then [CHR 0x5C, CHR ''a'']
      else if c = CHR 0x08 then [CHR 0x5C, CHR ''b'']
      else if c = CHR 0x0C then [CHR 0x5C, CHR ''f'']
      else if c = CHR 0x0A then [CHR 0x5C, CHR ''n'']
      else if c = CHR 0x0D then [CHR 0x5C, CHR ''r'']
      else if c = CHR 0x09 then [CHR 0x5C, CHR ''t'']
      else if c = CHR 0x0B then [CHR 0x5C, CHR ''v'']
      else if (of_char c :: nat) < 32 \<or> c = CHR 0x7F
        then [CHR 0x5C, CHR ''x'', hexc (of_char c div 16), hexc (of_char c mod 16)]
      else [c])"

definition goQuote :: "string \<Rightarrow> string" where
  "goQuote s = [CHR 0x22] @ concat (map quoteByte s) @ [CHR 0x22]"

section \<open>base64.RawURLEncoding\<close>

definition b64Alphabet :: string where
  "b64Alphabet = ''ABCDEFGHIJKLMNOPQRSTUVWXYZabcdefghijklmnopqrstuvwxyz0123456789-_''"

definition b64Char :: "nat \<Rightarrow> char" where
  "b64Char n = b64Alphabet ! n"

definition b64Val :: "char \<Rightarrow> nat option" where
  "b64Val c = indexByte b64Alphabet c"

fun sextets :: "nat list \<Rightarrow> nat list" where
  "sextets [] = []"
| "sextets [a] = [a div 4, (a mod 4) * 16]"
| "sextets [a, b] = [a div 4, (a mod 4) * 16 + b div 16, (b mod 16) * 4]"
| "sextets (a # b # c # r) =
     a div 4 # ((a mod 4) * 16 + b div 16) # ((b mod 16) * 4 + c div 64) # c mod 64 # sextets r"

fun octets :: "nat list \<Rightarrow> nat list option" where
  "octets [] = Some []"
| "octets [x] = None"
| "octets [x, y] = Some [x * 4 + y div 16]"
| "octets [x, y, z] = Some [x * 4 + y div 16, (y mod 16) * 16 + z div 4]"
| "octets (x # y # z # w # r) =
     map_option (\<lambda>bs. (x * 4 + y div 16) # ((y mod 16) * 16 + z div 4) # ((z mod 4) * 64 + w) # bs)
       (octets r)"

definition b64Encode :: "string \<Rightarrow> string" where
  "b64Encode bs = map b64Char (sextets (map of_char bs))"

text \<open>
  The decoder skips carriage returns and newlines, fails at the first byte outside the
  alphabet, and at the last byte when a single sextet is left over.  Unused trailing bits are
  not checked (the encoding is not \<open>Strict\<close>).
\<close>

definition isNewline :: "char \<Rightarrow> bool" where
  "isNewline c \<longleftrightarrow> c = CHR 0x0A \<or> c = CHR 0x0D"

fun firstBad :: "nat \<Rightarrow> string \<Rightarrow> nat option" where
  "firstBad i [] = None"
| "firstBad i (c # cs) =
     (if isNewline c \<or> b64Val c \<noteq> None then firstBad (Suc i) cs else Some i)"

definition b64Error :: "nat \<Rightarrow> string" where
  "b64Error i = ''illegal base64 data at input byte '' @ natDigits i"

definition b64Decode :: "string \<Rightarrow> string + string" where
  "b64Decode s =
     (case firstBad 0 s of
        Some i \<Rightarrow> Inl (b64Error i)
      | None \<Rightarrow>
        (case octets (map (the \<circ> b64Val) (filter (\<lambda>c. \<not> isNewline c) s)) of
           None \<Rightarrow> Inl (b64Error (length s - 1))
         | Some bs \<Rightarrow> Inr (map char_of bs)))"

lemma indexByte_nth: "distinct s \<Longrightarrow> n < length s \<Longrightarrow> indexByte s (s ! n) = Some n"
proof (induction s arbitrary: n)
  case (Cons x xs)
  then show ?case by (cases n) auto
qed simp

lemma length_b64Alphabet [simp]: "length b64Alphabet = 64"
  by (simp add: b64Alphabet_def)

lemma distinct_b64Alphabet: "distinct b64Alphabet"
  by (simp add: b64Alphabet_def)

lemma newline_not_b64: "c \<in> set b64Alphabet \<Longrightarrow> \<not> isNewline c"
  by (auto simp: b64Alphabet_def isNewline_def)

lemma b64Val_b64Char [simp]: "n < 64 \<Longrightarrow> b64Val (b64Char n) = Some n"
  by (simp add: b64Val_def b64Char_def indexByte_nth distinct_b64Alphabet)

lemma b64Char_plain [simp]: "n < 64 \<Longrightarrow> \<not> isNewline (b64Char n)"
  using newline_not_b64[of "b64Char n"] by (simp add: b64Char_def)

lemma sextets_less: "\<forall>b \<in> set bs. b < 256 \<Longrightarrow> \<forall>x \<in> set (sextets bs). x < 64"
  by (induction bs rule: sextets.induct) auto

lemma octets_sextets: "\<forall>b \<in> set bs. b < 256 \<Longrightarrow> octets (sextets bs) = Some bs"
  by (induction bs rule: sextets.induct) auto

lemma firstBad_b64Char: "\<forall>x \<in> set xs. x < 64 \<Longrightarrow> firstBad i (map b64Char xs) = None"
  by (induction xs arbitrary: i) auto

lemma b64_round_trip: "b64Decode (b64Encode s) = Inr s"
proof -
  let ?bs = "map of_char s :: nat list"
  have lt: "\<forall>b \<in> set ?bs. b < 256" by (auto simp: nat_of_char_less_256)
  note sx = sextets_less[OF lt]
  have v: "map (the \<circ> b64Val) (map b64Char (sextets ?bs)) = sextets ?bs"
    using sx by (auto intro!: map_idI simp: o_def)
  have f: "filter (\<lambda>c. \<not> isNewline c) (map b64Char (sextets ?bs)) = map b64Char (sextets ?bs)"
    using sx by (auto simp: filter_id_conv)
  show ?thesis
    using octets_sextets[OF lt]
    by (simp only: b64Decode_def b64Encode_def firstBad_b64Char[OF sx] f v option.case)
      (simp add: o_def)
qed

section \<open>64-bit signed wrap-around\<close>

text \<open>Go's \<open>int\<close>, \<open>int64\<close> and \<open>time.Duration\<close>: two's complement on 64 bits.\<close>

definition wrap64 :: "int \<Rightarrow> int" where
  "wrap64 i = sint (word_of_int i :: 64 word)"

lemma wrap64_id: "- (2 ^ 63) \<le> i \<Longrightarrow> i < 2 ^ 63 \<Longrightarrow> wrap64 i = i"
  by (simp add: wrap64_def sint_sbintrunc' signed_take_bit_int_eq_self)

lemma wrap64_range: "- (2 ^ 63) \<le> wrap64 i \<and> wrap64 i < 2 ^ 63"
  unfolding wrap64_def using sint_range_size[of "word_of_int i :: 64 word"] by (simp add: word_size)

end
