(* ===== verification/GoTime.thy ===== *)
theory GoTime
  imports GoLib
begin

text \<open>
  Instants and their text form.  An instant is an integer number of nanoseconds since the Unix
  epoch, UTC.  \<open>fmtRFC3339\<close> and \<open>fmtRFC3339Nano\<close> are \<open>time.Time.Format\<close> for the two layouts
  the sources use; the second one drops trailing zeros of the fraction and the whole fraction
  when it is zero.  The broker stores these strings in TEXT columns and compares them there, so
  the lemmas relate the byte order of the strings to the order of the instants.
\<close>

type_synonym time = int
type_synonym duration = int

definition second :: duration where "second = 1000000000"
definition minute :: duration where "minute = 60 * second"
definition hour :: duration where "hour = 60 * minute"

section \<open>Civil dates\<close>

definition leap :: "int \<Rightarrow> bool" where
  "leap y \<longleftrightarrow> (y mod 4 = 0 \<and> y mod 100 \<noteq> 0) \<or> y mod 400 = 0"

definition yearLen :: "int \<Rightarrow> int" where
  "yearLen y = (if leap y then 366 else 365)"

text \<open>Peel whole years off a day number counted from 1 January of year \<open>y\<close>.\<close>

function peelYears :: "int \<Rightarrow> int \<Rightarrow> int \<times> int" where
  "peelYears y d =
     (if d < 0 then peelYears (y - 1) (d + yearLen (y - 1))
      else if d \<ge> yearLen y then peelYears (y + 1) (d - yearLen y)
      else (y, d))"
  by pat_completeness auto
termination
  by (relation "measure (\<lambda>(y, d). if d < 0 then nat (1000 - d) else nat d)")
    (auto simp: yearLen_def split: if_splits)

declare peelYears.simps [simp del]

fun peelMonths :: "int list \<Rightarrow> int \<Rightarrow> int \<Rightarrow> int \<times> int" where
  "peelMonths [] m d = (m, d + 1)"
| "peelMonths (l # ls) m d = (if d < l then (m, d + 1) else peelMonths ls (m + 1) (d - l))"

definition monthLens :: "int \<Rightarrow> int list" where
  "monthLens y = [31, if leap y then 29 else 28, 31, 30, 31, 30, 31, 31, 30, 31, 30, 31]"

datatype civil = Civil (cYear: int) (cMonth: int) (cDay: int)

fun civilKey :: "civil \<Rightarrow> int \<times> int \<times> int" where
  "civilKey (Civil y m d) = (y, m, d)"

lemma civilKey_inj: "civilKey a = civilKey b \<longleftrightarrow> a = b"
  by (cases a; cases b) auto

instantiation civil :: linorder
begin

definition less_eq_civil :: "civil \<Rightarrow> civil \<Rightarrow> bool" where
  "less_eq_civil a b \<longleftrightarrow> civilKey a \<le> civilKey b"

definition less_civil :: "civil \<Rightarrow> civil \<Rightarrow> bool" where
  "less_civil a b \<longleftrightarrow> civilKey a < civilKey b"

instance
  by standard (auto simp: less_eq_civil_def less_civil_def less_le civilKey_inj)

end

definition civilOfDay :: "int \<Rightarrow> civil" where
  "civilOfDay n =
     (let (y, doy) = peelYears 1970 n; (m, d) = peelMonths (monthLens y) 1 doy in Civil y m d)"

text \<open>Day number of 1 January, up to a constant, in closed form.\<close>

definition yearBase :: "int \<Rightarrow> int" where
  "yearBase y = 365 * y + (y - 1) div 4 - (y - 1) div 100 + (y - 1) div 400"

lemma div_pred_step:
  fixes y k :: int
  assumes "0 < k"
  shows "y div k = (y - 1) div k + (if y mod k = 0 then 1 else 0)"
proof -
  define q r where "q = (y - 1) div k" and "r = (y - 1) mod k"
  have r: "0 \<le> r" "r < k" and y: "y = k * q + (r + 1)"
    using assms mult_div_mod_eq[of k "y - 1"] by (auto simp: q_def r_def)
  show ?thesis
  proof (cases "r + 1 = k")
    case True
    then have "y = k * (q + 1)" using y by (simp add: algebra_simps)
    then have "y div k = q + 1 \<and> y mod k = 0" using assms by simp
    then show ?thesis by (simp add: q_def)
  next
    case False
    then have "y div k = q \<and> y mod k = r + 1"
      using r y by (auto intro: int_div_pos_eq int_mod_pos_eq)
    with r show ?thesis by (simp add: q_def)
  qed
qed

lemma leap_count:
  fixes y p4 q4 m4 p100 q100 m100 p400 q400 m400 :: int
  assumes "p4 = q4 + (if m4 = 0 then 1 else 0)"
    and "p100 = q100 + (if m100 = 0 then 1 else 0)"
    and "p400 = q400 + (if m400 = 0 then 1 else 0)"
    and "m100 = 0 \<Longrightarrow> m4 = 0" and "m400 = 0 \<Longrightarrow> m100 = 0"
  shows "365 * (y + 1) + p4 - p100 + p400 =
    365 * y + q4 - q100 + q400 + (if (m4 = 0 \<and> m100 \<noteq> 0) \<or> m400 = 0 then 366 else 365)"
  using assms by auto

lemma yearBase_Suc: "yearBase (y + 1) = yearBase y + yearLen y"
proof -
  have "4 dvd y" if "100 dvd y" using dvd_trans[of 4 100 y] that by simp
  then have m1: "y mod 100 = 0 \<Longrightarrow> y mod 4 = 0" by (simp only: mod_eq_0_iff_dvd)
  have "100 dvd y" if "400 dvd y" using dvd_trans[of 100 400 y] that by simp
  then have m2: "y mod 400 = 0 \<Longrightarrow> y mod 100 = 0" by (simp only: mod_eq_0_iff_dvd)
  have e: "y + 1 - 1 = y" by simp
  show ?thesis unfolding yearBase_def yearLen_def leap_def e
    by (rule leap_count[OF div_pred_step div_pred_step div_pred_step m1 m2]) simp_all
qed

lemma yearLen_pos: "0 < yearLen y"
  by (simp add: yearLen_def)

lemma yearBase_mono: "y < z \<Longrightarrow> yearBase y + yearLen y \<le> yearBase z"
proof (induction z rule: int_gr_induct)
  case base
  then show ?case by (simp add: yearBase_Suc)
next
  case (step i)
  then show ?case using yearLen_pos[of i] by (simp add: yearBase_Suc)
qed

lemma peelYears_spec:
  "(Y, D) = peelYears y d \<Longrightarrow> 0 \<le> D \<and> D < yearLen Y \<and> yearBase Y + D = yearBase y + d"
proof (induction y d arbitrary: Y D rule: peelYears.induct)
  case (1 y d)
  consider "d < 0" | "\<not> d < 0" "d \<ge> yearLen y" | "\<not> d < 0" "\<not> d \<ge> yearLen y" by linarith
  then show ?case
  proof cases
    case 1
    then show ?thesis
      using "1.IH"(1) "1.prems" yearBase_Suc[of "y - 1"] by (simp add: peelYears.simps[of y d])
  next
    case 2
    then show ?thesis
      using "1.IH"(2) "1.prems" yearBase_Suc[of y] by (simp add: peelYears.simps[of y d])
  next
    case 3
    then show ?thesis using "1.prems" by (simp add: peelYears.simps[of y d])
  qed
qed

lemma peelYears_strict_mono: "d < d' \<Longrightarrow> peelYears y d < peelYears y d'"
proof -
  assume lt: "d < d'"
  obtain Y D Y' D' where p: "peelYears y d = (Y, D)" "peelYears y d' = (Y', D')" by fastforce
  note a = peelYears_spec[OF p(1)[symmetric]] and b = peelYears_spec[OF p(2)[symmetric]]
  have "\<not> Y' < Y" using yearBase_mono[of Y' Y] a b lt by linarith
  then show ?thesis using p a b lt by (cases "Y = Y'") auto
qed

lemma peelMonths_ge: "m \<le> fst (peelMonths ls m d)"
proof (induction ls arbitrary: m d)
  case (Cons l ls)
  have "m + 1 \<le> fst (peelMonths ls (m + 1) (d - l))" by (rule Cons.IH)
  then show ?case by simp
qed simp

lemma peelMonths_strict_mono: "d < d' \<Longrightarrow> peelMonths ls m d < peelMonths ls m d'"
proof (induction ls arbitrary: m d d')
  case (Cons l ls)
  show ?case
  proof (cases "d < l \<and> l \<le> d'")
    case True
    then show ?thesis
      using peelMonths_ge[of "m + 1" ls "d' - l"] by (cases "peelMonths ls (m + 1) (d' - l)") auto
  next
    case False
    with Cons show ?thesis by auto
  qed
qed simp

lemma civilOfDay_strict_mono: "n < n' \<Longrightarrow> civilOfDay n < civilOfDay n'"
proof -
  assume "n < n'"
  then have lt: "peelYears 1970 n < peelYears 1970 n'" by (rule peelYears_strict_mono)
  obtain y d y' d' where p: "peelYears 1970 n = (y, d)" "peelYears 1970 n' = (y', d')" by fastforce
  obtain m e m' e' where q: "peelMonths (monthLens y) 1 d = (m, e)"
      "peelMonths (monthLens y') 1 d' = (m', e')" by fastforce
  show ?thesis
  proof (cases "y = y'")
    case True
    then have "(m, e) < (m', e')"
      using lt p q peelMonths_strict_mono[of d d' "monthLens y" 1] by simp
    then show ?thesis using True p q by (simp add: civilOfDay_def less_civil_def)
  next
    case False
    then have "y < y'" using lt p by auto
    then show ?thesis using p q by (simp add: civilOfDay_def less_civil_def)
  qed
qed

lemma peelMonths_bounds:
  assumes "\<forall>l \<in> set ls. l \<le> 31" and "0 \<le> d" and "d < sum_list ls"
  shows "fst (peelMonths ls m d) < m + int (length ls) \<and>
    1 \<le> snd (peelMonths ls m d) \<and> snd (peelMonths ls m d) \<le> 31"
  using assms
proof (induction ls arbitrary: m d)
  case (Cons l ls)
  show ?case
  proof (cases "d < l")
    case True
    with Cons.prems show ?thesis by auto
  next
    case False
    have "fst (peelMonths ls (m + 1) (d - l)) < (m + 1) + int (length ls) \<and>
        1 \<le> snd (peelMonths ls (m + 1) (d - l)) \<and> snd (peelMonths ls (m + 1) (d - l)) \<le> 31"
      by (rule Cons.IH) (use Cons.prems False in auto)
    with False show ?thesis by simp
  qed
qed simp

text \<open>The instants whose year has four digits, 0000 to 9999, the range of the layouts.\<close>

definition secsOf :: "time \<Rightarrow> int" where "secsOf t = t div second"
definition nanosOf :: "time \<Rightarrow> int" where "nanosOf t = t mod second"

definition calendarRange :: "time \<Rightarrow> bool" where
  "calendarRange t \<longleftrightarrow> - 62167219200 \<le> secsOf t \<and> secsOf t < 253402300800"

definition civilOk :: "civil \<Rightarrow> bool" where
  "civilOk c \<longleftrightarrow> 0 \<le> cYear c \<and> cYear c < 10000 \<and> 1 \<le> cMonth c \<and> cMonth c \<le> 12
     \<and> 1 \<le> cDay c \<and> cDay c \<le> 31"

lemma civilOfDay_ok:
  assumes "- 719528 \<le> n" and "n < 2932897"
  shows "civilOk (civilOfDay n)"
proof -
  obtain y d where p: "peelYears 1970 n = (y, d)" by fastforce
  note a = peelYears_spec[OF p[symmetric]]
  have b: "yearBase 1970 = 719527" "yearBase 10000 = 3652424" "yearBase 0 = - 1"
    by (simp_all add: yearBase_def)
  have "\<not> 10000 < y" "y \<noteq> 10000"
    using yearBase_mono[of 10000 y] yearLen_pos[of 10000] a b assms by auto
  then have "y < 10000" by simp
  moreover have "0 \<le> y"
    using yearBase_mono[of y 0] a b assms by linarith
  moreover have "\<forall>l \<in> set (monthLens y). l \<le> 31" "sum_list (monthLens y) = yearLen y"
      "length (monthLens y) = 12"
    by (auto simp: monthLens_def yearLen_def)
  ultimately show ?thesis
    using peelMonths_bounds[of "monthLens y" d 1] peelMonths_ge[of 1 "monthLens y" d] a p
    by (cases "peelMonths (monthLens y) 1 d") (auto simp: civilOk_def civilOfDay_def)
qed

section \<open>The two layouts\<close>

definition dateStr :: "civil \<Rightarrow> string" where
  "dateStr c = padDigits 4 (nat (cYear c)) @ ''-'' @ padDigits 2 (nat (cMonth c)) @ ''-'' @
     padDigits 2 (nat (cDay c))"

definition clockStr :: "nat \<Rightarrow> string" where
  "clockStr r = padDigits 2 (r div 60 div 60) @ '':'' @ padDigits 2 (r div 60 mod 60) @ '':'' @
     padDigits 2 (r mod 60)"

definition dateTime :: "time \<Rightarrow> string" where
  "dateTime t = dateStr (civilOfDay (secsOf t div 86400)) @ ''T'' @ clockStr (nat (secsOf t mod 86400))"

definition fracDigits :: "nat \<Rightarrow> string" where
  "fracDigits n = rev (dropWhile (\<lambda>c. c = CHR ''0'') (rev (padDigits 9 n)))"

definition fmtRFC3339 :: "time \<Rightarrow> string" where
  "fmtRFC3339 t = dateTime t @ ''Z''"

definition fmtRFC3339Nano :: "time \<Rightarrow> string" where
  "fmtRFC3339Nano t =
     dateTime t @ (if nanosOf t = 0 then [] else CHR ''.'' # fracDigits (nat (nanosOf t))) @ ''Z''"

lemma padInt_less_iff:
  "0 \<le> a \<Longrightarrow> a < 10 ^ w \<Longrightarrow> 0 \<le> b \<Longrightarrow> b < 10 ^ w \<Longrightarrow>
   padDigits w (nat a) < padDigits w (nat b) \<longleftrightarrow> a < b"
  by (subst padDigits_less_iff) (auto simp: nat_less_iff)

lemma dateStr_less:
  assumes "civilOk a" and "civilOk b" and "a < b"
  shows "dateStr a < dateStr b"
proof (cases a; cases b)
  fix y m d y' m' d'
  assume ab: "a = Civil y m d" "b = Civil y' m' d'"
  have "y < y' \<or> y = y' \<and> (m < m' \<or> m = m' \<and> d < d')"
    using assms(3) by (auto simp: ab less_civil_def)
  then show ?thesis
    using assms(1,2)
    by (auto simp: ab civilOk_def dateStr_def less_append_same_length padInt_less_iff)
qed

lemma clockStr_less: "r < r' \<Longrightarrow> r' < 86400 \<Longrightarrow> clockStr r < clockStr r'"
proof -
  assume lt: "r < r'" "r' < 86400"
  have h: "x div 60 div 60 < 100" if "x < 86400" for x :: nat
    using that by (simp add: less_mult_imp_div_less)
  have "r div 60 div 60 < r' div 60 div 60 \<or> (r div 60 div 60 = r' div 60 div 60 \<and>
      (r div 60 mod 60 < r' div 60 mod 60 \<or> (r div 60 mod 60 = r' div 60 mod 60 \<and> r mod 60 < r' mod 60)))"
    using lt(1) less_by_div_mod[of 60 r r'] less_by_div_mod[of 60 "r div 60" "r' div 60"]
    by (metis div_mult_mod_eq zero_less_numeral)
  moreover have "x mod 60 < 100" for x :: nat by (rule less_trans[of _ 60]) auto
  ultimately show ?thesis using h[of r] h[of r'] lt
    by (simp add: clockStr_def less_append_same_length padDigits_less_iff padDigits_eq_iff)
qed

lemma length_dateTime: "length (dateTime t) = 19"
  by (simp add: dateTime_def dateStr_def clockStr_def)

lemma dateTime_cong: "secsOf t = secsOf t' \<Longrightarrow> dateTime t = dateTime t'"
  by (simp add: dateTime_def)

lemma dateTime_less:
  assumes r: "calendarRange t" "calendarRange t'" and lt: "secsOf t < secsOf t'"
  shows "dateTime t < dateTime t'"
proof -
  let ?n = "secsOf t div 86400" and ?n' = "secsOf t' div 86400"
  have "?n \<le> ?n'" using lt by (simp add: zdiv_mono1)
  have ok: "civilOk (civilOfDay ?n)" "civilOk (civilOfDay ?n')"
    using r by (auto intro!: civilOfDay_ok simp: calendarRange_def)
  have len: "length (dateStr c) = length (dateStr c')" for c c' by (simp add: dateStr_def)
  show ?thesis
  proof (cases "?n = ?n'")
    case True
    then have "nat (secsOf t mod 86400) < nat (secsOf t' mod 86400)"
      using lt by (metis div_mult_mod_eq add_less_cancel_left nat_less_eq_zless
          pos_mod_sign zero_less_numeral)
    then show ?thesis
      using True by (simp add: dateTime_def less_append_same_length clockStr_less nat_less_iff)
  next
    case False
    with \<open>?n \<le> ?n'\<close> have "civilOfDay ?n < civilOfDay ?n'" by (intro civilOfDay_strict_mono) simp
    then have "dateStr (civilOfDay ?n) < dateStr (civilOfDay ?n')" by (rule dateStr_less[OF ok])
    then show ?thesis unfolding dateTime_def by (rule less_append_prefix[OF len])
  qed
qed

text \<open>
  A stored \<open>RFC3339Nano\<close> string against a \<open>RFC3339\<close> cutoff: the comparison looks at whole
  seconds, and a stored instant with a fraction inside the cutoff's own second sorts below the
  cutoff, because the byte of \<^verbatim>\<open>.\<close> is smaller than that of \<^verbatim>\<open>Z\<close>.
\<close>

lemma nano_less_cutoff_iff:
  assumes "calendarRange t" and "calendarRange c"
  shows "fmtRFC3339Nano t < fmtRFC3339 c \<longleftrightarrow>
    secsOf t < secsOf c \<or> (secsOf t = secsOf c \<and> nanosOf t \<noteq> 0)"
proof -
  have len: "length (dateTime t) = length (dateTime c)" by (simp add: length_dateTime)
  have dot: "CHR ''.'' < CHR ''Z''" by (simp add: less_char_def)
  consider "secsOf t < secsOf c" | "secsOf t = secsOf c" | "secsOf c < secsOf t" by linarith
  then show ?thesis
  proof cases
    case 1
    then show ?thesis
      using dateTime_less[OF assms] by (simp add: fmtRFC3339Nano_def fmtRFC3339_def less_append_prefix[OF len])
  next
    case 2
    then show ?thesis
      using dot dateTime_cong[OF 2]
      by (auto simp: fmtRFC3339Nano_def fmtRFC3339_def less_append_same_length)
  next
    case 3
    then have "dateTime c < dateTime t" by (rule dateTime_less[OF assms(2,1)])
    with 3 show ?thesis
      by (auto simp: fmtRFC3339Nano_def fmtRFC3339_def less_append_same_length[OF len])
  qed
qed

lemma nano_less_of_secs:
  "calendarRange t \<Longrightarrow> calendarRange t' \<Longrightarrow> secsOf t < secsOf t' \<Longrightarrow>
   fmtRFC3339Nano t < fmtRFC3339Nano t'"
  unfolding fmtRFC3339Nano_def
  by (rule less_append_prefix[OF _ dateTime_less]) (simp_all add: length_dateTime)

lemma secsOf_shift: "secsOf (t + second) = secsOf t + 1"
  by (simp add: secsOf_def second_def)

lemma secsOf_mono: "t \<le> t' \<Longrightarrow> secsOf t \<le> secsOf t'"
  by (simp add: secsOf_def second_def zdiv_mono1)

text \<open>So the comparison is exact up to one second on either side.\<close>

lemma nano_below_cutoff:
  "calendarRange t \<Longrightarrow> calendarRange c \<Longrightarrow> t + second \<le> c \<Longrightarrow> fmtRFC3339Nano t < fmtRFC3339 c"
  using secsOf_mono[of "t + second" c] by (simp add: nano_less_cutoff_iff secsOf_shift)

lemma nano_above_cutoff:
  "calendarRange t \<Longrightarrow> calendarRange c \<Longrightarrow> c + second \<le> t \<Longrightarrow> \<not> fmtRFC3339Nano t < fmtRFC3339 c"
  using secsOf_mono[of "c + second" t] by (simp add: nano_less_cutoff_iff secsOf_shift)

section \<open>Printing and rounding durations\<close>

text \<open>\<open>Duration.Round(m)\<close> for a positive \<open>m\<close>: to the nearest multiple, halves away from zero.\<close>

definition roundDuration :: "duration \<Rightarrow> duration \<Rightarrow> duration" where
  "roundDuration d m =
     (if d < 0 then (let r = (- d) mod m in if r + r < m then d + r else d - m + r)
      else (let r = d mod m in if r + r < m then d - r else d + m - r))"

definition fracStr :: "nat \<Rightarrow> nat \<Rightarrow> string" where
  "fracStr v prec = (let ds = rev (dropWhile (\<lambda>c. c = CHR ''0'') (rev (padDigits prec (v mod 10 ^ prec))))
     in if ds = [] then [] else CHR ''.'' # ds)"

definition durationString :: "duration \<Rightarrow> string" where
  "durationString d =
     (let u = nat \<bar>d\<bar>;
          s = (if u = 0 then ''0s''
               else if u < 1000 then natDigits u @ ''ns''
               else if u < 1000000 then natDigits (u div 1000) @ fracStr u 3 @ [CHR 0xC2, CHR 0xB5, CHR ''s'']
               else if u < 1000000000 then natDigits (u div 1000000) @ fracStr u 6 @ ''ms''
               else let v = u div 1000000000; mi = v div 60; ho = mi div 60;
                        sec = natDigits (v mod 60) @ fracStr u 9 @ ''s''
                    in if mi = 0 then sec
                       else if ho = 0 then natDigits mi @ ''m'' @ sec
                       else natDigits ho @ ''h'' @ natDigits (mi mod 60) @ ''m'' @ sec)
      in if d < 0 then CHR ''-'' # s else s)"

text \<open>Evaluation of the layouts on a closed instant by rewriting.\<close>

lemma padDigits_numeral:
  "padDigits (numeral w) n = padDigits (pred_numeral w) (n div 10) @ [digitc (n mod 10)]"
  unfolding numeral_eq_Suc[of w] by (rule padDigits.simps(2))

lemmas time_eval =
  fmtRFC3339Nano_def fmtRFC3339_def dateTime_def dateStr_def clockStr_def civilOfDay_def
  peelYears.simps monthLens_def leap_def yearLen_def secsOf_def nanosOf_def second_def
  fracDigits_def padDigits_numeral

lemma nano_nonempty [simp]: "fmtRFC3339Nano t \<noteq> []"
  by (simp add: fmtRFC3339Nano_def)

end
