(* ===== verification/Types.thy ===== *)
theory Types
  imports GoTime
begin

text \<open>
  The data types of \<^verbatim>\<open>src/types.go\<close>: the two stored structs, the request and response structs
  of the broker API, the delivery verdicts, and \<open>nowISO\<close>.  A field keeps its Go name behind a
  prefix that names its struct.  A Go \<open>int\<close> is an \<open>int\<close>; a nullable column is an \<open>option\<close>.
\<close>

record Peer =
  p_ID :: string
  p_AgentName :: string
  p_PID :: int
  p_Machine :: string
  p_CWD :: string
  p_GitRoot :: string
  p_TTY :: string
  p_Project :: string
  p_Branch :: string
  p_Summary :: string
  p_RegisteredAt :: string
  p_LastSeen :: string

record Message =
  m_ID :: int
  m_ToAgent :: string
  m_ToSession :: string
  m_FromSession :: string
  m_FromAgent :: string
  m_Text :: string
  m_SentAt :: string
  m_DeliveredAt :: string
  m_AckAt :: string
  m_AckSession :: string
  m_Attempts :: int

record RegisterRequest =
  rq_AgentName :: string
  rq_PID :: int
  rq_Machine :: string
  rq_CWD :: string
  rq_GitRoot :: string
  rq_TTY :: string
  rq_Project :: string
  rq_Branch :: string
  rq_Summary :: string

record RegisterResponse =
  rr_OK :: bool
  rr_ID :: string
  rr_Error :: string
  rr_HeldBySession :: string
  rr_HeldByMachine :: string
  rr_HeldByCWD :: string
  rr_HeldBySince :: string

record HeartbeatRequest =
  hq_ID :: string

record HeartbeatResponse =
  hr_OK :: bool
  hr_Reason :: string

definition HeartbeatReasonUnknownSession :: string where
  "HeartbeatReasonUnknownSession = ''unknown_session''"

record SetSummaryRequest =
  sq_ID :: string
  sq_Summary :: string

record ListPeersRequest =
  lq_Scope :: string
  lq_Machine :: string
  lq_CWD :: string
  lq_GitRoot :: string
  lq_ExcludeID :: string

record SendMessageRequest =
  mq_FromID :: string
  mq_ToAgent :: string
  mq_ToSession :: string
  mq_Text :: string

text \<open>The empty string of an old broker is \<open>DeliveryStatusNone\<close>.\<close>

datatype DeliveryStatus =
    DeliveryStatusNone
  | DeliveryStatusBound
  | DeliveryStatusQueuedOffline
  | DeliveryStatusQueuedUnknown

record SendMessageResponse =
  mr_OK :: bool
  mr_MessageID :: int
  mr_Queued :: bool
  mr_DeliveryStatus :: DeliveryStatus
  mr_Error :: string

record PollMessagesRequest =
  pq_ID :: string

record PollMessagesResponse =
  pr_Messages :: "Message list"

record AckMessageRequest =
  aq_SessionID :: string
  aq_MessageID :: int

record ClaimAgentRequest =
  cq_SessionID :: string
  cq_AgentName :: string

record ClaimAgentResponse =
  cr_OK :: bool
  cr_Error :: string
  cr_HeldBySession :: string
  cr_HeldByMachine :: string
  cr_HeldByCWD :: string
  cr_HeldBySince :: string

record UnregisterRequest =
  uq_ID :: string

record HealthResponse =
  he_Status :: string
  he_Peers :: int
  he_Machine :: string

record Event =
  e_ID :: int
  e_Type :: string
  e_PeerID :: string
  e_Machine :: string
  e_Data :: string
  e_CreatedAt :: string

record ChallengeRequest =
  ch_Nonce :: string

record ChallengeResponse =
  cs_Nonce :: string
  cs_Signature :: string
  cs_PublicKey :: string

definition nowISO :: "time \<Rightarrow> string" where
  "nowISO t = fmtRFC3339Nano t"

text \<open>
  One handler reads the wall clock several times; \<open>clk i\<close> is its reading number \<open>i\<close>.
\<close>

type_synonym clock = "nat \<Rightarrow> time"

text \<open>
  A Go function either returns or panics; \<open>net/http\<close> turns a handler's panic into an aborted
  connection.
\<close>

datatype 'a outcome = Ret 'a | Panic string

end
