(* ===== verification/Store.thy ===== *)
theory Store
  imports Types
begin

text \<open>
  The broker's database: the tables created in \<open>newBroker\<close> (\<^verbatim>\<open>src/broker_core.go\<close>) as lists of
  rows in rowid order, and every SQL statement that the broker executes as one constructor of
  \<open>stmt\<close> with its effect \<open>execStmt\<close>.  A statement that violates the primary key or the partial
  unique index on \<open>agent_name\<close> fails and changes nothing.  \<open>dbErr\<close> is the error the handle
  returns for every statement while the database is unusable; the sources ignore it nearly
  everywhere, so a failing statement is skipped.

  The theory shows what no interleaving of statements can break: unique session ids, unique
  agent names, increasing message ids, and the life cycle of a message.
\<close>

record messageRow =
  w_id :: int
  w_to_agent :: string
  w_to_session :: string
  w_from_session :: string
  w_from_agent :: string
  w_text :: string
  w_sent_at :: string
  w_delivered_at :: "string option"
  w_ack_at :: "string option"
  w_ack_session :: "string option"
  w_attempts :: int

record tokenRow =
  k_hash :: string
  k_capabilities :: string
  k_expires_at :: string

record db =
  peers :: "Peer list"
  messages :: "messageRow list"
  messages_seq :: int
  events :: "Event list"
  events_seq :: int
  kv :: "(string \<times> string) list"
  agent_names_seen :: "(string \<times> string) list"
  known_tokens :: "tokenRow list"
  dbErr :: "string option"

definition emptyDB :: db where
  "emptyDB = \<lparr>peers = [], messages = [], messages_seq = 0, events = [], events_seq = 0, kv = [],
     agent_names_seen = [], known_tokens = [], dbErr = None\<rparr>"

datatype stmt =
    InsertPeer Peer
  | TouchPeer string string
  | SetSummary string string
  | SetAgentName string string
  | DeletePeer string
  | DeleteStalePeers string
  | BindQueued string string
  | InsertMessage string string string string string string
  | MarkDelivered string string int
  | AckRow string string int
  | DropDirect string
  | RequeueAgent string
  | PurgeAcked string
  | PurgeUnacked string
  | InsertEvent string string string string string
  | PurgeEvents string
  | SeenName string string
  | SetKV string string
  | SaveToken string string string
  | PurgeTokens string

definition nameHeld :: "string \<Rightarrow> Peer list \<Rightarrow> bool" where
  "nameHeld n ps \<longleftrightarrow> n \<noteq> [] \<and> n \<in> set (map p_AgentName ps)"

definition insertPeer :: "Peer \<Rightarrow> Peer list \<Rightarrow> Peer list" where
  "insertPeer p ps = (if nameHeld (p_AgentName p) ps then ps else insert_row p_ID p ps)"

definition setAgentName :: "string \<Rightarrow> string \<Rightarrow> Peer list \<Rightarrow> Peer list" where
  "setAgentName name i ps =
     (if nameHeld name (filter (\<lambda>p. p_ID p \<noteq> i) ps) then ps
      else update_where (\<lambda>p. p_ID p = i) (\<lambda>p. p\<lparr>p_AgentName := name\<rparr>) ps)"

fun execStmt :: "stmt \<Rightarrow> db \<Rightarrow> db" where
  "execStmt (InsertPeer p) d = d\<lparr>peers := insertPeer p (peers d)\<rparr>"
| "execStmt (TouchPeer now i) d =
     d\<lparr>peers := update_where (\<lambda>p. p_ID p = i) (\<lambda>p. p\<lparr>p_LastSeen := now\<rparr>) (peers d)\<rparr>"
| "execStmt (SetSummary txt i) d =
     d\<lparr>peers := update_where (\<lambda>p. p_ID p = i) (\<lambda>p. p\<lparr>p_Summary := txt\<rparr>) (peers d)\<rparr>"
| "execStmt (SetAgentName name i) d = d\<lparr>peers := setAgentName name i (peers d)\<rparr>"
| "execStmt (DeletePeer i) d = d\<lparr>peers := delete_where (\<lambda>p. p_ID p = i) (peers d)\<rparr>"
| "execStmt (DeleteStalePeers cutoff) d =
     d\<lparr>peers := delete_where (\<lambda>p. p_LastSeen p < cutoff) (peers d)\<rparr>"
| "execStmt (BindQueued sid agent) d =
     d\<lparr>messages := update_where
         (\<lambda>m. w_to_agent m = agent \<and> w_to_session m = [] \<and> w_delivered_at m = None)
         (\<lambda>m. m\<lparr>w_to_session := sid\<rparr>) (messages d)\<rparr>"
| "execStmt (InsertMessage toAgent toSession from fromAgent txt now) d =
     d\<lparr>messages := messages d @ [\<lparr>w_id = messages_seq d + 1, w_to_agent = toAgent,
           w_to_session = toSession, w_from_session = from, w_from_agent = fromAgent,
           w_text = txt, w_sent_at = now, w_delivered_at = None, w_ack_at = None,
           w_ack_session = None, w_attempts = 0\<rparr>],
       messages_seq := messages_seq d + 1\<rparr>"
| "execStmt (MarkDelivered now sid i) d =
     d\<lparr>messages := update_where (\<lambda>m. w_id m = i)
         (\<lambda>m. m\<lparr>w_delivered_at := Some now, w_to_session := sid, w_attempts := w_attempts m + 1\<rparr>)
         (messages d)\<rparr>"
| "execStmt (AckRow now sid i) d =
     d\<lparr>messages := update_where (\<lambda>m. w_id m = i \<and> w_to_session m = sid)
         (\<lambda>m. m\<lparr>w_ack_at := Some now, w_ack_session := Some sid\<rparr>) (messages d)\<rparr>"
| "execStmt (DropDirect sid) d =
     d\<lparr>messages := delete_where
         (\<lambda>m. w_to_session m = sid \<and> w_to_agent m = [] \<and> w_ack_at m = None) (messages d)\<rparr>"
| "execStmt (RequeueAgent sid) d =
     d\<lparr>messages := update_where
         (\<lambda>m. w_to_session m = sid \<and> w_to_agent m \<noteq> [] \<and> w_ack_at m = None)
         (\<lambda>m. m\<lparr>w_to_session := [], w_delivered_at := None\<rparr>) (messages d)\<rparr>"
| "execStmt (PurgeAcked cutoff) d =
     d\<lparr>messages := delete_where (\<lambda>m. case w_ack_at m of None \<Rightarrow> False | Some a \<Rightarrow> a < cutoff) (messages d)\<rparr>"
| "execStmt (PurgeUnacked cutoff) d =
     d\<lparr>messages := delete_where (\<lambda>m. w_ack_at m = None \<and> w_sent_at m < cutoff) (messages d)\<rparr>"
| "execStmt (InsertEvent typ peer mach dat now) d =
     d\<lparr>events := events d @ [\<lparr>e_ID = events_seq d + 1, e_Type = typ, e_PeerID = peer,
           e_Machine = mach, e_Data = dat, e_CreatedAt = now\<rparr>],
       events_seq := events_seq d + 1\<rparr>"
| "execStmt (PurgeEvents cutoff) d =
     d\<lparr>events := delete_where (\<lambda>e. e_CreatedAt e < cutoff) (events d)\<rparr>"
| "execStmt (SeenName name now) d =
     d\<lparr>agent_names_seen := insert_row fst (name, now) (agent_names_seen d)\<rparr>"
| "execStmt (SetKV k v) d = d\<lparr>kv := upsert_row fst (k, v) (kv d)\<rparr>"
| "execStmt (SaveToken h caps expires) d =
     d\<lparr>known_tokens := upsert_row k_hash
         \<lparr>k_hash = h, k_capabilities = caps, k_expires_at = expires\<rparr> (known_tokens d)\<rparr>"
| "execStmt (PurgeTokens now) d =
     d\<lparr>known_tokens := delete_where (\<lambda>k. k_expires_at k < now) (known_tokens d)\<rparr>"

definition exec :: "stmt \<Rightarrow> db \<Rightarrow> db" where
  "exec s d = (if dbErr d = None then execStmt s d else d)"

definition query :: "(db \<Rightarrow> 'a) \<Rightarrow> db \<Rightarrow> string + 'a" where
  "query f d = (case dbErr d of None \<Rightarrow> Inr (f d) | Some e \<Rightarrow> Inl e)"

section \<open>The tables as keyed tables\<close>

text \<open>
  Each table with a primary key meets the contract \<open>keyed_table\<close>: sessions by id, the name
  history by name, the key-value table by key.
\<close>

interpretation sessions: keyed_table
  "lookup_row p_ID" "insert_row p_ID" "upsert_row p_ID" "\<lambda>k. delete_where (\<lambda>p. p_ID p = k)" p_ID
  "unique_key p_ID"
  by unfold_locales
    (simp_all add: lookup_insert_row lookup_upsert_row lookup_delete_key unique_key_preserved)

interpretation pairs: keyed_table
  "lookup_row fst" "insert_row fst" "upsert_row fst" "\<lambda>k. delete_where (\<lambda>p. fst p = k)" fst
  "unique_key fst"
  by unfold_locales
    (simp_all add: lookup_insert_row lookup_upsert_row lookup_delete_key unique_key_preserved)

interpretation tokens: keyed_table
  "lookup_row k_hash" "insert_row k_hash" "upsert_row k_hash" "\<lambda>k. delete_where (\<lambda>p. k_hash p = k)" k_hash
  "unique_key k_hash"
  by unfold_locales
    (simp_all add: lookup_insert_row lookup_upsert_row lookup_delete_key unique_key_preserved)

section \<open>The invariant of the database\<close>

definition namesUnique :: "Peer list \<Rightarrow> bool" where
  "namesUnique ps \<longleftrightarrow> distinct (filter (\<lambda>n. n \<noteq> []) (map p_AgentName ps))"

definition idsIncrease :: "int \<Rightarrow> int list \<Rightarrow> bool" where
  "idsIncrease mx is \<longleftrightarrow> sorted_wrt (<) is \<and> (\<forall>i \<in> set is. 0 < i \<and> i \<le> mx) \<and> 0 \<le> mx"

definition dbOk :: "db \<Rightarrow> bool" where
  "dbOk d \<longleftrightarrow> unique_key p_ID (peers d) \<and> namesUnique (peers d) \<and>
     idsIncrease (messages_seq d) (map w_id (messages d)) \<and>
     idsIncrease (events_seq d) (map e_ID (events d)) \<and>
     unique_key fst (kv d) \<and> unique_key fst (agent_names_seen d) \<and> unique_key k_hash (known_tokens d)"

text \<open>
  The handlers run on concurrent goroutines, and each of their statements is one transaction:
  from the database's point of view the broker is any sequence of statements.
\<close>

inductive dbStep :: "db \<Rightarrow> db \<Rightarrow> bool" where
  exec_step: "dbStep d (exec s d)"

inductive_simps dbStep_iff: "dbStep d d'"

lemma idsIncrease_snoc: "idsIncrease mx is \<Longrightarrow> idsIncrease (mx + 1) (is @ [mx + 1])"
  by (force simp: idsIncrease_def sorted_wrt_append)

lemma idsIncrease_filter:
  "idsIncrease mx (map f xs) \<Longrightarrow> idsIncrease mx (map f (filter P xs))"
  by (auto simp: idsIncrease_def sorted_wrt_map sorted_wrt_filter)

lemma idsIncrease_distinct: "idsIncrease mx is \<Longrightarrow> distinct is"
  by (simp add: idsIncrease_def strict_sorted_iff)

lemma namesUnique_alt: "namesUnique ps \<longleftrightarrow> distinct (map p_AgentName (filter (\<lambda>p. p_AgentName p \<noteq> []) ps))"
  by (simp add: namesUnique_def filter_map o_def)

lemma namesUniqueD:
  "namesUnique ps \<Longrightarrow> p \<in> set ps \<Longrightarrow> q \<in> set ps \<Longrightarrow> p_AgentName p \<noteq> [] \<Longrightarrow>
   p_AgentName q = p_AgentName p \<Longrightarrow> q = p"
  by (auto simp: namesUnique_alt distinct_map inj_on_def)

lemma namesUnique_same: "map p_AgentName ps = map p_AgentName qs \<Longrightarrow> namesUnique ps \<longleftrightarrow> namesUnique qs"
  by (simp add: namesUnique_def)

lemma namesUnique_filter:
  assumes "namesUnique ps"
  shows "namesUnique (filter P ps)"
proof -
  have "filter (\<lambda>p. p_AgentName p \<noteq> []) (filter P ps) = filter P (filter (\<lambda>p. p_AgentName p \<noteq> []) ps)"
    by (simp add: conj_commute)
  with assms show ?thesis
    unfolding namesUnique_alt by (simp only: distinct_map_filter)
qed

lemma namesUnique_insertPeer: "namesUnique ps \<Longrightarrow> namesUnique (insertPeer p ps)"
  by (auto simp: insertPeer_def insert_row_def nameHeld_def namesUnique_def)

lemma namesUnique_setAgentName:
  assumes "namesUnique ps" and "unique_key p_ID ps"
  shows "namesUnique (setAgentName name i ps)"
  using assms
proof (induction ps)
  case (Cons p ps)
  then have u: "namesUnique ps" "unique_key p_ID ps" and pi: "p_ID p \<notin> p_ID ` set ps"
    by (auto simp: namesUnique_def unique_key_def split: if_splits)
  show ?case
  proof (cases "nameHeld name (filter (\<lambda>p. p_ID p \<noteq> i) (p # ps))")
    case True
    with Cons.prems show ?thesis by (simp add: setAgentName_def)
  next
    case False
    then have held: "\<not> nameHeld name (filter (\<lambda>p. p_ID p \<noteq> i) ps)"
      by (auto simp: nameHeld_def split: if_splits)
    then have s: "setAgentName name i (p # ps) =
        (if p_ID p = i then p\<lparr>p_AgentName := name\<rparr> else p) # setAgentName name i ps"
      using False by (simp add: setAgentName_def update_where_def)
    have names: "n \<in> p_AgentName ` set (setAgentName name i ps) \<Longrightarrow>
        n = name \<or> n \<in> p_AgentName ` set (filter (\<lambda>p. p_ID p \<noteq> i) ps)" for n
    proof -
      assume "n \<in> p_AgentName ` set (setAgentName name i ps)"
      with held obtain q where q: "q \<in> set ps"
        and n: "n = (if p_ID q = i then name else p_AgentName q)"
        by (auto simp: setAgentName_def update_where_def)
      then show "n = name \<or> n \<in> p_AgentName ` set (filter (\<lambda>p. p_ID p \<noteq> i) ps)" by auto
    qed
    have same: "p_ID p = i \<Longrightarrow> setAgentName name i ps = ps"
      using pi held by (auto simp: setAgentName_def update_where_def image_iff intro!: map_idI)
    show ?thesis
    proof (cases "p_ID p = i")
      case True
      then have "name \<noteq> [] \<Longrightarrow> name \<notin> p_AgentName ` set ps"
        using held pi by (auto simp: nameHeld_def image_iff) metis
      with u True s same show ?thesis by (auto simp: namesUnique_def)
    next
      case pf: False
      have "p_AgentName p \<noteq> [] \<Longrightarrow> p_AgentName p \<noteq> name"
        using False pf by (auto simp: nameHeld_def)
      moreover have "p_AgentName p \<noteq> [] \<Longrightarrow> p_AgentName p \<notin> p_AgentName ` set ps"
        using Cons.prems(1) by (auto simp: namesUnique_def)
      ultimately show ?thesis
        using Cons.IH[OF u] s pf names by (auto simp: namesUnique_def)
    qed
  qed
qed (simp add: setAgentName_def update_where_def nameHeld_def)

lemma unique_insertPeer: "unique_key p_ID ps \<Longrightarrow> unique_key p_ID (insertPeer p ps)"
  by (simp add: insertPeer_def unique_insert_row)

lemma unique_setAgentName: "unique_key p_ID ps \<Longrightarrow> unique_key p_ID (setAgentName name i ps)"
  by (simp add: setAgentName_def unique_update_where)

lemmas table_preserves =
  namesUnique_insertPeer namesUnique_setAgentName unique_insertPeer unique_setAgentName
  unique_key_preserved

lemma namesUnique_update:
  "namesUnique ps \<Longrightarrow> (\<And>p. P p \<Longrightarrow> p_AgentName (f p) = p_AgentName p) \<Longrightarrow> namesUnique (update_where P f ps)"
  by (simp add: namesUnique_def map_update_where)

lemma namesUnique_delete: "namesUnique ps \<Longrightarrow> namesUnique (delete_where P ps)"
  by (simp add: delete_where_def namesUnique_filter)

lemma idsIncrease_update:
  "idsIncrease mx (map k ms) \<Longrightarrow> (\<And>m. P m \<Longrightarrow> k (f m) = k m) \<Longrightarrow> idsIncrease mx (map k (update_where P f ms))"
  by (simp add: map_update_where)

lemma idsIncrease_delete: "idsIncrease mx (map k ms) \<Longrightarrow> idsIncrease mx (map k (delete_where P ms))"
  by (simp add: delete_where_def idsIncrease_filter)

lemma dbOk_execStmt: "dbOk d \<Longrightarrow> dbOk (execStmt s d)"
  by (cases s) (auto simp: dbOk_def
      intro!: table_preserves namesUnique_update namesUnique_delete idsIncrease_update
        idsIncrease_delete idsIncrease_snoc)

lemma dbOk_exec: "dbOk d \<Longrightarrow> dbOk (exec s d)"
  by (simp add: exec_def dbOk_execStmt)

interpretation statements: inductive_invariant "\<lambda>d. d = emptyDB" dbStep dbOk
  by unfold_locales (auto simp: dbStep_iff dbOk_exec,
      simp add: dbOk_def emptyDB_def unique_key_def namesUnique_def idsIncrease_def)

definition execAll :: "stmt list \<Rightarrow> db \<Rightarrow> db" where
  "execAll ss d = fold exec ss d"

lemma dbStep_execAll: "dbStep\<^sup>*\<^sup>* d (execAll ss d)"
proof (induction ss arbitrary: d)
  case (Cons s ss)
  then show ?case
    by (auto simp: execAll_def intro: converse_rtranclp_into_rtranclp exec_step)
qed (simp add: execAll_def)

lemma dbOk_execAll: "dbOk d \<Longrightarrow> dbOk (execAll ss d)"
  using statements.holds_steps dbStep_execAll by blast

section \<open>The life of one message\<close>

text \<open>
  \<open>rowEffect s m\<close> is what a statement does to one message row, \<open>None\<close> for a deletion.  Seen
  through it the message table is a family of independent state machines, one per message id,
  whose phases follow \<open>phaseStep\<close>.
\<close>

definition msgAt :: "int \<Rightarrow> db \<Rightarrow> messageRow option" where
  "msgAt i d = lookup_row w_id i (messages d)"

fun rowEffect :: "stmt \<Rightarrow> messageRow \<Rightarrow> messageRow option" where
  "rowEffect (BindQueued sid agent) m =
     Some (if w_to_agent m = agent \<and> w_to_session m = [] \<and> w_delivered_at m = None
           then m\<lparr>w_to_session := sid\<rparr> else m)"
| "rowEffect (MarkDelivered now sid i) m =
     Some (if w_id m = i
           then m\<lparr>w_delivered_at := Some now, w_to_session := sid, w_attempts := w_attempts m + 1\<rparr>
           else m)"
| "rowEffect (AckRow now sid i) m =
     Some (if w_id m = i \<and> w_to_session m = sid
           then m\<lparr>w_ack_at := Some now, w_ack_session := Some sid\<rparr> else m)"
| "rowEffect (DropDirect sid) m =
     (if w_to_session m = sid \<and> w_to_agent m = [] \<and> w_ack_at m = None then None else Some m)"
| "rowEffect (RequeueAgent sid) m =
     Some (if w_to_session m = sid \<and> w_to_agent m \<noteq> [] \<and> w_ack_at m = None
           then m\<lparr>w_to_session := [], w_delivered_at := None\<rparr> else m)"
| "rowEffect (PurgeAcked cutoff) m =
     (if case w_ack_at m of None \<Rightarrow> False | Some a \<Rightarrow> a < cutoff then None else Some m)"
| "rowEffect (PurgeUnacked cutoff) m =
     (if w_ack_at m = None \<and> w_sent_at m < cutoff then None else Some m)"
| "rowEffect _ m = Some m"

datatype phase = Queued | Bound | Delivered | AckedEarly | Acked

definition phaseOf :: "messageRow \<Rightarrow> phase" where
  "phaseOf m = (case (w_delivered_at m, w_ack_at m) of
      (None, None) \<Rightarrow> if w_to_session m = [] then Queued else Bound
    | (Some _, None) \<Rightarrow> Delivered
    | (None, Some _) \<Rightarrow> AckedEarly
    | (Some _, Some _) \<Rightarrow> Acked)"

inductive phaseStep :: "phase \<Rightarrow> phase \<Rightarrow> bool" where
  stay: "phaseStep p p"
| bind: "phaseStep Queued Bound"
| deliver: "p \<in> {Queued, Bound} \<Longrightarrow> phaseStep p Delivered"
| requeue: "p \<in> {Bound, Delivered} \<Longrightarrow> phaseStep p Queued"
| ack_early: "p \<in> {Queued, Bound} \<Longrightarrow> phaseStep p AckedEarly"
| ack: "phaseStep Delivered Acked"
| deliver_acked: "phaseStep AckedEarly Acked"

inductive_simps phaseStep_iff: "phaseStep p q"
inductive_cases phaseStep_AckedE: "phaseStep Acked q"

definition content :: "messageRow \<Rightarrow> int \<times> string \<times> string \<times> string \<times> string \<times> string" where
  "content m = (w_id m, w_to_agent m, w_from_session m, w_from_agent m, w_text m, w_sent_at m)"

lemma rowEffect_phase: "rowEffect s m = Some m' \<Longrightarrow> phaseStep (phaseOf m) (phaseOf m')"
  by (cases s) (auto simp: phaseOf_def phaseStep_iff split: option.splits if_splits)

lemma rowEffect_content: "rowEffect s m = Some m' \<Longrightarrow> content m' = content m"
  by (cases s) (auto simp: content_def split: if_splits)

lemma msgAt_execStmt:
  assumes "dbOk d" and "i \<le> messages_seq d"
  shows "msgAt i (execStmt s d) = Option.bind (msgAt i d) (rowEffect s)"
proof -
  have u: "unique_key w_id (messages d)"
    using assms(1) by (auto simp: dbOk_def unique_key_def dest: idsIncrease_distinct)
  show ?thesis
  proof (cases s)
    case InsertMessage
    with assms(2) show ?thesis
      by (cases "msgAt i d")
        (auto simp: msgAt_def lookup_row_snoc)
  qed (use u in \<open>cases "msgAt i d"; simp add: msgAt_def lookup_update_where lookup_delete_where\<close>)+
qed

lemma seq_execStmt: "messages_seq d \<le> messages_seq (execStmt s d)"
  by (cases s) auto

lemma seq_exec: "messages_seq d \<le> messages_seq (exec s d)"
  by (simp add: exec_def seq_execStmt)

lemma msgAt_seq: "dbOk d \<Longrightarrow> msgAt i d = Some m \<Longrightarrow> i \<le> messages_seq d \<and> w_id m = i"
  by (auto simp: msgAt_def dbOk_def idsIncrease_def lookup_row_def dest!: select_one_SomeD)

lemma msgAt_exec:
  assumes "dbOk d" and "i \<le> messages_seq d"
  shows "msgAt i (exec s d) = (if dbErr d = None then Option.bind (msgAt i d) (rowEffect s) else msgAt i d)"
  using msgAt_execStmt[OF assms] by (simp add: exec_def)

lemma msgAt_exec_SomeD:
  assumes "dbOk d" and "i \<le> messages_seq d" and "msgAt i (exec s d) = Some m'"
  shows "\<exists>m. msgAt i d = Some m \<and> phaseStep (phaseOf m) (phaseOf m') \<and> content m' = content m"
  using assms msgAt_exec[OF assms(1,2), of s]
  by (auto simp: bind_eq_Some_conv rowEffect_content split: if_splits
      intro: phaseStep.stay dest: rowEffect_phase)

text \<open>An id that has been used is in one of these situations for good.\<close>

definition settled :: "int \<Rightarrow> db \<Rightarrow> bool" where
  "settled i d \<longleftrightarrow> dbOk d \<and> i \<le> messages_seq d \<and>
     (case msgAt i d of None \<Rightarrow> True | Some m \<Rightarrow> phaseOf m = Acked)"

interpretation settling: inductive_invariant "settled i" dbStep "settled i" for i
proof
  fix d d' assume s: "settled i d" and "dbStep d d'"
  then obtain st where d': "d' = exec st d" by (auto simp: dbStep_iff)
  have ok: "dbOk d" and le: "i \<le> messages_seq d" using s by (auto simp: settled_def)
  show "settled i d'"
    using msgAt_exec_SomeD[OF ok le, of st] s seq_exec[of d st] dbOk_exec[OF ok, of st]
    unfolding d' settled_def by (fastforce split: option.splits elim: phaseStep_AckedE)
qed

lemma rowEffect_None:
  "rowEffect s m = None \<Longrightarrow> w_to_agent m \<noteq> [] \<Longrightarrow> w_ack_at m = None \<Longrightarrow>
   \<exists>c. s = PurgeUnacked c \<and> w_sent_at m < c"
  by (cases s) (auto split: if_splits)

lemma rowEffect_ack:
  "rowEffect s m = Some m' \<Longrightarrow> w_ack_at m = None \<Longrightarrow> w_ack_at m' \<noteq> None \<Longrightarrow>
   \<exists>now. s = AckRow now (w_to_session m) (w_id m)"
  by (cases s) (auto split: if_splits)

lemma agent_row_survives:
  assumes "dbOk d" and "msgAt i d = Some m" and "w_to_agent m \<noteq> []" and "w_ack_at m = None"
  shows "(\<exists>m'. msgAt i (execAll ss d) = Some m' \<and> content m' = content m \<and> w_ack_at m' = None) \<or>
    (\<exists>c. PurgeUnacked c \<in> set ss \<and> w_sent_at m < c) \<or> (\<exists>now sid. AckRow now sid i \<in> set ss)"
  using assms
proof (induction ss arbitrary: d m)
  case (Cons s ss)
  note seq = msgAt_seq[OF Cons.prems(1,2)]
  have step: "msgAt i (exec s d) = (if dbErr d = None then rowEffect s m else Some m)"
    using msgAt_exec[OF Cons.prems(1), of i s] seq Cons.prems(2) by simp
  show ?case
  proof (cases "msgAt i (exec s d)")
    case None
    with step rowEffect_None[of s m] Cons.prems show ?thesis by (auto split: if_splits)
  next
    case (Some m1)
    have c: "content m1 = content m" using step Some rowEffect_content by (auto split: if_splits)
    show ?thesis
    proof (cases "w_ack_at m1 = None")
      case True
      have "w_to_agent m1 \<noteq> []" "w_sent_at m1 = w_sent_at m"
        using c Cons.prems(3) by (auto simp: content_def)
      with Cons.IH[OF dbOk_exec[OF Cons.prems(1)] Some] c True show ?thesis
        by (auto simp: execAll_def)
    next
      case False
      with step Some rowEffect_ack[of s m m1] Cons.prems(4) seq show ?thesis
        by (auto split: if_splits)
    qed
  qed
qed (auto simp: execAll_def)

lemma dbOk_msg_ids: "dbOk d \<Longrightarrow> distinct (map w_id (messages d)) \<and> inj_on w_id (set (messages d))"
  by (metis dbOk_def distinct_map idsIncrease_distinct)

lemma msgAt_iff: "dbOk d \<Longrightarrow> msgAt i d = Some m \<longleftrightarrow> m \<in> set (messages d) \<and> w_id m = i"
  unfolding msgAt_def by (rule lookup_row_Some_iff) (simp add: unique_key_def dbOk_msg_ids)

definition rowEffects :: "stmt list \<Rightarrow> messageRow \<Rightarrow> messageRow option" where
  "rowEffects ss m = fold (\<lambda>s row. Option.bind row (rowEffect s)) ss (Some m)"

lemma rowEffects_simps [simp]:
  "rowEffects [] m = Some m"
  "rowEffects (s # ss) m = Option.bind (rowEffect s m) (rowEffects ss)"
proof -
  have "fold (\<lambda>s row. Option.bind row (rowEffect s)) ss None = None" by (induction ss) simp_all
  then show "rowEffects (s # ss) m = Option.bind (rowEffect s m) (rowEffects ss)"
    by (cases "rowEffect s m") (simp_all add: rowEffects_def)
qed (simp add: rowEffects_def)

lemma rowEffects_append [simp]:
  "rowEffects (ss @ ss') m = Option.bind (rowEffects ss m) (rowEffects ss')"
proof (induction ss arbitrary: m)
  case (Cons s ss)
  then show ?case by (cases "rowEffect s m") simp_all
qed simp

lemma msgAt_execAll_None:
  assumes "dbOk d" and "i \<le> messages_seq d" and "msgAt i d = None"
  shows "msgAt i (execAll ss d) = None"
  using assms
proof (induction ss arbitrary: d)
  case (Cons s ss)
  have "msgAt i (exec s d) = None" using msgAt_exec[OF Cons.prems(1,2), of s] Cons.prems(3) by simp
  with Cons.IH[OF dbOk_exec[OF Cons.prems(1), of s]] Cons.prems(2) seq_exec[of d s] show ?case
    by (simp add: execAll_def)
qed (simp add: execAll_def)

lemma msgAt_execAll:
  assumes "dbOk d" and "dbErr d = None" and "msgAt i d = Some m"
  shows "msgAt i (execAll ss d) = rowEffects ss m"
  using assms
proof (induction ss arbitrary: d m)
  case (Cons s ss)
  have le: "i \<le> messages_seq d" using msgAt_seq[OF Cons.prems(1,3)] by simp
  have up: "dbErr (exec s d) = None" using Cons.prems(2) by (cases s) (auto simp: exec_def)
  have s: "msgAt i (exec s d) = rowEffect s m"
    using msgAt_exec[OF Cons.prems(1) le, of s] Cons.prems by simp
  show ?case
  proof (cases "rowEffect s m")
    case None
    have "i \<le> messages_seq (exec s d)" using le seq_exec[of d s] by simp
    with None s msgAt_execAll_None[OF dbOk_exec[OF Cons.prems(1)]] show ?thesis
      by (simp add: execAll_def)
  next
    case (Some m')
    with Cons.IH[OF dbOk_exec[OF Cons.prems(1)] up] s show ?thesis by (simp add: execAll_def)
  qed
qed (simp add: execAll_def)

section \<open>Properties of the database\<close>

text \<open>
  However the broker's SQL statements interleave, starting from the fresh schema, no two
  sessions share an id, no two sessions hold the same agent name, and message ids are strictly
  increasing in insertion order and never exceed the AUTOINCREMENT counter.
\<close>

theorem names_unique_always:
  assumes "dbStep\<^sup>*\<^sup>* emptyDB d"
  shows "distinct (map p_ID (peers d)) \<and>
    (\<forall>p q. p \<in> set (peers d) \<and> q \<in> set (peers d) \<and> p_AgentName p = p_AgentName q \<longrightarrow>
       p_AgentName p = [] \<or> p = q) \<and>
    sorted_wrt (<) (map w_id (messages d)) \<and> (\<forall>m \<in> set (messages d). w_id m \<le> messages_seq d)"
proof -
  have ok: "dbOk d" using assms by (rule statements.holds_reachable[OF refl])
  then have "namesUnique (peers d)" by (simp add: dbOk_def)
  from namesUniqueD[OF this] ok show ?thesis
    by (auto simp: dbOk_def unique_key_def idsIncrease_def)
qed

theorem names_unique_always_witness:
  "distinct (map p_ID (peers (execAll [SeenName ''bob'' ''t0'', DeletePeer ''s1''] emptyDB)))"
  using names_unique_always[OF dbStep_execAll[of emptyDB "[SeenName ''bob'' ''t0'', DeletePeer ''s1'']"]]
  by simp

text \<open>
  C8: a message that is delivered and acknowledged is never delivered again.  Whatever
  statements run afterwards, its row either keeps both its delivery and its acknowledgement
  stamp or is gone, and a row that is gone never comes back under the same id.
\<close>

theorem acked_is_final:
  assumes "dbOk d" and "msgAt i d = Some m" and "phaseOf m = Acked"
  shows "case msgAt i (execAll ss d) of None \<Rightarrow> True
    | Some m' \<Rightarrow> w_delivered_at m' \<noteq> None \<and> w_ack_at m' \<noteq> None"
proof -
  have "settled i d" using assms msgAt_seq[OF assms(1,2)] by (simp add: settled_def)
  then have "settled i (execAll ss d)" using dbStep_execAll settling.holds_steps by blast
  then show ?thesis by (auto simp: settled_def phaseOf_def split: option.splits if_splits)
qed

definition sampleDB :: "stmt list \<Rightarrow> db" where
  "sampleDB ss = execAll (InsertMessage ''bob'' ''s1'' ''s2'' ''eve'' ''hi'' ''t1'' # ss) emptyDB"

lemma dbOk_sampleDB: "dbOk (sampleDB ss)"
  using dbStep_execAll statements.holds_reachable[OF refl] by (simp add: sampleDB_def)

lemmas sample_eval = sampleDB_def execAll_def exec_def emptyDB_def msgAt_def lookup_row_def
  select_one_def update_where_def delete_where_def

theorem acked_is_final_witness:
  "case msgAt 1 (execAll [RequeueAgent ''s1''] (sampleDB [MarkDelivered ''t2'' ''s1'' 1, AckRow ''t3'' ''s1'' 1])) of
     None \<Rightarrow> True | Some m' \<Rightarrow> w_delivered_at m' \<noteq> None \<and> w_ack_at m' \<noteq> None"
  by (rule acked_is_final[OF dbOk_sampleDB]) (simp add: sample_eval, simp add: phaseOf_def)

text \<open>
  C7: a message sent to an agent name is not lost.  Until some session acknowledges it, every
  sequence of statements (sessions dying, unregistering, being evicted, re-registering, polling)
  leaves its row in place with the same id, recipient, sender, text and time stamp; the only
  statement that removes it unacknowledged is the retention purge whose cutoff lies after the
  time it was sent.
\<close>

theorem agent_message_survives:
  assumes "dbOk d" and "msgAt i d = Some m" and "w_to_agent m \<noteq> []" and "w_ack_at m = None"
  shows "(\<exists>m'. msgAt i (execAll ss d) = Some m' \<and> content m' = content m \<and> w_ack_at m' = None) \<or>
    (\<exists>c. PurgeUnacked c \<in> set ss \<and> w_sent_at m < c) \<or> (\<exists>now sid. AckRow now sid i \<in> set ss)"
  using assms by (rule agent_row_survives)

theorem agent_message_survives_witness:
  "\<exists>m'. msgAt 1 (execAll [MarkDelivered ''t2'' ''s1'' 1, DropDirect ''s1'', RequeueAgent ''s1'']
          (sampleDB [])) = Some m' \<and> w_text m' = ''hi'' \<and> w_ack_at m' = None"
proof -
  obtain m where m: "msgAt 1 (sampleDB []) = Some m" "w_to_agent m \<noteq> []" "w_ack_at m = None"
      "w_text m = ''hi''"
    by (simp add: sample_eval)
  from agent_message_survives[OF dbOk_sampleDB m(1-3),
      of "[MarkDelivered ''t2'' ''s1'' 1, DropDirect ''s1'', RequeueAgent ''s1'']"] m(4)
  show ?thesis by (auto simp: content_def)
qed

text \<open>
  C13: every statement moves every message along its life cycle (queued, bound to a session,
  delivered, acknowledged, with requeueing from bound and delivered, and acknowledged before it is delivered) and never touches its
  sender, recipient name, text or time stamp: a row under an already assigned id comes from the
  row that was there before, one phase step earlier.
\<close>

theorem message_life_cycle:
  assumes "dbOk d" and "i \<le> messages_seq d" and "msgAt i (exec s d) = Some m'"
  shows "\<exists>m. msgAt i d = Some m \<and> phaseStep (phaseOf m) (phaseOf m') \<and> content m' = content m"
  using assms by (rule msgAt_exec_SomeD)

theorem message_life_cycle_witness:
  "\<exists>m. msgAt 1 (sampleDB []) = Some m \<and> phaseStep (phaseOf m) Delivered"
proof -
  obtain m' where m': "msgAt 1 (exec (MarkDelivered ''t2'' ''s1'' 1) (sampleDB [])) = Some m'"
      "phaseOf m' = Delivered"
    by (simp add: sample_eval phaseOf_def)
  have "1 \<le> messages_seq (sampleDB [])" by (simp add: sample_eval)
  from message_life_cycle[OF dbOk_sampleDB this m'(1)] m'(2) show ?thesis by auto
qed

end
