(* ===== verification/Json.thy ===== *)
theory Json
  imports GoLib
begin

text \<open>
  The part of \<open>encoding/json\<close> that the broker stores in a column: a slice of strings as a JSON
  array, written by \<open>json.Marshal\<close> and read back by \<open>json.Unmarshal\<close>
  (\<^verbatim>\<open>src/broker_core.go\<close>, \<open>sqliteTokenPersister.Save\<close> and \<open>loadKnownTokens\<close>).  Strings are
  valid UTF-8, whose bytes above 127 are copied; the reader takes the escapes the writer emits
  and the two-character ones, an escaped code point above 127 does not occur in what the writer
  wrote and is refused.
\<close>

definition hexVal :: "char \<Rightarrow> nat option" where
  "hexVal c = (let n = of_char c in
     if 48 \<le> n \<and> n < 58 then Some (n - 48)
     else if 97 \<le> n \<and> n < 103 then Some (n - 87)
     else if 65 \<le> n \<and> n < 71 then Some (n - 55) else None)"

definition shortEscapes :: "(char \<times> char) list" where
  "shortEscapes = [(CHR 0x22, CHR 0x22), (CHR 0x5C, CHR 0x5C), (CHR 0x08, CHR ''b''), (CHR 0x0C, CHR ''f''),
     (CHR 0x0A, CHR ''n''), (CHR 0x0D, CHR ''r''), (CHR 0x09, CHR ''t'')]"

definition needsHex :: "char \<Rightarrow> bool" where
  "needsHex c \<longleftrightarrow> (of_char c :: nat) < 32 \<or> c \<in> {CHR ''<'', CHR ''>'', CHR ''&''}"

definition jsonByte :: "char \<Rightarrow> string" where
  "jsonByte c = (case map_of shortEscapes c of
      Some e \<Rightarrow> [CHR 0x5C, e]
    | None \<Rightarrow> if needsHex c
        then [CHR 0x5C, CHR ''u'', CHR ''0'', CHR ''0'', hexc (of_char c div 16), hexc (of_char c mod 16)]
        else [c])"

definition jsonString :: "string \<Rightarrow> string" where
  "jsonString s = [CHR 0x22] @ concat (map jsonByte s) @ [CHR 0x22]"

definition jsonStrings :: "string list \<Rightarrow> string" where
  "jsonStrings ss = ''['' @ joinStr '','' (map jsonString ss) @ '']''"

definition unescape :: "char \<Rightarrow> char option" where
  "unescape e = (if e = CHR ''/'' then Some e else map_of (map (\<lambda>(c, e). (e, c)) shortEscapes) e)"

definition unhex :: "char \<Rightarrow> char \<Rightarrow> char \<Rightarrow> char \<Rightarrow> char option" where
  "unhex a b c d = (case (hexVal a, hexVal b, hexVal c, hexVal d) of
      (Some w, Some x, Some y, Some z) \<Rightarrow>
        (let n = ((w * 16 + x) * 16 + y) * 16 + z in if n < 128 then Some (char_of n) else None)
    | _ \<Rightarrow> None)"

definition consFst :: "char \<Rightarrow> (string \<times> string) option \<Rightarrow> (string \<times> string) option" where
  "consFst c r = map_option (\<lambda>(s, rest). (c # s, rest)) r"

text \<open>The string literal after its opening quote, and what follows the closing one.\<close>

fun readString :: "string \<Rightarrow> (string \<times> string) option" where
  "readString [] = None"
| "readString (c # cs) =
     (if c = CHR 0x22 then Some ([], cs)
      else if c = CHR 0x5C then
        (case cs of [] \<Rightarrow> None
         | e # r \<Rightarrow>
             if e = CHR ''u'' then
               (case r of a # b # c' # d # r' \<Rightarrow>
                  (case unhex a b c' d of None \<Rightarrow> None | Some x \<Rightarrow> consFst x (readString r'))
                | _ \<Rightarrow> None)
             else (case unescape e of None \<Rightarrow> None | Some x \<Rightarrow> consFst x (readString r)))
      else if (of_char c :: nat) < 32 then None
      else consFst c (readString cs))"

definition jsonSpace :: "char \<Rightarrow> bool" where
  "jsonSpace c \<longleftrightarrow> c \<in> {CHR 0x20, CHR 0x09, CHR 0x0A, CHR 0x0D}"

definition skipSpace :: "string \<Rightarrow> string" where
  "skipSpace s = dropWhile jsonSpace s"

lemma readString_length: "readString s = Some (t, rest) \<Longrightarrow> length rest < length s"
  by (induction s arbitrary: t rest rule: readString.induct)
    (force simp: consFst_def split: if_splits list.splits option.splits)+

lemma skipSpace_length: "length (skipSpace s) \<le> length s"
  by (simp add: skipSpace_def length_dropWhile_le)

text \<open>The elements after the opening bracket; nothing but space may follow the closing one.\<close>

function readElems :: "string \<Rightarrow> string list option" where
  "readElems s = (case skipSpace s of [] \<Rightarrow> None
     | q # r \<Rightarrow>
         if q \<noteq> CHR 0x22 then None
         else case readString r of None \<Rightarrow> None
           | Some (x, r') \<Rightarrow>
               (case skipSpace r' of [] \<Rightarrow> None
                | e # r'' \<Rightarrow>
                    if e = CHR '','' then map_option ((#) x) (readElems r'')
                    else if e = CHR '']'' \<and> skipSpace r'' = [] then Some [x] else None))"
  by pat_completeness auto
termination
proof (relation "measure length", simp, clarsimp)
  fix s r x r' r''
  assume a: "skipSpace s = CHR 0x22 # r" "readString r = Some (x, r')" "skipSpace r' = CHR '','' # r''"
  show "length r'' < length s"
    using skipSpace_length[of s] skipSpace_length[of r'] readString_length[OF a(2)] a(1,3) by simp
qed

declare readElems.simps [simp del]

definition readStrings :: "string \<Rightarrow> string list option" where
  "readStrings s = (case skipSpace s of [] \<Rightarrow> None
     | b # r \<Rightarrow> if b \<noteq> CHR ''['' then None
         else (case skipSpace r of [] \<Rightarrow> None
           | e # r' \<Rightarrow> if e = CHR '']'' then (if skipSpace r' = [] then Some [] else None) else readElems r))"

section \<open>Round trip\<close>

lemma hexVal_hexc [simp]: "d < 16 \<Longrightarrow> hexVal (hexc d) = Some d"
  by (simp add: hexVal_def of_char_hexc Let_def)

lemma unhex_byte:
  assumes "(of_char c :: nat) < 128"
  shows "unhex (CHR ''0'') (CHR ''0'') (hexc (of_char c div 16)) (hexc (of_char c mod 16)) = Some c"
proof -
  have "hexVal (CHR ''0'') = Some 0" by (simp add: hexVal_def)
  moreover have "of_char c div 16 < (16 :: nat)" using assms by (simp add: less_mult_imp_div_less)
  moreover have "of_char c div 16 * 16 + of_char c mod 16 = (of_char c :: nat)" by (rule div_mult_mod_eq)
  ultimately show ?thesis using assms by (simp add: unhex_def Let_def)
qed

lemma readString_byte: "readString (jsonByte c @ r) = consFst c (readString r)"
proof (cases "map_of shortEscapes c")
  case (Some e)
  then have "(c, e) \<in> set shortEscapes" by (rule map_of_SomeD)
  then show ?thesis using Some
    by (auto simp: shortEscapes_def jsonByte_def unescape_def)
next
  case None
  then have c: "c \<noteq> CHR 0x22" "c \<noteq> CHR 0x5C" by (auto simp: shortEscapes_def)
  show ?thesis
  proof (cases "needsHex c")
    case True
    then have "(of_char c :: nat) < 128" by (auto simp: needsHex_def)
    from unhex_byte[OF this] True None show ?thesis by (simp add: jsonByte_def)
  next
    case False
    with None c show ?thesis by (simp add: jsonByte_def needsHex_def)
  qed
qed

lemma readString_json: "readString (concat (map jsonByte s) @ CHR 0x22 # r) = Some (s, r)"
proof (induction s)
  case (Cons c s)
  then show ?case using readString_byte[of c "concat (map jsonByte s) @ CHR 0x22 # r"] by (simp add: consFst_def)
qed simp

lemma readElems_json:
  "ss \<noteq> [] \<Longrightarrow> readElems (joinStr '','' (map jsonString ss) @ '']'') = Some ss"
proof (induction ss)
  case (Cons x ss)
  have sp: "skipSpace (CHR 0x22 # r) = CHR 0x22 # r" "skipSpace (CHR '','' # r) = CHR '','' # r"
      "skipSpace (CHR '']'' # r) = CHR '']'' # r" "skipSpace [] = []" for r
    by (simp_all add: skipSpace_def jsonSpace_def)
  show ?case
  proof (cases ss)
    case Nil
    then show ?thesis by (subst readElems.simps) (simp add: jsonString_def sp readString_json)
  next
    case (Cons y ys)
    then have eq: "joinStr '','' (map jsonString (x # ss)) @ '']'' =
        CHR 0x22 # concat (map jsonByte x) @ CHR 0x22 # CHR '','' # joinStr '','' (map jsonString ss) @ '']''"
      by (simp add: jsonString_def)
    have "readElems (joinStr '','' (map jsonString ss) @ '']'') = Some ss"
      using Cons.IH Cons by simp
    then show ?thesis
      unfolding eq by (subst readElems.simps) (simp add: sp readString_json)
  qed
qed simp

lemma strings_round_trip: "readStrings (jsonStrings ss) = Some ss"
proof (cases ss)
  case Nil
  then show ?thesis by (simp add: readStrings_def jsonStrings_def skipSpace_def jsonSpace_def)
next
  case (Cons x xs)
  then obtain r where "joinStr '','' (map jsonString ss) @ '']'' = CHR 0x22 # r"
    by (cases xs) (simp_all add: jsonString_def)
  with readElems_json[of ss] Cons show ?thesis
    by (simp add: readStrings_def jsonStrings_def skipSpace_def jsonSpace_def)
qed

end
