(* ===== verification/Ucan.thy ===== *)
theory Ucan
  imports Types Json
begin

text \<open>
  \<^verbatim>\<open>src/auth_ucan.go\<close>: capability tokens.  Minting, the validator with its table of known tokens,
  the grace window of the refresh endpoint, and the capability sets of the roles.

  The JWT library and the cryptographic primitives are the fields of \<open>jwtLib\<close>; what the code
  relies on is stated by the predicates \<open>jwtSound\<close>, \<open>jwtComplete\<close> and \<open>jwtSigns\<close>.  The validator's
  persister is an interface in Go; here a validator operation threads the persister's state \<open>p\<close>
  and calls \<open>save\<close> on it when the validator has a persister.
\<close>

record Capability =
  Resource :: string

text \<open>\<open>RegisteredClaims\<close> is embedded; a nil \<open>NumericDate\<close> is \<open>None\<close>.\<close>

record UCANClaims =
  c_Issuer :: string
  c_Subject :: string
  c_Audience :: "string list"
  c_ExpiresAt :: "time option"
  c_NotBefore :: "time option"
  c_IssuedAt :: "time option"
  c_JTI :: string
  c_Capabilities :: "Capability list"
  c_Proof :: string
  c_MachineName :: string

text \<open>
  The keys of the Go map, without duplicates; the code iterates over it only to store it.
\<close>

type_synonym capabilitySet = "string list"

record PersistedToken =
  pt_Hash :: string
  pt_Capabilities :: "string list"

record KeyPair =
  PrivateKey :: bytes
  PublicKey :: bytes

type_synonym keyFunc = "UCANClaims \<Rightarrow> string + bytes"

text \<open>
  \<open>sha256\<close> is \<open>sha256.Sum256\<close>; \<open>publicOf\<close> is \<open>PrivateKey.Public\<close>; \<open>numericDate\<close> is
  \<open>jwt.NewNumericDate\<close>; \<open>signedString\<close> is \<open>NewWithClaims(SigningMethodEdDSA, c).SignedString\<close>;
  \<open>parseUnverified\<close> and \<open>parseWithClaims\<close> are the parser methods with EdDSA as the valid method,
  the latter at a clock reading and with a leeway, or without claims validation (\<open>None\<close>);
  \<open>verifies tok key\<close> says that the signature of the token verifies under the key.
\<close>

record jwtLib =
  sha256 :: "bytes \<Rightarrow> bytes"
  publicOf :: "bytes \<Rightarrow> bytes"
  numericDate :: "time \<Rightarrow> time"
  signedString :: "bytes \<Rightarrow> UCANClaims \<Rightarrow> string + string"
  parseUnverified :: "string \<Rightarrow> string + UCANClaims"
  parseWithClaims :: "time \<Rightarrow> duration option \<Rightarrow> keyFunc \<Rightarrow> string \<Rightarrow> string + UCANClaims"
  verifies :: "string \<Rightarrow> bytes \<Rightarrow> bool"

section \<open>Keys and hashes\<close>

definition PublicKeySize :: nat where "PublicKeySize = 32"

definition pubKeyToString :: "bytes \<Rightarrow> string" where
  "pubKeyToString pub = b64Encode pub"

definition pubKeyFromString :: "string \<Rightarrow> string + bytes" where
  "pubKeyFromString s = (case b64Decode s of
      Inl e \<Rightarrow> Inl (''decode public key: '' @ e)
    | Inr dat \<Rightarrow> if length dat \<noteq> PublicKeySize
        then Inl (''invalid public key length: '' @ natDigits (length dat)) else Inr dat)"

definition TokenHash :: "jwtLib \<Rightarrow> string \<Rightarrow> string" where
  "TokenHash L token = b64Encode (sha256 L token)"

section \<open>Minting\<close>

definition resources :: "Capability list \<Rightarrow> capabilitySet" where
  "resources caps = remdups (map Resource caps)"

definition newClaims :: "jwtLib \<Rightarrow> time \<Rightarrow> string \<Rightarrow> string \<Rightarrow> Capability list \<Rightarrow> duration \<Rightarrow> string \<Rightarrow> UCANClaims" where
  "newClaims L now iss aud caps ttl prf = \<lparr>c_Issuer = iss, c_Subject = ''claude-peers'', c_Audience = [aud],
     c_ExpiresAt = Some (numericDate L (now + ttl)), c_NotBefore = None,
     c_IssuedAt = Some (numericDate L now), c_JTI = [], c_Capabilities = caps, c_Proof = prf,
     c_MachineName = []\<rparr>"

definition MintRootToken :: "jwtLib \<Rightarrow> time \<Rightarrow> bytes \<Rightarrow> Capability list \<Rightarrow> duration \<Rightarrow> string + string" where
  "MintRootToken L now rootKey caps ttl =
     (let kid = pubKeyToString (publicOf L rootKey)
      in signedString L rootKey (newClaims L now kid kid caps ttl []))"

definition MintToken :: "jwtLib \<Rightarrow> time \<Rightarrow> bytes \<Rightarrow> bytes \<Rightarrow> Capability list \<Rightarrow> duration \<Rightarrow> string \<Rightarrow> string + string" where
  "MintToken L now signerKey audience caps ttl parentToken =
     (case parseUnverified L parentToken of
        Inl e \<Rightarrow> Inl (''parse parent token: '' @ e)
      | Inr parentClaims \<Rightarrow>
          (case find (\<lambda>c. Resource c \<notin> set (resources (c_Capabilities parentClaims))) caps of
             Some c \<Rightarrow> Inl (''capability '' @ goQuote (Resource c) @ '' not in parent token (attenuation violation)'')
           | None \<Rightarrow> signedString L signerKey
               (newClaims L now (pubKeyToString (publicOf L signerKey)) (pubKeyToString audience) caps ttl
                  (TokenHash L parentToken))))"

section \<open>The validator\<close>

record TokenValidator =
  rootPubKey :: bytes
  knownTokens :: "string \<rightharpoonup> capabilitySet"
  persister :: bool

definition NewTokenValidator :: "bytes \<Rightarrow> TokenValidator" where
  "NewTokenValidator root = \<lparr>rootPubKey = root, knownTokens = Map.empty, persister = False\<rparr>"

definition WithPersister :: "bool \<Rightarrow> TokenValidator \<Rightarrow> TokenValidator" where
  "WithPersister p v = v\<lparr>persister := p\<rparr>"

fun Restore :: "PersistedToken list \<Rightarrow> TokenValidator \<Rightarrow> TokenValidator" where
  "Restore [] v = v"
| "Restore (r # rows) v =
     (if pt_Hash r = [] then Restore rows v
      else Restore rows (v\<lparr>knownTokens := (knownTokens v)(pt_Hash r \<mapsto> remdups (pt_Capabilities r))\<rparr>))"

definition extractTokenExpiry :: "jwtLib \<Rightarrow> time \<Rightarrow> string \<Rightarrow> time" where
  "extractTokenExpiry L now tok = (case parseUnverified L tok of
      Inl _ \<Rightarrow> now + 24 * hour
    | Inr c \<Rightarrow> (case c_ExpiresAt c of None \<Rightarrow> now + 24 * hour | Some e \<Rightarrow> e))"

type_synonym 'p saver = "string \<Rightarrow> string list \<Rightarrow> time \<Rightarrow> 'p \<Rightarrow> 'p"

definition persistKnown :: "jwtLib \<Rightarrow> 'p saver \<Rightarrow> time \<Rightarrow> string \<Rightarrow> string \<Rightarrow> capabilitySet \<Rightarrow> TokenValidator \<Rightarrow> 'p \<Rightarrow> 'p" where
  "persistKnown L save now h tok caps v p =
     (if persister v then save h caps (extractTokenExpiry L now tok) p else p)"

definition RegisterToken :: "jwtLib \<Rightarrow> 'p saver \<Rightarrow> time \<Rightarrow> string \<Rightarrow> Capability list \<Rightarrow>
    TokenValidator \<times> 'p \<Rightarrow> TokenValidator \<times> 'p" where
  "RegisterToken L save now tok caps vp =
     (let (v, p) = vp; cs = resources caps; h = TokenHash L tok
      in (v\<lparr>knownTokens := (knownTokens v)(h \<mapsto> cs)\<rparr>, persistKnown L save now h tok cs v p))"

text \<open>The key function of both validation paths; \<open>GetIssuer\<close> of registered claims does not fail.\<close>

definition issuerKey :: keyFunc where
  "issuerKey c = (case pubKeyFromString (c_Issuer c) of
      Inl e \<Rightarrow> Inl (''decode issuer key: '' @ e) | Inr k \<Rightarrow> Inr k)"

text \<open>The checks after parsing, the same in both paths; \<open>None\<close> when they pass.\<close>

definition chainError :: "TokenValidator \<Rightarrow> UCANClaims \<Rightarrow> string option" where
  "chainError v c =
     (if c_Subject c \<noteq> ''claude-peers'' then Some (''invalid subject: '' @ goQuote (c_Subject c))
      else if c_Proof c = [] then
        (case pubKeyFromString (c_Issuer c) of
           Inl e \<Rightarrow> Some (''decode root issuer: '' @ e)
         | Inr k \<Rightarrow> if k \<noteq> rootPubKey v then Some ''root token issuer does not match root public key'' else None)
      else (case knownTokens v (c_Proof c) of
           None \<Rightarrow> Some ''unknown proof: parent token not registered''
         | Some parentCaps \<Rightarrow>
             (case find (\<lambda>x. Resource x \<notin> set parentCaps) (c_Capabilities c) of
                Some x \<Rightarrow> Some (''capability '' @ goQuote (Resource x) @ '' not in parent (chain violation)'')
              | None \<Rightarrow> None)))"

definition accept :: "jwtLib \<Rightarrow> 'p saver \<Rightarrow> time \<Rightarrow> string \<Rightarrow> UCANClaims \<Rightarrow> TokenValidator \<times> 'p \<Rightarrow>
    (string + UCANClaims) \<times> TokenValidator \<times> 'p" where
  "accept L save now tok c vp = (case chainError (fst vp) c of
      Some e \<Rightarrow> (Inl e, vp)
    | None \<Rightarrow> (Inr c, RegisterToken L save now tok (c_Capabilities c) vp))"

definition Validate :: "jwtLib \<Rightarrow> 'p saver \<Rightarrow> time \<Rightarrow> string \<Rightarrow> TokenValidator \<times> 'p \<Rightarrow>
    (string + UCANClaims) \<times> TokenValidator \<times> 'p" where
  "Validate L save now tok vp = (case parseWithClaims L now (Some (30 * second)) issuerKey tok of
      Inl e \<Rightarrow> (Inl (''parse token: '' @ e), vp)
    | Inr c \<Rightarrow> accept L save now tok c vp)"

definition ValidateWithGrace :: "jwtLib \<Rightarrow> 'p saver \<Rightarrow> time \<Rightarrow> string \<Rightarrow> duration \<Rightarrow> TokenValidator \<times> 'p \<Rightarrow>
    (string + UCANClaims) \<times> TokenValidator \<times> 'p" where
  "ValidateWithGrace L save now tok grace vp = (case parseWithClaims L now None issuerKey tok of
      Inl e \<Rightarrow> (Inl (''parse token: '' @ e), vp)
    | Inr c \<Rightarrow>
        (case c_ExpiresAt c of
           Some e \<Rightarrow> if now - e > grace
             then (Inl (''token expired '' @ durationString (roundDuration (now - e) second) @
                     '' ago (grace window is '' @ durationString grace @ '')''), vp)
             else accept L save now tok c vp
         | None \<Rightarrow> accept L save now tok c vp))"

section \<open>Capabilities\<close>

definition HasCapability :: "UCANClaims \<Rightarrow> string \<Rightarrow> bool" where
  "HasCapability c res \<longleftrightarrow> list_ex (\<lambda>x. Resource x = res) (c_Capabilities c)"

definition capsOf :: "string list \<Rightarrow> Capability list" where
  "capsOf rs = map (\<lambda>r. \<lparr>Resource = r\<rparr>) rs"

definition AllCapabilities :: "Capability list" where
  "AllCapabilities = capsOf [''peer/register'', ''peer/heartbeat'', ''peer/unregister'', ''peer/set-summary'',
     ''peer/list'', ''msg/send'', ''msg/poll'', ''msg/ack'',
     ''events/read'', ''memory/read'', ''memory/write'', ''nats/subscribe'']"

definition PeerSessionCapabilities :: "Capability list" where
  "PeerSessionCapabilities = capsOf [''peer/register'', ''peer/heartbeat'', ''peer/unregister'', ''peer/set-summary'',
     ''peer/list'', ''msg/send'', ''msg/poll'', ''msg/ack'',
     ''events/read'', ''memory/read'', ''memory/write'']"

definition FleetReadCapabilities :: "Capability list" where
  "FleetReadCapabilities = capsOf [''peer/list'', ''events/read'', ''memory/read'']"

definition FleetWriteCapabilities :: "Capability list" where
  "FleetWriteCapabilities = capsOf [''peer/list'', ''events/read'', ''memory/read'', ''memory/write'']"

definition CLICapabilities :: "Capability list" where
  "CLICapabilities = capsOf [''peer/list'', ''msg/send'', ''events/read'']"

section \<open>What the code relies on\<close>

definition capSet :: "UCANClaims \<Rightarrow> string set" where
  "capSet c = Resource ` set (c_Capabilities c)"

text \<open>
  Documented behaviour of the library.  \<open>jwtSound\<close>: a parsed token decodes to the returned claims,
  its signature verifies under the key the key function chose, and with claims validation it is
  not expired beyond the leeway.  \<open>jwtComplete\<close>: such a token is parsed.  \<open>jwtSigns\<close>: a signed token
  decodes to its claims (dates have the precision of a second) and verifies under the signer's
  public key.  \<open>keysOk\<close>: sizes of keys and hashes, and the truncation of dates.  The laws are stated for every
  private key and all claims; the program applies them to generated keys and to claims whose strings it read as
  text, for which the library has them (with a malformed key it panics, and it replaces invalid UTF-8).
\<close>

definition jwtSound :: "jwtLib \<Rightarrow> bool" where
  "jwtSound L \<longleftrightarrow> (\<forall>now lw kf tok c. parseWithClaims L now lw kf tok = Inr c \<longrightarrow>
     parseUnverified L tok = Inr c \<and> (\<exists>k. kf c = Inr k \<and> verifies L tok k) \<and>
     (\<forall>l e. lw = Some l \<and> c_ExpiresAt c = Some e \<longrightarrow> now < e + l))"

definition jwtComplete :: "jwtLib \<Rightarrow> bool" where
  "jwtComplete L \<longleftrightarrow> (\<forall>now lw kf tok c k. parseUnverified L tok = Inr c \<and> kf c = Inr k \<and> verifies L tok k \<and>
     (\<forall>l. lw = Some l \<longrightarrow> (\<forall>e. c_ExpiresAt c = Some e \<longrightarrow> now < e + l) \<and>
        (\<forall>n. c_NotBefore c = Some n \<longrightarrow> n - l \<le> now)) \<longrightarrow>
     parseWithClaims L now lw kf tok = Inr c)"

definition wholeSeconds :: "UCANClaims \<Rightarrow> bool" where
  "wholeSeconds c \<longleftrightarrow> (\<forall>t. Some t \<in> {c_ExpiresAt c, c_NotBefore c, c_IssuedAt c} \<longrightarrow> nanosOf t = 0)"

definition jwtSigns :: "jwtLib \<Rightarrow> bool" where
  "jwtSigns L \<longleftrightarrow> (\<forall>key c tok. wholeSeconds c \<and> signedString L key c = Inr tok \<longrightarrow>
     parseUnverified L tok = Inr c \<and> verifies L tok (publicOf L key))"

definition keysOk :: "jwtLib \<Rightarrow> bool" where
  "keysOk L \<longleftrightarrow> (\<forall>k. length (publicOf L k) = PublicKeySize) \<and> (\<forall>x. sha256 L x \<noteq> []) \<and>
     (\<forall>t. numericDate L t = secsOf t * second)"

section \<open>Lemmas\<close>

lemma pubKey_round_trip: "length pub = PublicKeySize \<Longrightarrow> pubKeyFromString (pubKeyToString pub) = Inr pub"
  by (simp add: pubKeyFromString_def pubKeyToString_def b64_round_trip)

lemma TokenHash_nonempty:
  assumes "keysOk L"
  shows "TokenHash L t \<noteq> []"
proof
  assume "TokenHash L t = []"
  then have "b64Decode (b64Encode (sha256 L t)) = Inr []" by (simp add: TokenHash_def b64Decode_def)
  then show False using assms by (simp add: b64_round_trip keysOk_def)
qed

lemma set_resources [simp]: "set (resources caps) = Resource ` set caps"
  by (simp add: resources_def)

lemma find_resource_None: "find (\<lambda>x. Resource x \<notin> A) caps = None \<longleftrightarrow> Resource ` set caps \<subseteq> A"
  by (auto simp: find_None_iff)

lemma chainError_None:
  "chainError v c = None \<longleftrightarrow> c_Subject c = ''claude-peers'' \<and>
     (if c_Proof c = [] then pubKeyFromString (c_Issuer c) = Inr (rootPubKey v)
      else (\<exists>pc. knownTokens v (c_Proof c) = Some pc \<and> capSet c \<subseteq> set pc))"
proof -
  have "(case find (\<lambda>x. Resource x \<notin> set pc) (c_Capabilities c) of Some x \<Rightarrow> Some (f x) | None \<Rightarrow> None) = None \<longleftrightarrow>
      capSet c \<subseteq> set pc" for pc and f :: "Capability \<Rightarrow> string"
    using find_resource_None[of "set pc" "c_Capabilities c"] by (auto simp: capSet_def split: option.split)
  then show ?thesis
    by (auto simp: chainError_def split: option.split sum.split)
qed

lemma known_RegisterToken [simp]:
  "knownTokens (fst (RegisterToken L save now tok caps vp)) =
     (knownTokens (fst vp))(TokenHash L tok \<mapsto> resources caps)"
  "rootPubKey (fst (RegisterToken L save now tok caps vp)) = rootPubKey (fst vp)"
  "persister (fst (RegisterToken L save now tok caps vp)) = persister (fst vp)"
  by (cases vp; simp add: RegisterToken_def Let_def)+

lemma accept_Inr:
  "accept L save now tok c vp = (Inr c', vp') \<Longrightarrow> c' = c \<and> chainError (fst vp) c = None \<and>
     vp' = RegisterToken L save now tok (c_Capabilities c) vp"
  by (auto simp: accept_def split: option.splits)

lemma accept_Inl: "accept L save now tok c vp = (Inl e, vp') \<Longrightarrow> vp' = vp"
  by (auto simp: accept_def split: option.splits)

lemma Validate_Inr:
  "Validate L save now tok vp = (Inr c, vp') \<Longrightarrow>
     parseWithClaims L now (Some (30 * second)) issuerKey tok = Inr c \<and> chainError (fst vp) c = None \<and>
     vp' = RegisterToken L save now tok (c_Capabilities c) vp"
  by (auto simp: Validate_def split: sum.splits dest!: accept_Inr)

lemma Validate_Inl: "Validate L save now tok vp = (Inl e, vp') \<Longrightarrow> vp' = vp"
  by (auto simp: Validate_def split: sum.splits dest!: accept_Inl)

lemma Grace_Inr:
  "ValidateWithGrace L save now tok grace vp = (Inr c, vp') \<Longrightarrow>
     parseWithClaims L now None issuerKey tok = Inr c \<and> chainError (fst vp) c = None \<and>
     (\<forall>e. c_ExpiresAt c = Some e \<longrightarrow> now - e \<le> grace) \<and>
     vp' = RegisterToken L save now tok (c_Capabilities c) vp"
  by (auto simp: ValidateWithGrace_def split: sum.splits option.splits if_splits dest!: accept_Inr)

lemma Grace_Inl: "ValidateWithGrace L save now tok grace vp = (Inl e, vp') \<Longrightarrow> vp' = vp"
  by (auto simp: ValidateWithGrace_def split: sum.splits option.splits if_splits dest!: accept_Inl)

lemma issuerKey_Inr: "issuerKey c = Inr k \<longleftrightarrow> pubKeyFromString (c_Issuer c) = Inr k"
  by (auto simp: issuerKey_def split: sum.splits)

section \<open>A library that meets the hypotheses\<close>

text \<open>
  Tokens as JSON arrays of the claim fields and the signer's public key, which stands for the
  signature.
\<close>

definition dateField :: "time option \<Rightarrow> string" where
  "dateField t = (case t of None \<Rightarrow> []
     | Some e \<Rightarrow> (if e < 0 then CHR ''-'' else CHR ''+'') # natDigits (nat \<bar>e\<bar>))"

definition readDate :: "string \<Rightarrow> time option" where
  "readDate s = (case s of [] \<Rightarrow> None
     | c # ds \<Rightarrow> Some (if c = CHR ''-'' then - int (digitsVal ds) else int (digitsVal ds)))"

definition claimFields :: "UCANClaims \<Rightarrow> string list" where
  "claimFields c = [c_Issuer c, c_Subject c, jsonStrings (c_Audience c), dateField (c_ExpiresAt c),
     dateField (c_NotBefore c), dateField (c_IssuedAt c), c_JTI c,
     jsonStrings (map Resource (c_Capabilities c)), c_Proof c, c_MachineName c]"

definition stringsOf :: "string \<Rightarrow> string list" where
  "stringsOf s = (case readStrings s of None \<Rightarrow> [] | Some ss \<Rightarrow> ss)"

definition readClaims :: "string list \<Rightarrow> UCANClaims" where
  "readClaims fs = \<lparr>c_Issuer = fs ! 0, c_Subject = fs ! 1, c_Audience = stringsOf (fs ! 2),
     c_ExpiresAt = readDate (fs ! 3), c_NotBefore = readDate (fs ! 4), c_IssuedAt = readDate (fs ! 5),
     c_JTI = fs ! 6, c_Capabilities = capsOf (stringsOf (fs ! 7)), c_Proof = fs ! 8, c_MachineName = fs ! 9\<rparr>"

definition plainPublic :: "bytes \<Rightarrow> bytes" where
  "plainPublic key = take 32 (key @ replicate 32 (CHR ''0''))"

definition plainDecode :: "string \<Rightarrow> string + UCANClaims" where
  "plainDecode tok = (case readStrings tok of None \<Rightarrow> Inl ''token is malformed''
     | Some fs \<Rightarrow> if length fs = 11 then Inr (readClaims fs) else Inl ''token is malformed'')"

definition plainVerifies :: "string \<Rightarrow> bytes \<Rightarrow> bool" where
  "plainVerifies tok k \<longleftrightarrow> length (stringsOf tok) = 11 \<and> stringsOf tok ! 10 = k"

definition plainParse :: "(string \<Rightarrow> bytes \<Rightarrow> bool) \<Rightarrow> time \<Rightarrow> duration option \<Rightarrow> keyFunc \<Rightarrow> string \<Rightarrow> string + UCANClaims" where
  "plainParse ver now lw kf tok = (case plainDecode tok of Inl e \<Rightarrow> Inl e
     | Inr c \<Rightarrow> (case kf c of Inl e \<Rightarrow> Inl e
         | Inr k \<Rightarrow> if \<not> ver tok k then Inl ''token signature is invalid''
             else (case lw of None \<Rightarrow> Inr c
               | Some l \<Rightarrow>
                   if (case c_ExpiresAt c of None \<Rightarrow> False | Some e \<Rightarrow> e + l \<le> now)
                   then Inl ''token has invalid claims: token is expired''
                   else if (case c_NotBefore c of None \<Rightarrow> False | Some n \<Rightarrow> now < n - l)
                   then Inl ''token has invalid claims: token is not valid yet''
                   else Inr c)))"

definition plainLib :: jwtLib where
  "plainLib = \<lparr>sha256 = (\<lambda>x. CHR ''h'' # x), publicOf = plainPublic, numericDate = (\<lambda>t. secsOf t * second),
     signedString = (\<lambda>key c. Inr (jsonStrings (claimFields c @ [plainPublic key]))),
     parseUnverified = plainDecode, parseWithClaims = plainParse plainVerifies, verifies = plainVerifies\<rparr>"

lemma readDate_dateField [simp]: "readDate (dateField t) = t"
  by (cases t) (auto simp: readDate_def dateField_def)

lemma stringsOf_json [simp]: "stringsOf (jsonStrings ss) = ss"
  by (simp add: stringsOf_def strings_round_trip)

lemma capsOf_Resource [simp]: "capsOf (map Resource cs) = cs"
  by (induction cs) (simp_all add: capsOf_def)

lemma readClaims_fields: "readClaims (claimFields c @ [k]) = c"
  by (simp add: readClaims_def claimFields_def)

lemma plainLib_ok: "jwtSound plainLib" "jwtComplete plainLib" "jwtSigns plainLib" "keysOk plainLib"
proof -
  show "jwtSound plainLib"
    by (auto simp: jwtSound_def plainLib_def plainParse_def split: sum.splits option.splits if_splits)
  show "jwtComplete plainLib"
    by (auto simp: jwtComplete_def plainLib_def plainParse_def split: option.split)
  show "jwtSigns plainLib"
    by (auto simp: jwtSigns_def plainLib_def plainDecode_def plainVerifies_def strings_round_trip
        readClaims_fields) (simp_all add: claimFields_def)
  show "keysOk plainLib"
    by (auto simp: keysOk_def plainLib_def PublicKeySize_def plainPublic_def min_def)
qed

definition plainToken :: "bytes \<Rightarrow> UCANClaims \<Rightarrow> string" where
  "plainToken key c = jsonStrings (claimFields c @ [plainPublic key])"

definition sampleRootClaims :: UCANClaims where
  "sampleRootClaims = newClaims plainLib 0 (pubKeyToString (plainPublic ''root'')) (pubKeyToString (plainPublic ''root''))
     AllCapabilities (8760 * hour) []"

definition sampleValidator :: TokenValidator where
  "sampleValidator = fst (RegisterToken plainLib (\<lambda>h cs e p. p) 0 (plainToken ''root'' sampleRootClaims)
     AllCapabilities (NewTokenValidator (plainPublic ''root''), ()))"

lemma sign_plain: "signedString plainLib key c = Inr (plainToken key c)"
  by (simp add: plainLib_def plainToken_def)

lemma decode_plain: "parseUnverified plainLib (plainToken key c) = Inr c"
proof -
  have "length (claimFields c) = 10" by (simp add: claimFields_def)
  then show ?thesis
    by (simp add: plainLib_def plainToken_def plainDecode_def strings_round_trip readClaims_fields)
qed

lemma public_plain: "publicOf plainLib = plainPublic"
  by (simp add: plainLib_def)

lemma verifies_plain: "verifies plainLib (plainToken key c) k \<longleftrightarrow> k = plainPublic key"
proof -
  have "length (claimFields c) = 10" by (simp add: claimFields_def)
  then show ?thesis by (auto simp: plainLib_def plainVerifies_def plainToken_def nth_append)
qed

lemma parse_plain:
  assumes "issuerKey c = Inr (plainPublic key)" and "c_NotBefore c = None"
    and "\<forall>l e. lw = Some l \<and> c_ExpiresAt c = Some e \<longrightarrow> now < e + l"
  shows "parseWithClaims plainLib now lw issuerKey (plainToken key c) = Inr c"
  using assms plainLib_ok(2) decode_plain[of key c] verifies_plain[of key c "plainPublic key"]
  unfolding jwtComplete_def by (metis option.distinct(1))

lemma length_plainPublic: "length (plainPublic key) = PublicKeySize"
  using plainLib_ok(4) by (simp add: keysOk_def public_plain)

lemma numericDate_plain: "numericDate plainLib t = secsOf t * second"
  by (simp add: plainLib_def)

lemma secs_whole: "secsOf (k * second) = k"
  by (simp add: secsOf_def second_def)

section \<open>Properties\<close>

text \<open>
  C28: a token that \<open>Validate\<close> accepts carries a signature that verifies under the key in its issuer
  field and is expired by less than the 30 seconds of leeway; it is either a root token, issued by
  the root key, or its proof is the hash of a known token and it claims no capability that token
  does not have.  Acceptance records exactly this token; a refusal changes nothing.
\<close>

theorem validated_is_authentic:
  assumes "jwtSound L" and "Validate L save now tok (v, p) = (res, v', p')"
  shows "case res of Inl e \<Rightarrow> v' = v \<and> p' = p
    | Inr c \<Rightarrow> (\<exists>k. pubKeyFromString (c_Issuer c) = Inr k \<and> verifies L tok k \<and>
        (c_Proof c = [] \<longrightarrow> k = rootPubKey v)) \<and>
      (\<forall>e. c_ExpiresAt c = Some e \<longrightarrow> now < e + 30 * second) \<and>
      (c_Proof c \<noteq> [] \<longrightarrow> (\<exists>pc. knownTokens v (c_Proof c) = Some pc \<and> capSet c \<subseteq> set pc)) \<and>
      v' = v\<lparr>knownTokens := (knownTokens v)(TokenHash L tok \<mapsto> resources (c_Capabilities c))\<rparr>"
proof (cases res)
  case (Inl e)
  with assms(2) Validate_Inl show ?thesis by fastforce
next
  case (Inr c)
  then have v: "parseWithClaims L now (Some (30 * second)) issuerKey tok = Inr c" "chainError v c = None"
      "(v', p') = RegisterToken L save now tok (c_Capabilities c) (v, p)"
    using assms(2) Validate_Inr by fastforce+
  from assms(1) v(1) obtain k where k: "issuerKey c = Inr k" "verifies L tok k"
      "\<forall>e. c_ExpiresAt c = Some e \<longrightarrow> now < e + 30 * second"
    unfolding jwtSound_def by blast
  then show ?thesis
    using v(2,3) Inr by (auto simp: chainError_None issuerKey_Inr RegisterToken_def Let_def split: if_splits)
qed

lemma mint_then_validate:
  assumes "jwtComplete L" and "jwtSigns L" and "keysOk L"
    and "MintToken L now key aud caps ttl parent = Inr tok"
    and "parseUnverified L parent = Inr pcl" and "knownTokens v (TokenHash L parent) = Some pc"
    and "capSet pcl \<subseteq> set pc"
    and "now' < secsOf (now + ttl) * second + 30 * second"
  shows "\<exists>c v' p'. Validate L save now' tok (v, p) = (Inr c, v', p') \<and> c_Capabilities c = caps \<and>
    c_Audience c = [pubKeyToString aud] \<and> knownTokens v' (TokenHash L tok) = Some (resources caps)"
proof -
  define c where "c = newClaims L now (pubKeyToString (publicOf L key)) (pubKeyToString aud) caps ttl (TokenHash L parent)"
  have sub: "Resource ` set caps \<subseteq> capSet pcl" and sg: "signedString L key c = Inr tok"
    using assms(4,5) find_resource_None[of "set (resources (c_Capabilities pcl))" caps]
    by (auto simp: MintToken_def c_def capSet_def split: option.splits)
  have "wholeSeconds c"
    using assms(3) by (auto simp: wholeSeconds_def c_def newClaims_def keysOk_def nanosOf_def)
  with assms(2) sg have t: "parseUnverified L tok = Inr c" "verifies L tok (publicOf L key)"
    by (auto simp: jwtSigns_def)
  have key: "issuerKey c = Inr (publicOf L key)"
    using assms(3) by (simp add: issuerKey_Inr c_def newClaims_def pubKey_round_trip keysOk_def)
  have "parseWithClaims L now' (Some (30 * second)) issuerKey tok = Inr c"
    using assms(1,3,8) t key unfolding jwtComplete_def
    by (auto simp: c_def newClaims_def keysOk_def)
  moreover have "chainError v c = None"
    using TokenHash_nonempty[OF assms(3), of parent] assms(6,7) sub by (auto simp: chainError_None c_def newClaims_def capSet_def)
  ultimately show ?thesis
    by (auto simp: Validate_def accept_def c_def newClaims_def RegisterToken_def Let_def)
qed

text \<open>
  C30: a token minted from a registered parent within the parent's capabilities validates, until 30
  seconds after its own expiry: the validator returns the claims with the requested capabilities and
  audience, and knows the token afterwards, so that it can itself be a parent.  The expiry of the parent plays no
  role, neither in the minting nor in the validation: the child is accepted after its parent has
  expired.
\<close>

theorem minted_token_validates:
  assumes "jwtComplete L" and "jwtSigns L" and "keysOk L"
    and "MintToken L now key aud caps ttl parent = Inr tok"
    and "parseUnverified L parent = Inr pcl" and "knownTokens v (TokenHash L parent) = Some pc"
    and "capSet pcl \<subseteq> set pc"
    and "now' < secsOf (now + ttl) * second + 30 * second"
  shows "\<exists>c v' p'. Validate L save now' tok (v, p) = (Inr c, v', p') \<and> c_Capabilities c = caps \<and>
    c_Audience c = [pubKeyToString aud] \<and> knownTokens v' (TokenHash L tok) = Some (resources caps)"
  using assms by (rule mint_then_validate)

lemma sample_mint:
  "\<exists>tok. MintToken plainLib now ''root'' (plainPublic ''cli'') CLICapabilities ttl (plainToken ''root'' sampleRootClaims) = Inr tok"
  "knownTokens sampleValidator (TokenHash plainLib (plainToken ''root'' sampleRootClaims)) = Some (resources AllCapabilities)"
  "capSet sampleRootClaims \<subseteq> set (resources AllCapabilities)"
proof -
  have caps: "c_Capabilities sampleRootClaims = AllCapabilities" by (simp add: sampleRootClaims_def newClaims_def)
  have "find (\<lambda>x. Resource x \<notin> set (resources AllCapabilities)) CLICapabilities = None"
    by (auto simp: find_None_iff CLICapabilities_def AllCapabilities_def capsOf_def)
  then show "\<exists>tok. MintToken plainLib now ''root'' (plainPublic ''cli'') CLICapabilities ttl (plainToken ''root'' sampleRootClaims) = Inr tok"
    using caps by (auto simp: MintToken_def decode_plain sign_plain)
  show "knownTokens sampleValidator (TokenHash plainLib (plainToken ''root'' sampleRootClaims)) = Some (resources AllCapabilities)"
    by (simp add: sampleValidator_def)
  show "capSet sampleRootClaims \<subseteq> set (resources AllCapabilities)" using caps by (simp add: capSet_def)
qed

theorem minted_token_validates_witness:
  "\<exists>tok c v' p'. MintToken plainLib (5 * second) ''root'' (plainPublic ''cli'') CLICapabilities hour
       (plainToken ''root'' sampleRootClaims) = Inr tok \<and>
     Validate plainLib (\<lambda>h cs e p. p) (3600 * second) tok (sampleValidator, ()) = (Inr c, v', p') \<and>
     c_Capabilities c = CLICapabilities"
proof -
  obtain tok where tok: "MintToken plainLib (5 * second) ''root'' (plainPublic ''cli'') CLICapabilities hour
      (plainToken ''root'' sampleRootClaims) = Inr tok" using sample_mint(1) ..
  have "3600 * second < secsOf (5 * second + hour) * second + 30 * second"
    by (simp add: secsOf_def second_def hour_def minute_def)
  from minted_token_validates[OF plainLib_ok(2-4) tok decode_plain sample_mint(2,3) this, of "\<lambda>h cs e p. p" "()"] tok
  show ?thesis by blast
qed

lemma rootClaims_checks:
  "issuerKey sampleRootClaims = Inr (plainPublic ''root'')" "c_NotBefore sampleRootClaims = None"
  "c_ExpiresAt sampleRootClaims = Some (31536000 * second)" "chainError sampleValidator sampleRootClaims = None"
proof -
  have pk: "pubKeyFromString (pubKeyToString (plainPublic k)) = Inr (plainPublic k)" for k
    by (rule pubKey_round_trip[OF length_plainPublic])
  have v: "rootPubKey sampleValidator = plainPublic ''root''"
    by (simp add: sampleValidator_def NewTokenValidator_def)
  show "issuerKey sampleRootClaims = Inr (plainPublic ''root'')"
    by (simp add: issuerKey_Inr sampleRootClaims_def newClaims_def pk)
  show "c_NotBefore sampleRootClaims = None" by (simp add: sampleRootClaims_def newClaims_def)
  show "c_ExpiresAt sampleRootClaims = Some (31536000 * second)"
    by (simp add: sampleRootClaims_def newClaims_def numericDate_plain secsOf_def hour_def minute_def second_def)
  show "chainError sampleValidator sampleRootClaims = None"
    by (simp add: chainError_None sampleRootClaims_def newClaims_def v pk)
qed

definition noSave :: "unit saver" where
  "noSave h cs e p = p"

text \<open>
  A child outlives its parent: a token of a day, minted a quarter of an hour before the root token expires, is
  accepted an hour after the expiry, when the root token itself is refused.
\<close>

lemma child_outlives_parent:
  "\<exists>tok c v' p' e. MintToken plainLib (31535100 * second) ''root'' (plainPublic ''cli'') CLICapabilities (24 * hour)
       (plainToken ''root'' sampleRootClaims) = Inr tok \<and>
     Validate plainLib noSave (31539600 * second) tok (sampleValidator, ()) = (Inr c, v', p') \<and>
     fst (Validate plainLib noSave (31539600 * second) (plainToken ''root'' sampleRootClaims) (sampleValidator, ())) = Inl e"
proof -
  let ?root = "plainToken ''root'' sampleRootClaims" and ?now = "31539600 * second"
  obtain tok where tok: "MintToken plainLib (31535100 * second) ''root'' (plainPublic ''cli'') CLICapabilities (24 * hour) ?root = Inr tok"
    using sample_mint(1) ..
  have "?now < secsOf (31535100 * second + 24 * hour) * second + 30 * second"
    by (simp add: secsOf_def second_def hour_def minute_def)
  from mint_then_validate[OF plainLib_ok(2-4) tok decode_plain sample_mint(2,3) this, of noSave "()"]
  obtain c v' p' where child: "Validate plainLib noSave ?now tok (sampleValidator, ()) = (Inr c, v', p')" by blast
  obtain e where "fst (Validate plainLib noSave ?now ?root (sampleValidator, ())) = Inl e"
  proof (cases "Validate plainLib noSave ?now ?root (sampleValidator, ())")
    case (fields r v1 p1)
    have "r \<noteq> Inr c" for c
    proof
      assume "r = Inr c"
      then have p: "parseWithClaims plainLib ?now (Some (30 * second)) issuerKey ?root = Inr c"
        using Validate_Inr fields by blast
      with plainLib_ok(1) have "parseUnverified plainLib ?root = Inr c" "\<forall>e. c_ExpiresAt c = Some e \<longrightarrow> ?now < e + 30 * second"
        unfolding jwtSound_def by blast+
      with rootClaims_checks(3) show False by (simp add: decode_plain second_def)
    qed
    with fields that show thesis by (cases r) auto
  qed
  with tok child show ?thesis by blast
qed

theorem validated_is_authentic_witness:
  "\<exists>v'. Validate plainLib noSave 0 (plainToken ''root'' sampleRootClaims) (sampleValidator, ()) =
      (Inr sampleRootClaims, v', ()) \<and>
     knownTokens v' (TokenHash plainLib (plainToken ''root'' sampleRootClaims)) = Some (resources AllCapabilities)"
proof -
  let ?t = "plainToken ''root'' sampleRootClaims"
  have "parseWithClaims plainLib 0 (Some (30 * second)) issuerKey ?t = Inr sampleRootClaims"
    by (rule parse_plain) (simp_all add: rootClaims_checks, simp add: second_def)
  then obtain v' where r: "Validate plainLib noSave 0 ?t (sampleValidator, ()) = (Inr sampleRootClaims, v', ())"
    by (auto simp: Validate_def accept_def rootClaims_checks RegisterToken_def Let_def)
  from validated_is_authentic[OF plainLib_ok(1) r] r show ?thesis
    by (simp add: sampleRootClaims_def newClaims_def)
qed

text \<open>
  The refresh endpoint's validation accepts a token only within its grace period: an accepted
  token has expired at most \<open>grace\<close> ago, and under a working library every authentic token in good
  standing that expired no longer ago than that is accepted.
\<close>

theorem grace_window:
  assumes "jwtSound L" and "jwtComplete L" and "parseUnverified L tok = Inr c"
    and "issuerKey c = Inr k" and "verifies L tok k" and "chainError v c = None" and "c_ExpiresAt c = Some e"
  shows "(\<exists>vp'. ValidateWithGrace L save now tok grace (v, p) = (Inr c, vp')) \<longleftrightarrow> now - e \<le> grace"
proof -
  have "parseWithClaims L now None issuerKey tok = Inr c"
    using assms(2-5) unfolding jwtComplete_def by blast
  then show ?thesis using assms(6,7) by (simp add: ValidateWithGrace_def accept_def)
qed

theorem grace_window_witness:
  "\<exists>vp'. ValidateWithGrace plainLib noSave (31536000 * second + 10 * minute) (plainToken ''root'' sampleRootClaims) hour
     (sampleValidator, ()) = (Inr sampleRootClaims, vp')"
  using grace_window[OF plainLib_ok(1,2) decode_plain rootClaims_checks(1) _ rootClaims_checks(4,3),
      of "''root''" noSave "31536000 * second + 10 * minute" hour "()"]
  by (simp add: verifies_plain hour_def minute_def second_def)

text \<open>
  C38: the issuer of a delegated token is not tied to its parent.  Whoever knows the hash of a known
  token, which every delegated token carries in the clear as its proof, can sign with a key of
  their own a token with all of the parent's capabilities, and \<open>Validate\<close> accepts it.
\<close>

theorem any_key_extends_known_proof:
  assumes "jwtComplete L" and "jwtSigns L" and "keysOk L"
    and "knownTokens v h = Some pc" and "h \<noteq> []" and "set (map Resource caps) \<subseteq> set pc" and "0 < ttl"
    and "signedString L anyKey (newClaims L now (pubKeyToString (publicOf L anyKey))
           (pubKeyToString (publicOf L anyKey)) caps ttl h) = Inr tok"
  shows "\<exists>c vp'. Validate L save now tok (v, p) = (Inr c, vp') \<and> c_Capabilities c = caps"
proof -
  define c where "c = newClaims L now (pubKeyToString (publicOf L anyKey)) (pubKeyToString (publicOf L anyKey)) caps ttl h"
  have "wholeSeconds c"
    using assms(3) by (auto simp: wholeSeconds_def c_def newClaims_def keysOk_def nanosOf_def)
  with assms(2,8) have t: "parseUnverified L tok = Inr c" "verifies L tok (publicOf L anyKey)"
    by (auto simp: jwtSigns_def c_def)
  have key: "issuerKey c = Inr (publicOf L anyKey)"
    using assms(3) by (simp add: issuerKey_Inr c_def newClaims_def pubKey_round_trip keysOk_def)
  have "t < secsOf t * second + second" for t
    using pos_mod_bound[of second t] div_mult_mod_eq[of t second]
    by (simp add: secsOf_def second_def)
  from this[of "now + ttl"] have "now < secsOf (now + ttl) * second + 30 * second"
    using assms(7) by (simp add: second_def)
  then have "parseWithClaims L now (Some (30 * second)) issuerKey tok = Inr c"
    using assms(1,3) t key unfolding jwtComplete_def by (auto simp: c_def newClaims_def keysOk_def)
  moreover have "chainError v c = None"
    using assms(4-6) by (auto simp: chainError_None c_def newClaims_def capSet_def)
  ultimately show ?thesis by (auto simp: Validate_def accept_def c_def newClaims_def)
qed

theorem any_key_extends_known_proof_witness:
  "\<exists>tok c vp'. signedString plainLib ''mallory'' (newClaims plainLib 0 (pubKeyToString (plainPublic ''mallory''))
       (pubKeyToString (plainPublic ''mallory'')) AllCapabilities hour
       (TokenHash plainLib (plainToken ''root'' sampleRootClaims))) = Inr tok \<and>
     Validate plainLib noSave 0 tok (sampleValidator, ()) = (Inr c, vp') \<and> c_Capabilities c = AllCapabilities"
proof -
  let ?h = "TokenHash plainLib (plainToken ''root'' sampleRootClaims)"
  have k: "knownTokens sampleValidator ?h = Some (resources AllCapabilities)" by (simp add: sampleValidator_def)
  have h: "?h \<noteq> []" by (rule TokenHash_nonempty[OF plainLib_ok(4)])
  have "(0 :: int) < hour" by (simp add: hour_def minute_def second_def)
  from any_key_extends_known_proof[OF plainLib_ok(2-4) k h _ this sign_plain, where caps = AllCapabilities and now = 0
      and anyKey = "''mallory''" and save = noSave and p = "()"]
  show ?thesis by (auto simp: sign_plain public_plain)
qed

section \<open>Capabilities never grow\<close>

text \<open>
  A run of the validator: validations of any tokens at any time, by either path.
\<close>

inductive authStep :: "jwtLib \<Rightarrow> 'p saver \<Rightarrow> TokenValidator \<times> 'p \<Rightarrow> TokenValidator \<times> 'p \<Rightarrow> bool"
  for L save where
  Plain: "authStep L save vp (snd (Validate L save now tok vp))"
| Grace: "authStep L save vp (snd (ValidateWithGrace L save now tok grace vp))"

definition rootIssues :: "jwtLib \<Rightarrow> bytes \<Rightarrow> string set \<Rightarrow> bool" where
  "rootIssues L root A \<longleftrightarrow> (\<forall>tok c. parseUnverified L tok = Inr c \<and> verifies L tok root \<and> c_Proof c = [] \<longrightarrow> capSet c \<subseteq> A)"

definition bounded :: "bytes \<Rightarrow> string set \<Rightarrow> TokenValidator \<times> 'p \<Rightarrow> bool" where
  "bounded root A vp \<longleftrightarrow> rootPubKey (fst vp) = root \<and> (\<forall>h cs. knownTokens (fst vp) h = Some cs \<longrightarrow> set cs \<subseteq> A)"

lemma accepted_bounded:
  assumes "jwtSound L" and "rootIssues L root A" and "bounded root A vp"
    and "parseWithClaims L now lw issuerKey tok = Inr c" and "chainError (fst vp) c = None"
  shows "capSet c \<subseteq> A"
proof -
  obtain k where k: "parseUnverified L tok = Inr c" "issuerKey c = Inr k" "verifies L tok k"
    using assms(1,4) unfolding jwtSound_def by blast
  show ?thesis
  proof (cases "c_Proof c = []")
    case True
    then have "k = root" using assms(3,5) k(2) by (simp add: chainError_None bounded_def issuerKey_Inr)
    with True k assms(2) show ?thesis by (auto simp: rootIssues_def)
  next
    case False
    with assms(3,5) show ?thesis by (auto simp: chainError_None bounded_def)
  qed
qed

lemma bounded_register:
  "bounded root A vp \<Longrightarrow> Resource ` set caps \<subseteq> A \<Longrightarrow> bounded root A (RegisterToken L save now tok caps vp)"
  by (auto simp: bounded_def split: if_splits)

lemma bounded_step:
  assumes "jwtSound L" and "rootIssues L root A" and "bounded root A vp" and "authStep L save vp vp'"
  shows "bounded root A vp'"
  using assms(4)
proof cases
  case (Plain now tok)
  obtain res vp2 where r: "Validate L save now tok vp = (res, vp2)"
    by (cases "Validate L save now tok vp") auto
  show ?thesis
  proof (cases res)
    case (Inl e) with r Plain assms(3) Validate_Inl show ?thesis by fastforce
  next
    case (Inr c)
    with r Validate_Inr[of L save now tok vp c vp2] accepted_bounded[OF assms(1-3), of now _ tok c] Plain assms(3)
    show ?thesis by (auto simp: capSet_def intro!: bounded_register)
  qed
next
  case (Grace now tok grace)
  obtain res vp2 where r: "ValidateWithGrace L save now tok grace vp = (res, vp2)"
    by (cases "ValidateWithGrace L save now tok grace vp") auto
  show ?thesis
  proof (cases res)
    case (Inl e) with r Grace assms(3) Grace_Inl show ?thesis by fastforce
  next
    case (Inr c)
    with r Grace_Inr[of L save now tok grace vp c vp2] accepted_bounded[OF assms(1-3), of now _ tok c] Grace assms(3)
    show ?thesis by (auto simp: capSet_def intro!: bounded_register)
  qed
qed

interpretation capability_bound: inductive_invariant "bounded root A" "authStep L save"
  "\<lambda>vp. jwtSound L \<and> rootIssues L root A \<longrightarrow> bounded root A vp" for root A L save
  by unfold_locales (auto intro: bounded_step)

text \<open>
  C29: no capability appears out of nothing.  If the tokens known at the start and the tokens the
  root key issues stay within a set of capabilities, then after any sequence of validations, of
  any tokens by any keys, every token that is accepted stays within that set.
\<close>

theorem capabilities_never_grow:
  assumes "jwtSound L" and "rootIssues L root A" and "bounded root A vp0"
    and "(authStep L save)\<^sup>*\<^sup>* vp0 vp" and "fst (Validate L save now tok vp) = Inr c"
  shows "capSet c \<subseteq> A"
proof -
  have "bounded root A vp" using capability_bound.holds_reachable[OF assms(3,4)] assms(1,2) by blast
  moreover obtain vp' where "Validate L save now tok vp = (Inr c, vp')"
    using assms(5) by (metis prod.collapse)
  ultimately show ?thesis using accepted_bounded[OF assms(1,2)] Validate_Inr by blast
qed

text \<open>The library of a fleet whose root key has issued only tokens within \<open>A\<close>.\<close>

definition guardedVerifies :: "string list \<Rightarrow> string \<Rightarrow> bytes \<Rightarrow> bool" where
  "guardedVerifies A tok k \<longleftrightarrow> plainVerifies tok k \<and>
     (k = plainPublic ''root'' \<longrightarrow> set (stringsOf (stringsOf tok ! 7)) \<subseteq> set A)"

definition guardedLib :: "string list \<Rightarrow> jwtLib" where
  "guardedLib A = plainLib\<lparr>verifies := guardedVerifies A, parseWithClaims := plainParse (guardedVerifies A)\<rparr>"

lemma guardedLib_sound: "jwtSound (guardedLib A)"
  by (auto simp: jwtSound_def guardedLib_def plainLib_def plainParse_def split: sum.splits option.splits if_splits)

lemma guardedLib_issues: "rootIssues (guardedLib A) (plainPublic ''root'') (set A)"
  by (auto simp: rootIssues_def guardedLib_def plainLib_def guardedVerifies_def plainDecode_def stringsOf_def[of tok for tok]
      readClaims_def capSet_def capsOf_def split: option.splits if_splits)

theorem capabilities_never_grow_witness:
  "\<exists>c. fst (Validate (guardedLib (resources AllCapabilities)) noSave 0 (plainToken ''root'' sampleRootClaims)
       (sampleValidator, ())) = Inr c \<and> capSet c \<subseteq> set (resources AllCapabilities)"
proof -
  let ?t = "plainToken ''root'' sampleRootClaims" and ?A = "resources AllCapabilities"
  have len: "length (claimFields sampleRootClaims) = 10" by (simp add: claimFields_def)
  have "claimFields sampleRootClaims ! 7 = jsonStrings (map Resource AllCapabilities)"
    by (simp add: claimFields_def sampleRootClaims_def newClaims_def)
  then have "guardedVerifies ?A ?t (plainPublic ''root'')"
    using verifies_plain[of "''root''" sampleRootClaims "plainPublic ''root''"] len
    by (simp add: guardedVerifies_def plainLib_def plainToken_def nth_append)
  then have "parseWithClaims (guardedLib ?A) 0 (Some (30 * second)) issuerKey ?t = Inr sampleRootClaims"
    using decode_plain[of "''root''" sampleRootClaims] rootClaims_checks
    by (simp add: guardedLib_def plainLib_def plainParse_def second_def)
  then have r: "fst (Validate (guardedLib ?A) noSave 0 ?t (sampleValidator, ())) = Inr sampleRootClaims"
    by (simp add: Validate_def accept_def rootClaims_checks)
  have "bounded (plainPublic ''root'') (set ?A) (sampleValidator, ())"
    by (auto simp: bounded_def sampleValidator_def NewTokenValidator_def split: if_splits)
  from capabilities_never_grow[OF guardedLib_sound guardedLib_issues this rtranclp.rtrancl_refl r] r show ?thesis by blast
qed

section \<open>The contract of a persister\<close>

lemma known_Restore_other: "h \<notin> set (map pt_Hash rows) \<Longrightarrow> knownTokens (Restore rows v) h = knownTokens v h"
  by (induction rows v rule: Restore.induct) auto

lemma known_Restore:
  "distinct (map pt_Hash rows) \<Longrightarrow> r \<in> set rows \<Longrightarrow> pt_Hash r \<noteq> [] \<Longrightarrow>
   knownTokens (Restore rows v) (pt_Hash r) = Some (remdups (pt_Capabilities r))"
proof (induction rows v rule: Restore.induct)
  case (2 x rows v)
  show ?case
  proof (cases "r = x")
    case True
    with 2 show ?thesis by (simp add: known_Restore_other)
  next
    case False
    with 2 show ?thesis by auto
  qed
qed simp

lemma root_Restore [simp]:
  "rootPubKey (Restore rows v) = rootPubKey v" "persister (Restore rows v) = persister v"
  by (induction rows v rule: Restore.induct) auto

text \<open>
  What a restart relies on: the rows loaded from the store have distinct hashes, a saved row that is
  still live is among them, and saving one token keeps the rows of the others.
\<close>

locale token_store =
  fixes save :: "'p saver"
    and load :: "time \<Rightarrow> 'p \<Rightarrow> PersistedToken list"
    and ok :: "'p \<Rightarrow> bool"
    and live :: "time \<Rightarrow> time \<Rightarrow> bool"
  assumes ok_save: "ok p \<Longrightarrow> ok (save h cs e p)"
    and load_distinct: "ok p \<Longrightarrow> distinct (map pt_Hash (load now p))"
    and load_saved: "ok p \<Longrightarrow> live e now \<Longrightarrow> \<lparr>pt_Hash = h, pt_Capabilities = cs\<rparr> \<in> set (load now (save h cs e p))"
    and load_kept: "ok p \<Longrightarrow> r \<in> set (load now p) \<Longrightarrow> pt_Hash r \<noteq> h \<Longrightarrow> r \<in> set (load now (save h cs e p))"
begin

lemma restored_saved:
  assumes "ok p" and "live e now" and "h \<noteq> []"
  shows "knownTokens (Restore (load now (save h cs e p)) v) h = Some (remdups cs)"
  using known_Restore[OF load_distinct[OF ok_save[OF assms(1)]] load_saved[OF assms(1,2)]] assms(3) by simp

lemma restored_kept:
  assumes "ok p" and "r \<in> set (load now p)" and "pt_Hash r \<noteq> h" and "pt_Hash r \<noteq> []"
  shows "knownTokens (Restore (load now (save h cs e p)) v) (pt_Hash r) = Some (remdups (pt_Capabilities r))"
  using known_Restore[OF load_distinct[OF ok_save[OF assms(1)]] load_kept[OF assms(1-3)] assms(4)] .

end

end
