(* ===== verification/TokenStore.thy ===== *)
theory TokenStore
  imports Store Ucan
begin

text \<open>
  The durable side of the token validator: \<open>sqliteTokenPersister.Save\<close>, \<open>loadKnownTokens\<close>, the
  root token file with its migration (\<open>loadBrokerRootToken\<close>), and the validator part of
  \<open>newBroker\<close>, all of \<^verbatim>\<open>src/broker_core.go\<close>, with the token files of \<^verbatim>\<open>src/auth_ucan_keys.go\<close>.
\<close>

text \<open>\<open>json.Marshal\<close> of a slice of strings does not fail.\<close>

definition Save :: "db saver" where
  "Save h caps expiresAt d = exec (SaveToken h (jsonStrings caps) (fmtRFC3339Nano expiresAt)) d"

definition decodeRow :: "tokenRow \<Rightarrow> PersistedToken option" where
  "decodeRow k = map_option (\<lambda>caps. \<lparr>pt_Hash = k_hash k, pt_Capabilities = caps\<rparr>) (readStrings (k_capabilities k))"

definition loadKnownTokens :: "time \<Rightarrow> db \<Rightarrow> PersistedToken list \<times> db" where
  "loadKnownTokens now d =
     (let n = fmtRFC3339Nano now; d1 = exec (PurgeTokens n) d
      in (case query (\<lambda>d. filter (\<lambda>k. n \<le> k_expires_at k) (known_tokens d)) d1 of
            Inl _ \<Rightarrow> [] | Inr rows \<Rightarrow> List.map_filter decodeRow rows, d1))"

section \<open>Token files\<close>

text \<open>The result of \<open>os.ReadFile\<close> on the token file is the argument.\<close>

definition LoadToken :: "string + string \<Rightarrow> string + string" where
  "LoadToken file = (case file of Inl e \<Rightarrow> Inl (''read token: '' @ e) | Inr dat \<Rightarrow> Inr (trimSpace dat))"

definition LoadRootToken :: "string + string \<Rightarrow> string + string" where
  "LoadRootToken file = (case file of Inl e \<Rightarrow> Inl (''read root token: '' @ e) | Inr dat \<Rightarrow> Inr (trimSpace dat))"

text \<open>
  \<open>unmarshal\<close> is \<open>json.Unmarshal\<close> into the struct of issuer and audience.  The second result is
  the content written to the root token file by the migration.
\<close>

definition isRootPayload :: "(string \<Rightarrow> (string \<times> string list) option) \<Rightarrow> string \<Rightarrow> bool" where
  "isRootPayload unmarshal token =
     (let parts = splitByte (CHR ''.'') token
      in length parts \<ge> 3 \<and>
         (case b64Decode (parts ! 1) of Inl _ \<Rightarrow> False
          | Inr payload \<Rightarrow> (case unmarshal payload of None \<Rightarrow> False
              | Some (iss, aud) \<Rightarrow> aud \<noteq> [] \<and> iss = hd aud)))"

definition loadBrokerRootToken ::
  "(string \<Rightarrow> (string \<times> string list) option) \<Rightarrow> string + string \<Rightarrow> string + string \<Rightarrow> (string + string) \<times> string option" where
  "loadBrokerRootToken unmarshal rootFile peerFile =
     (case LoadRootToken rootFile of
        Inr token \<Rightarrow> (Inr token, None)
      | Inl _ \<Rightarrow>
          (case LoadToken peerFile of
             Inl e \<Rightarrow> (Inl (''no root token or peer token found: '' @ e), None)
           | Inr token \<Rightarrow>
               if isRootPayload unmarshal token then (Inr token, Some token)
               else (Inl ''token.jwt is not a root token and root-token.jwt does not exist'', None)))"

section \<open>The validator at start-up\<close>

text \<open>
  \<open>kp\<close> and \<open>rootToken\<close> are the results of \<open>LoadKeyPair\<close> and \<open>loadBrokerRootToken\<close>.  Without a
  key pair the broker has a nil validator.
\<close>

definition startValidator ::
  "jwtLib \<Rightarrow> clock \<Rightarrow> string + KeyPair \<Rightarrow> string + string \<Rightarrow> db \<Rightarrow> TokenValidator option \<times> db" where
  "startValidator L clk kp rootToken d =
     (case kp of
        Inl _ \<Rightarrow> (None, d)
      | Inr k \<Rightarrow>
          let (rows, d1) = loadKnownTokens (clk 0) d;
              v1 = WithPersister True (Restore rows (NewTokenValidator (PublicKey k)))
          in (case rootToken of
                Inl _ \<Rightarrow> (Some v1, d1)
              | Inr t \<Rightarrow>
                  let (v2, d2) = RegisterToken L Save (clk 1) t AllCapabilities (v1, d1)
                  in (Some v2, d2)))"

section \<open>The SQLite store meets the contract\<close>

definition tokensOk :: "db \<Rightarrow> bool" where
  "tokensOk d \<longleftrightarrow> dbErr d = None \<and> unique_key k_hash (known_tokens d)"

definition notExpired :: "time \<Rightarrow> time \<Rightarrow> bool" where
  "notExpired e now \<longleftrightarrow> fmtRFC3339Nano now \<le> fmtRFC3339Nano e"

lemma decodeRow_hash: "decodeRow k = Some r \<Longrightarrow> pt_Hash r = k_hash k"
  by (auto simp: decodeRow_def)

lemma loaded_rows:
  "dbErr d = None \<Longrightarrow> fst (loadKnownTokens now d) =
     List.map_filter decodeRow (filter (\<lambda>k. fmtRFC3339Nano now \<le> k_expires_at k) (known_tokens d))"
  by (simp add: loadKnownTokens_def Let_def query_def exec_def delete_where_def not_less
      conj_commute cong: filter_cong)

lemma in_loaded_iff:
  "dbErr d = None \<Longrightarrow> r \<in> set (fst (loadKnownTokens now d)) \<longleftrightarrow>
     (\<exists>k \<in> set (known_tokens d). fmtRFC3339Nano now \<le> k_expires_at k \<and> decodeRow k = Some r)"
  by (auto simp: loaded_rows map_filter_def image_iff)

lemma distinct_map_filter_keys:
  "(\<And>x y. f x = Some y \<Longrightarrow> g y = h x) \<Longrightarrow> distinct (map h xs) \<Longrightarrow> distinct (map g (List.map_filter f xs))"
proof (induction xs)
  case (Cons x xs)
  have "g ` set (List.map_filter f xs) \<subseteq> h ` set xs"
    using Cons.prems(1) by (force simp: map_filter_def)
  with Cons show ?case by (cases "f x") (auto simp: map_filter_simps)
qed (simp add: map_filter_simps)

interpretation sqlite: token_store Save "\<lambda>now d. fst (loadKnownTokens now d)" tokensOk notExpired
proof
  fix p :: db and h cs e now r
  assume ok: "tokensOk p"
  then have up: "dbErr p = None" and u: "unique_key k_hash (known_tokens p)" by (auto simp: tokensOk_def)
  have saved: "dbErr (Save h cs e p) = None"
      "known_tokens (Save h cs e p) = upsert_row k_hash
         \<lparr>k_hash = h, k_capabilities = jsonStrings cs, k_expires_at = fmtRFC3339Nano e\<rparr> (known_tokens p)" for h cs e
    using up by (simp_all add: Save_def exec_def)
  show "tokensOk (Save h cs e p)" using u saved by (simp add: tokensOk_def unique_upsert_row)
  show "distinct (map pt_Hash (fst (loadKnownTokens now p)))"
    unfolding loaded_rows[OF up]
    by (rule distinct_map_filter_keys[OF decodeRow_hash]) (use u in \<open>auto simp: unique_key_def intro: distinct_map_filter\<close>)
  show "\<lparr>pt_Hash = h, pt_Capabilities = cs\<rparr> \<in> set (fst (loadKnownTokens now (Save h cs e p)))"
    if "notExpired e now"
    using that unfolding in_loaded_iff[OF saved(1)] saved(2)
    by (intro bexI[of _ "\<lparr>k_hash = h, k_capabilities = jsonStrings cs, k_expires_at = fmtRFC3339Nano e\<rparr>"])
      (auto simp: notExpired_def decodeRow_def strings_round_trip upsert_row_def in_update_where)
  show "r \<in> set (fst (loadKnownTokens now (Save h cs e p)))"
    if r: "r \<in> set (fst (loadKnownTokens now p))" "pt_Hash r \<noteq> h"
  proof -
    obtain k where k: "k \<in> set (known_tokens p)" "fmtRFC3339Nano now \<le> k_expires_at k" "decodeRow k = Some r"
      using r(1) in_loaded_iff[OF up] by auto
    have "k \<in> set (known_tokens (Save h cs e p))"
      using k(1) decodeRow_hash[OF k(3)] r(2) unfolding saved(2)
      by (auto simp: upsert_row_def in_update_where intro!: bexI[of _ k])
    with k show ?thesis using in_loaded_iff[OF saved(1)] by blast
  qed
qed

section \<open>Properties\<close>

lemma notExpired_secs:
  "calendarRange e \<Longrightarrow> calendarRange now \<Longrightarrow> secsOf now < secsOf e \<Longrightarrow> notExpired e now"
  using nano_less_of_secs[of now e] by (simp add: notExpired_def)

lemma snd_load_tokens: "dbErr d = None \<Longrightarrow> tokensOk d \<Longrightarrow> tokensOk (snd (loadKnownTokens now d))"
  by (simp add: loadKnownTokens_def Let_def tokensOk_def exec_def unique_delete_where)

lemma started_known:
  assumes "startValidator L clk (Inr k) rt d = (Some v, d')"
    and "knownTokens (Restore (fst (loadKnownTokens (clk 0) d)) (NewTokenValidator (PublicKey k))) h = Some cs"
  shows "\<exists>cs'. knownTokens v h = Some cs' \<and>
    set cs' = (if \<exists>t. rt = Inr t \<and> TokenHash L t = h then set (resources AllCapabilities) else set cs)"
  using assms by (auto simp: startValidator_def RegisterToken_def Let_def WithPersister_def split: sum.splits prod.splits)

text \<open>
  C31: a token survives a restart of the broker.  If a validator that writes through to the database
  accepts a token, then a broker started later from that database, in a second before the token's
  expiry, and with or without a root token to load, knows the token with exactly its capabilities, so that tokens
  delegated from it still validate; every other token that was restorable before stays restorable.  The one
  token whose capabilities are not taken from the database is the root token that the start loads, which has
  all of them.
\<close>

theorem token_survives_restart:
  assumes "jwtSound L" and "keysOk L" and "persister v" and "tokensOk d"
    and "Validate L Save now tok (v, d) = (Inr c, v', d')" and "c_ExpiresAt c = Some e"
    and "calendarRange e" and "calendarRange (clk 0)" and "secsOf (clk 0) < secsOf e"
    and "startValidator L clk (Inr k) rt d' = (Some v2, d2)"
  shows "(\<exists>cs. knownTokens v2 (TokenHash L tok) = Some cs \<and>
       set cs = (if \<exists>t. rt = Inr t \<and> TokenHash L t = TokenHash L tok then set (resources AllCapabilities) else capSet c)) \<and>
    (\<forall>r \<in> set (fst (loadKnownTokens (clk 0) d)). pt_Hash r \<noteq> [] \<and> pt_Hash r \<noteq> TokenHash L tok \<longrightarrow>
       (\<exists>cs. knownTokens v2 (pt_Hash r) = Some cs \<and>
          set cs = (if \<exists>t. rt = Inr t \<and> TokenHash L t = pt_Hash r then set (resources AllCapabilities) else set (pt_Capabilities r))))"
proof -
  let ?h = "TokenHash L tok" and ?cs = "resources (c_Capabilities c)"
  let ?R = "Restore (fst (loadKnownTokens (clk 0) d')) (NewTokenValidator (PublicKey k))"
  have v: "parseWithClaims L now (Some (30 * second)) issuerKey tok = Inr c"
      "(v', d') = RegisterToken L Save now tok (c_Capabilities c) (v, d)"
    using Validate_Inr[OF assms(5)] by auto
  have "parseUnverified L tok = Inr c" using assms(1) v(1) unfolding jwtSound_def by blast
  then have d': "d' = Save ?h ?cs e d"
    using v(2) assms(3,6) by (simp add: RegisterToken_def Let_def persistKnown_def extractTokenExpiry_def)
  have live: "notExpired e (clk 0)" using notExpired_secs assms(7-9) by blast
  have h: "?h \<noteq> []" using TokenHash_nonempty[OF assms(2)] .
  have "knownTokens ?R ?h = Some (remdups ?cs)" using sqlite.restored_saved[OF assms(4) live h] by (simp add: d')
  moreover have "set (remdups ?cs) = capSet c" by (simp add: capSet_def)
  ultimately have "\<exists>cs. knownTokens v2 ?h = Some cs \<and>
      set cs = (if \<exists>t. rt = Inr t \<and> TokenHash L t = ?h then set (resources AllCapabilities) else capSet c)"
    using started_known[OF assms(10), of ?h "remdups ?cs"] by (simp only:)
  moreover have "\<exists>cs. knownTokens v2 (pt_Hash r) = Some cs \<and>
      set cs = (if \<exists>t. rt = Inr t \<and> TokenHash L t = pt_Hash r then set (resources AllCapabilities) else set (pt_Capabilities r))"
    if "r \<in> set (fst (loadKnownTokens (clk 0) d))" "pt_Hash r \<noteq> ?h" "pt_Hash r \<noteq> []" for r
  proof -
    have "knownTokens ?R (pt_Hash r) = Some (remdups (pt_Capabilities r))"
      using sqlite.restored_kept[OF assms(4) that] by (simp add: d')
    from started_known[OF assms(10) this] show ?thesis by (simp only: set_remdups)
  qed
  ultimately show ?thesis by blast
qed

text \<open>A token of a peer, issued by the root for an hour.\<close>

definition childClaims :: UCANClaims where
  "childClaims = newClaims plainLib (5 * second) (pubKeyToString (plainPublic ''root'')) (pubKeyToString (plainPublic ''cli''))
     CLICapabilities hour (TokenHash plainLib (plainToken ''root'' sampleRootClaims))"

lemma childClaims_checks:
  "issuerKey childClaims = Inr (plainPublic ''root'')" "c_NotBefore childClaims = None"
  "c_ExpiresAt childClaims = Some (3605 * second)" "chainError (WithPersister True sampleValidator) childClaims = None"
proof -
  show "issuerKey childClaims = Inr (plainPublic ''root'')"
    by (simp add: issuerKey_Inr childClaims_def newClaims_def pubKey_round_trip[OF length_plainPublic])
  show "c_NotBefore childClaims = None" "c_ExpiresAt childClaims = Some (3605 * second)"
    by (simp_all add: childClaims_def newClaims_def numericDate_plain secsOf_def hour_def minute_def second_def)
  have "capSet childClaims \<subseteq> set (resources AllCapabilities)"
    by (auto simp: childClaims_def newClaims_def capSet_def resources_def CLICapabilities_def AllCapabilities_def capsOf_def)
  then show "chainError (WithPersister True sampleValidator) childClaims = None"
    using sample_mint(2) TokenHash_nonempty[OF plainLib_ok(4), of "plainToken ''root'' sampleRootClaims"]
    by (simp add: chainError_None childClaims_def newClaims_def WithPersister_def)
qed

theorem token_survives_restart_witness:
  "\<exists>v' d' v2 d2 cs. Validate plainLib Save (10 * second) (plainToken ''root'' childClaims)
       (WithPersister True sampleValidator, emptyDB) = (Inr childClaims, v', d') \<and>
     startValidator plainLib (\<lambda>_. 1800 * second) (Inr \<lparr>PrivateKey = ''root'', PublicKey = plainPublic ''root''\<rparr>)
       (Inr (plainToken ''root'' sampleRootClaims)) d' = (Some v2, d2) \<and>
     knownTokens v2 (TokenHash plainLib (plainToken ''root'' childClaims)) = Some cs"
proof -
  let ?t = "plainToken ''root'' childClaims" and ?v = "WithPersister True sampleValidator" and ?root = "plainToken ''root'' sampleRootClaims"
  let ?k = "\<lparr>PrivateKey = ''root'', PublicKey = plainPublic ''root''\<rparr>"
  have "parseWithClaims plainLib (10 * second) (Some (30 * second)) issuerKey ?t = Inr childClaims"
    by (rule parse_plain) (simp_all add: childClaims_checks, simp add: second_def)
  then obtain v' d' where 1: "Validate plainLib Save (10 * second) ?t (?v, emptyDB) = (Inr childClaims, v', d')"
    using childClaims_checks(4) by (auto simp: Validate_def accept_def RegisterToken_def Let_def)
  obtain v2 d2 where 2: "startValidator plainLib (\<lambda>_. 1800 * second) (Inr ?k) (Inr ?root) d' = (Some v2, d2)"
    by (cases "loadKnownTokens (1800 * second) d'") (simp add: startValidator_def RegisterToken_def Let_def)
  have "tokensOk emptyDB" by (simp add: tokensOk_def emptyDB_def unique_key_def)
  moreover have "calendarRange (3605 * second)" "calendarRange (1800 * second)" "secsOf (1800 * second) < secsOf (3605 * second)"
    by (simp_all add: calendarRange_def secsOf_def second_def)
  ultimately show ?thesis
    using token_survives_restart[OF plainLib_ok(1,4) _ _ 1 childClaims_checks(3) _ _ _ 2] 1 2
    by (auto simp: WithPersister_def)
qed

text \<open>
  The broker never adopts a peer token as its root token.  When only \<^verbatim>\<open>token.jwt\<close> exists, it is
  returned, and copied to the root token file, exactly when its payload names its own issuer as
  first audience; when a root token file exists it is used and nothing is written.
\<close>

theorem root_token_migration:
  "case rootFile of
     Inr dat \<Rightarrow> loadBrokerRootToken unmarshal rootFile peerFile = (Inr (trimSpace dat), None)
   | Inl e \<Rightarrow> (\<forall>t. fst (loadBrokerRootToken unmarshal rootFile peerFile) = Inr t \<longleftrightarrow>
        (\<exists>dat. peerFile = Inr dat \<and> t = trimSpace dat \<and> isRootPayload unmarshal t)) \<and>
       (\<forall>t. snd (loadBrokerRootToken unmarshal rootFile peerFile) = Some t \<longleftrightarrow>
        fst (loadBrokerRootToken unmarshal rootFile peerFile) = Inr t)"
  by (auto simp: loadBrokerRootToken_def LoadRootToken_def LoadToken_def split: sum.splits)

end
