(* ===== verification/Paths.thy ===== *)
theory Paths
  imports GoLib
begin

text \<open>
  The lexical path functions of package \<open>path/filepath\<close> on Unix that the sources call: \<open>Clean\<close>,
  \<open>Join\<close>, \<open>Base\<close>, \<open>Dir\<close>, \<open>Abs\<close> and \<open>Rel\<close>.  A path is processed by its elements between slashes,
  with the stack of elements that \<open>Clean\<close> keeps in its output buffer.
\<close>

abbreviation (input) sep :: char where "sep \<equiv> CHR ''/''"

abbreviation (input) nl :: string where "nl \<equiv> [CHR 0x0A]"

section \<open>Definitions\<close>

definition rooted :: "string \<Rightarrow> bool" where
  "rooted p \<longleftrightarrow> p \<noteq> [] \<and> hd p = sep"

definition pathElems :: "string \<Rightarrow> string list" where
  "pathElems p = filter (\<lambda>e. e \<noteq> [] \<and> e \<noteq> ''.'') (splitByte sep p)"

fun cleanElems :: "bool \<Rightarrow> string list \<Rightarrow> string list \<Rightarrow> string list" where
  "cleanElems r st [] = rev st"
| "cleanElems r st (e # es) =
     (if e = ''..'' then
        (case st of
           [] \<Rightarrow> cleanElems r (if r then [] else [''..'']) es
         | s # ss \<Rightarrow> if s = ''..'' then cleanElems r (''..'' # st) es else cleanElems r ss es)
      else cleanElems r (e # st) es)"

definition Clean :: "string \<Rightarrow> string" where
  "Clean p = (let es = cleanElems (rooted p) [] (pathElems p)
     in if rooted p then sep # joinStr ''/'' es
        else if es = [] then ''.'' else joinStr ''/'' es)"

definition Join :: "string list \<Rightarrow> string" where
  "Join elems = (case dropWhile (\<lambda>e. e = []) elems of
      [] \<Rightarrow> [] | es \<Rightarrow> Clean (joinStr ''/'' es))"

definition dropTrailing :: "string \<Rightarrow> string" where
  "dropTrailing p = rev (dropWhile (\<lambda>c. c = sep) (rev p))"

definition Base :: "string \<Rightarrow> string" where
  "Base p = (if p = [] then ''.''
     else let q = dropTrailing p; b = rev (takeWhile (\<lambda>c. c \<noteq> sep) (rev q))
          in if b = [] then ''/'' else b)"

text \<open>The part of a path up to and including its last slash.\<close>

definition dirPart :: "string \<Rightarrow> string" where
  "dirPart p = rev (dropWhile (\<lambda>c. c \<noteq> sep) (rev p))"

definition Dir :: "string \<Rightarrow> string" where
  "Dir p = Clean (dirPart p)"

text \<open>\<open>wd\<close> is the result of \<open>os.Getwd\<close>.\<close>

definition Abs :: "string + string \<Rightarrow> string \<Rightarrow> string + string" where
  "Abs wd p = (if rooted p then Inr (Clean p)
     else case wd of Inl e \<Rightarrow> Inl e | Inr d \<Rightarrow> Inr (Join [d, p]))"

definition relElems :: "string \<Rightarrow> string list" where
  "relElems p = (if rooted p then (if p = ''/'' then [] else splitByte sep (tl p))
     else if p = [] then [] else splitByte sep p)"

fun dropCommon :: "string list \<Rightarrow> string list \<Rightarrow> string list \<times> string list" where
  "dropCommon (b # bs) (t # ts) = (if b = t then dropCommon bs ts else (b # bs, t # ts))"
| "dropCommon bs ts = (bs, ts)"

definition Rel :: "string \<Rightarrow> string \<Rightarrow> string + string" where
  "Rel basepath targpath =
     (let base = Clean basepath; targ = Clean targpath
      in if targ = base then Inr ''.''
         else let base' = (if base = ''.'' then [] else base)
              in if rooted base' \<noteq> rooted targ
                 then Inl (''Rel: can't make '' @ targpath @ '' relative to '' @ basepath)
                 else let (bs, ts) = dropCommon (relElems base') (relElems targ)
                      in if bs \<noteq> [] \<and> hd bs = ''..''
                         then Inl (''Rel: can't make '' @ targpath @ '' relative to '' @ basepath)
                         else Inr (joinStr ''/'' (replicate (length bs) ''..'' @ ts)))"

section \<open>Elements\<close>

lemma joinStr_Cons: "joinStr s (x # xs) = (if xs = [] then x else x @ s @ joinStr s xs)"
  by (cases xs) auto

lemma splitByte_no_sep: "c \<notin> set s \<Longrightarrow> splitByte c s = [s]"
  by (induction s) auto

lemma splitByte_append_sep: "c \<notin> set s \<Longrightarrow> splitByte c (s @ c # t) = s # splitByte c t"
  by (induction s) auto

text \<open>A list of proper path elements, as \<open>Clean\<close> leaves them in a rooted path.\<close>

definition plainElem :: "string \<Rightarrow> bool" where
  "plainElem e \<longleftrightarrow> e \<noteq> [] \<and> e \<noteq> ''.'' \<and> e \<noteq> ''..'' \<and> sep \<notin> set e"

definition absPath :: "string list \<Rightarrow> string" where
  "absPath es = sep # joinStr ''/'' es"

lemma splitByte_join:
  "es \<noteq> [] \<Longrightarrow> \<forall>e \<in> set es. c \<notin> set e \<Longrightarrow> splitByte c (joinStr [c] es) = es"
  by (induction es) (auto simp: joinStr_Cons splitByte_no_sep splitByte_append_sep)

lemma pathElems_absPath:
  assumes "list_all plainElem es"
  shows "pathElems (absPath es) = es"
proof (cases "es = []")
  case False
  then have "splitByte sep (joinStr ''/'' es) = es"
    using assms by (intro splitByte_join) (auto simp: list_all_iff plainElem_def)
  moreover have "filter (\<lambda>e. e \<noteq> [] \<and> e \<noteq> ''.'') es = es"
    using assms by (auto simp: list_all_iff plainElem_def filter_id_conv)
  ultimately show ?thesis by (simp add: pathElems_def absPath_def)
qed (simp add: pathElems_def absPath_def)

lemma cleanElems_plain: "list_all plainElem es \<Longrightarrow> cleanElems r st es = rev st @ es"
  by (induction es arbitrary: st) (auto simp: plainElem_def)

lemma rooted_absPath [simp]: "rooted (absPath es)"
  by (simp add: rooted_def absPath_def)

lemma Clean_absPath: "list_all plainElem es \<Longrightarrow> Clean (absPath es) = absPath es"
  by (simp add: Clean_def pathElems_absPath cleanElems_plain) (simp add: absPath_def)

lemma cleanElems_rooted_plain:
  assumes "\<forall>e \<in> set es. e \<noteq> [] \<and> e \<noteq> ''.'' \<and> sep \<notin> set e" and "list_all plainElem st"
  shows "list_all plainElem (cleanElems True st es)"
  using assms
proof (induction es arbitrary: st)
  case (Cons e es)
  show ?case
  proof (cases "e = ''..''")
    case True
    then show ?thesis using Cons by (cases st) (auto simp: plainElem_def)
  next
    case False
    then have "plainElem e" using Cons.prems by (simp add: plainElem_def)
    with Cons.prems have "list_all plainElem (e # st)" by simp
    with Cons False show ?thesis by simp
  qed
qed (simp add: list_all_iff)

lemma pathElems_ok: "e \<in> set (pathElems p) \<Longrightarrow> e \<noteq> [] \<and> e \<noteq> ''.'' \<and> sep \<notin> set e"
  by (auto simp: pathElems_def dest: splitByte_parts)

text \<open>Every rooted path is cleaned to slash-separated plain elements, and cleaning is idempotent.\<close>

lemma Clean_rooted:
  assumes "rooted p"
  obtains es where "list_all plainElem es" and "Clean p = absPath es"
proof
  show "list_all plainElem (cleanElems True [] (pathElems p))"
    by (rule cleanElems_rooted_plain) (auto dest: pathElems_ok)
  show "Clean p = absPath (cleanElems True [] (pathElems p))"
    using assms by (simp add: Clean_def absPath_def)
qed

lemma Clean_idem_rooted: "rooted p \<Longrightarrow> Clean (Clean p) = Clean p"
  by (metis Clean_absPath Clean_rooted)

lemma absPath_inj:
  assumes "list_all plainElem es" "list_all plainElem fs"
  shows "absPath es = absPath fs \<longleftrightarrow> es = fs"
  by (metis assms pathElems_absPath)

section \<open>The parent directory\<close>

lemma joinStr_snoc: "joinStr s (es @ [e]) = (if es = [] then e else joinStr s es @ s @ e)"
  by (induction es) (auto simp: joinStr_Cons)

lemma dropWhile_no_sep: "sep \<notin> set e \<Longrightarrow> dropWhile (\<lambda>c. c \<noteq> sep) (rev e @ r) = dropWhile (\<lambda>c. c \<noteq> sep) r"
  by (rule dropWhile_append2) auto

lemma dirPart_snoc:
  assumes "sep \<notin> set e"
  shows "dirPart (absPath (es @ [e])) = (if es = [] then ''/'' else absPath es @ ''/'')"
  using dropWhile_no_sep[OF assms, of "rev (sep # joinStr ''/'' es) @ [sep]"]
    dropWhile_no_sep[OF assms, of "[sep]"] dropWhile_no_sep[OF assms, of "sep # rev (joinStr ''/'' es) @ [sep]"]
  by (auto simp: dirPart_def absPath_def joinStr_snoc)

lemma splitByte_append_end: "splitByte c (s @ [c]) = splitByte c s @ [[]]"
proof (induction s)
  case (Cons x s)
  then show ?case by (cases "splitByte c s") auto
qed simp

lemma pathElems_trailing: "pathElems (p @ ''/'') = pathElems p"
  by (simp add: pathElems_def splitByte_append_end)

lemma Dir_absPath:
  assumes "list_all plainElem (es @ [e])"
  shows "Dir (absPath (es @ [e])) = absPath es"
proof -
  have e: "sep \<notin> set e" and es: "list_all plainElem es" using assms by (auto simp: plainElem_def)
  have "rooted (absPath es @ ''/'')" by (simp add: rooted_def absPath_def)
  then have "Clean (absPath es @ ''/'') = absPath es"
    by (simp add: Clean_def pathElems_trailing pathElems_absPath[OF es] cleanElems_plain[OF es])
      (simp add: absPath_def)
  moreover have "Clean ''/'' = absPath []" using Clean_absPath[of "[]"] by (simp add: absPath_def)
  ultimately show ?thesis by (simp add: Dir_def dirPart_snoc[OF e])
qed

lemma Dir_root: "Dir (absPath []) = absPath []"
  by (simp add: Dir_def dirPart_def absPath_def Clean_def pathElems_def rooted_def)

section \<open>The parent is shorter\<close>

text \<open>
  A walk towards the root ends because the parent of a path that is not its own parent is
  shorter, apart from the paths whose parent is the dot; \<open>climb\<close> is a measure for it.
\<close>

fun weight :: "string list \<Rightarrow> nat" where
  "weight [] = 0"
| "weight (e # es) = Suc (length e) + weight es"

lemma weight_append [simp]: "weight (a @ b) = weight a + weight b"
  by (induction a) auto

lemma weight_rev [simp]: "weight (rev es) = weight es"
  by (induction es) auto

lemma length_joinStr: "es \<noteq> [] \<Longrightarrow> Suc (length (joinStr ''/'' es)) = weight es"
  by (induction es) (auto simp: joinStr_Cons)

lemma weight_splitByte: "weight (splitByte c s) = Suc (length s)"
proof (induction s)
  case (Cons x s)
  then show ?case by (cases "splitByte c s") auto
qed simp

lemma weight_filter: "weight (filter P es) \<le> weight es"
  by (induction es) auto

lemma weight_cleanElems: "weight (cleanElems r st es) \<le> weight st + weight es"
proof (induction r st es rule: cleanElems.induct)
  case (2 r st e es)
  then show ?case by (cases st) force+
qed simp

lemma weight_pathElems_trailing: "weight (pathElems (p @ ''/'')) \<le> Suc (length p)"
  unfolding pathElems_trailing
  using weight_filter[of "\<lambda>e. e \<noteq> [] \<and> e \<noteq> ''.''" "splitByte sep p"]
  by (simp add: pathElems_def weight_splitByte)

lemma weight_pathElems_rooted: "weight (pathElems (sep # p @ ''/'')) \<le> Suc (length p)"
proof -
  have "pathElems (sep # p @ ''/'') = pathElems (p @ ''/'')" by (simp add: pathElems_def)
  then show ?thesis using weight_pathElems_trailing[of p] by simp
qed

lemma length_Clean_trailing:
  assumes "p \<noteq> []"
  shows "length (Clean (p @ ''/'')) \<le> length p"
proof (cases "rooted (p @ ''/'')")
  case True
  then obtain q where p: "p = sep # q" using assms by (cases p) (auto simp: rooted_def)
  let ?es = "cleanElems True [] (pathElems (p @ ''/''))"
  have "weight ?es \<le> Suc (length q)"
    using weight_cleanElems[of True "[]" "pathElems (p @ ''/'')"] weight_pathElems_rooted[of q]
    by (simp add: p)
  then show ?thesis using True length_joinStr[of ?es] p
    by (cases "?es = []") (simp_all add: Clean_def)
next
  case False
  let ?es = "cleanElems False [] (pathElems (p @ ''/''))"
  have "weight ?es \<le> Suc (length p)"
    using weight_cleanElems[of False "[]" "pathElems (p @ ''/'')"] weight_pathElems_trailing[of p] by simp
  then show ?thesis using False length_joinStr[of ?es] assms
    by (cases "?es = []") (auto simp: Clean_def Suc_le_eq)
qed

lemma dirPart_cases:
  obtains "dirPart p = []" | q where "dirPart p = q @ ''/''" "Suc (length q) \<le> length p"
proof (cases "dirPart p = []")
  case False
  let ?d = "dropWhile (\<lambda>c. c \<noteq> sep) (rev p)"
  have "?d \<noteq> []" using False by (simp add: dirPart_def)
  then have "hd ?d = sep" using hd_dropWhile[of "\<lambda>c. c \<noteq> sep" "rev p"] by simp
  then obtain t where t: "?d = sep # t" using \<open>?d \<noteq> []\<close> by (cases ?d) auto
  have "length ?d \<le> length p" using length_dropWhile_le[of _ "rev p"] by simp
  then show thesis using that(2)[of "rev t"] t by (simp add: dirPart_def)
qed

definition climb :: "string \<Rightarrow> nat" where
  "climb d = (if d = ''.'' then 0 else if d = [] then 2 else Suc (length d))"

lemma climb_Dir: "Dir d \<noteq> d \<Longrightarrow> climb (Dir d) < climb d"
proof (cases rule: dirPart_cases[of d])
  assume ne: "Dir d \<noteq> d"
  {
    case 1
    then have "Dir d = ''.''" by (simp add: Dir_def Clean_def pathElems_def rooted_def)
    then show ?thesis using ne by (auto simp: climb_def)
  next
    case (2 q)
    show ?thesis
    proof (cases "q = []")
      case True
      then have r: "Dir d = ''/''" using 2 by (simp add: Dir_def Clean_def pathElems_def rooted_def)
      have "d \<noteq> ''.''" using 2 by (auto simp: dirPart_def)
      moreover have "d \<noteq> []" using 2 by (auto simp: dirPart_def)
      moreover have "length d \<noteq> 1"
      proof
        assume "length d = 1"
        then obtain c where "d = [c]" by (auto simp: length_Suc_conv)
        then show False using ne r 2 True by (cases "c = sep") (auto simp: dirPart_def)
      qed
      ultimately show ?thesis using r by (cases d) (auto simp: climb_def)
    next
      case False
      have "length (Dir d) \<le> length q" using length_Clean_trailing[OF False] 2 by (simp add: Dir_def)
      moreover have "d \<noteq> ''.''" "d \<noteq> []" using 2 by (auto simp: dirPart_def)
      moreover have "Suc 0 < length d" using False 2 by (cases q) auto
      ultimately show ?thesis using 2 by (auto simp: climb_def)
    qed
  }
qed

section \<open>Relative paths\<close>

lemma relElems_absPath: "list_all plainElem es \<Longrightarrow> relElems (absPath es) = es"
  using splitByte_join[of es sep]
  by (cases es) (auto simp: relElems_def absPath_def rooted_def list_all_iff plainElem_def joinStr_Cons)

lemma dropCommon_split:
  "\<exists>c. bs = c @ fst (dropCommon bs ts) \<and> ts = c @ snd (dropCommon bs ts) \<and>
     (fst (dropCommon bs ts) = [] \<or> snd (dropCommon bs ts) = [] \<or>
      hd (fst (dropCommon bs ts)) \<noteq> hd (snd (dropCommon bs ts)))"
proof (induction bs ts rule: dropCommon.induct)
  case (1 b bs t ts)
  then show ?case by (cases "b = t") (auto intro: exI[of _ "b # _"])
qed auto

lemma dropCommon_append: "dropCommon c (c @ ts) = ([], ts)"
proof (induction c)
  case Nil
  then show ?case by (cases ts) auto
qed simp

lemma hasPrefix_first_elem:
  assumes "plainElem t"
  shows "hasPrefix (joinStr ''/'' (t # ts)) ''..'' \<longleftrightarrow> hasPrefix t ''..''"
proof -
  obtain c r where t: "t = c # r" using assms by (cases t) (auto simp: plainElem_def)
  show ?thesis by (cases r) (auto simp: t joinStr_Cons hasPrefix_def)
qed

lemma Rel_absPath:
  assumes "list_all plainElem hs" "list_all plainElem es"
  shows "Rel (absPath hs) (absPath es) =
    (if es = hs then Inr ''.''
     else let (bs, ts) = dropCommon hs es in Inr (joinStr ''/'' (replicate (length bs) ''..'' @ ts)))"
proof -
  obtain c where "hs = c @ fst (dropCommon hs es)" using dropCommon_split by blast
  then have "list_all plainElem (fst (dropCommon hs es))" using assms by (metis list_all_append)
  then have "fst (dropCommon hs es) \<noteq> [] \<Longrightarrow> hd (fst (dropCommon hs es)) \<noteq> ''..''"
    by (cases "fst (dropCommon hs es)") (auto simp: plainElem_def)
  moreover have "absPath hs \<noteq> ''.''" by (simp add: absPath_def)
  ultimately show ?thesis
    using assms absPath_inj[of es hs]
    by (simp add: Rel_def Clean_absPath relElems_absPath Let_def split_beta) blast
qed

end
