(* ===== verification/Files.thy ===== *)
theory Files
  imports Paths
begin

text \<open>
  The file operations of package \<open>os\<close> as the command line and the MCP server use them: a file
  system is the content of its files, with the errors that reading, writing, renaming or removing a
  path meets.  Permissions are part of those errors; directories are implicit, the error of
  \<open>os.MkdirAll\<close> is a field of its own.  The contract \<open>file_store\<close> says what a program that keeps a
  value in a file relies on.
\<close>

record fs =
  fileContent :: "string \<Rightarrow> string option"
  readErr :: "string \<Rightarrow> string option"
  writeErr :: "string \<Rightarrow> string option"
  renameErr :: "string \<Rightarrow> string option"
  mkdirErr :: "string \<Rightarrow> string option"
  removeErr :: "string \<Rightarrow> string option"

definition ReadFile :: "string \<Rightarrow> fs \<Rightarrow> string + string" where
  "ReadFile p s = (case readErr s p of
      Some e \<Rightarrow> Inl e
    | None \<Rightarrow> (case fileContent s p of
        None \<Rightarrow> Inl (''open '' @ p @ '': no such file or directory'')
      | Some dat \<Rightarrow> Inr dat))"

definition WriteFile :: "string \<Rightarrow> string \<Rightarrow> fs \<Rightarrow> string option \<times> fs" where
  "WriteFile p dat s = (case writeErr s p of
      Some e \<Rightarrow> (Some e, s)
    | None \<Rightarrow> (None, s\<lparr>fileContent := (fileContent s)(p \<mapsto> dat)\<rparr>))"

definition MkdirAll :: "string \<Rightarrow> fs \<Rightarrow> string option \<times> fs" where
  "MkdirAll d s = (mkdirErr s d, s)"

definition Remove :: "string \<Rightarrow> fs \<Rightarrow> string option \<times> fs" where
  "Remove p s = (case removeErr s p of
      Some e \<Rightarrow> (Some e, s)
    | None \<Rightarrow> (case fileContent s p of
        None \<Rightarrow> (Some (''remove '' @ p @ '': no such file or directory''), s)
      | Some dat \<Rightarrow> (None, s\<lparr>fileContent := (fileContent s)(p := None)\<rparr>)))"

definition Rename :: "string \<Rightarrow> string \<Rightarrow> fs \<Rightarrow> string option \<times> fs" where
  "Rename old new s = (case renameErr s new of
      Some e \<Rightarrow> (Some e, s)
    | None \<Rightarrow> (case fileContent s old of
        None \<Rightarrow> (Some (''rename '' @ old @ '' '' @ new @ '': no such file or directory''), s)
      | Some dat \<Rightarrow> (None, s\<lparr>fileContent := (fileContent s)(new \<mapsto> dat, old := None)\<rparr>)))"

text \<open>The replacement of a file through a temporary one beside it.\<close>

definition replaceFile :: "string \<Rightarrow> string \<Rightarrow> fs \<Rightarrow> string option \<times> fs" where
  "replaceFile p dat s =
     (let tmp = p @ ''.tmp''; (e, s1) = WriteFile tmp dat s
      in if e \<noteq> None then (e, s1)
         else let (e2, s2) = Rename tmp p s1
              in if e2 \<noteq> None then (e2, snd (Remove tmp s2)) else (None, s2))"

section \<open>The contract of a file store\<close>

locale file_store =
  fixes rd :: "'p \<Rightarrow> 's \<Rightarrow> 'e + 'd"
    and wr :: "'p \<Rightarrow> 'd \<Rightarrow> 's \<Rightarrow> 'e option \<times> 's"
    and readable :: "'p \<Rightarrow> 's \<Rightarrow> bool"
    and apart :: "'p \<Rightarrow> 'p \<Rightarrow> bool"
  assumes read_back: "fst (wr p d s) = None \<Longrightarrow> readable p s \<Longrightarrow> rd p (snd (wr p d s)) = Inr d"
    and read_other: "apart p q \<Longrightarrow> rd q (snd (wr p d s)) = rd q s"
    and read_failed: "fst (wr p d s) \<noteq> None \<Longrightarrow> readable p s \<Longrightarrow> rd p (snd (wr p d s)) = rd p s"
    and readable_wr: "readable q (snd (wr p d s)) = readable q s"
begin

text \<open>What a reader of one path sees is the last value whose write succeeded.\<close>

definition saveAll :: "'p \<Rightarrow> 'd list \<Rightarrow> 's \<Rightarrow> 's" where
  "saveAll p ds s = fold (\<lambda>d s. snd (wr p d s)) ds s"

lemma never_torn:
  assumes "readable p s"
  shows "rd p (saveAll p ds s) = rd p s \<or> (\<exists>d \<in> set ds. rd p (saveAll p ds s) = Inr d)"
  using assms
proof (induction ds arbitrary: s)
  case (Cons d ds)
  have "readable p (snd (wr p d s))" using Cons.prems by (simp add: readable_wr)
  note later = Cons.IH[OF this]
  show ?case
  proof (cases "fst (wr p d s) = None")
    case True
    then show ?thesis using later read_back[of p d s] Cons.prems by (auto simp: saveAll_def)
  next
    case False
    then show ?thesis using later read_failed[of p d s] Cons.prems by (auto simp: saveAll_def)
  qed
qed (simp add: saveAll_def)

end

lemma read_after_write:
  "fst (WriteFile p dat s) = None \<Longrightarrow> readErr s p = None \<Longrightarrow> ReadFile p (snd (WriteFile p dat s)) = Inr dat"
  by (auto simp: WriteFile_def ReadFile_def split: option.splits)

lemma read_other_write: "p \<noteq> q \<Longrightarrow> ReadFile q (snd (WriteFile p dat s)) = ReadFile q s"
  by (auto simp: WriteFile_def ReadFile_def split: option.splits)

lemma WriteFile_errs [simp]:
  "readErr (snd (WriteFile p dat s)) = readErr s" "writeErr (snd (WriteFile p dat s)) = writeErr s"
  "renameErr (snd (WriteFile p dat s)) = renameErr s" "mkdirErr (snd (WriteFile p dat s)) = mkdirErr s"
  "removeErr (snd (WriteFile p dat s)) = removeErr s"
  by (auto simp: WriteFile_def split: option.splits)

lemma write_ok: "writeErr s p = None \<Longrightarrow> fst (WriteFile p dat s) = None"
  by (simp add: WriteFile_def)

interpretation plain_files: file_store ReadFile WriteFile "\<lambda>p s. readErr s p = None" "(\<noteq>)"
  by unfold_locales
    (simp_all add: read_after_write read_other_write, auto simp: WriteFile_def ReadFile_def split: option.splits)

lemma tmp_apart [simp]: "p @ ''.tmp'' \<noteq> p" "p \<noteq> p @ ''.tmp''"
  by (metis append_self_conv list.distinct(1))+

lemma replaceFile_cases:
  "replaceFile p dat s =
     (case writeErr s (p @ ''.tmp'') of
        Some e \<Rightarrow> (Some e, s)
      | None \<Rightarrow> (case renameErr s p of
          Some e \<Rightarrow> (Some e, s\<lparr>fileContent := (fileContent s)(p @ ''.tmp'' := (if removeErr s (p @ ''.tmp'') = None then None else Some dat))\<rparr>)
        | None \<Rightarrow> (None, s\<lparr>fileContent := (fileContent s)(p \<mapsto> dat, p @ ''.tmp'' := None)\<rparr>)))"
  by (auto simp: replaceFile_def WriteFile_def Rename_def Remove_def Let_def fun_upd_twist split: option.splits)

interpretation replaced_files: file_store ReadFile replaceFile "\<lambda>p s. readErr s p = None"
  "\<lambda>p q. q \<noteq> p \<and> q \<noteq> p @ ''.tmp''"
  by unfold_locales (auto simp: replaceFile_cases ReadFile_def split: option.splits)

text \<open>A file system without errors, and the rules that evaluate paths.\<close>

definition sampleFs :: "(string \<times> string) list \<Rightarrow> fs" where
  "sampleFs fs = \<lparr>fileContent = map_of fs, readErr = (\<lambda>_. None), writeErr = (\<lambda>_. None),
     renameErr = (\<lambda>_. None), mkdirErr = (\<lambda>_. None), removeErr = (\<lambda>_. None)\<rparr>"

lemmas path_eval = Clean_def rooted_def pathElems_def Let_def Join_def absPath_def
  hasPrefix_def trimPrefix_def

end
