(* ===== verification/KeyFiles.thy ===== *)
theory KeyFiles
  imports TokenStore Files
begin

text \<open>
  \<^verbatim>\<open>src/auth_ucan_keys.go\<close>: the key pair, the public key and the token files of a configuration
  directory.  The X.509 and PEM encodings are the fields of \<open>pemLib\<close>; \<open>pemOk\<close> says what is relied
  on, that what was encoded is decoded again.
\<close>

text \<open>
  \<open>marshalPriv\<close>, \<open>marshalPub\<close>, \<open>parsePriv\<close> and \<open>parsePub\<close> are the functions of \<open>crypto/x509\<close>, where a
  parsed key that is not an ed25519 key is \<open>Inr None\<close>; \<open>pemEncode\<close> is \<open>pem.EncodeToMemory\<close> of a block
  type and its bytes, and \<open>pemDecode\<close> gives the bytes of the first block.
\<close>

record pemLib =
  marshalPriv :: "bytes \<Rightarrow> string + bytes"
  marshalPub :: "bytes \<Rightarrow> string + bytes"
  parsePriv :: "bytes \<Rightarrow> string + bytes option"
  parsePub :: "bytes \<Rightarrow> string + bytes option"
  pemEncode :: "string \<Rightarrow> bytes \<Rightarrow> string"
  pemDecode :: "string \<Rightarrow> bytes option"

definition pemOk :: "pemLib \<Rightarrow> bool" where
  "pemOk P \<longleftrightarrow> (\<forall>ty b. pemDecode P (pemEncode P ty b) = Some b) \<and>
     (\<forall>k b. marshalPriv P k = Inr b \<longrightarrow> parsePriv P b = Inr (Some k)) \<and>
     (\<forall>k b. marshalPub P k = Inr b \<longrightarrow> parsePub P b = Inr (Some k))"

definition privateKeyFile :: string where "privateKeyFile = ''identity.pem''"
definition publicKeyFile :: string where "publicKeyFile = ''identity.pub''"
definition rootPubKeyFile :: string where "rootPubKeyFile = ''root.pub''"
definition tokenFile :: string where "tokenFile = ''token.jwt''"
definition rootTokenName :: string where "rootTokenName = ''root-token.jwt''"

section \<open>Operations\<close>

text \<open>\<open>gen\<close> is the result of \<open>ed25519.GenerateKey\<close>: the public and the private key.\<close>

definition GenerateKeyPair :: "string + bytes \<times> bytes \<Rightarrow> string + KeyPair" where
  "GenerateKeyPair gen = (case gen of
      Inl e \<Rightarrow> Inl (''generate ed25519 key: '' @ e)
    | Inr (pub, priv) \<Rightarrow> Inr \<lparr>PrivateKey = priv, PublicKey = pub\<rparr>)"

definition SaveKeyPair :: "pemLib \<Rightarrow> KeyPair \<Rightarrow> string \<Rightarrow> fs \<Rightarrow> string option \<times> fs" where
  "SaveKeyPair P kp dir s = (case marshalPriv P (PrivateKey kp) of
      Inl e \<Rightarrow> (Some (''marshal private key: '' @ e), s)
    | Inr privBytes \<Rightarrow>
        (case WriteFile (Join [dir, privateKeyFile]) (pemEncode P ''PRIVATE KEY'' privBytes) s of
           (Some e, s1) \<Rightarrow> (Some (''write private key: '' @ e), s1)
         | (None, s1) \<Rightarrow>
             (case marshalPub P (PublicKey kp) of
                Inl e \<Rightarrow> (Some (''marshal public key: '' @ e), s1)
              | Inr pubBytes \<Rightarrow>
                  (case WriteFile (Join [dir, publicKeyFile]) (pemEncode P ''PUBLIC KEY'' pubBytes) s1 of
                     (Some e, s2) \<Rightarrow> (Some (''write public key: '' @ e), s2)
                   | (None, s2) \<Rightarrow> (None, s2)))))"

definition LoadPublicKey :: "pemLib \<Rightarrow> string \<Rightarrow> fs \<Rightarrow> string + bytes" where
  "LoadPublicKey P path s = (case ReadFile path s of
      Inl e \<Rightarrow> Inl (''read public key: '' @ e)
    | Inr dat \<Rightarrow>
        (case pemDecode P dat of
           None \<Rightarrow> Inl ''decode public key PEM''
         | Some block \<Rightarrow>
             (case parsePub P block of
                Inl e \<Rightarrow> Inl (''parse public key: '' @ e)
              | Inr None \<Rightarrow> Inl ''public key is not ed25519''
              | Inr (Some pub) \<Rightarrow> Inr pub)))"

definition loadPrivateKey :: "pemLib \<Rightarrow> string \<Rightarrow> fs \<Rightarrow> string + bytes" where
  "loadPrivateKey P path s = (case ReadFile path s of
      Inl e \<Rightarrow> Inl (''read private key: '' @ e)
    | Inr dat \<Rightarrow>
        (case pemDecode P dat of
           None \<Rightarrow> Inl ''decode private key PEM''
         | Some block \<Rightarrow>
             (case parsePriv P block of
                Inl e \<Rightarrow> Inl (''parse private key: '' @ e)
              | Inr None \<Rightarrow> Inl ''private key is not ed25519''
              | Inr (Some priv) \<Rightarrow> Inr priv)))"

definition LoadKeyPair :: "pemLib \<Rightarrow> string \<Rightarrow> fs \<Rightarrow> string + KeyPair" where
  "LoadKeyPair P dir s = (case loadPrivateKey P (Join [dir, privateKeyFile]) s of
      Inl e \<Rightarrow> Inl e
    | Inr priv \<Rightarrow>
        (case LoadPublicKey P (Join [dir, publicKeyFile]) s of
           Inl e \<Rightarrow> Inl e
         | Inr pub \<Rightarrow> Inr \<lparr>PrivateKey = priv, PublicKey = pub\<rparr>))"

definition SavePublicKey :: "pemLib \<Rightarrow> bytes \<Rightarrow> string \<Rightarrow> fs \<Rightarrow> string option \<times> fs" where
  "SavePublicKey P pub path s = (case marshalPub P pub of
      Inl e \<Rightarrow> (Some (''marshal public key: '' @ e), s)
    | Inr pubBytes \<Rightarrow> WriteFile path (pemEncode P ''PUBLIC KEY'' pubBytes) s)"

definition SaveTokenFile :: "string \<Rightarrow> string \<Rightarrow> fs \<Rightarrow> string option \<times> fs" where
  "SaveTokenFile token dir s = WriteFile (Join [dir, tokenFile]) token s"

definition SaveRootToken :: "string \<Rightarrow> string \<Rightarrow> fs \<Rightarrow> string option \<times> fs" where
  "SaveRootToken token dir s = WriteFile (Join [dir, rootTokenName]) token s"

abbreviation loadTokenIn :: "string \<Rightarrow> fs \<Rightarrow> string + string" where
  "loadTokenIn dir s \<equiv> LoadToken (ReadFile (Join [dir, tokenFile]) s)"

abbreviation loadRootTokenIn :: "string \<Rightarrow> fs \<Rightarrow> string + string" where
  "loadRootTokenIn dir s \<equiv> LoadRootToken (ReadFile (Join [dir, rootTokenName]) s)"

section \<open>The files of a directory\<close>

lemma cleanElems_snoc:
  assumes "e \<noteq> ''..''"
  shows "cleanElems r st (es @ [e]) = cleanElems r st es @ [e]"
  using assms
proof (induction es arbitrary: st)
  case (Cons x es)
  then show ?case by (cases st) auto
qed simp

lemma splitByte_sep_last:
  "sep \<notin> set f \<Longrightarrow> splitByte sep (d @ sep # f) = splitByte sep d @ [f]"
proof (induction d)
  case (Cons x d)
  then show ?case by (cases "splitByte sep d") auto
qed (simp add: splitByte_no_sep)

lemma Clean_file:
  assumes "p \<noteq> []" "plainElem f"
  shows "Clean (p @ sep # f) =
    (if rooted p then [sep] else []) @ joinStr ''/'' (cleanElems (rooted p) [] (pathElems p) @ [f])"
proof -
  have "pathElems (p @ sep # f) = pathElems p @ [f]"
    using assms(2) by (simp add: pathElems_def splitByte_sep_last plainElem_def)
  moreover have "rooted (p @ sep # f) = rooted p" using assms(1) by (auto simp: rooted_def)
  ultimately show ?thesis using assms(2) by (simp add: Clean_def cleanElems_snoc plainElem_def)
qed

lemma Clean_file_nonempty: "p \<noteq> [] \<Longrightarrow> plainElem f \<Longrightarrow> Clean (p @ sep # f) \<noteq> []"
  by (simp add: Clean_file joinStr_snoc plainElem_def)

lemma Join_inj:
  assumes "plainElem a" "plainElem b" "dir \<noteq> []"
  shows "Join [dir, a] = Join [dir, b] \<longleftrightarrow> a = b"
  using assms Clean_file[OF assms(3,1)] Clean_file[OF assms(3,2)] by (simp add: Join_def joinStr_snoc)

lemma file_names [simp]:
  "plainElem privateKeyFile" "plainElem publicKeyFile" "plainElem rootPubKeyFile"
  "plainElem tokenFile" "plainElem rootTokenName"
  by (simp_all add: plainElem_def privateKeyFile_def publicKeyFile_def rootPubKeyFile_def
      tokenFile_def rootTokenName_def)

lemma files_apart:
  "dir \<noteq> [] \<Longrightarrow> Join [dir, privateKeyFile] \<noteq> Join [dir, publicKeyFile]"
  "dir \<noteq> [] \<Longrightarrow> Join [dir, privateKeyFile] \<noteq> Join [dir, rootPubKeyFile]"
  "dir \<noteq> [] \<Longrightarrow> Join [dir, privateKeyFile] \<noteq> Join [dir, tokenFile]"
  "dir \<noteq> [] \<Longrightarrow> Join [dir, privateKeyFile] \<noteq> Join [dir, rootTokenName]"
  "dir \<noteq> [] \<Longrightarrow> Join [dir, publicKeyFile] \<noteq> Join [dir, rootPubKeyFile]"
  "dir \<noteq> [] \<Longrightarrow> Join [dir, publicKeyFile] \<noteq> Join [dir, tokenFile]"
  "dir \<noteq> [] \<Longrightarrow> Join [dir, publicKeyFile] \<noteq> Join [dir, rootTokenName]"
  "dir \<noteq> [] \<Longrightarrow> Join [dir, rootPubKeyFile] \<noteq> Join [dir, tokenFile]"
  "dir \<noteq> [] \<Longrightarrow> Join [dir, rootPubKeyFile] \<noteq> Join [dir, rootTokenName]"
  "dir \<noteq> [] \<Longrightarrow> Join [dir, tokenFile] \<noteq> Join [dir, rootTokenName]"
  unfolding privateKeyFile_def publicKeyFile_def rootPubKeyFile_def tokenFile_def rootTokenName_def
  by (subst Join_inj; simp add: plainElem_def)+

lemma WriteFile_None:
  "WriteFile p dat s = (None, s') \<longleftrightarrow>
     writeErr s p = None \<and> s' = s\<lparr>fileContent := (fileContent s)(p \<mapsto> dat)\<rparr>"
  by (auto simp: WriteFile_def split: option.splits)

lemma SaveKeyPair_None:
  "SaveKeyPair P kp dir s = (None, s') \<longleftrightarrow>
     (\<exists>privBytes pubBytes. marshalPriv P (PrivateKey kp) = Inr privBytes \<and> marshalPub P (PublicKey kp) = Inr pubBytes \<and>
        writeErr s (Join [dir, privateKeyFile]) = None \<and> writeErr s (Join [dir, publicKeyFile]) = None \<and>
        s' = s\<lparr>fileContent := (fileContent s)(Join [dir, privateKeyFile] \<mapsto> pemEncode P ''PRIVATE KEY'' privBytes,
               Join [dir, publicKeyFile] \<mapsto> pemEncode P ''PUBLIC KEY'' pubBytes)\<rparr>)"
  by (auto simp: SaveKeyPair_def WriteFile_def split: sum.splits option.splits)

lemma SavePublicKey_None:
  "SavePublicKey P pub path s = (None, s') \<longleftrightarrow>
     (\<exists>pubBytes. marshalPub P pub = Inr pubBytes \<and> writeErr s path = None \<and>
        s' = s\<lparr>fileContent := (fileContent s)(path \<mapsto> pemEncode P ''PUBLIC KEY'' pubBytes)\<rparr>)"
  by (auto simp: SavePublicKey_def WriteFile_def split: sum.splits option.splits)

lemma SaveTokens_None:
  "SaveTokenFile tok dir s = (None, s') \<longleftrightarrow> writeErr s (Join [dir, tokenFile]) = None \<and>
     s' = s\<lparr>fileContent := (fileContent s)(Join [dir, tokenFile] \<mapsto> tok)\<rparr>"
  "SaveRootToken tok dir s = (None, s') \<longleftrightarrow> writeErr s (Join [dir, rootTokenName]) = None \<and>
     s' = s\<lparr>fileContent := (fileContent s)(Join [dir, rootTokenName] \<mapsto> tok)\<rparr>"
  by (simp_all add: SaveTokenFile_def SaveRootToken_def WriteFile_None)

lemmas key_file_simps = SaveKeyPair_None SavePublicKey_None SaveTokens_None

definition readsAll :: "fs \<Rightarrow> bool" where
  "readsAll s \<longleftrightarrow> (\<forall>p. readErr s p = None)"

lemma ReadFile_content: "readsAll s \<Longrightarrow> fileContent s p = Some dat \<Longrightarrow> ReadFile p s = Inr dat"
  by (simp add: readsAll_def ReadFile_def)

lemma LoadPublicKey_content:
  "pemOk P \<Longrightarrow> readsAll s \<Longrightarrow> marshalPub P pub = Inr b \<Longrightarrow> fileContent s path = Some (pemEncode P ty b) \<Longrightarrow>
   LoadPublicKey P path s = Inr pub"
  by (simp add: LoadPublicKey_def ReadFile_content pemOk_def)

lemma LoadKeyPair_content:
  assumes "pemOk P" "readsAll s"
    and "marshalPriv P (PrivateKey kp) = Inr a" "marshalPub P (PublicKey kp) = Inr b"
    and "fileContent s (Join [dir, privateKeyFile]) = Some (pemEncode P ty a)"
    and "fileContent s (Join [dir, publicKeyFile]) = Some (pemEncode P tz b)"
  shows "LoadKeyPair P dir s = Inr kp"
proof -
  have "LoadPublicKey P (Join [dir, publicKeyFile]) s = Inr (PublicKey kp)"
    using assms by (simp add: LoadPublicKey_content)
  moreover have "loadPrivateKey P (Join [dir, privateKeyFile]) s = Inr (PrivateKey kp)"
    using assms by (simp add: loadPrivateKey_def ReadFile_content pemOk_def)
  ultimately show ?thesis by (simp add: LoadKeyPair_def)
qed

text \<open>A key pair that was saved is loaded again.\<close>

lemma keypair_round_trip:
  assumes "pemOk P" "readsAll s" "dir \<noteq> []" "SaveKeyPair P kp dir s = (None, s')"
  shows "LoadKeyPair P dir s' = Inr kp"
proof -
  obtain a b where "marshalPriv P (PrivateKey kp) = Inr a" "marshalPub P (PublicKey kp) = Inr b"
    "s' = s\<lparr>fileContent := (fileContent s)(Join [dir, privateKeyFile] \<mapsto> pemEncode P ''PRIVATE KEY'' a,
       Join [dir, publicKeyFile] \<mapsto> pemEncode P ''PUBLIC KEY'' b)\<rparr>"
    using assms(4) by (auto simp: SaveKeyPair_None)
  then show ?thesis using assms files_apart(1)[OF assms(3)]
    by (intro LoadKeyPair_content[where ty = "''PRIVATE KEY''" and tz = "''PUBLIC KEY''"])
      (auto simp: readsAll_def)
qed

text \<open>A codec that meets \<open>pemOk\<close>: a block is its type and bytes as a JSON array.\<close>

definition plainPem :: pemLib where
  "plainPem = \<lparr>marshalPriv = Inr, marshalPub = Inr, parsePriv = (\<lambda>b. Inr (Some b)), parsePub = (\<lambda>b. Inr (Some b)),
     pemEncode = (\<lambda>ty b. jsonStrings [ty, b]),
     pemDecode = (\<lambda>s. case readStrings s of Some [_, b] \<Rightarrow> Some b | _ \<Rightarrow> None)\<rparr>"

lemma plainPem_ok: "pemOk plainPem"
  by (simp add: pemOk_def plainPem_def strings_round_trip)

end
