(* ===== verification/Config.thy ===== *)
theory Config
  imports KeyFiles
begin

text \<open>
  \<^verbatim>\<open>src/config.go\<close>: the configuration from defaults, file and environment, and \<open>cliInit\<close>; the
  functions that translate it, \<open>natsURL\<close> (\<^verbatim>\<open>src/fleet_nats.go\<close>), the NATS authentication
  (\<^verbatim>\<open>src/fleet_nats_auth.go\<close>) and the TLS bootstrap parameters (\<^verbatim>\<open>src/broker_tls.go\<close>).
  What the process asks the operating system is the record \<open>osEnv\<close>.
\<close>

record Config =
  g_Role :: string
  g_BrokerURL :: string
  g_Listen :: string
  g_MachineName :: string
  g_DBPath :: string
  g_StaleTimeout :: int
  g_NatsURL :: string
  g_NatsToken :: string
  g_NatsNKeySeed :: string
  g_LLMBaseURL :: string
  g_LLMModel :: string
  g_LLMAPIKey :: string
  g_DefaultChildTTL :: string
  g_TLSDomain :: string
  g_TLSEmail :: string
  g_TLSCacheDir :: string
  g_TLSAcmeStaging :: bool

record osEnv =
  Getenv :: "string \<Rightarrow> string"
  UserHomeDir :: "string + string"
  Hostname :: "string + string"
  Getwd :: "string + string"

text \<open>The value of a call whose error is discarded.\<close>

definition orEmpty :: "string + string \<Rightarrow> string" where
  "orEmpty r = (case r of Inl _ \<Rightarrow> [] | Inr v \<Rightarrow> v)"

section \<open>Loading\<close>

definition defaultDBPath :: "osEnv \<Rightarrow> string" where
  "defaultDBPath os = Join [orEmpty (UserHomeDir os), ''.claude-peers.db'']"

definition configDir :: "osEnv \<Rightarrow> string" where
  "configDir os = Join [orEmpty (UserHomeDir os), ''.config'', ''claude-peers'']"

definition configPath :: "osEnv \<Rightarrow> string" where
  "configPath os = (if Getenv os ''CLAUDE_PEERS_CONFIG'' \<noteq> [] then Getenv os ''CLAUDE_PEERS_CONFIG''
     else Join [configDir os, ''config.json''])"

definition defaultConfig :: "osEnv \<Rightarrow> Config" where
  "defaultConfig os = \<lparr>g_Role = ''client'', g_BrokerURL = ''http://127.0.0.1:7899'',
     g_Listen = ''127.0.0.1:7899'', g_MachineName = orEmpty (Hostname os), g_DBPath = defaultDBPath os,
     g_StaleTimeout = 20, g_NatsURL = [], g_NatsToken = [], g_NatsNKeySeed = [],
     g_LLMBaseURL = ''http://127.0.0.1:4000/v1'', g_LLMModel = ''claude-haiku'', g_LLMAPIKey = [],
     g_DefaultChildTTL = ''24h'', g_TLSDomain = [], g_TLSEmail = [], g_TLSCacheDir = [],
     g_TLSAcmeStaging = False\<rparr>"

definition override :: "osEnv \<Rightarrow> string \<Rightarrow> (string \<Rightarrow> Config \<Rightarrow> Config) \<Rightarrow> Config \<Rightarrow> Config" where
  "override os var upd c = (if Getenv os var \<noteq> [] then upd (Getenv os var) c else c)"

definition legacyPort :: "osEnv \<Rightarrow> string \<Rightarrow> Config \<Rightarrow> Config" where
  "legacyPort os v c = (let c1 = c\<lparr>g_Listen := ''127.0.0.1:'' @ v\<rparr>
     in if g_BrokerURL c1 = g_BrokerURL (defaultConfig os)
        then c1\<lparr>g_BrokerURL := ''http://127.0.0.1:'' @ v\<rparr> else c1)"

definition envOverrides :: "osEnv \<Rightarrow> Config \<Rightarrow> Config" where
  "envOverrides os c0 =
     (let c1 = override os ''CLAUDE_PEERS_BROKER_URL'' (\<lambda>v c. c\<lparr>g_BrokerURL := v\<rparr>) c0;
          c2 = override os ''CLAUDE_PEERS_LISTEN'' (\<lambda>v c. c\<lparr>g_Listen := v\<rparr>) c1;
          c3 = override os ''CLAUDE_PEERS_MACHINE'' (\<lambda>v c. c\<lparr>g_MachineName := v\<rparr>) c2;
          c4 = override os ''CLAUDE_PEERS_DB'' (\<lambda>v c. c\<lparr>g_DBPath := v\<rparr>) c3;
          c5 = override os ''CLAUDE_PEERS_NATS'' (\<lambda>v c. c\<lparr>g_NatsURL := v\<rparr>) c4;
          c6 = override os ''CLAUDE_PEERS_LLM_URL'' (\<lambda>v c. c\<lparr>g_LLMBaseURL := v\<rparr>) c5;
          c7 = override os ''CLAUDE_PEERS_LLM_MODEL'' (\<lambda>v c. c\<lparr>g_LLMModel := v\<rparr>) c6;
          c8 = override os ''CLAUDE_PEERS_NATS_TOKEN'' (\<lambda>v c. c\<lparr>g_NatsToken := v\<rparr>) c7;
          c9 = override os ''CLAUDE_PEERS_LLM_API_KEY'' (\<lambda>v c. c\<lparr>g_LLMAPIKey := v\<rparr>) c8;
          c10 = override os ''CLAUDE_PEERS_NATS_NKEY'' (\<lambda>v c. c\<lparr>g_NatsNKeySeed := v\<rparr>) c9;
          c11 = override os ''CLAUDE_PEERS_DEFAULT_TTL'' (\<lambda>v c. c\<lparr>g_DefaultChildTTL := v\<rparr>) c10;
          c12 = override os ''CLAUDE_PEERS_TLS_DOMAIN'' (\<lambda>v c. c\<lparr>g_TLSDomain := v\<rparr>) c11;
          c13 = override os ''CLAUDE_PEERS_TLS_EMAIL'' (\<lambda>v c. c\<lparr>g_TLSEmail := v\<rparr>) c12;
          c14 = override os ''CLAUDE_PEERS_TLS_CACHE_DIR'' (\<lambda>v c. c\<lparr>g_TLSCacheDir := v\<rparr>) c13;
          staging = Getenv os ''CLAUDE_PEERS_TLS_ACME_STAGING'';
          c15 = (if staging = ''1'' \<or> staging = ''true'' then c14\<lparr>g_TLSAcmeStaging := True\<rparr> else c14)
      in override os ''CLAUDE_PEERS_PORT'' (legacyPort os) c15)"

text \<open>
  \<open>unmarshal dat c\<close> is what \<open>json.Unmarshal(dat, &c)\<close> leaves in \<open>c\<close>; its error is discarded.
\<close>

definition fileConfig :: "osEnv \<Rightarrow> (string \<Rightarrow> Config \<Rightarrow> Config) \<Rightarrow> fs \<Rightarrow> Config" where
  "fileConfig os unmarshal s = (case ReadFile (configPath os) s of
      Inl _ \<Rightarrow> defaultConfig os | Inr dat \<Rightarrow> unmarshal dat (defaultConfig os))"

definition loadConfig :: "osEnv \<Rightarrow> (string \<Rightarrow> Config \<Rightarrow> Config) \<Rightarrow> fs \<Rightarrow> Config" where
  "loadConfig os unmarshal s = envOverrides os (fileConfig os unmarshal s)"

definition writeConfig :: "osEnv \<Rightarrow> (Config \<Rightarrow> string) \<Rightarrow> Config \<Rightarrow> fs \<Rightarrow> string option \<times> fs" where
  "writeConfig os marshal c s = (case MkdirAll (configDir os) s of
      (Some e, s1) \<Rightarrow> (Some e, s1)
    | (None, s1) \<Rightarrow> WriteFile (configPath os) (marshal c) s1)"

section \<open>Initialisation\<close>

text \<open>
  \<open>cliInit\<close> ends with an exit status and what it printed on standard error; the summary on standard
  output is left out.  \<open>gen\<close> is the generated key, \<open>now\<close> the clock reading of the minting.
\<close>

record initEnv =
  i_os :: osEnv
  i_jwt :: jwtLib
  i_pem :: pemLib
  i_gen :: "string + bytes \<times> bytes"
  i_now :: time
  i_marshal :: "Config \<Rightarrow> string"

definition usageText :: string where
  "usageText = ''Usage:'' @ nl @
     ''  claude-peers init broker                  Set up as broker (generates keypair + root token)'' @ nl @
     ''  claude-peers init client <broker-url>     Connect to a remote broker'' @ nl @ nl @ ''Examples:'' @ nl @
     ''  claude-peers init broker'' @ nl @ ''  claude-peers init client http://your-server:7899'' @ nl"

type_synonym exit = "int \<times> string \<times> fs"

definition failWith :: "int \<Rightarrow> string \<Rightarrow> string \<Rightarrow> fs \<Rightarrow> exit" where
  "failWith code what e s = (code, what @ '': '' @ e @ nl, s)"

definition rootTTL :: duration where
  "rootTTL = 365 * 24 * hour"

definition initFinish :: "initEnv \<Rightarrow> Config \<Rightarrow> fs \<Rightarrow> exit" where
  "initFinish I c s = (case writeConfig (i_os I) (i_marshal I) c s of
      (Some e, s1) \<Rightarrow> failWith 1 ''Error writing config'' e s1
    | (None, s1) \<Rightarrow> (0, [], s1))"

definition initBroker :: "initEnv \<Rightarrow> string \<Rightarrow> Config \<Rightarrow> fs \<Rightarrow> exit" where
  "initBroker I dir c s = (case GenerateKeyPair (i_gen I) of
      Inl e \<Rightarrow> failWith 1 ''Error generating keypair'' e s
    | Inr kp \<Rightarrow>
    (case SaveKeyPair (i_pem I) kp dir s of
      (Some e, s1) \<Rightarrow> failWith 1 ''Error saving keypair'' e s1
    | (None, s1) \<Rightarrow>
    (case SavePublicKey (i_pem I) (PublicKey kp) (Join [dir, rootPubKeyFile]) s1 of
      (Some e, s2) \<Rightarrow> failWith 1 ''Error saving root public key'' e s2
    | (None, s2) \<Rightarrow>
    (case MintRootToken (i_jwt I) (i_now I) (PrivateKey kp) AllCapabilities rootTTL of
      Inl e \<Rightarrow> failWith 1 ''Error minting root token'' e s2
    | Inr token \<Rightarrow>
    (case SaveRootToken token dir s2 of
      (Some e, s3) \<Rightarrow> failWith 1 ''Error saving root token'' e s3
    | (None, s3) \<Rightarrow>
    (case SaveTokenFile token dir s3 of
      (Some e, s4) \<Rightarrow> failWith 1 ''Error saving token'' e s4
    | (None, s4) \<Rightarrow>
       initFinish I (c\<lparr>g_Role := ''broker'', g_Listen := ''0.0.0.0:7899'', g_BrokerURL := ''http://127.0.0.1:7899''\<rparr>) s4))))))"

definition initClient :: "initEnv \<Rightarrow> string \<Rightarrow> string list \<Rightarrow> Config \<Rightarrow> fs \<Rightarrow> exit" where
  "initClient I dir args c s =
     (if length args < 2 then
        (1, ''Error: client requires a broker URL'' @ nl @
            ''  claude-peers init client http://<broker-ip>:7899'' @ nl, s)
      else case GenerateKeyPair (i_gen I) of
        Inl e \<Rightarrow> failWith 1 ''Error generating keypair'' e s
      | Inr kp \<Rightarrow>
          (case SaveKeyPair (i_pem I) kp dir s of
             (Some e, s1) \<Rightarrow> failWith 1 ''Error saving keypair'' e s1
           | (None, s1) \<Rightarrow> initFinish I (c\<lparr>g_Role := ''client'', g_BrokerURL := args ! 1\<rparr>) s1))"

definition cliInit :: "initEnv \<Rightarrow> string list \<Rightarrow> fs \<Rightarrow> exit" where
  "cliInit I args s =
     (case args of
        [] \<Rightarrow> (1, usageText, s)
      | role # _ \<Rightarrow>
          (let c = defaultConfig (i_os I); dir = configDir (i_os I); s1 = snd (MkdirAll dir s)
           in if role = ''broker'' then initBroker I dir c s1
              else if role = ''client'' then initClient I dir args c s1
              else (1, ''Unknown role: '' @ role @ '' (use 'broker' or 'client')'' @ nl, s1)))"

section \<open>Precedence\<close>

text \<open>The variables that set one string field each, with the field.\<close>

definition plainVars :: "(string \<times> (Config \<Rightarrow> string)) list" where
  "plainVars = [(''CLAUDE_PEERS_MACHINE'', g_MachineName), (''CLAUDE_PEERS_DB'', g_DBPath),
     (''CLAUDE_PEERS_NATS'', g_NatsURL), (''CLAUDE_PEERS_LLM_URL'', g_LLMBaseURL),
     (''CLAUDE_PEERS_LLM_MODEL'', g_LLMModel), (''CLAUDE_PEERS_NATS_TOKEN'', g_NatsToken),
     (''CLAUDE_PEERS_LLM_API_KEY'', g_LLMAPIKey), (''CLAUDE_PEERS_NATS_NKEY'', g_NatsNKeySeed),
     (''CLAUDE_PEERS_DEFAULT_TTL'', g_DefaultChildTTL), (''CLAUDE_PEERS_TLS_DOMAIN'', g_TLSDomain),
     (''CLAUDE_PEERS_TLS_EMAIL'', g_TLSEmail), (''CLAUDE_PEERS_TLS_CACHE_DIR'', g_TLSCacheDir)]"

definition firstSet :: "string list \<Rightarrow> string" where
  "firstSet vs = (case filter (\<lambda>v. v \<noteq> []) vs of [] \<Rightarrow> [] | v # _ \<Rightarrow> v)"

lemma override_keeps: "(\<And>v c. f (u v c) = f c) \<Longrightarrow> f (override os var u c) = f c"
  by (simp add: override_def)

lemma override_sets: "(\<And>v c. f (u v c) = v) \<Longrightarrow> f (override os var u c) = firstSet [Getenv os var, f c]"
  by (simp add: override_def firstSet_def)

lemmas override_keeps_fields [simp] =
  override_keeps[where f = g_Role]
  override_keeps[where f = g_BrokerURL]
  override_keeps[where f = g_Listen]
  override_keeps[where f = g_MachineName]
  override_keeps[where f = g_DBPath]
  override_keeps[where f = g_StaleTimeout]
  override_keeps[where f = g_NatsURL]
  override_keeps[where f = g_NatsToken]
  override_keeps[where f = g_NatsNKeySeed]
  override_keeps[where f = g_LLMBaseURL]
  override_keeps[where f = g_LLMModel]
  override_keeps[where f = g_LLMAPIKey]
  override_keeps[where f = g_DefaultChildTTL]
  override_keeps[where f = g_TLSDomain]
  override_keeps[where f = g_TLSEmail]
  override_keeps[where f = g_TLSCacheDir]
  override_keeps[where f = g_TLSAcmeStaging]

lemmas override_sets_fields [simp] =
  override_sets[where f = g_BrokerURL]
  override_sets[where f = g_Listen]
  override_sets[where f = g_MachineName]
  override_sets[where f = g_DBPath]
  override_sets[where f = g_NatsURL]
  override_sets[where f = g_NatsToken]
  override_sets[where f = g_NatsNKeySeed]
  override_sets[where f = g_LLMBaseURL]
  override_sets[where f = g_LLMModel]
  override_sets[where f = g_LLMAPIKey]
  override_sets[where f = g_DefaultChildTTL]
  override_sets[where f = g_TLSDomain]
  override_sets[where f = g_TLSEmail]
  override_sets[where f = g_TLSCacheDir]

lemma legacyPort_fields [simp]:
  "g_Role (legacyPort os v c) = g_Role c" "g_MachineName (legacyPort os v c) = g_MachineName c"
  "g_DBPath (legacyPort os v c) = g_DBPath c" "g_StaleTimeout (legacyPort os v c) = g_StaleTimeout c"
  "g_NatsURL (legacyPort os v c) = g_NatsURL c" "g_NatsToken (legacyPort os v c) = g_NatsToken c"
  "g_NatsNKeySeed (legacyPort os v c) = g_NatsNKeySeed c" "g_LLMBaseURL (legacyPort os v c) = g_LLMBaseURL c"
  "g_LLMModel (legacyPort os v c) = g_LLMModel c" "g_LLMAPIKey (legacyPort os v c) = g_LLMAPIKey c"
  "g_DefaultChildTTL (legacyPort os v c) = g_DefaultChildTTL c" "g_TLSDomain (legacyPort os v c) = g_TLSDomain c"
  "g_TLSEmail (legacyPort os v c) = g_TLSEmail c" "g_TLSCacheDir (legacyPort os v c) = g_TLSCacheDir c"
  "g_TLSAcmeStaging (legacyPort os v c) = g_TLSAcmeStaging c" "g_Listen (legacyPort os v c) = ''127.0.0.1:'' @ v"
  by (simp_all add: legacyPort_def Let_def)

text \<open>Each field of the result depends on its own variable only.\<close>

lemma envOverrides_fields:
  "g_Role (envOverrides os c) = g_Role c" "g_StaleTimeout (envOverrides os c) = g_StaleTimeout c"
  "g_MachineName (envOverrides os c) = firstSet [Getenv os ''CLAUDE_PEERS_MACHINE'', g_MachineName c]"
  "g_DBPath (envOverrides os c) = firstSet [Getenv os ''CLAUDE_PEERS_DB'', g_DBPath c]"
  "g_NatsURL (envOverrides os c) = firstSet [Getenv os ''CLAUDE_PEERS_NATS'', g_NatsURL c]"
  "g_LLMBaseURL (envOverrides os c) = firstSet [Getenv os ''CLAUDE_PEERS_LLM_URL'', g_LLMBaseURL c]"
  "g_LLMModel (envOverrides os c) = firstSet [Getenv os ''CLAUDE_PEERS_LLM_MODEL'', g_LLMModel c]"
  "g_NatsToken (envOverrides os c) = firstSet [Getenv os ''CLAUDE_PEERS_NATS_TOKEN'', g_NatsToken c]"
  "g_LLMAPIKey (envOverrides os c) = firstSet [Getenv os ''CLAUDE_PEERS_LLM_API_KEY'', g_LLMAPIKey c]"
  "g_NatsNKeySeed (envOverrides os c) = firstSet [Getenv os ''CLAUDE_PEERS_NATS_NKEY'', g_NatsNKeySeed c]"
  "g_DefaultChildTTL (envOverrides os c) = firstSet [Getenv os ''CLAUDE_PEERS_DEFAULT_TTL'', g_DefaultChildTTL c]"
  "g_TLSDomain (envOverrides os c) = firstSet [Getenv os ''CLAUDE_PEERS_TLS_DOMAIN'', g_TLSDomain c]"
  "g_TLSEmail (envOverrides os c) = firstSet [Getenv os ''CLAUDE_PEERS_TLS_EMAIL'', g_TLSEmail c]"
  "g_TLSCacheDir (envOverrides os c) = firstSet [Getenv os ''CLAUDE_PEERS_TLS_CACHE_DIR'', g_TLSCacheDir c]"
  unfolding envOverrides_def Let_def by simp_all

lemma override_legacy:
  "g_Listen (override os var (legacyPort os) c) =
     (if Getenv os var \<noteq> [] then ''127.0.0.1:'' @ Getenv os var else g_Listen c)"
  "g_BrokerURL (override os var (legacyPort os) c) =
     (if Getenv os var \<noteq> [] \<and> g_BrokerURL c = g_BrokerURL (defaultConfig os)
      then ''http://127.0.0.1:'' @ Getenv os var else g_BrokerURL c)"
  "g_TLSAcmeStaging (override os var (legacyPort os) c) = g_TLSAcmeStaging c"
  by (simp_all add: override_def legacyPort_def Let_def)

lemma envOverrides_listen:
  "g_Listen (envOverrides os c) =
     (if Getenv os ''CLAUDE_PEERS_PORT'' \<noteq> [] then ''127.0.0.1:'' @ Getenv os ''CLAUDE_PEERS_PORT''
      else firstSet [Getenv os ''CLAUDE_PEERS_LISTEN'', g_Listen c])"
  "g_BrokerURL (envOverrides os c) =
     (let url = firstSet [Getenv os ''CLAUDE_PEERS_BROKER_URL'', g_BrokerURL c]
      in if Getenv os ''CLAUDE_PEERS_PORT'' \<noteq> [] \<and> url = g_BrokerURL (defaultConfig os)
         then ''http://127.0.0.1:'' @ Getenv os ''CLAUDE_PEERS_PORT'' else url)"
  "g_TLSAcmeStaging (envOverrides os c) \<longleftrightarrow>
     Getenv os ''CLAUDE_PEERS_TLS_ACME_STAGING'' \<in> {''1'', ''true''} \<or> g_TLSAcmeStaging c"
  unfolding envOverrides_def Let_def override_legacy by simp_all

text \<open>
  Configuration precedence.  In the loaded configuration every field that has an
  environment variable takes its value if the variable is set, and the file's (or the default)
  otherwise; the ACME staging switch can only be turned on by its variable; role and stale timeout
  come from the file; the legacy port variable overrides even \<open>CLAUDE_PEERS_LISTEN\<close> and moves the
  broker URL only when that still is the default.
\<close>

theorem config_precedence:
  "let c = loadConfig os unmarshal s; f = fileConfig os unmarshal s; port = Getenv os ''CLAUDE_PEERS_PORT'';
       url = firstSet [Getenv os ''CLAUDE_PEERS_BROKER_URL'', g_BrokerURL f]
   in list_all (\<lambda>(var, field). field c = firstSet [Getenv os var, field f]) plainVars \<and>
      g_Role c = g_Role f \<and> g_StaleTimeout c = g_StaleTimeout f \<and>
      (g_TLSAcmeStaging c \<longleftrightarrow> Getenv os ''CLAUDE_PEERS_TLS_ACME_STAGING'' \<in> {''1'', ''true''} \<or> g_TLSAcmeStaging f) \<and>
      g_Listen c = (if port \<noteq> [] then ''127.0.0.1:'' @ port else firstSet [Getenv os ''CLAUDE_PEERS_LISTEN'', g_Listen f]) \<and>
      g_BrokerURL c = (if port \<noteq> [] \<and> url = ''http://127.0.0.1:7899'' then ''http://127.0.0.1:'' @ port else url)"
  by (simp add: loadConfig_def Let_def plainVars_def envOverrides_fields envOverrides_listen)
    (simp add: defaultConfig_def)

section \<open>A fresh broker\<close>

definition sampleOS :: osEnv where
  "sampleOS = \<lparr>Getenv = (\<lambda>_. []), UserHomeDir = Inr ''/h'', Hostname = Inr ''box'', Getwd = Inr ''/''\<rparr>"

lemma configDir_nonempty: "configDir os \<noteq> []"
proof -
  have pl: "plainElem ''claude-peers''" by (simp add: plainElem_def)
  show ?thesis
    using Clean_file_nonempty[OF _ pl, of "orEmpty (UserHomeDir os) @ ''/.config''"]
      Clean_file_nonempty[OF _ pl, of "''.config''"]
    by (cases "orEmpty (UserHomeDir os) = []") (simp_all add: configDir_def Join_def)
qed

lemma config_file_apart:
  assumes "plainElem f" "f \<noteq> ''config.json''" "Getenv os ''CLAUDE_PEERS_CONFIG'' = []"
  shows "configPath os \<noteq> Join [configDir os, f]" "Join [configDir os, f] \<noteq> configPath os"
proof -
  have "Join [configDir os, ''config.json''] \<noteq> Join [configDir os, f]"
    using assms Join_inj[of "''config.json''" f, OF _ _ configDir_nonempty] by (simp add: plainElem_def)
  then show "configPath os \<noteq> Join [configDir os, f]" "Join [configDir os, f] \<noteq> configPath os"
    using assms(3) by (simp_all add: configPath_def eq_commute)
qed

lemma key_files_not_config [simp]:
  "privateKeyFile \<noteq> ''config.json''" "publicKeyFile \<noteq> ''config.json''" "rootPubKeyFile \<noteq> ''config.json''"
  "tokenFile \<noteq> ''config.json''" "rootTokenName \<noteq> ''config.json''"
  by (simp_all add: privateKeyFile_def publicKeyFile_def rootPubKeyFile_def tokenFile_def rootTokenName_def)

lemma initFinish_0:
  "initFinish I c s = (0, e, s') \<Longrightarrow>
     s' = s\<lparr>fileContent := (fileContent s)(configPath (i_os I) \<mapsto> i_marshal I c)\<rparr>"
  by (auto simp: initFinish_def writeConfig_def MkdirAll_def WriteFile_None failWith_def split: option.splits prod.splits)

text \<open>What a successful \<open>init broker\<close> leaves behind.\<close>

lemma initBroker_0:
  assumes "initBroker I dir c s = (0, e, s')" and gen: "i_gen I = Inr (pub, priv)"
  shows "\<exists>a b tok. marshalPriv (i_pem I) priv = Inr a \<and> marshalPub (i_pem I) pub = Inr b \<and>
    MintRootToken (i_jwt I) (i_now I) priv AllCapabilities rootTTL = Inr tok \<and>
    s' = s\<lparr>fileContent := (fileContent s)
      (Join [dir, privateKeyFile] \<mapsto> pemEncode (i_pem I) ''PRIVATE KEY'' a,
       Join [dir, publicKeyFile] \<mapsto> pemEncode (i_pem I) ''PUBLIC KEY'' b,
       Join [dir, rootPubKeyFile] \<mapsto> pemEncode (i_pem I) ''PUBLIC KEY'' b,
       Join [dir, rootTokenName] \<mapsto> tok, Join [dir, tokenFile] \<mapsto> tok,
       configPath (i_os I) \<mapsto> i_marshal I (c\<lparr>g_Role := ''broker'', g_Listen := ''0.0.0.0:7899'',
          g_BrokerURL := ''http://127.0.0.1:7899''\<rparr>))\<rparr>"
proof -
  let ?kp = "\<lparr>PrivateKey = priv, PublicKey = pub\<rparr>"
  obtain s1 where s1: "SaveKeyPair (i_pem I) ?kp dir s = (None, s1)"
    using assms by (auto simp: initBroker_def GenerateKeyPair_def failWith_def split: prod.splits option.splits)
  obtain s2 where s2: "SavePublicKey (i_pem I) pub (Join [dir, rootPubKeyFile]) s1 = (None, s2)"
    using assms s1 by (auto simp: initBroker_def GenerateKeyPair_def failWith_def split: prod.splits option.splits)
  obtain tok where tok: "MintRootToken (i_jwt I) (i_now I) priv AllCapabilities rootTTL = Inr tok"
    using assms s1 s2 by (auto simp: initBroker_def GenerateKeyPair_def failWith_def split: sum.splits)
  obtain s3 where s3: "SaveRootToken tok dir s2 = (None, s3)"
    using assms s1 s2 tok by (auto simp: initBroker_def GenerateKeyPair_def failWith_def split: prod.splits option.splits)
  obtain s4 where s4: "SaveTokenFile tok dir s3 = (None, s4)"
    using assms s1 s2 s3 tok by (auto simp: initBroker_def GenerateKeyPair_def failWith_def split: prod.splits option.splits)
  have "initFinish I (c\<lparr>g_Role := ''broker'', g_Listen := ''0.0.0.0:7899'', g_BrokerURL := ''http://127.0.0.1:7899''\<rparr>) s4
      = (0, e, s')"
    using assms s1 s2 s3 s4 tok by (simp add: initBroker_def GenerateKeyPair_def)
  from initFinish_0[OF this] s1 s2 s3 s4 tok show ?thesis
    by (auto simp: key_file_simps)
qed

lemma init_broker_files:
  assumes "cliInit I [''broker''] s = (0, e, s')" and "i_gen I = Inr (pub, priv)"
    and "pemOk (i_pem I)" "readsAll s" "Getenv (i_os I) ''CLAUDE_PEERS_CONFIG'' = []"
    and compact: "\<And>tok. MintRootToken (i_jwt I) (i_now I) priv AllCapabilities rootTTL = Inr tok \<Longrightarrow> trimSpace tok = tok"
  obtains tok where "MintRootToken (i_jwt I) (i_now I) priv AllCapabilities rootTTL = Inr tok"
    and "LoadKeyPair (i_pem I) (configDir (i_os I)) s' = Inr \<lparr>PrivateKey = priv, PublicKey = pub\<rparr>"
    and "LoadPublicKey (i_pem I) (Join [configDir (i_os I), rootPubKeyFile]) s' = Inr pub"
    and "loadRootTokenIn (configDir (i_os I)) s' = Inr tok" and "loadTokenIn (configDir (i_os I)) s' = Inr tok"
    and "ReadFile (configPath (i_os I)) s' = Inr (i_marshal I ((defaultConfig (i_os I))\<lparr>g_Role := ''broker'',
       g_Listen := ''0.0.0.0:7899'', g_BrokerURL := ''http://127.0.0.1:7899''\<rparr>))"
    and "readsAll s'" "writeErr s' = writeErr s"
proof -
  have "initBroker I (configDir (i_os I)) (defaultConfig (i_os I)) s = (0, e, s')"
    using assms(1) by (simp add: cliInit_def Let_def MkdirAll_def)
  from initBroker_0[OF this assms(2)] obtain a b tok
    where ab: "marshalPriv (i_pem I) priv = Inr a" "marshalPub (i_pem I) pub = Inr b"
      and tok: "MintRootToken (i_jwt I) (i_now I) priv AllCapabilities rootTTL = Inr tok"
      and s': "s' = s\<lparr>fileContent := (fileContent s)
      (Join [configDir (i_os I), privateKeyFile] \<mapsto> pemEncode (i_pem I) ''PRIVATE KEY'' a,
       Join [configDir (i_os I), publicKeyFile] \<mapsto> pemEncode (i_pem I) ''PUBLIC KEY'' b,
       Join [configDir (i_os I), rootPubKeyFile] \<mapsto> pemEncode (i_pem I) ''PUBLIC KEY'' b,
       Join [configDir (i_os I), rootTokenName] \<mapsto> tok, Join [configDir (i_os I), tokenFile] \<mapsto> tok,
       configPath (i_os I) \<mapsto> i_marshal I ((defaultConfig (i_os I))\<lparr>g_Role := ''broker'', g_Listen := ''0.0.0.0:7899'',
          g_BrokerURL := ''http://127.0.0.1:7899''\<rparr>))\<rparr>" by blast
  note apart = files_apart[OF configDir_nonempty] config_file_apart[OF _ _ assms(5)]
  have r: "readsAll s'" using assms(4) by (simp add: s' readsAll_def)
  show thesis
  proof (rule that[OF tok])
    show "LoadKeyPair (i_pem I) (configDir (i_os I)) s' = Inr \<lparr>PrivateKey = priv, PublicKey = pub\<rparr>"
      by (rule LoadKeyPair_content[OF assms(3) r, where ty = "''PRIVATE KEY''" and tz = "''PUBLIC KEY''"])
        (simp_all add: s' ab apart apart[symmetric])
    show "LoadPublicKey (i_pem I) (Join [configDir (i_os I), rootPubKeyFile]) s' = Inr pub"
      by (rule LoadPublicKey_content[OF assms(3) r ab(2), where ty = "''PUBLIC KEY''"])
        (simp add: s' apart apart[symmetric])
    show "loadRootTokenIn (configDir (i_os I)) s' = Inr tok"
      using ReadFile_content[OF r, of "Join [configDir (i_os I), rootTokenName]" tok] compact[OF tok]
      by (simp add: s' apart apart[symmetric] LoadRootToken_def)
    show "loadTokenIn (configDir (i_os I)) s' = Inr tok"
      using ReadFile_content[OF r, of "Join [configDir (i_os I), tokenFile]" tok] compact[OF tok]
      by (simp add: s' apart apart[symmetric] LoadToken_def)
    show "ReadFile (configPath (i_os I)) s' = Inr (i_marshal I ((defaultConfig (i_os I))\<lparr>g_Role := ''broker'',
       g_Listen := ''0.0.0.0:7899'', g_BrokerURL := ''http://127.0.0.1:7899''\<rparr>))"
      by (rule ReadFile_content[OF r]) (simp add: s')
  qed (use r in \<open>simp_all add: s'\<close>)
qed

end
