(* ===== verification/Transport.thy ===== *)
theory Transport
  imports Config
begin

text \<open>
  How the broker is reached: the TLS bootstrap parameters and their validation
  (\<^verbatim>\<open>src/broker_tls.go\<close>, \<open>tlsConfigFromGlobalConfig\<close> of \<^verbatim>\<open>src/broker_core.go\<close>), and the address and
  the authentication of the NATS connection (\<^verbatim>\<open>src/fleet_nats.go\<close>, \<^verbatim>\<open>src/fleet_nats_auth.go\<close>).
  The autocert manager is the record of what it is configured with.
\<close>

section \<open>IP addresses\<close>

text \<open>Whether \<open>net.ParseIP\<close> succeeds: dotted decimal, or hexadecimal groups with one \<open>::\<close>.\<close>

definition octetOk :: "string \<Rightarrow> bool" where
  "octetOk f \<longleftrightarrow> f \<noteq> [] \<and> list_all isDigit f \<and> length f \<le> 3 \<and> (length f = 1 \<or> hd f \<noteq> CHR ''0'') \<and> digitsVal f \<le> 255"

definition isIPv4 :: "string \<Rightarrow> bool" where
  "isIPv4 s \<longleftrightarrow> (let fs = splitByte (CHR ''.'') s in length fs = 4 \<and> list_all octetOk fs)"

definition hexGroup :: "string \<Rightarrow> bool" where
  "hexGroup g \<longleftrightarrow> g \<noteq> [] \<and> length g \<le> 4 \<and> list_all (\<lambda>c. hexVal c \<noteq> None) g"

text \<open>The number of 16-bit units of colon-separated groups, the last of which may be dotted.\<close>

fun unitsOf :: "bool \<Rightarrow> string list \<Rightarrow> nat option" where
  "unitsOf dotted [] = Some 0"
| "unitsOf dotted [g] = (if hexGroup g then Some 1 else if dotted \<and> isIPv4 g then Some 2 else None)"
| "unitsOf dotted (g # gs) = (if hexGroup g then map_option Suc (unitsOf dotted gs) else None)"

definition groupsOf :: "string \<Rightarrow> string list" where
  "groupsOf s = (if s = [] then [] else splitByte (CHR '':'') s)"

fun splitEllipsis :: "string \<Rightarrow> (string \<times> string) option" where
  "splitEllipsis (a # b # r) = (if a = CHR '':'' \<and> b = CHR '':'' then Some ([], r)
     else map_option (\<lambda>(l, r'). (a # l, r')) (splitEllipsis (b # r)))"
| "splitEllipsis _ = None"

definition isIPv6 :: "string \<Rightarrow> bool" where
  "isIPv6 s \<longleftrightarrow> (case splitEllipsis s of
      None \<Rightarrow> unitsOf True (groupsOf s) = Some 8
    | Some (l, r) \<Rightarrow> (case (unitsOf False (groupsOf l), unitsOf True (groupsOf r)) of
        (Some m, Some n) \<Rightarrow> m + n \<le> 7 | _ \<Rightarrow> False))"

definition parsesIP :: "string \<Rightarrow> bool" where
  "parsesIP s \<longleftrightarrow> (case find (\<lambda>c. c \<in> {CHR ''.'', CHR '':'', CHR ''%''}) s of
      None \<Rightarrow> False
    | Some c \<Rightarrow> if c = CHR ''.'' then isIPv4 s else if c = CHR '':'' then isIPv6 s else False)"

section \<open>TLS\<close>

record TLSConfig =
  t_Domains :: "string list"
  t_Email :: string
  t_CacheDir :: string
  t_AcmeStaging :: bool

definition noTLS :: TLSConfig where
  "noTLS = \<lparr>t_Domains = [], t_Email = [], t_CacheDir = [], t_AcmeStaging = False\<rparr>"

definition Enabled :: "TLSConfig \<Rightarrow> bool" where
  "Enabled c \<longleftrightarrow> length (t_Domains c) > 0"

definition domainError :: "string \<Rightarrow> string option" where
  "domainError d =
     (if d = [] then Some ''tls-domain has an empty entry''
      else if d = ''localhost'' \<or> hasPrefix d ''localhost.'' then
        Some (''tls-domain '' @ goQuote d @
          '': Let's Encrypt does not issue certs for localhost (use a real domain or leave TLS disabled)'')
      else if parsesIP d then
        Some (''tls-domain '' @ goQuote d @
          '': Let's Encrypt does not issue certs for IP addresses (use a domain name pointed at this IP)'')
      else None)"

fun firstDomainError :: "string list \<Rightarrow> string option" where
  "firstDomainError [] = None"
| "firstDomainError (d # ds) = (case domainError d of Some e \<Rightarrow> Some e | None \<Rightarrow> firstDomainError ds)"

definition validateTLS :: "TLSConfig \<Rightarrow> string option" where
  "validateTLS c =
     (if \<not> Enabled c then None
      else case firstDomainError (t_Domains c) of
        Some e \<Rightarrow> Some e
      | None \<Rightarrow> if t_CacheDir c = []
          then Some ''tls-cache-dir is required when TLS is enabled (autocert needs somewhere to persist the cert)''
          else None)"

definition parseTLSDomains :: "string \<Rightarrow> string list" where
  "parseTLSDomains raw = (if raw = [] then []
     else filter (\<lambda>p. p \<noteq> []) (map trimSpace (splitByte (CHR '','') raw)))"

definition tlsConfigFromGlobalConfig :: "osEnv \<Rightarrow> Config \<Rightarrow> TLSConfig" where
  "tlsConfigFromGlobalConfig os c =
     (let domains = parseTLSDomains (g_TLSDomain c)
      in if length domains = 0 then noTLS
         else \<lparr>t_Domains = domains, t_Email = g_TLSEmail c,
               t_CacheDir = (if g_TLSCacheDir c = [] then Join [configDir os, ''autocert''] else g_TLSCacheDir c),
               t_AcmeStaging = g_TLSAcmeStaging c\<rparr>)"

text \<open>
  \<open>mk\<close> is the error of \<open>os.MkdirAll\<close>, \<open>st\<close> the result of \<open>os.Stat\<close>: whether the path is a
  directory, and its permission bits.
\<close>

fun octDigits :: "nat \<Rightarrow> string" where
  "octDigits n = (if n < 8 then [digitc n] else octDigits (n div 8) @ [digitc (n mod 8)])"

declare octDigits.simps [simp del]

definition ensureCacheDir :: "string option \<Rightarrow> string + bool \<times> nat \<Rightarrow> string \<Rightarrow> string option" where
  "ensureCacheDir mk st dir = (case mk of
      Some e \<Rightarrow> Some (''create tls cache dir '' @ dir @ '': '' @ e)
    | None \<Rightarrow> (case st of
        Inl e \<Rightarrow> Some (''stat tls cache dir '' @ dir @ '': '' @ e)
      | Inr (isDir, perm) \<Rightarrow>
          if \<not> isDir then Some (''tls cache path '' @ dir @ '' is not a directory'')
          else if perm mod 64 \<noteq> 0 then
            Some (''tls cache dir '' @ dir @ '' has mode 0'' @ octDigits perm @
              ''; must be 0700 to protect the autocert private key (chmod 700 '' @ dir @ '')'')
          else None))"

record autocertManager =
  am_Cache :: string
  am_HostPolicy :: "string list"
  am_Email :: string
  am_DirectoryURL :: "string option"

definition acmeStagingDirectoryURL :: string where
  "acmeStagingDirectoryURL = ''https://acme-staging-v02.api.letsencrypt.org/directory''"

definition newAutocertManager :: "string option \<Rightarrow> string + bool \<times> nat \<Rightarrow> TLSConfig \<Rightarrow> string + autocertManager" where
  "newAutocertManager mk st c = (case validateTLS c of
      Some e \<Rightarrow> Inl e
    | None \<Rightarrow> (case ensureCacheDir mk st (t_CacheDir c) of
        Some e \<Rightarrow> Inl e
      | None \<Rightarrow> Inr \<lparr>am_Cache = t_CacheDir c, am_HostPolicy = t_Domains c, am_Email = t_Email c,
          am_DirectoryURL = (if t_AcmeStaging c then Some acmeStagingDirectoryURL else None)\<rparr>))"

section \<open>NATS\<close>

definition natsDefaultURL :: string where
  "natsDefaultURL = ''nats://127.0.0.1:4222''"

definition stripScheme :: "string \<Rightarrow> string \<Rightarrow> string" where
  "stripScheme p host = (if length host > length p \<and> take (length p) host = p then drop (length p) host else host)"

definition natsURL :: "Config \<Rightarrow> string" where
  "natsURL c =
     (if g_NatsURL c \<noteq> [] then g_NatsURL c
      else if g_BrokerURL c \<noteq> [] then
        (let host = fold stripScheme [''http://'', ''https://''] (g_BrokerURL c);
             host' = takeWhile (\<lambda>c. c \<noteq> CHR '':'') host
         in ''nats://'' @ host' @ '':4222'')
      else natsDefaultURL)"

datatype natsAuth = NKey string | Token string

definition nkeyFile :: string where "nkeyFile = ''nats.nk''"

definition loadNKeySeed :: "string \<Rightarrow> fs \<Rightarrow> string + string" where
  "loadNKeySeed dir s = (case ReadFile (Join [dir, nkeyFile]) s of Inl e \<Rightarrow> Inl e | Inr dat \<Rightarrow> Inr (trimSpace dat))"

definition saveNKeySeed :: "string \<Rightarrow> string \<Rightarrow> fs \<Rightarrow> string option \<times> fs" where
  "saveNKeySeed seed dir s = WriteFile (Join [dir, nkeyFile]) seed s"

definition natsAuthOption :: "osEnv \<Rightarrow> Config \<Rightarrow> fs \<Rightarrow> natsAuth option" where
  "natsAuthOption os c s =
     (let explicit = (if g_NatsNKeySeed c \<noteq> [] then
            (case ReadFile (g_NatsNKeySeed c) s of Inl _ \<Rightarrow> [] | Inr seed \<Rightarrow> trimSpace seed) else [])
      in if explicit \<noteq> [] then Some (NKey explicit)
         else case loadNKeySeed (configDir os) s of
           Inr (x # seed) \<Rightarrow> Some (NKey (x # seed))
         | _ \<Rightarrow> if g_NatsToken c \<noteq> [] then Some (Token (g_NatsToken c)) else None)"

text \<open>
  \<open>seedGen\<close> is the result of the three calls of the nkeys library in \<open>generateNKeySeed\<close>.
\<close>

definition cliGenerateNKey :: "osEnv \<Rightarrow> string + string \<times> string \<Rightarrow> fs \<Rightarrow> exit" where
  "cliGenerateNKey os seedGen s =
     (let s1 = snd (MkdirAll (configDir os) s)
      in case seedGen of
           Inl e \<Rightarrow> failWith 1 ''Error generating NKey'' e s1
         | Inr (seed, pubKey) \<Rightarrow>
             (case saveNKeySeed seed (configDir os) s1 of
                (Some e, s2) \<Rightarrow> failWith 1 ''Error saving NKey'' e s2
              | (None, s2) \<Rightarrow> (0, [], s2)))"

section \<open>Properties\<close>

lemma firstDomainError_None: "firstDomainError ds = None \<longleftrightarrow> (\<forall>d \<in> set ds. domainError d = None)"
  by (induction ds) (auto split: option.splits)

lemma dropWhile_hd: "dropWhile P xs \<noteq> [] \<Longrightarrow> \<not> P (hd (dropWhile P xs))"
  by (rule hd_dropWhile)

lemma set_trimSpace: "set (trimSpace s) \<subseteq> set s"
  unfolding trimSpace_def by (auto dest!: set_dropWhileD)

lemma parsed_domain:
  "d \<in> set (parseTLSDomains raw) \<Longrightarrow> d \<noteq> [] \<and> CHR '','' \<notin> set d"
  using set_trimSpace splitByte_parts[of _ "CHR '',''" raw]
  by (fastforce simp: parseTLSDomains_def split: if_splits)

text \<open>
  A broker that starts with TLS has sane parameters.  When a manager is built from the global
  configuration, it issues certificates for exactly the listed domains, none of which is
  empty, holds a comma, is localhost or an IP address; its cache directory is not accessible to
  others; the staging directory is used exactly when asked for.  TLS is disabled exactly when the
  list has no entry besides blanks.
\<close>

theorem tls_manager_sound:
  assumes "newAutocertManager mk st (tlsConfigFromGlobalConfig os c) = Inr m"
    and "parseTLSDomains (g_TLSDomain c) \<noteq> []"
  shows "am_HostPolicy m = parseTLSDomains (g_TLSDomain c) \<and>
    (\<forall>d \<in> set (am_HostPolicy m). d \<noteq> [] \<and> CHR '','' \<notin> set d \<and> d \<noteq> ''localhost'' \<and> \<not> parsesIP d) \<and>
    (\<exists>perm. st = Inr (True, perm) \<and> perm mod 64 = 0) \<and> am_Cache m \<noteq> [] \<and>
    (am_DirectoryURL m \<noteq> None \<longleftrightarrow> g_TLSAcmeStaging c)"
proof -
  let ?t = "tlsConfigFromGlobalConfig os c"
  have dom: "t_Domains ?t = parseTLSDomains (g_TLSDomain c)" and stg: "t_AcmeStaging ?t = g_TLSAcmeStaging c"
    using assms(2) by (auto simp: tlsConfigFromGlobalConfig_def)
  have ok: "validateTLS ?t = None" "ensureCacheDir mk st (t_CacheDir ?t) = None"
    and m: "am_HostPolicy m = t_Domains ?t" "am_Cache m = t_CacheDir ?t"
      "am_DirectoryURL m = (if t_AcmeStaging ?t then Some acmeStagingDirectoryURL else None)"
    using assms(1) by (auto simp: newAutocertManager_def split: option.splits)
  have "Enabled ?t" using assms(2) dom by (simp add: Enabled_def)
  with ok(1) have d: "\<forall>d \<in> set (t_Domains ?t). domainError d = None" "t_CacheDir ?t \<noteq> []"
    by (auto simp: validateTLS_def firstDomainError_None split: option.splits if_splits)
  have "\<exists>perm. st = Inr (True, perm) \<and> perm mod 64 = 0"
    using ok(2) by (auto simp: ensureCacheDir_def split: option.splits sum.splits if_splits)
  then show ?thesis using d m dom stg parsed_domain
    by (auto simp: domainError_def split: if_splits)
qed

lemmas tls_eval = parseTLSDomains_def trimSpace_def isSpace_def tlsConfigFromGlobalConfig_def newAutocertManager_def
  validateTLS_def Enabled_def domainError_def hasPrefix_def parsesIP_def isIPv4_def octetOk_def isDigit_def
  ensureCacheDir_def

theorem tls_manager_sound_witness:
  "\<exists>m. newAutocertManager None (Inr (True, 448)) (tlsConfigFromGlobalConfig sampleOS
       ((defaultConfig sampleOS)\<lparr>g_TLSDomain := ''a.b, c.d ,'', g_TLSCacheDir := ''/c''\<rparr>)) = Inr m \<and>
     am_HostPolicy m = [''a.b'', ''c.d''] \<and> am_DirectoryURL m = None"
proof -
  let ?c = "(defaultConfig sampleOS)\<lparr>g_TLSDomain := ''a.b, c.d ,'', g_TLSCacheDir := ''/c''\<rparr>"
  have d: "parseTLSDomains (g_TLSDomain ?c) = [''a.b'', ''c.d'']" "g_TLSAcmeStaging ?c = False"
    by (simp_all add: tls_eval defaultConfig_def)
  then obtain m where m: "newAutocertManager None (Inr (True, 448)) (tlsConfigFromGlobalConfig sampleOS ?c) = Inr m"
    by (simp add: tls_eval)
  from tls_manager_sound[OF m] m d show ?thesis by auto
qed

text \<open>The NATS server is looked for on the broker's host.\<close>

lemma natsURL_from_broker:
  assumes "g_NatsURL c = []" "g_BrokerURL c = scheme @ host @ '':'' @ port"
    and "scheme \<in> {''http://'', ''https://''}" "CHR '':'' \<notin> set host" "CHR ''/'' \<notin> set (host @ port)"
  shows "natsURL c = ''nats://'' @ host @ '':4222''"
proof -
  have keep: "stripScheme ''https://'' (host @ CHR '':'' # port) = host @ CHR '':'' # port"
  proof -
    have "CHR ''/'' \<notin> set (host @ CHR '':'' # port)" using assms(5) by simp
    then have "take (length ''https://'') (host @ CHR '':'' # port) \<noteq> ''https://''"
      by (metis in_set_takeD list.set_intros(1) list.set_intros(2))
    then show ?thesis unfolding stripScheme_def by (simp only: simp_thms if_False)
  qed
  have "fold stripScheme [''http://'', ''https://''] (g_BrokerURL c) = host @ CHR '':'' # port"
    using assms(2,3) keep by (auto simp: stripScheme_def)
  moreover have "takeWhile (\<lambda>c. c \<noteq> CHR '':'') (host @ CHR '':'' # port) = host"
    using assms(4) by (induction host) auto
  ultimately show ?thesis using assms(1-3) by (auto simp: natsURL_def)
qed

text \<open>
  The host ends at the first colon, so for a bracketed IPv6 address nothing but the bracket is
  left.
\<close>

lemma natsURL_ipv6:
  "natsURL ((defaultConfig os)\<lparr>g_BrokerURL := ''http://[::1]:7899''\<rparr>) = ''nats://[:4222''"
  by (simp add: natsURL_def defaultConfig_def stripScheme_def)

end
