(* ===== verification/TTL.thy ===== *)
theory TTL
  imports GoTime
begin

text \<open>
  \<^verbatim>\<open>src/ttl.go\<close>: the lifetime of child tokens.  \<open>ParseFlexibleDuration\<close> rewrites \<open>Nd\<close> into
  hours and hands the rest to \<open>time.ParseDuration\<close>, which is modelled here with its 64-bit
  overflow checks.  The one floating-point step of \<open>time.ParseDuration\<close>, the conversion of a
  decimal fraction, is the parameter \<open>fl\<close>: \<open>fl f unit scale\<close> stands for
  \<^verbatim>\<open>uint64(float64(f) * (float64(unit) / scale))\<close>.
\<close>

type_synonym fracMul = "nat \<Rightarrow> nat \<Rightarrow> nat \<Rightarrow> nat"

section \<open>time.ParseDuration\<close>

definition maxU63 :: nat where "maxU63 = 9223372036854775808"

fun leadingInt :: "nat \<Rightarrow> string \<Rightarrow> (nat \<times> string) option" where
  "leadingInt x [] = Some (x, [])"
| "leadingInt x (c # cs) =
     (if \<not> isDigit c then Some (x, c # cs)
      else if x > maxU63 div 10 then None
      else (let x' = x * 10 + digitVal c in if x' > maxU63 then None else leadingInt x' cs))"

text \<open>\<open>leadingFraction\<close>: digits past the 63-bit range are read and dropped.\<close>

fun leadingFraction :: "nat \<Rightarrow> nat \<Rightarrow> bool \<Rightarrow> string \<Rightarrow> nat \<times> nat \<times> string" where
  "leadingFraction x scale ovf [] = (x, scale, [])"
| "leadingFraction x scale ovf (c # cs) =
     (if \<not> isDigit c then (x, scale, c # cs)
      else if ovf then leadingFraction x scale ovf cs
      else if x > (maxU63 - 1) div 10 then leadingFraction x scale True cs
      else (let y = x * 10 + digitVal c
            in if y > maxU63 then leadingFraction x scale True cs
               else leadingFraction y (scale * 10) False cs))"

definition unitMap :: "(string \<times> nat) list" where
  "unitMap = [(''ns'', 1), (''us'', 1000), ([CHR 0xC2, CHR 0xB5, CHR ''s''], 1000),
     ([CHR 0xCE, CHR 0xBC, CHR ''s''], 1000), (''ms'', 1000000), (''s'', 1000000000),
     (''m'', 60000000000), (''h'', 3600000000000)]"

definition isUnitByte :: "char \<Rightarrow> bool" where
  "isUnitByte c \<longleftrightarrow> \<not> (c = CHR ''.'' \<or> isDigit c)"

datatype durError = InvalidDuration | MissingUnit | UnknownUnit string

text \<open>One round of the loop: a number with an optional fraction, and its unit.\<close>

definition durFraction :: "string \<Rightarrow> nat \<times> nat \<times> bool \<times> string" where
  "durFraction s =
     (case s of
        c # r \<Rightarrow>
          if c = CHR ''.''
          then (let (f, scale, r') = leadingFraction 0 1 False r
                in (f, scale, length r \<noteq> length r', r'))
          else (0, 1, False, s)
      | [] \<Rightarrow> (0, 1, False, s))"

definition durUnit :: "fracMul \<Rightarrow> nat \<Rightarrow> nat \<Rightarrow> nat \<Rightarrow> string \<Rightarrow> durError + nat \<times> string" where
  "durUnit fl v f scale s =
     (let u = takeWhile isUnitByte s; r = dropWhile isUnitByte s
      in if u = [] then Inl MissingUnit
         else (case map_of unitMap u of
                 None \<Rightarrow> Inl (UnknownUnit u)
               | Some unit \<Rightarrow>
                   if v > maxU63 div unit then Inl InvalidDuration
                   else (let w = v * unit + (if f > 0 then fl f unit scale else 0)
                         in if f > 0 \<and> w > maxU63 then Inl InvalidDuration else Inr (w, r))))"

definition durStep :: "fracMul \<Rightarrow> string \<Rightarrow> durError + nat \<times> string" where
  "durStep fl s =
     (if s = [] \<or> isUnitByte (hd s) then Inl InvalidDuration
      else (case leadingInt 0 s of
              None \<Rightarrow> Inl InvalidDuration
            | Some (v, r) \<Rightarrow>
                (let (f, scale, post, r') = durFraction r
                 in if length s = length r \<and> \<not> post then Inl InvalidDuration
                    else durUnit fl v f scale r')))"

lemma leadingInt_length: "leadingInt x s = Some (v, r) \<Longrightarrow> length r \<le> length s"
  by (induction x s rule: leadingInt.induct) (auto split: if_splits simp: Let_def)

lemma leadingFraction_length: "leadingFraction x sc o' s = (f, sc', r) \<Longrightarrow> length r \<le> length s"
  by (induction x sc o' s rule: leadingFraction.induct) (auto split: if_splits simp: Let_def)

lemma durFraction_length: "durFraction s = (f, sc, post, r) \<Longrightarrow> length r \<le> length s"
  by (auto simp: durFraction_def Let_def split: list.splits if_splits prod.splits
      dest!: leadingFraction_length)

lemma durUnit_length: "durUnit fl v f sc s = Inr (w, r) \<Longrightarrow> length r < length s"
  by (cases s) (auto simp: durUnit_def Let_def le_imp_less_Suc length_dropWhile_le
      split: if_splits option.splits)

lemma durStep_length: "durStep fl s = Inr (w, r) \<Longrightarrow> length r < length s"
  by (auto simp: durStep_def Let_def split: if_splits option.splits prod.splits
      dest!: leadingInt_length durFraction_length durUnit_length)

function durLoop :: "fracMul \<Rightarrow> nat \<Rightarrow> string \<Rightarrow> durError + nat" where
  "durLoop fl d s =
     (if s = [] then Inr d
      else (case durStep fl s of
              Inl e \<Rightarrow> Inl e
            | Inr (v, r) \<Rightarrow>
                (let d' = (d + v) mod 2 ^ 64
                 in if d' > maxU63 then Inl InvalidDuration else durLoop fl d' r)))"
  by pat_completeness auto
termination
  by (relation "measure (\<lambda>(fl, d, s). length s)") (auto dest: durStep_length)

declare durLoop.simps [simp del]

definition ParseDuration :: "fracMul \<Rightarrow> string \<Rightarrow> durError + duration" where
  "ParseDuration fl s =
     (let neg = (s \<noteq> [] \<and> hd s = CHR ''-'');
          s' = (if s \<noteq> [] \<and> (hd s = CHR ''-'' \<or> hd s = CHR ''+'') then tl s else s)
      in if s' = ''0'' then Inr 0
         else if s' = [] then Inl InvalidDuration
         else (case durLoop fl 0 s' of
                 Inl e \<Rightarrow> Inl e
               | Inr d \<Rightarrow>
                   if neg then Inr (wrap64 (- int d))
                   else if d > maxU63 - 1 then Inl InvalidDuration
                   else Inr (int d)))"

section \<open>ttl.go\<close>

definition MaxChildTokenTTL :: duration where
  "MaxChildTokenTTL = 365 * 24 * hour"

definition MinChildTokenTTL :: duration where
  "MinChildTokenTTL = minute"

datatype ttlError =
    EmptyDuration
  | ParseDays string
  | ParseDurationError string durError
  | BelowMinimum duration
  | ExceedsMaximum duration

text \<open>\<open>strconv.Atoi\<close> on a run of digits: an error when the value leaves 64 bits.\<close>

definition atoi :: "string \<Rightarrow> string + int" where
  "atoi s =
     (if digitsVal s > maxU63 - 1
      then Inl (''strconv.Atoi: parsing '' @ goQuote s @ '': value out of range'')
      else Inr (int (digitsVal s)))"

text \<open>The rewriting loop; the product of days and 24 is a Go \<open>int\<close> and wraps.\<close>

function rewriteDays :: "string \<Rightarrow> ttlError + string" where
  "rewriteDays s =
     (case s of
        [] \<Rightarrow> Inr []
      | c # cs \<Rightarrow>
          if isDigit c
          then (let run = takeWhile isDigit (c # cs); rest = dropWhile isDigit (c # cs)
                in if rest \<noteq> [] \<and> hd rest = CHR ''d''
                   then (case atoi run of
                           Inl e \<Rightarrow> Inl (ParseDays e)
                         | Inr days \<Rightarrow>
                             map_sum id (\<lambda>out. itoa (wrap64 (days * 24)) @ ''h'' @ out)
                               (rewriteDays (tl rest)))
                   else map_sum id (\<lambda>out. run @ out) (rewriteDays rest))
          else map_sum id (\<lambda>out. c # out) (rewriteDays cs))"
  by pat_completeness auto
termination
  by (relation "measure length")
    (auto simp: le_imp_less_Suc length_dropWhile_le less_Suc_eq_le le_diff_conv
      intro!: le_SucI length_dropWhile_le)

declare rewriteDays.simps [simp del]

definition ParseFlexibleDuration :: "fracMul \<Rightarrow> string \<Rightarrow> ttlError + duration" where
  "ParseFlexibleDuration fl s0 =
     (let s = trimSpace s0
      in if s = [] then Inl EmptyDuration
         else (case rewriteDays s of
                 Inl e \<Rightarrow> Inl e
               | Inr out \<Rightarrow>
                   (case ParseDuration fl out of
                      Inl e \<Rightarrow> Inl (ParseDurationError s e)
                    | Inr d \<Rightarrow>
                        if d < MinChildTokenTTL then Inl (BelowMinimum d)
                        else if d > MaxChildTokenTTL then Inl (ExceedsMaximum d)
                        else Inr d)))"

text \<open>The argument is the configuration field \<open>cfg.DefaultChildTTL\<close>.\<close>

definition defaultChildTTL :: "fracMul \<Rightarrow> string \<Rightarrow> duration" where
  "defaultChildTTL fl cfgTTL =
     (if cfgTTL = [] then 24 * hour
      else (case ParseFlexibleDuration fl cfgTTL of Inl _ \<Rightarrow> 24 * hour | Inr d \<Rightarrow> d))"

section \<open>Reading back printed numbers\<close>

lemma foldl_digits_ge: "x \<le> foldl (\<lambda>a c. 10 * a + digitVal c) x ds" for x :: nat
proof (induction ds arbitrary: x)
  case (Cons d ds)
  have "x \<le> 10 * x + digitVal d" by simp
  also have "\<dots> \<le> foldl (\<lambda>a c. 10 * a + digitVal c) (10 * x + digitVal d) ds" by (rule Cons.IH)
  finally show ?case by simp
qed simp

lemma leadingInt_digits:
  assumes "\<forall>c \<in> set ds. isDigit c" and "rest = [] \<or> \<not> isDigit (hd rest)"
    and "foldl (\<lambda>a c. 10 * a + digitVal c) x ds \<le> maxU63"
  shows "leadingInt x (ds @ rest) = Some (foldl (\<lambda>a c. 10 * a + digitVal c) x ds, rest)"
  using assms
proof (induction ds arbitrary: x)
  case Nil
  then show ?case by (cases rest) auto
next
  case (Cons d ds)
  have le: "10 * x + digitVal d \<le> maxU63"
    using Cons.prems(3) foldl_digits_ge[of "10 * x + digitVal d" ds] by simp
  then have "\<not> maxU63 div 10 < x" by (simp add: maxU63_def)
  moreover have "leadingInt (10 * x + digitVal d) (ds @ rest) =
      Some (foldl (\<lambda>a c. 10 * a + digitVal c) (10 * x + digitVal d) ds, rest)"
    using Cons.prems by (intro Cons.IH) auto
  ultimately show ?case using Cons.prems(1) le by (simp add: Let_def mult.commute)
qed

lemma leadingInt_natDigits:
  "rest = [] \<or> \<not> isDigit (hd rest) \<Longrightarrow> n \<le> maxU63 \<Longrightarrow>
   leadingInt 0 (natDigits n @ rest) = Some (n, rest)"
  using leadingInt_digits[of "natDigits n" rest 0] digitsVal_natDigits[of n]
  by (auto simp: digitsVal_def natDigits_isDigit)

lemma isDigit_letters [simp]:
  "\<not> isDigit (CHR ''d'')" "\<not> isDigit (CHR ''h'')" "\<not> isDigit (CHR ''.'')" "\<not> isDigit (CHR ''-'')"
  "\<not> isDigit (CHR ''+'')"
  by (simp_all add: isDigit_def)

lemma hd_natDigits: "isDigit (hd (natDigits n))"
  by (rule natDigits_isDigit[of _ n]) simp

lemma digit_not_special:
  assumes "isDigit c"
  shows "\<not> isSpace c" "c \<noteq> CHR ''-''" "c \<noteq> CHR ''+''" "c \<noteq> CHR ''.''" "\<not> isUnitByte c"
  using assms by (auto simp: isDigit_def isSpace_def isUnitByte_def)

lemma takeWhile_natDigits:
  "takeWhile isDigit (natDigits n @ c # r) = natDigits n" if "\<not> isDigit c"
  using that by (simp add: takeWhile_append2[where P = isDigit] natDigits_isDigit)

lemma dropWhile_natDigits: "dropWhile isDigit (natDigits n @ c # r) = c # r" if "\<not> isDigit c"
  using that by (simp add: dropWhile_append2[where P = isDigit] natDigits_isDigit)

text \<open>One printed number of hours is consumed by one round of the loop.\<close>

lemma durStep_hours:
  assumes "n \<le> 8760" and "rest = [] \<or> isDigit (hd rest)"
  shows "durStep fl (natDigits n @ CHR ''h'' # rest) = Inr (n * 3600000000000, rest)"
proof -
  have u: "takeWhile isUnitByte (CHR ''h'' # rest) = ''h''" "dropWhile isUnitByte (CHR ''h'' # rest) = rest"
    using assms(2) by (cases rest; simp add: isUnitByte_def)+
  have "leadingInt 0 (natDigits n @ CHR ''h'' # rest) = Some (n, CHR ''h'' # rest)"
    using assms(1) by (intro leadingInt_natDigits) (auto simp: maxU63_def)
  moreover have "\<not> isUnitByte (hd (natDigits n @ CHR ''h'' # rest))"
    using hd_natDigits[of n] digit_not_special(5) by simp
  moreover have "durUnit fl n 0 1 (CHR ''h'' # rest) = Inr (n * 3600000000000, rest)"
    using assms(1) unfolding durUnit_def u by (simp add: unitMap_def maxU63_def)
  ultimately show ?thesis by (simp add: durStep_def durFraction_def)
qed

lemma durLoop_hours:
  assumes "d + n * 3600000000000 \<le> maxU63" and "n \<le> 8760" and "rest = [] \<or> isDigit (hd rest)"
  shows "durLoop fl d (natDigits n @ CHR ''h'' # rest) = durLoop fl (d + n * 3600000000000) rest"
  using assms by (subst durLoop.simps) (simp add: durStep_hours maxU63_def)

lemma ParseDuration_natDigits:
  assumes "durLoop fl 0 (natDigits n @ CHR ''h'' # rest) = Inr d" and "d < maxU63"
  shows "ParseDuration fl (natDigits n @ CHR ''h'' # rest) = Inr (int d)"
proof -
  have "hd (natDigits n @ CHR ''h'' # rest) \<noteq> CHR ''-''" "hd (natDigits n @ CHR ''h'' # rest) \<noteq> CHR ''+''"
    using digit_not_special[OF hd_natDigits[of n]] by simp_all
  moreover have "natDigits n @ CHR ''h'' # rest \<noteq> ''0''" by (cases "natDigits n") auto
  ultimately show ?thesis using assms by (simp add: ParseDuration_def Let_def)
qed

lemma rewriteDays_days:
  assumes "n < 2 ^ 58"
  shows "rewriteDays (natDigits n @ CHR ''d'' # rest) =
    map_sum id (\<lambda>out. natDigits (24 * n) @ ''h'' @ out) (rewriteDays rest)"
proof -
  obtain c cs where c: "natDigits n = c # cs" by (cases "natDigits n") auto
  then have dc: "isDigit c" using hd_natDigits[of n] by simp
  have "atoi (natDigits n) = Inr (int n)" using assms by (simp add: atoi_def maxU63_def)
  moreover have "itoa (wrap64 (int n * 24)) = natDigits (24 * n)"
  proof -
    have "wrap64 (int n * 24) = int n * 24" using assms by (intro wrap64_id) auto
    then show ?thesis by (simp add: itoa_def nat_mult_distrib mult.commute)
  qed
  ultimately show ?thesis
    using takeWhile_natDigits[of "CHR ''d''" n rest] dropWhile_natDigits[of "CHR ''d''" n rest] dc
    by (subst rewriteDays.simps) (simp add: c Let_def)
qed

lemma rewriteDays_hours: "rewriteDays (natDigits n @ ''h'') = Inr (natDigits n @ ''h'')"
proof -
  obtain c cs where c: "natDigits n = c # cs" by (cases "natDigits n") auto
  then have dc: "isDigit c" using hd_natDigits[of n] by simp
  have "rewriteDays ''h'' = Inr ''h''" by code_simp
  then show ?thesis
    using takeWhile_natDigits[of "CHR ''h''" n "[]"] dropWhile_natDigits[of "CHR ''h''" n "[]"] dc
    by (subst rewriteDays.simps) (simp add: c Let_def)
qed

lemma trimSpace_natDigits:
  "s \<noteq> [] \<Longrightarrow> \<not> isSpace (last s) \<Longrightarrow> trimSpace (natDigits n @ s) = natDigits n @ s"
  using digit_not_special(1)[OF hd_natDigits[of n]] by (intro trimSpace_idle) simp

lemma parse_days:
  assumes "1 \<le> n" and "n \<le> 365"
  shows "ParseFlexibleDuration fl (natDigits n @ ''d'') = Inr (int n * 24 * hour)"
proof -
  have t: "trimSpace (natDigits n @ ''d'') = natDigits n @ ''d''"
    by (rule trimSpace_natDigits) (auto simp: isSpace_def)
  have "rewriteDays [] = Inr []" by code_simp
  then have "rewriteDays (natDigits n @ ''d'') = Inr (natDigits (24 * n) @ ''h'')"
    using rewriteDays_days[of n "[]"] assms by simp
  moreover have "ParseDuration fl (natDigits (24 * n) @ ''h'') = Inr (int (24 * n * 3600000000000))"
    using assms by (intro ParseDuration_natDigits) (simp_all add: durLoop_hours durLoop.simps[of _ _ "[]"] maxU63_def)
  ultimately show ?thesis using assms
    unfolding ParseFlexibleDuration_def t
    by (simp add: hour_def minute_def second_def MinChildTokenTTL_def MaxChildTokenTTL_def)
qed

lemma parse_days_hours:
  assumes "1 \<le> 24 * n + m" and "24 * n + m \<le> 8760"
  shows "ParseFlexibleDuration fl (natDigits n @ ''d'' @ natDigits m @ ''h'') = Inr (int (24 * n + m) * hour)"
proof -
  have t: "trimSpace (natDigits n @ ''d'' @ natDigits m @ ''h'') = natDigits n @ ''d'' @ natDigits m @ ''h''"
    by (rule trimSpace_natDigits) (auto simp: isSpace_def)
  have "rewriteDays (natDigits n @ ''d'' @ natDigits m @ ''h'') =
      Inr (natDigits (24 * n) @ CHR ''h'' # natDigits m @ ''h'')"
    using rewriteDays_days[of n "natDigits m @ ''h''"] rewriteDays_hours[of m] assms by simp
  moreover have "ParseDuration fl (natDigits (24 * n) @ CHR ''h'' # natDigits m @ ''h'') =
      Inr (int (24 * n * 3600000000000 + m * 3600000000000))"
    using assms hd_natDigits[of m]
    by (intro ParseDuration_natDigits)
      (simp_all add: durLoop_hours durLoop.simps[of _ _ "[]"] maxU63_def)
  ultimately show ?thesis using assms
    unfolding ParseFlexibleDuration_def t
    by (simp add: hour_def minute_def second_def MinChildTokenTTL_def MaxChildTokenTTL_def)
qed

text \<open>Everything needed to evaluate the parser on a closed text by rewriting.\<close>

lemmas ttl_eval =
  ParseFlexibleDuration_def ParseDuration_def rewriteDays.simps durLoop.simps durStep_def
  durUnit_def durFraction_def unitMap_def maxU63_def isUnitByte_def isDigit_def digitVal_def
  trimSpace_def isSpace_def hour_def minute_def second_def MinChildTokenTTL_def MaxChildTokenTTL_def
  atoi_def digitsVal_def wrap64_def itoa_def natDigits.simps Let_def

section \<open>Properties\<close>

text \<open>
  Whatever the text and the float conversion, an accepted lifetime lies between one minute
  and 365 days.
\<close>

theorem ttl_within_bounds:
  assumes "ParseFlexibleDuration fl s = Inr d"
  shows "MinChildTokenTTL \<le> d \<and> d \<le> MaxChildTokenTTL"
  using assms by (auto simp: ParseFlexibleDuration_def Let_def split: if_splits sum.splits)

text \<open>
  The day shorthand means what the comment says: \<open>Nd\<close> is \<open>N\<close> times 24 hours for every
  \<open>N\<close> from 1 to 365, and \<open>NdMh\<close> is \<open>24 N + M\<close> hours when that stays within a year.
\<close>

theorem day_shorthand:
  "(1 \<le> n \<and> n \<le> 365 \<longrightarrow> ParseFlexibleDuration fl (natDigits n @ ''d'') = Inr (int n * 24 * hour)) \<and>
   (1 \<le> 24 * n + m \<and> 24 * n + m \<le> 8760 \<longrightarrow>
     ParseFlexibleDuration fl (natDigits n @ ''d'' @ natDigits m @ ''h'') = Inr (int (24 * n + m) * hour))"
  using parse_days parse_days_hours by blast

text \<open>
  The broker's default lifetime is always usable: it lies between one minute and 365 days
  for every configuration text.
\<close>

theorem default_ttl_within_bounds:
  "MinChildTokenTTL \<le> defaultChildTTL fl cfgTTL \<and> defaultChildTTL fl cfgTTL \<le> MaxChildTokenTTL"
  by (auto simp: defaultChildTTL_def ParseFlexibleDuration_def MinChildTokenTTL_def MaxChildTokenTTL_def
      hour_def minute_def second_def Let_def split: if_splits sum.splits)

text \<open>
  Two inputs that the parser should refuse are accepted with another meaning: a day count
  whose product with 24 leaves 64 bits wraps around (here to eight hours), and a fractional day
  count is read as a fraction of an hour (\<^verbatim>\<open>1.5d\<close> becomes \<^verbatim>\<open>1.120h\<close>, 4032 seconds when the
  float step yields the exact 432 seconds of 0.120 hours).
\<close>

theorem day_shorthand_misread:
  "ParseFlexibleDuration fl ''768614336404564651d'' = Inr (8 * hour) \<and>
   rewriteDays ''1.5d'' = Inr ''1.120h'' \<and>
   ParseFlexibleDuration (\<lambda>_ _ _. 432000000000) ''1.5d'' = Inr (4032 * second)"
proof (intro conjI)
  show "ParseFlexibleDuration fl ''768614336404564651d'' = Inr (8 * hour)" by (simp add: ttl_eval)
  show "rewriteDays ''1.5d'' = Inr ''1.120h''" by (simp add: ttl_eval)
  show "ParseFlexibleDuration (\<lambda>_ _ _. 432000000000) ''1.5d'' = Inr (4032 * second)"
    by (simp add: ttl_eval)
qed

theorem ttl_within_bounds_witness:
  "MinChildTokenTTL \<le> 36 * hour \<and> 36 * hour \<le> MaxChildTokenTTL"
proof -
  have "ParseFlexibleDuration (\<lambda>_ _ _. 0) '' 1d12h'' = Inr (36 * hour)"
    by (simp add: ttl_eval)
  then show ?thesis by (rule ttl_within_bounds)
qed

theorem day_shorthand_witness:
  "ParseFlexibleDuration (\<lambda>f unit scale. 0) (natDigits 30 @ ''d'') = Inr (720 * hour) \<and>
   ParseFlexibleDuration (\<lambda>f unit scale. 0) (natDigits 1 @ ''d'' @ natDigits 12 @ ''h'') = Inr (36 * hour)"
  using day_shorthand[of 30 "\<lambda>f unit scale. 0" 0] day_shorthand[of 1 "\<lambda>f unit scale. 0" 12] by simp

end
