(* ===== verification/Cli.thy ===== *)
theory Cli
  imports Transport TTL
begin

text \<open>
  The command line of \<^verbatim>\<open>src/main.go\<close> and \<^verbatim>\<open>src/run_wrapper.go\<close>: the hand-written flag parsers
  (\<open>parseGlobalFlags\<close>, \<open>parseBrokerFlags\<close>, \<open>parseIssueTokenArgs\<close>, \<open>buildRunArgv\<close>), the token
  commands, and the choice of the command in \<open>main\<close>.  A command is a function from what it reads
  to its exit status, its output and the files it leaves.
\<close>

section \<open>Flags of the broker\<close>

definition splitFlag :: "string \<Rightarrow> string \<times> string option" where
  "splitFlag a = (case indexByte a (CHR ''='') of
      Some (Suc n) \<Rightarrow> (take (Suc n) a, Some (drop (Suc (Suc n)) a))
    | _ \<Rightarrow> (a, None))"

definition flagValue :: "string option \<Rightarrow> string list \<Rightarrow> (string \<times> string list) option" where
  "flagValue inline rest = (case inline of
      Some v \<Rightarrow> Some (v, rest)
    | None \<Rightarrow> (case rest of [] \<Rightarrow> None | v # r \<Rightarrow> Some (v, r)))"

lemma flagValue_length: "flagValue inline rest = Some (v, r) \<Longrightarrow> length r \<le> length rest"
  by (auto simp: flagValue_def split: option.splits list.splits)

function parseBrokerFlags :: "string list \<Rightarrow> Config \<Rightarrow> string option \<times> Config" where
  "parseBrokerFlags [] c = (None, c)"
| "parseBrokerFlags (a # rest) c =
     (let (key, inline) = splitFlag a
      in if key = ''--tls-domain'' then
           (case flagValue inline rest of
              None \<Rightarrow> (Some ''--tls-domain requires a value'', c)
            | Some (v, r) \<Rightarrow> parseBrokerFlags r (c\<lparr>g_TLSDomain := v\<rparr>))
         else if key = ''--tls-email'' then
           (case flagValue inline rest of
              None \<Rightarrow> (Some ''--tls-email requires a value'', c)
            | Some (v, r) \<Rightarrow> parseBrokerFlags r (c\<lparr>g_TLSEmail := v\<rparr>))
         else if key = ''--tls-cache-dir'' then
           (case flagValue inline rest of
              None \<Rightarrow> (Some ''--tls-cache-dir requires a value'', c)
            | Some (v, r) \<Rightarrow> parseBrokerFlags r (c\<lparr>g_TLSCacheDir := v\<rparr>))
         else if key = ''--tls-acme-staging'' then
           parseBrokerFlags rest (c\<lparr>g_TLSAcmeStaging := (case inline of None \<Rightarrow> True | Some v \<Rightarrow> v = ''true'' \<or> v = ''1'')\<rparr>)
         else (Some (''unknown flag '' @ goQuote a @
           '' for broker (supported: --tls-domain, --tls-email, --tls-cache-dir, --tls-acme-staging)''), c))"
  by pat_completeness auto
termination
  by (relation "measure (length \<circ> fst)") (auto dest: flagValue_length)

section \<open>The global flag\<close>

text \<open>\<open>None\<close> is the exit with status 2; otherwise the override and the remaining arguments.\<close>

fun parseGlobalFlags :: "string list \<Rightarrow> string \<Rightarrow> (string \<times> string list) option" where
  "parseGlobalFlags [] name = Some (name, [])"
| "parseGlobalFlags (a # rest) name =
     (if a = ''--as'' then
        (case rest of [] \<Rightarrow> None | v # r \<Rightarrow> parseGlobalFlags r v)
      else if hasPrefix a ''--as='' then parseGlobalFlags rest (trimPrefix a ''--as='')
      else map_option (\<lambda>(n, out). (n, a # out)) (parseGlobalFlags rest name))"

section \<open>The wrapper around claude\<close>

definition channelFlag :: string where "channelFlag = ''--dangerously-load-development-channels''"
definition channelValue :: string where "channelValue = ''server:claude-peers''"

record runState =
  u_skipChannel :: bool
  u_hasChannelFlag :: bool
  u_passthrough :: "string list"
  u_env :: "string list"

fun runLoop :: "string list \<Rightarrow> runState \<Rightarrow> runState" where
  "runLoop [] u = u"
| "runLoop (a # rest) u =
     (if a = ''-p'' \<or> a = ''--print'' \<or> hasPrefix a ''--print='' then
        runLoop rest (u\<lparr>u_skipChannel := True, u_passthrough := u_passthrough u @ [a]\<rparr>)
      else if a = channelFlag then
        (case rest of
           v # r \<Rightarrow> runLoop r (u\<lparr>u_hasChannelFlag := True, u_passthrough := u_passthrough u @ [a] @ [v]\<rparr>)
         | [] \<Rightarrow> u\<lparr>u_hasChannelFlag := True, u_passthrough := u_passthrough u @ [a]\<rparr>)
      else if hasPrefix a (channelFlag @ ''='') then
        runLoop rest (u\<lparr>u_hasChannelFlag := True, u_passthrough := u_passthrough u @ [a]\<rparr>)
      else if a = ''--as'' then
        (case rest of
           [] \<Rightarrow> u\<lparr>u_passthrough := u_passthrough u @ [a]\<rparr>
         | v # r \<Rightarrow> runLoop r (u\<lparr>u_env := u_env u @ [''CLAUDE_PEERS_AGENT='' @ v]\<rparr>))
      else if hasPrefix a ''--as='' then
        runLoop rest (u\<lparr>u_env := u_env u @ [''CLAUDE_PEERS_AGENT='' @ trimPrefix a ''--as='']\<rparr>)
      else runLoop rest (u\<lparr>u_passthrough := u_passthrough u @ [a]\<rparr>))"

definition buildRunArgv :: "string list \<Rightarrow> string list \<times> string list" where
  "buildRunArgv userArgs =
     (let u = runLoop userArgs \<lparr>u_skipChannel = False, u_hasChannelFlag = False, u_passthrough = [], u_env = []\<rparr>
      in ([''claude''] @ (if \<not> u_hasChannelFlag u \<and> \<not> u_skipChannel u then [channelFlag, channelValue] else []) @
            u_passthrough u, u_env u))"

text \<open>
  \<open>bin\<close> is the result of \<open>exec.LookPath\<close>, \<open>environ\<close> that of \<open>os.Environ\<close>; the result is the exit
  message, or the program, arguments and environment that replace the process.
\<close>

definition runClaudeWrapped :: "string option \<Rightarrow> string list \<Rightarrow> string list \<Rightarrow> string + string \<times> string list \<times> string list" where
  "runClaudeWrapped bin environ userArgs = (case bin of
      None \<Rightarrow> Inl (''claude-peers run: 'claude' binary not found in PATH.'' @ nl @
                  ''  Install Claude Code or ensure it's on your PATH, then re-run.'' @ nl)
    | Some execPath \<Rightarrow>
        (let (argv, envs) = buildRunArgv userArgs in Inr (execPath, argv, environ @ envs)))"

section \<open>Issuing a token\<close>

record issueTokenArgs =
  a_positional :: "string list"
  a_ttl :: duration
  a_ttlFromFlag :: bool

text \<open>The text of the errors of \<open>ParseFlexibleDuration\<close>.\<close>

definition durText :: "string \<Rightarrow> durError \<Rightarrow> string" where
  "durText orig e = (case e of
      InvalidDuration \<Rightarrow> ''time: invalid duration '' @ goQuote orig
    | MissingUnit \<Rightarrow> ''time: missing unit in duration '' @ goQuote orig
    | UnknownUnit u \<Rightarrow> ''time: unknown unit '' @ goQuote u @ '' in duration '' @ goQuote orig)"

definition ttlText :: "ttlError \<Rightarrow> string" where
  "ttlText e = (case e of
      EmptyDuration \<Rightarrow> ''empty duration''
    | ParseDays x \<Rightarrow> ''parse days: '' @ x
    | ParseDurationError s x \<Rightarrow> ''parse duration '' @ goQuote s @ '': '' @
        durText (case rewriteDays s of Inl _ \<Rightarrow> [] | Inr out \<Rightarrow> out) x
    | BelowMinimum d \<Rightarrow> ''ttl '' @ durationString d @ '' is below minimum '' @ durationString MinChildTokenTTL
    | ExceedsMaximum d \<Rightarrow> ''ttl '' @ durationString d @ '' exceeds maximum '' @ durationString MaxChildTokenTTL @
        '' (root token lifetime)'')"

definition applyTTL :: "fracMul \<Rightarrow> string \<Rightarrow> issueTokenArgs \<Rightarrow> string + issueTokenArgs" where
  "applyTTL fl raw out = (case ParseFlexibleDuration fl raw of
      Inl e \<Rightarrow> Inl (''--ttl: '' @ ttlText e)
    | Inr d \<Rightarrow> Inr (out\<lparr>a_ttl := d, a_ttlFromFlag := True\<rparr>))"

fun issueLoop :: "fracMul \<Rightarrow> string list \<Rightarrow> issueTokenArgs \<Rightarrow> string + issueTokenArgs" where
  "issueLoop fl [] out = Inr out"
| "issueLoop fl (a # rest) out =
     (if a = ''--ttl'' then
        (case rest of
           [] \<Rightarrow> Inl ''--ttl requires a duration (e.g. 30d, 720h)''
         | raw # r \<Rightarrow> (case applyTTL fl raw out of Inl e \<Rightarrow> Inl e | Inr out' \<Rightarrow> issueLoop fl r out'))
      else if hasPrefix a ''--ttl='' then
        (case applyTTL fl (trimPrefix a ''--ttl='') out of Inl e \<Rightarrow> Inl e | Inr out' \<Rightarrow> issueLoop fl rest out')
      else issueLoop fl rest (out\<lparr>a_positional := a_positional out @ [a]\<rparr>))"

definition parseIssueTokenArgs :: "fracMul \<Rightarrow> string \<Rightarrow> string list \<Rightarrow> string + issueTokenArgs" where
  "parseIssueTokenArgs fl cfgTTL args =
     issueLoop fl args \<lparr>a_positional = [], a_ttl = defaultChildTTL fl cfgTTL, a_ttlFromFlag = False\<rparr>"

definition roleCapabilities :: "string \<Rightarrow> Capability list option" where
  "roleCapabilities role =
     (if role = ''peer-session'' then Some PeerSessionCapabilities
      else if role = ''fleet-read'' then Some FleetReadCapabilities
      else if role = ''fleet-write'' then Some FleetWriteCapabilities
      else if role = ''cli'' then Some CLICapabilities
      else None)"

text \<open>What a command printed: exit status, standard output, standard error.\<close>

record cmdResult =
  z_status :: int
  z_stdout :: string
  z_stderr :: string

definition dies :: "int \<Rightarrow> string \<Rightarrow> cmdResult" where
  "dies code msg = \<lparr>z_status = code, z_stdout = [], z_stderr = msg\<rparr>"

record cliEnv =
  x_os :: osEnv
  x_jwt :: jwtLib
  x_pem :: pemLib
  x_frac :: fracMul
  x_cfg :: Config

definition issueUsage :: string where
  "issueUsage = ''Usage: claude-peers issue-token [--ttl <duration>] <machine-pub-path> <role>'' @ nl @
     ''Roles: peer-session, fleet-read, fleet-write, cli'' @ nl @
     ''TTL:   24h (default), 30d, 720h, 72h30m '' @ [CHR 0xE2, CHR 0x80, CHR 0x94] @ '' max 365d'' @ nl"

definition parentFor :: "string \<Rightarrow> fs \<Rightarrow> string + string" where
  "parentFor dir s = (case loadRootTokenIn dir s of
      Inr t \<Rightarrow> Inr t
    | Inl _ \<Rightarrow> (case loadTokenIn dir s of Inl e \<Rightarrow> Inl (''Error loading broker root token: '' @ e) | Inr t \<Rightarrow> Inr t))"

definition mintIssued :: "cliEnv \<Rightarrow> clock \<Rightarrow> fs \<Rightarrow> string \<Rightarrow> Capability list \<Rightarrow> duration \<Rightarrow> string + string" where
  "mintIssued X clk s pubPath caps ttl =
     (let dir = configDir (x_os X)
      in case LoadKeyPair (x_pem X) dir s of
           Inl e \<Rightarrow> Inl (''Error loading broker keypair: '' @ e)
         | Inr kp \<Rightarrow>
             (case parentFor dir s of
                Inl e \<Rightarrow> Inl e
              | Inr parentToken \<Rightarrow>
                  (case LoadPublicKey (x_pem X) pubPath s of
                     Inl e \<Rightarrow> Inl (''Error loading target public key: '' @ e)
                   | Inr targetPub \<Rightarrow>
                       (case MintToken (x_jwt X) (clk 0) (PrivateKey kp) targetPub caps ttl parentToken of
                          Inl e \<Rightarrow> Inl (''Error minting token: '' @ e)
                        | Inr token \<Rightarrow> Inr token))))"

definition cliIssueToken :: "cliEnv \<Rightarrow> clock \<Rightarrow> string list \<Rightarrow> fs \<Rightarrow> cmdResult" where
  "cliIssueToken X clk args s =
     (case parseIssueTokenArgs (x_frac X) (g_DefaultChildTTL (x_cfg X)) args of
        Inl e \<Rightarrow> dies 2 (e @ nl)
      | Inr parsed \<Rightarrow>
          (case a_positional parsed of
             pubPath # role # _ \<Rightarrow>
               (case roleCapabilities role of
                  None \<Rightarrow> dies 1 (''Unknown role: '' @ role @ '' (use peer-session, fleet-read, fleet-write, or cli)'' @ nl)
                | Some caps \<Rightarrow>
                    (case mintIssued X clk s pubPath caps (a_ttl parsed) of
                       Inl e \<Rightarrow> dies 1 (e @ nl)
                     | Inr token \<Rightarrow>
                         \<lparr>z_status = 0, z_stdout = token @ nl,
                          z_stderr = ''issued '' @ role @ '' token for '' @ Base pubPath @ '' (ttl='' @ durationString (a_ttl parsed) @
                            '', source='' @ (if a_ttlFromFlag parsed then ''flag'' else ''default'') @
                            '', expires='' @ fmtRFC3339 (clk 1 + a_ttl parsed) @ '')'' @ nl\<rparr>))
           | _ \<Rightarrow> dies 1 issueUsage))"

section \<open>Saving a token\<close>

text \<open>The validator of a command has no persister.\<close>

definition dropSave :: "unit saver" where
  "dropSave h cs e p = p"

definition savedLine :: "cliEnv \<Rightarrow> string" where
  "savedLine X = ''Token saved to '' @ Join [configDir (x_os X), tokenFile] @ nl"

definition saveValidator :: "cliEnv \<Rightarrow> clock \<Rightarrow> bytes \<Rightarrow> string \<Rightarrow> fs \<Rightarrow> TokenValidator" where
  "saveValidator X clk rootPub token s =
     (let v = NewTokenValidator rootPub
      in case loadTokenIn (configDir (x_os X)) s of
           Inl _ \<Rightarrow> v
         | Inr rootToken \<Rightarrow>
             if rootToken \<noteq> token
             then fst (RegisterToken (x_jwt X) dropSave (clk 0) rootToken AllCapabilities (v, ())) else v)"

definition claimsText :: "UCANClaims \<Rightarrow> string" where
  "claimsText c = ''Capabilities:'' @ nl @ concat (map (\<lambda>c. ''  '' @ Resource c @ nl) (c_Capabilities c)) @
     (case c_ExpiresAt c of None \<Rightarrow> [] | Some e \<Rightarrow> ''Expires: '' @ fmtRFC3339 e @ nl)"

definition cliSaveToken :: "cliEnv \<Rightarrow> clock \<Rightarrow> string list \<Rightarrow> fs \<Rightarrow> cmdResult \<times> fs" where
  "cliSaveToken X clk args s = (case args of
      [] \<Rightarrow> (dies 1 (''Usage: claude-peers save-token <jwt-string>'' @ nl), s)
    | token # _ \<Rightarrow>
        (case SaveTokenFile token (configDir (x_os X)) s of
           (Some e, s1) \<Rightarrow> (dies 1 (''Error saving token: '' @ e @ nl), s1)
         | (None, s1) \<Rightarrow>
             (\<lparr>z_status = 0, z_stdout = savedLine X @
                (case LoadPublicKey (x_pem X) (Join [configDir (x_os X), rootPubKeyFile]) s1 of
                   Inl _ \<Rightarrow> ''WARNING: could not load root.pub for validation'' @ nl
                 | Inr rootPub \<Rightarrow>
                     (case fst (Validate (x_jwt X) dropSave (clk 1) token (saveValidator X clk rootPub token s1, ())) of
                        Inl e \<Rightarrow> ''WARNING: token validation failed: '' @ e @ nl
                      | Inr claims \<Rightarrow> claimsText claims)), z_stderr = []\<rparr>, s1)))"

text \<open>The \<open>mint-root\<close> command.\<close>

definition cliMintRoot :: "cliEnv \<Rightarrow> clock \<Rightarrow> fs \<Rightarrow> exit" where
  "cliMintRoot X clk s =
     (let dir = configDir (x_os X)
      in case LoadKeyPair (x_pem X) dir s of
        Inl e \<Rightarrow> failWith 1 ''Error loading keypair'' e s
      | Inr kp \<Rightarrow>
      (case MintRootToken (x_jwt X) (clk 0) (PrivateKey kp) AllCapabilities (365 * 24 * hour) of
        Inl e \<Rightarrow> failWith 1 ''Error minting root token'' e s
      | Inr token \<Rightarrow>
      (case SaveRootToken token dir s of
        (Some e, s1) \<Rightarrow> failWith 1 ''Error saving root token'' e s1
      | (None, s1) \<Rightarrow>
      (case SaveTokenFile token dir s1 of
        (Some e, s2) \<Rightarrow> failWith 1 ''Error saving token'' e s2
      | (None, s2) \<Rightarrow> (0, [], s2)))))"

section \<open>The choice of the command\<close>

datatype command =
    PrintUsage
  | SendUsage
  | RunBroker "string list"
  | RunServer
  | Init "string list"
  | ShowConfig
  | Status
  | ListPeersCmd
  | SendCmd string string
  | Dream
  | DreamWatch
  | IssueToken "string list"
  | MintRoot
  | SaveTokenCmd "string list"
  | RefreshToken
  | GenerateNKey
  | KillBroker
  | ReauthFleet
  | RunClaude "string list"

text \<open>The switch of \<open>main\<close> on the arguments that \<open>parseGlobalFlags\<close> has left.\<close>

definition chooseCommand :: "string list \<Rightarrow> command" where
  "chooseCommand args = (case args of
      prog # cmd # rest \<Rightarrow>
        (if cmd = ''broker'' then RunBroker rest
         else if cmd = ''server'' then RunServer
         else if cmd = ''init'' then Init rest
         else if cmd = ''config'' then ShowConfig
         else if cmd = ''status'' then Status
         else if cmd = ''peers'' then ListPeersCmd
         else if cmd = ''send'' then
           (case rest of to # msg # msgs \<Rightarrow> SendCmd to (joinStr '' '' (msg # msgs)) | _ \<Rightarrow> SendUsage)
         else if cmd = ''dream'' then Dream
         else if cmd = ''dream-watch'' then DreamWatch
         else if cmd = ''issue-token'' then IssueToken rest
         else if cmd = ''mint-root'' then MintRoot
         else if cmd = ''save-token'' then SaveTokenCmd rest
         else if cmd = ''refresh-token'' then RefreshToken
         else if cmd = ''generate-nkey'' then GenerateNKey
         else if cmd = ''kill-broker'' then KillBroker
         else if cmd = ''reauth-fleet'' then ReauthFleet
         else if cmd = ''run'' then RunClaude rest
         else PrintUsage)
    | _ \<Rightarrow> PrintUsage)"

definition mainCommand :: "string list \<Rightarrow> (string \<times> command) option" where
  "mainCommand args = map_option (\<lambda>(name, out). (name, chooseCommand out)) (parseGlobalFlags args [])"

section \<open>Flags are read back\<close>

datatype tlsSetting = Domain string | Email string | CacheDir string | Staging bool

definition applySetting :: "tlsSetting \<Rightarrow> Config \<Rightarrow> Config" where
  "applySetting t c = (case t of
      Domain v \<Rightarrow> c\<lparr>g_TLSDomain := v\<rparr> | Email v \<Rightarrow> c\<lparr>g_TLSEmail := v\<rparr>
    | CacheDir v \<Rightarrow> c\<lparr>g_TLSCacheDir := v\<rparr> | Staging b \<Rightarrow> c\<lparr>g_TLSAcmeStaging := b\<rparr>)"

text \<open>A setting in the form with an equals sign, or as two arguments.\<close>

definition flagArgs :: "bool \<Rightarrow> string \<Rightarrow> string \<Rightarrow> string list" where
  "flagArgs inline key v = (if inline then [key @ ''='' @ v] else [key, v])"

definition settingArgs :: "bool \<times> tlsSetting \<Rightarrow> string list" where
  "settingArgs bt = (case snd bt of
      Domain v \<Rightarrow> flagArgs (fst bt) ''--tls-domain'' v | Email v \<Rightarrow> flagArgs (fst bt) ''--tls-email'' v
    | CacheDir v \<Rightarrow> flagArgs (fst bt) ''--tls-cache-dir'' v
    | Staging b \<Rightarrow> (if b \<and> \<not> fst bt then [''--tls-acme-staging'']
        else [''--tls-acme-staging='' @ (if b then ''true'' else ''false'')]))"

lemma splitFlag_inline: "key \<noteq> [] \<Longrightarrow> CHR ''='' \<notin> set key \<Longrightarrow> splitFlag (key @ CHR ''='' # v) = (key, Some v)"
proof -
  assume k: "key \<noteq> []" "CHR ''='' \<notin> set key"
  have "indexByte (key @ CHR ''='' # v) (CHR ''='') = Some (length key)"
    using k(2) by (induction key) auto
  with k(1) show ?thesis by (cases key) (auto simp: splitFlag_def)
qed

lemma indexByte_None: "c \<notin> set s \<Longrightarrow> indexByte s c = None"
  by (induction s) auto

lemma splitFlag_plain: "CHR ''='' \<notin> set key \<Longrightarrow> splitFlag key = (key, None)"
  by (simp add: splitFlag_def indexByte_None)

lemma parse_setting:
  "parseBrokerFlags (settingArgs (b, t) @ rest) c = parseBrokerFlags rest (applySetting t c)"
proof -
  have "splitFlag (''--tls-domain='' @ v) = (''--tls-domain'', Some v)" "splitFlag (''--tls-email='' @ v) = (''--tls-email'', Some v)"
    "splitFlag (''--tls-cache-dir='' @ v) = (''--tls-cache-dir'', Some v)"
    "splitFlag (''--tls-acme-staging='' @ v) = (''--tls-acme-staging'', Some v)" for v
    using splitFlag_inline[of "''--tls-domain''" v] splitFlag_inline[of "''--tls-email''" v]
      splitFlag_inline[of "''--tls-cache-dir''" v] splitFlag_inline[of "''--tls-acme-staging''" v] by simp_all
  note inl = this[simplified]
  have pl: "splitFlag ''--tls-domain'' = (''--tls-domain'', None)" "splitFlag ''--tls-email'' = (''--tls-email'', None)"
    "splitFlag ''--tls-cache-dir'' = (''--tls-cache-dir'', None)" "splitFlag ''--tls-acme-staging'' = (''--tls-acme-staging'', None)"
    by (simp_all add: splitFlag_plain)
  show ?thesis
    by (cases t) (auto simp: settingArgs_def flagArgs_def applySetting_def inl inl[of "''true''", simplified]
        inl[of "''false''", simplified] pl flagValue_def)
qed

text \<open>
  The broker's flags are read back: settings written as arguments in either form, in any number
  and order, are accepted and take effect in that order, the last one of a kind winning, and
  nothing else of the configuration changes.
\<close>

theorem broker_flags_round_trip:
  "parseBrokerFlags (concat (map settingArgs ts)) c = (None, fold (applySetting \<circ> snd) ts c)"
proof (induction ts arbitrary: c)
  case (Cons t ts)
  then show ?case
    using parse_setting[of "fst t" "snd t" "concat (map settingArgs ts)" c] by simp
qed simp

section \<open>What claude is started with\<close>

text \<open>
  The reference reading of the user's arguments: they are cut into items, each with the
  arguments it covers.
\<close>

datatype runItem = Print string | Channel "string list" | As string "string list" | Pass string

fun runItems :: "string list \<Rightarrow> runItem list" where
  "runItems [] = []"
| "runItems (a # rest) =
     (if a = ''-p'' \<or> a = ''--print'' \<or> hasPrefix a ''--print='' then Print a # runItems rest
      else if a = channelFlag then
        (case rest of [] \<Rightarrow> [Channel [a]] | v # r \<Rightarrow> Channel [a, v] # runItems r)
      else if hasPrefix a (channelFlag @ ''='') then Channel [a] # runItems rest
      else if a = ''--as'' then (case rest of [] \<Rightarrow> [Pass a] | v # r \<Rightarrow> As v [a, v] # runItems r)
      else if hasPrefix a ''--as='' then As (trimPrefix a ''--as='') [a] # runItems rest
      else Pass a # runItems rest)"

fun itemArgs :: "runItem \<Rightarrow> string list" where
  "itemArgs (Print a) = [a]"
| "itemArgs (Channel as) = as"
| "itemArgs (As n as) = as"
| "itemArgs (Pass a) = [a]"

fun isAs :: "runItem \<Rightarrow> bool" where
  "isAs (As n as) = True" | "isAs _ = False"

fun optsOut :: "runItem \<Rightarrow> bool" where
  "optsOut (Print a) = True" | "optsOut (Channel as) = True" | "optsOut _ = False"

fun itemEnv :: "runItem \<Rightarrow> string list" where
  "itemEnv (As n as) = [''CLAUDE_PEERS_AGENT='' @ n]" | "itemEnv _ = []"

lemma runItems_lossless: "concat (map itemArgs (runItems args)) = args"
  by (induction args rule: runItems.induct) (auto split: list.splits)

fun applyItem :: "runItem \<Rightarrow> runState \<Rightarrow> runState" where
  "applyItem (Print a) u = u\<lparr>u_skipChannel := True, u_passthrough := u_passthrough u @ [a]\<rparr>"
| "applyItem (Channel as) u = u\<lparr>u_hasChannelFlag := True, u_passthrough := u_passthrough u @ as\<rparr>"
| "applyItem (As n as) u = u\<lparr>u_env := u_env u @ [''CLAUDE_PEERS_AGENT='' @ n]\<rparr>"
| "applyItem (Pass a) u = u\<lparr>u_passthrough := u_passthrough u @ [a]\<rparr>"

lemma runLoop_fold: "runLoop args u = fold applyItem (runItems args) u"
proof (induction args u rule: runLoop.induct)
  case (2 a rest u)
  then show ?case by (cases rest) simp_all
qed simp

lemma fold_items:
  "u_skipChannel (fold applyItem is u) \<or> u_hasChannelFlag (fold applyItem is u) \<longleftrightarrow>
     u_skipChannel u \<or> u_hasChannelFlag u \<or> list_ex optsOut is"
  "u_passthrough (fold applyItem is u) = u_passthrough u @ concat (map itemArgs (filter (\<lambda>i. \<not> isAs i) is))"
  "u_env (fold applyItem is u) = u_env u @ concat (map itemEnv is)"
proof (induction "is" arbitrary: u)
  case (Cons i "is")
  { case 1 show ?case using Cons(1)[of "applyItem i u"] by (cases i) auto }
  { case 2 show ?case using Cons(2)[of "applyItem i u"] by (cases i) auto }
  { case 3 show ?case using Cons(3)[of "applyItem i u"] by (cases i) auto }
qed auto

lemma buildRunArgv_items:
  "buildRunArgv args =
     (''claude'' # (if list_ex optsOut (runItems args) then [] else [channelFlag, channelValue]) @
        concat (map itemArgs (filter (\<lambda>i. \<not> isAs i) (runItems args))),
      concat (map itemEnv (runItems args)))"
proof -
  let ?u0 = "\<lparr>u_skipChannel = False, u_hasChannelFlag = False, u_passthrough = [], u_env = []\<rparr>"
  have "(\<not> u_hasChannelFlag (fold applyItem (runItems args) ?u0) \<and> \<not> u_skipChannel (fold applyItem (runItems args) ?u0))
      \<longleftrightarrow> \<not> list_ex optsOut (runItems args)"
    using fold_items(1)[of "runItems args" ?u0] by auto
  then show ?thesis by (simp add: buildRunArgv_def runLoop_fold fold_items Let_def)
qed

text \<open>
  \<open>buildRunArgv\<close> against its specification.  The user's arguments are cut into items without
  loss; the loop hands on, in order and verbatim, every item but the agent names, turns exactly
  those into \<open>CLAUDE_PEERS_AGENT\<close> settings, and puts the channel flag in front exactly when no item
  is a print flag or a channel flag of the user's own.
\<close>

theorem run_argv_spec:
  "concat (map itemArgs (runItems args)) = args \<and>
   buildRunArgv args =
     (''claude'' # (if list_ex optsOut (runItems args) then [] else [channelFlag, channelValue]) @
        concat (map itemArgs (filter (\<lambda>i. \<not> isAs i) (runItems args))),
      concat (map itemEnv (runItems args)))"
  by (simp add: runItems_lossless buildRunArgv_items)

lemma parseGlobalFlags_clean:
  "parseGlobalFlags args name = Some (n, out) \<Longrightarrow> a \<in> set out \<Longrightarrow> a \<noteq> ''--as'' \<and> \<not> hasPrefix a ''--as=''"
  by (induction args name arbitrary: n out rule: parseGlobalFlags.induct)
    (auto split: if_splits list.splits)

lemma runItems_no_as:
  "\<forall>a \<in> set args. a \<noteq> ''--as'' \<and> \<not> hasPrefix a ''--as='' \<Longrightarrow> concat (map itemEnv (runItems args)) = []"
  by (induction args rule: runItems.induct) (auto split: list.splits)

text \<open>
  The agent name given to \<open>run\<close> is lost.  \<open>main\<close> strips \<open>--as\<close> from the arguments before it
  chooses the command, so the wrapper never sees it: whatever name was given, the environment
  claude is started with is the unchanged one, without \<open>CLAUDE_PEERS_AGENT\<close>.
\<close>

theorem run_loses_agent_name:
  assumes "mainCommand args = Some (name, RunClaude rest)"
  shows "runClaudeWrapped (Some bin) environ rest = Inr (bin, fst (buildRunArgv rest), environ)"
proof -
  obtain out where out: "parseGlobalFlags args [] = Some (name, out)" "chooseCommand out = RunClaude rest"
    using assms by (auto simp: mainCommand_def)
  then have "set rest \<subseteq> set out"
    by (auto simp: chooseCommand_def split: list.splits if_splits)
  with parseGlobalFlags_clean[OF out(1)] have "concat (map itemEnv (runItems rest)) = []"
    by (intro runItems_no_as) blast
  then have "snd (buildRunArgv rest) = []"
    by (simp add: buildRunArgv_items)
  then show ?thesis by (simp add: runClaudeWrapped_def split_beta)
qed

lemmas cli_eval = mainCommand_def chooseCommand_def hasPrefix_def trimPrefix_def

theorem run_loses_agent_name_witness:
  "mainCommand [''claude-peers'', ''run'', ''--as'', ''jim'', ''-c''] = Some (''jim'', RunClaude [''-c'']) \<and>
   runClaudeWrapped (Some ''/bin/claude'') [''A=1''] [''-c''] =
     Inr (''/bin/claude'', [''claude'', channelFlag, channelValue, ''-c''], [''A=1''])"
proof -
  have m: "mainCommand [''claude-peers'', ''run'', ''--as'', ''jim'', ''-c''] = Some (''jim'', RunClaude [''-c''])"
    by (simp add: cli_eval)
  from run_loses_agent_name[OF m, of "''/bin/claude''" "[''A=1'']"] m show ?thesis
    by (simp add: buildRunArgv_def hasPrefix_def channelFlag_def)
qed

section \<open>From initialisation to an accepted request\<close>

definition signsAll :: "jwtLib \<Rightarrow> bool" where
  "signsAll L \<longleftrightarrow> (\<forall>k c. \<exists>t. signedString L k c = Inr t \<and> trimSpace t = t)"

lemma role_within_all:
  "roleCapabilities role = Some caps \<Longrightarrow> Resource ` set caps \<subseteq> set (resources AllCapabilities)"
  by (auto simp: roleCapabilities_def PeerSessionCapabilities_def FleetReadCapabilities_def
      FleetWriteCapabilities_def CLICapabilities_def AllCapabilities_def capsOf_def resources_def split: if_splits)

lemma role_not_flag:
  "roleCapabilities role = Some caps \<Longrightarrow> role \<noteq> ''--ttl'' \<and> \<not> hasPrefix role ''--ttl=''"
  by (auto simp: roleCapabilities_def hasPrefix_def split: if_splits)

lemma root_token_claims:
  assumes "jwtSigns L" "keysOk L" "MintRootToken L now key caps ttl = Inr tok"
  shows "\<exists>c. parseUnverified L tok = Inr c \<and> c_Capabilities c = caps"
proof -
  let ?c = "newClaims L now (pubKeyToString (publicOf L key)) (pubKeyToString (publicOf L key)) caps ttl []"
  have "wholeSeconds ?c" using assms(2) by (auto simp: wholeSeconds_def newClaims_def keysOk_def nanosOf_def)
  then have "parseUnverified L tok = Inr ?c"
    using assms(1,3) by (auto simp: jwtSigns_def MintRootToken_def Let_def)
  then show ?thesis by (simp add: newClaims_def)
qed

lemma mint_within_parent:
  assumes "parseUnverified L parent = Inr pcl" "Resource ` set caps \<subseteq> set (resources (c_Capabilities pcl))" "signsAll L"
  shows "\<exists>tok. MintToken L now key aud caps ttl parent = Inr tok"
proof -
  have "find (\<lambda>c. Resource c \<notin> set (resources (c_Capabilities pcl))) caps = None"
    using assms(2) by (auto simp: find_None_iff)
  with assms(1,3) show ?thesis by (auto simp: MintToken_def signsAll_def)
qed

lemma parse_two_positional:
  assumes "rooted p" "role \<noteq> ''--ttl''" "\<not> hasPrefix role ''--ttl=''"
  shows "parseIssueTokenArgs fl t [p, role] = Inr \<lparr>a_positional = [p, role], a_ttl = defaultChildTTL fl t, a_ttlFromFlag = False\<rparr>"
proof -
  have "p \<noteq> ''--ttl''" "\<not> hasPrefix p ''--ttl=''"
    using assms(1) by (cases p; auto simp: rooted_def hasPrefix_def)+
  with assms show ?thesis by (simp add: parseIssueTokenArgs_def)
qed

lemma start_knows_root:
  "\<exists>v d'. startValidator L clk (Inr k) (Inr t) d = (Some v, d') \<and>
     knownTokens v (TokenHash L t) = Some (resources AllCapabilities)"
  by (auto simp: startValidator_def RegisterToken_def Let_def split: prod.splits)

text \<open>
  C39: a token issued on a freshly initialised broker is accepted by it.  After \<open>init broker\<close>
  succeeded, \<open>issue-token\<close> for a machine's public key and a role exits with status 0 and prints a
  token; the broker started from the same directory, on whatever database, accepts that token
  until 30 seconds after its expiry, with exactly the capabilities of the role and for that machine.  The path of the
  key is absolute, the lifetime is the default one (no \<open>--ttl\<close>), and the configuration directory is not overridden.  The
  time of issue is arbitrary: the expiry of the root token is not looked at, neither when the token is issued nor when it
  is validated, so the token is accepted also after the root token has expired.
\<close>

theorem issued_token_works:
  assumes lib: "jwtComplete (i_jwt I)" "jwtSigns (i_jwt I)" "keysOk (i_jwt I)" "signsAll (i_jwt I)" "pemOk (i_pem I)"
    and fresh: "readsAll s" "Getenv (i_os I) ''CLAUDE_PEERS_CONFIG'' = []" "i_gen I = Inr (publicOf (i_jwt I) priv, priv)"
    and init: "cliInit I [''broker''] s = (0, e, s1)"
    and X: "x_os X = i_os I" "x_jwt X = i_jwt I" "x_pem X = i_pem I"
    and pub: "rooted pubPath" "LoadPublicKey (i_pem I) pubPath s1 = Inr aud"
    and role: "roleCapabilities role = Some caps"
  shows "\<exists>tok v d'. z_status (cliIssueToken X clk [pubPath, role] s1) = 0 \<and>
    z_stdout (cliIssueToken X clk [pubPath, role] s1) = tok @ nl \<and>
    startValidator (i_jwt I) sclk (LoadKeyPair (i_pem I) (configDir (i_os I)) s1)
      (fst (loadBrokerRootToken um (ReadFile (Join [configDir (i_os I), rootTokenName]) s1)
         (ReadFile (Join [configDir (i_os I), tokenFile]) s1))) d = (Some v, d') \<and>
    (\<forall>now. now < secsOf (clk 0 + defaultChildTTL (x_frac X) (g_DefaultChildTTL (x_cfg X))) * second + 30 * second \<longrightarrow>
       (\<exists>c. fst (Validate (i_jwt I) Save now tok (v, d')) = Inr c \<and> c_Capabilities c = caps \<and>
          c_Audience c = [pubKeyToString aud]))"
proof -
  let ?L = "i_jwt I" and ?ttl = "defaultChildTTL (x_frac X) (g_DefaultChildTTL (x_cfg X))"
  have compact: "trimSpace t = t" if "MintRootToken ?L (i_now I) priv AllCapabilities rootTTL = Inr t" for t
    using lib(4) that unfolding signsAll_def MintRootToken_def Let_def by (metis sum.inject(2))
  obtain root where root: "MintRootToken ?L (i_now I) priv AllCapabilities rootTTL = Inr root"
    and kp: "LoadKeyPair (i_pem I) (configDir (i_os I)) s1 = Inr \<lparr>PrivateKey = priv, PublicKey = publicOf ?L priv\<rparr>"
    and rt: "loadRootTokenIn (configDir (i_os I)) s1 = Inr root"
    using init_broker_files[OF init fresh(3) lib(5) fresh(1,2) compact] by blast
  obtain rc where rc: "parseUnverified ?L root = Inr rc" "c_Capabilities rc = AllCapabilities"
    using root_token_claims[OF lib(2,3) root] by blast
  obtain tok where tok: "MintToken ?L (clk 0) priv aud caps ?ttl root = Inr tok"
    using mint_within_parent[OF rc(1) _ lib(4)] role_within_all[OF role] rc(2) by metis
  have "mintIssued X clk s1 pubPath caps ?ttl = Inr tok"
    using X kp rt pub(2) tok by (simp add: mintIssued_def parentFor_def)
  then have out: "z_status (cliIssueToken X clk [pubPath, role] s1) = 0"
      "z_stdout (cliIssueToken X clk [pubPath, role] s1) = tok @ nl"
    using role_not_flag[OF role] role pub(1) by (simp_all add: cliIssueToken_def parse_two_positional)
  obtain v d' where v: "startValidator ?L sclk (Inr \<lparr>PrivateKey = priv, PublicKey = publicOf ?L priv\<rparr>) (Inr root) d = (Some v, d')"
      "knownTokens v (TokenHash ?L root) = Some (resources AllCapabilities)"
    using start_knows_root by blast
  have "capSet rc \<subseteq> set (resources AllCapabilities)" using rc(2) by (simp add: capSet_def resources_def)
  then have "\<exists>c. fst (Validate ?L Save now tok (v, d')) = Inr c \<and> c_Capabilities c = caps \<and>
      c_Audience c = [pubKeyToString aud]" if "now < secsOf (clk 0 + ?ttl) * second + 30 * second" for now
    using mint_then_validate[OF lib(1-3) tok rc(1) v(2) _ that, of Save d'] by auto
  then show ?thesis using out v(1) kp rt by (intro exI[of _ tok] exI[of _ v] exI[of _ d']) (simp add: loadBrokerRootToken_def)
qed

lemma plainLib_signs: "signsAll plainLib"
proof -
  have "trimSpace (plainToken k c) = plainToken k c" for k c
    by (rule trimSpace_idle) (simp add: plainToken_def jsonStrings_def isSpace_def)
  then show ?thesis by (simp add: signsAll_def sign_plain)
qed

definition sampleInit :: initEnv where
  "sampleInit = \<lparr>i_os = sampleOS, i_jwt = plainLib, i_pem = plainPem,
     i_gen = Inr (plainPublic ''root'', ''root''), i_now = 0, i_marshal = g_Role\<rparr>"

definition sampleCli :: cliEnv where
  "sampleCli = \<lparr>x_os = sampleOS, x_jwt = plainLib, x_pem = plainPem, x_frac = (\<lambda>f u sc. 0),
     x_cfg = (defaultConfig sampleOS)\<lparr>g_DefaultChildTTL := []\<rparr>\<rparr>"

lemma sample_paths:
  "configDir sampleOS = ''/h/.config/claude-peers''" "configPath sampleOS = ''/h/.config/claude-peers/config.json''"
  "Join [''/h/.config/claude-peers'', privateKeyFile] = ''/h/.config/claude-peers/identity.pem''"
  "Join [''/h/.config/claude-peers'', publicKeyFile] = ''/h/.config/claude-peers/identity.pub''"
  "Join [''/h/.config/claude-peers'', rootPubKeyFile] = ''/h/.config/claude-peers/root.pub''"
  "Join [''/h/.config/claude-peers'', tokenFile] = ''/h/.config/claude-peers/token.jwt''"
  "Join [''/h/.config/claude-peers'', rootTokenName] = ''/h/.config/claude-peers/root-token.jwt''"
  by (simp_all add: configDir_def configPath_def sampleOS_def orEmpty_def path_eval
      privateKeyFile_def publicKeyFile_def rootPubKeyFile_def tokenFile_def rootTokenName_def)

definition machinePub :: string where
  "machinePub = pemEncode plainPem ''PUBLIC KEY'' (plainPublic ''m'')"

lemma sample_init:
  "\<exists>s1. cliInit sampleInit [''broker''] (sampleFs [(''/m.pub'', machinePub)]) = (0, [], s1) \<and>
     LoadPublicKey plainPem ''/m.pub'' s1 = Inr (plainPublic ''m'')"
  by (simp add: cliInit_def sampleInit_def Let_def MkdirAll_def initBroker_def GenerateKeyPair_def SaveKeyPair_def
      sample_paths plainPem_def sampleFs_def WriteFile_def SavePublicKey_def MintRootToken_def sign_plain SaveRootToken_def
      SaveTokenFile_def initFinish_def writeConfig_def LoadPublicKey_def ReadFile_def machinePub_def strings_round_trip)

theorem issued_token_works_witness:
  "\<exists>s1 tok c v d'. cliInit sampleInit [''broker''] (sampleFs [(''/m.pub'', machinePub)]) = (0, [], s1) \<and>
     z_stdout (cliIssueToken sampleCli (\<lambda>_. 0) [''/m.pub'', ''cli''] s1) = tok @ nl \<and>
     fst (Validate plainLib Save hour tok (v, d')) = Inr c \<and> c_Capabilities c = CLICapabilities"
proof -
  obtain s1 where s1: "cliInit sampleInit [''broker''] (sampleFs [(''/m.pub'', machinePub)]) = (0, [], s1)"
      "LoadPublicKey plainPem ''/m.pub'' s1 = Inr (plainPublic ''m'')" using sample_init by blast
  have I: "i_jwt sampleInit = plainLib" "i_pem sampleInit = plainPem" "i_os sampleInit = sampleOS"
      "i_gen sampleInit = Inr (publicOf plainLib ''root'', ''root'')"
    by (simp_all add: sampleInit_def plainLib_def)
  have X: "x_os sampleCli = sampleOS" "x_jwt sampleCli = plainLib" "x_pem sampleCli = plainPem"
      "defaultChildTTL (x_frac sampleCli) (g_DefaultChildTTL (x_cfg sampleCli)) = 24 * hour"
    by (simp_all add: sampleCli_def defaultChildTTL_def)
  have "readsAll (sampleFs [(''/m.pub'', machinePub)])" "Getenv sampleOS ''CLAUDE_PEERS_CONFIG'' = []"
      "rooted ''/m.pub''" "roleCapabilities ''cli'' = Some CLICapabilities"
    by (simp_all add: readsAll_def sampleFs_def sampleOS_def rooted_def roleCapabilities_def)
  note ready = plainLib_ok plainLib_signs plainPem_ok s1 this
  note works = issued_token_works[of sampleInit "sampleFs [(''/m.pub'', machinePub)]" "''root''" "[]" s1 sampleCli
      "''/m.pub''" "plainPublic ''m''" "''cli''" CLICapabilities "\<lambda>_. 0", unfolded I X, OF ready(2-6,9,10) refl ready(7)
      refl refl refl ready(11,8,12)]
  have "hour < secsOf (0 + 24 * hour) * second + 30 * second"
    by (simp add: secsOf_def second_def hour_def minute_def)
  with works show ?thesis using s1(1) by blast
qed

section \<open>Saving a delegated token\<close>

lemma fresh_validator_refuses:
  assumes "jwtSound L" "parseUnverified L tok = Inr c" "c_Proof c \<noteq> []"
  shows "\<exists>e. fst (Validate L save now tok (NewTokenValidator root, p)) = Inl e"
proof (cases "fst (Validate L save now tok (NewTokenValidator root, p))")
  case (Inr c')
  then obtain vp where "Validate L save now tok (NewTokenValidator root, p) = (Inr c', vp)"
    by (metis prod.collapse)
  then have "parseWithClaims L now (Some (30 * second)) issuerKey tok = Inr c'"
      "chainError (NewTokenValidator root) c' = None"
    using Validate_Inr by fastforce+
  moreover from this have "c' = c" using assms(1,2) unfolding jwtSound_def by (metis sum.inject(2))
  ultimately show ?thesis using assms(3) by (auto simp: chainError_None NewTokenValidator_def)
qed simp

text \<open>
  Saving a delegated token always warns.  \<open>save-token\<close> means to register the root token as
  known parent before it validates, but it loads the token it has just saved, which is equal to
  the argument and so is not registered: every token that carries a proof, even one the broker has
  just issued, is reported as failing validation.
\<close>

theorem save_token_warns:
  assumes "jwtSound (x_jwt X)" "parseUnverified (x_jwt X) token = Inr c" "c_Proof c \<noteq> []" "trimSpace token = token"
    and "readsAll s" "writeErr s (Join [configDir (x_os X), tokenFile]) = None"
    and "LoadPublicKey (x_pem X) (Join [configDir (x_os X), rootPubKeyFile]) s = Inr rootPub"
  shows "\<exists>e s1. cliSaveToken X clk (token # args) s =
      (\<lparr>z_status = 0, z_stdout = savedLine X @ ''WARNING: token validation failed: '' @ e @ nl, z_stderr = []\<rparr>, s1) \<and>
    loadTokenIn (configDir (x_os X)) s1 = Inr token"
proof -
  let ?dir = "configDir (x_os X)"
  obtain s1 where s1: "SaveTokenFile token ?dir s = (None, s1)"
      "s1 = s\<lparr>fileContent := (fileContent s)(Join [?dir, tokenFile] \<mapsto> token)\<rparr>"
    using assms(6) by (simp add: SaveTokens_None)
  have r1: "readsAll s1" using assms(5) by (simp add: s1(2) readsAll_def)
  have load: "loadTokenIn ?dir s1 = Inr token"
    using ReadFile_content[OF r1, of "Join [?dir, tokenFile]" token] assms(4) by (simp add: s1(2) LoadToken_def)
  have "ReadFile (Join [?dir, rootPubKeyFile]) s1 = ReadFile (Join [?dir, rootPubKeyFile]) s"
    using read_other_write[OF files_apart(8)[OF configDir_nonempty, symmetric], of "x_os X" token s] s1(1)
    by (simp add: SaveTokenFile_def)
  then have root: "LoadPublicKey (x_pem X) (Join [?dir, rootPubKeyFile]) s1 = Inr rootPub"
    using assms(7) by (simp add: LoadPublicKey_def)
  have "saveValidator X clk rootPub token s1 = NewTokenValidator rootPub"
    by (simp add: saveValidator_def load)
  then show ?thesis
    using fresh_validator_refuses[OF assms(1-3), of dropSave "clk 1" rootPub "()"] s1(1) root load
    by (auto simp: cliSaveToken_def)
qed

definition sampleChild :: UCANClaims where
  "sampleChild = newClaims plainLib 0 (pubKeyToString (plainPublic ''root'')) (pubKeyToString (plainPublic ''m''))
     CLICapabilities hour ''parent''"

theorem save_token_warns_witness:
  "\<exists>e s1. cliSaveToken sampleCli (\<lambda>_. 0) [plainToken ''root'' sampleChild]
       (sampleFs [(''/h/.config/claude-peers/root.pub'', pemEncode plainPem ''PUBLIC KEY'' (plainPublic ''root''))]) =
     (\<lparr>z_status = 0, z_stdout = savedLine sampleCli @ ''WARNING: token validation failed: '' @ e @ nl, z_stderr = []\<rparr>, s1)"
proof -
  let ?s = "sampleFs [(''/h/.config/claude-peers/root.pub'', pemEncode plainPem ''PUBLIC KEY'' (plainPublic ''root''))]"
  have X: "x_os sampleCli = sampleOS" "x_jwt sampleCli = plainLib" "x_pem sampleCli = plainPem"
    by (simp_all add: sampleCli_def)
  have t: "trimSpace (plainToken ''root'' sampleChild) = plainToken ''root'' sampleChild"
    using plainLib_signs sign_plain unfolding signsAll_def by (metis sum.inject(2))
  have p: "c_Proof sampleChild \<noteq> []" by (simp add: sampleChild_def newClaims_def)
  have s: "readsAll ?s" "writeErr ?s (Join [configDir sampleOS, tokenFile]) = None"
      "LoadPublicKey plainPem (Join [configDir sampleOS, rootPubKeyFile]) ?s = Inr (plainPublic ''root'')"
    by (simp_all add: readsAll_def sampleFs_def sample_paths LoadPublicKey_def ReadFile_def plainPem_def strings_round_trip)
  from save_token_warns[of sampleCli, unfolded X, OF plainLib_ok(1) decode_plain p t s] show ?thesis by blast
qed

end
