(* ===== verification/Identity.thy ===== *)
theory Identity
  imports Files
begin

text \<open>
  \<^verbatim>\<open>src/fleet_git.go\<close>: what a session says about itself.  The git queries, the project name, the
  declared agent name with its search for a \<^verbatim>\<open>.claude-peers-agent\<close> file, and the automatic summary.
  Running a program is the parameter \<open>run\<close>: the command line and the directory give standard
  output and the error, if any.  The LLM endpoint is the parameter \<open>chat\<close>.
\<close>

type_synonym runner = "string list \<Rightarrow> string \<Rightarrow> string \<times> string option"

section \<open>Git queries\<close>

definition gitRoot :: "runner \<Rightarrow> string \<Rightarrow> string" where
  "gitRoot run cwd = (case run [''git'', ''rev-parse'', ''--show-toplevel''] cwd of
      (_, Some _) \<Rightarrow> [] | (out, None) \<Rightarrow> trimSpace out)"

definition gitBranch :: "runner \<Rightarrow> string \<Rightarrow> string" where
  "gitBranch run cwd = (case run [''git'', ''rev-parse'', ''--abbrev-ref'', ''HEAD''] cwd of
      (_, Some _) \<Rightarrow> [] | (out, None) \<Rightarrow> trimSpace out)"

definition splitNonEmpty :: "string \<Rightarrow> string list" where
  "splitNonEmpty s = (if s = [] then [] else filter (\<lambda>p. p \<noteq> []) (splitByte (CHR 0x0A) s))"

text \<open>The loop over the committed files, with the growing result and the map \<open>seen\<close>.\<close>

fun appendUnseen :: "string list \<Rightarrow> (string \<Rightarrow> bool) \<Rightarrow> string list \<Rightarrow> string list" where
  "appendUnseen files seen [] = files"
| "appendUnseen files seen (f # fs) =
     (if \<not> seen f then appendUnseen (files @ [f]) (seen(f := True)) fs else appendUnseen files seen fs)"

definition recentFiles :: "runner \<Rightarrow> string \<Rightarrow> nat \<Rightarrow> string list" where
  "recentFiles run cwd limit =
     (let files = splitNonEmpty (trimSpace (fst (run [''git'', ''diff'', ''--name-only'', ''HEAD''] cwd)))
      in if length files \<ge> limit then take limit files
         else let logFiles = splitNonEmpty (trimSpace (fst (run
                    [''git'', ''log'', ''--oneline'', ''--name-only'', ''-5'', ''--format=''] cwd)));
                  all_files = appendUnseen files (\<lambda>f. f \<in> set files) logFiles
              in if length all_files > limit then take limit all_files else all_files)"

definition filterEmpty :: "string list \<Rightarrow> string list" where
  "filterEmpty ss = filter (\<lambda>s. s \<noteq> []) ss"

definition autoProject :: "string \<Rightarrow> string \<Rightarrow> string \<Rightarrow> string" where
  "autoProject home cwd root =
     (if root \<noteq> [] then Base root
      else if cwd = home \<or> home = [] then []
      else let rel = (if hasPrefix cwd (home @ ''/'') then trimPrefix cwd (home @ ''/'') else cwd);
               parts = filterEmpty (splitByte sep (trimPrefix rel ''/''))
           in case parts of
                [] \<Rightarrow> []
              | [_] \<Rightarrow> joinStr ''/'' parts
              | [_, _] \<Rightarrow> joinStr ''/'' parts
              | a # b # _ \<Rightarrow> a @ ''/'' @ b)"

definition getTTY :: "runner \<Rightarrow> int \<Rightarrow> string" where
  "getTTY run ppid = (case run [''ps'', ''-o'', ''tty='', ''-p'', itoa ppid] [] of
      (_, Some _) \<Rightarrow> []
    | (out, None) \<Rightarrow> (let tty = trimSpace out in if tty = [] \<or> tty = ''?'' \<or> tty = ''??'' then [] else tty))"

section \<open>The agent name\<close>

definition isInside :: "string \<Rightarrow> string \<Rightarrow> bool" where
  "isInside p root = (case Rel root p of
      Inl _ \<Rightarrow> False | Inr rel \<Rightarrow> rel = ''.'' \<or> \<not> hasPrefix rel ''..'')"

definition agentLine :: "string \<Rightarrow> string" where
  "agentLine dat = trimSpace (hd (splitByte (CHR 0x0A) (trimSpace dat)))"

definition nameIn :: "fs \<Rightarrow> string \<Rightarrow> string" where
  "nameIn s dir = (case ReadFile (Join [dir, ''.claude-peers-agent'']) s of
      Inl _ \<Rightarrow> [] | Inr dat \<Rightarrow> agentLine dat)"

function walkUp :: "fs \<Rightarrow> bool \<Rightarrow> string \<Rightarrow> string \<Rightarrow> string" where
  "walkUp s startedInsideHome absHome dir =
     (if nameIn s dir \<noteq> [] then nameIn s dir
      else if \<not> startedInsideHome then []
      else if dir = absHome then []
      else if Dir dir = dir then []
      else walkUp s startedInsideHome absHome (Dir dir))"
  by pat_completeness auto
termination
  by (relation "measure (\<lambda>(_, _, _, dir). climb dir)") (auto intro: climb_Dir)

declare walkUp.simps [simp del]

definition findAgentFile :: "string + string \<Rightarrow> fs \<Rightarrow> string \<Rightarrow> string \<Rightarrow> string" where
  "findAgentFile wd s cwd home =
     (let dir = (case Abs wd cwd of Inl _ \<Rightarrow> cwd | Inr d \<Rightarrow> d);
          absHome = (if home \<noteq> [] then (case Abs wd home of Inl _ \<Rightarrow> [] | Inr h \<Rightarrow> h) else []);
          startedInsideHome = (absHome \<noteq> [] \<and> isInside dir absHome)
      in walkUp s startedInsideHome absHome dir)"

text \<open>\<open>override\<close> is \<open>agentNameOverride\<close>, \<open>env\<close> the variable \<open>CLAUDE_PEERS_AGENT\<close>.\<close>

definition resolveAgentName :: "string \<Rightarrow> string \<Rightarrow> string \<Rightarrow> string + string \<Rightarrow> fs \<Rightarrow> string \<Rightarrow> string" where
  "resolveAgentName override env home wd s cwd =
     (if override \<noteq> [] then trimSpace override
      else if env \<noteq> [] then trimSpace env
      else findAgentFile wd s cwd home)"

section \<open>The automatic summary\<close>

definition summaryPrompt :: "string \<Rightarrow> string \<Rightarrow> string \<Rightarrow> string list \<Rightarrow> string" where
  "summaryPrompt cwd root branch files =
     ''One sentence: what is this developer working on? Be specific. No preamble.'' @ nl @ nl @
     joinStr nl ([''Dir: '' @ cwd] @
       (if root \<noteq> [] then [''Repo: '' @ Base root] else []) @
       (if branch \<noteq> [] then [''Branch: '' @ branch] else []) @
       (if files \<noteq> [] then [''Recent files: '' @ joinStr '', '' files] else []))"

text \<open>\<open>bin\<close> is the result of \<open>exec.LookPath\<close>; a timeout is an error of the command.\<close>

definition claudeCLISummary :: "runner \<Rightarrow> string option \<Rightarrow> string \<Rightarrow> string" where
  "claudeCLISummary run bin prompt = (case bin of
      None \<Rightarrow> []
    | Some claudeBin \<Rightarrow>
        (case run [claudeBin, ''-p'', prompt, ''--model'', ''haiku'', ''--bare'', ''--no-session-persistence''] [] of
           (_, Some _) \<Rightarrow> []
         | (out, None) \<Rightarrow>
             (let result = trimSpace out
              in if length result > 120 then take 117 result @ ''...'' else result)))"

fun cmpOr :: "string list \<Rightarrow> string" where
  "cmpOr [] = []"
| "cmpOr (v # vs) = (if v \<noteq> [] then v else cmpOr vs)"

text \<open>
  \<open>chat url key model prompt\<close> is the content of the first choice of a 200 answer, \<open>None\<close> for
  every other outcome.
\<close>

record llmConfig =
  lc_APIKey :: string
  lc_BaseURL :: string
  lc_Model :: string

definition llmAPISummary ::
  "(string \<Rightarrow> string \<Rightarrow> string \<Rightarrow> string \<Rightarrow> string option) \<Rightarrow> (string \<Rightarrow> string) \<Rightarrow> string \<Rightarrow> llmConfig \<Rightarrow> string \<Rightarrow> string" where
  "llmAPISummary chat getenv settingsKey c prompt =
     (let apiKey = cmpOr [getenv ''OPENAI_API_KEY'', getenv ''ANTHROPIC_API_KEY'', settingsKey, lc_APIKey c];
          baseURL = cmpOr [getenv ''LITELLM_BASE_URL'', getenv ''ANTHROPIC_BASE_URL'', lc_BaseURL c]
      in if apiKey = [] \<or> baseURL = [] then []
         else let model = cmpOr [getenv ''CLAUDE_PEERS_SUMMARY_MODEL'', lc_Model c]
              in case chat (baseURL @ ''/v1/chat/completions'') apiKey model prompt of
                   None \<Rightarrow> [] | Some txt \<Rightarrow> trimSpace txt)"

text \<open>\<open>decodeEnv\<close> is \<open>json.Unmarshal\<close> of the settings file followed by the lookup in its map.\<close>

definition readClaudeSettingsKey :: "(string \<Rightarrow> (string \<Rightarrow> string) option) \<Rightarrow> string + string \<Rightarrow> fs \<Rightarrow> string" where
  "readClaudeSettingsKey decodeEnv home s = (case home of
      Inl _ \<Rightarrow> []
    | Inr h \<Rightarrow> (case ReadFile (Join [h, ''.claude'', ''settings.json'']) s of
        Inl _ \<Rightarrow> []
      | Inr dat \<Rightarrow> (case decodeEnv dat of None \<Rightarrow> [] | Some env \<Rightarrow> env ''ANTHROPIC_AUTH_TOKEN'')))"

definition generateSummary ::
  "runner \<Rightarrow> string option \<Rightarrow> (string \<Rightarrow> string) \<Rightarrow> string \<Rightarrow> string \<Rightarrow> string \<Rightarrow> string list \<Rightarrow> string" where
  "generateSummary run bin llm cwd root branch files =
     (let prompt = summaryPrompt cwd root branch files; summary = claudeCLISummary run bin prompt
      in if summary \<noteq> [] then summary else llm prompt)"

section \<open>Where a session looks for its name\<close>

text \<open>The elements of a rooted path once it is cleaned.\<close>

definition elemsOf :: "string \<Rightarrow> string list" where
  "elemsOf p = cleanElems True [] (pathElems p)"

definition insideHome :: "string list \<Rightarrow> string list \<Rightarrow> bool" where
  "insideHome es hs \<longleftrightarrow> take (length hs) es = hs \<and>
     (length es = length hs \<or> \<not> hasPrefix (es ! length hs) ''..'')"

text \<open>The directories that may declare a name: from the working directory up to home.\<close>

definition dirsUp :: "nat \<Rightarrow> string list \<Rightarrow> string list" where
  "dirsUp n es = map (\<lambda>k. absPath (take k es)) (rev [n..<Suc (length es)])"

definition searchDirs :: "string list \<Rightarrow> string list \<Rightarrow> string list" where
  "searchDirs es hs = (if insideHome es hs then dirsUp (length hs) es else [absPath es])"

definition firstName :: "fs \<Rightarrow> string list \<Rightarrow> string" where
  "firstName s dirs = (case find (\<lambda>d. nameIn s d \<noteq> []) dirs of None \<Rightarrow> [] | Some d \<Rightarrow> nameIn s d)"

lemma elemsOf_plain: "list_all plainElem (elemsOf p)"
  unfolding elemsOf_def by (rule cleanElems_rooted_plain) (auto dest: pathElems_ok)

lemma Abs_rooted: "rooted p \<Longrightarrow> Abs wd p = Inr (absPath (elemsOf p))"
  by (simp add: Abs_def Clean_def elemsOf_def absPath_def)

lemma isInside_iff:
  assumes es: "list_all plainElem es" and hs: "list_all plainElem hs"
  shows "isInside (absPath es) (absPath hs) \<longleftrightarrow> insideHome es hs"
proof (cases "\<exists>ts. es = hs @ ts")
  case True
  then obtain ts where ts: "es = hs @ ts" ..
  show ?thesis
  proof (cases ts)
    case Nil
    then show ?thesis using es ts by (simp add: isInside_def Rel_absPath insideHome_def)
  next
    case (Cons t r)
    then have "plainElem t" using es ts by simp
    moreover have "joinStr ''/'' (t # r) \<noteq> ''.''"
      using \<open>plainElem t\<close> by (cases t) (auto simp: joinStr_Cons plainElem_def)
    ultimately show ?thesis using es hs ts Cons
      by (simp add: isInside_def Rel_absPath dropCommon_append hasPrefix_first_elem insideHome_def nth_append)
  qed
next
  case False
  obtain c where c: "hs = c @ fst (dropCommon hs es)" "es = c @ snd (dropCommon hs es)"
    using dropCommon_split by blast
  with False have "fst (dropCommon hs es) \<noteq> []" by (metis append_Nil2)
  then obtain n where "length (fst (dropCommon hs es)) = Suc n" by (cases "fst (dropCommon hs es)") auto
  then have "hasPrefix (joinStr ''/'' (replicate (length (fst (dropCommon hs es))) ''..'' @ snd (dropCommon hs es))) ''..''"
    "joinStr ''/'' (replicate (length (fst (dropCommon hs es))) ''..'' @ snd (dropCommon hs es)) \<noteq> ''.''"
    by (auto simp: joinStr_Cons hasPrefix_def)
  moreover have "take (length hs) es \<noteq> hs" using False by (metis append_take_drop_id)
  ultimately show ?thesis using False es hs
    by (auto simp: isInside_def Rel_absPath insideHome_def Let_def split_beta)
qed

lemma firstName_Cons: "firstName s (d # ds) = (if nameIn s d \<noteq> [] then nameIn s d else firstName s ds)"
  by (simp add: firstName_def)

lemma firstName_Nil: "firstName s [] = []"
  by (simp add: firstName_def)

lemma walkUp_outside: "walkUp s False h d = firstName s [d]"
  by (subst walkUp.simps) (simp add: firstName_Cons firstName_Nil)

lemma dirsUp_snoc:
  assumes "n \<le> length es"
  shows "dirsUp n (es @ [t]) = absPath (es @ [t]) # dirsUp n es"
proof -
  have "rev [n..<Suc (length (es @ [t]))] = length (es @ [t]) # rev [n..<Suc (length es)]"
    using assms by simp
  moreover have "map (\<lambda>k. absPath (take k (es @ [t]))) (rev [n..<Suc (length es)]) = dirsUp n es"
    unfolding dirsUp_def by (rule map_cong) auto
  ultimately show ?thesis by (simp add: dirsUp_def[of n "es @ [t]"] del: upt_Suc)
qed

lemma walkUp_inside:
  assumes "list_all plainElem (hs @ ts)"
  shows "walkUp s True (absPath hs) (absPath (hs @ ts)) = firstName s (dirsUp (length hs) (hs @ ts))"
  using assms
proof (induction ts rule: rev_induct)
  case Nil
  then show ?case by (subst walkUp.simps) (simp add: dirsUp_def firstName_Cons firstName_Nil)
next
  case (snoc t ts)
  have pl: "list_all plainElem ((hs @ ts) @ [t])" using snoc.prems by simp
  have ne: "absPath (hs @ ts @ [t]) \<noteq> absPath hs"
    using absPath_inj[of "hs @ ts @ [t]" hs] pl by auto
  have dir: "Dir (absPath (hs @ ts @ [t])) = absPath (hs @ ts)" using Dir_absPath[OF pl] by simp
  have up: "absPath (hs @ ts) \<noteq> absPath (hs @ ts @ [t])"
    using absPath_inj[of "hs @ ts" "hs @ ts @ [t]"] pl by auto
  have "walkUp s True (absPath hs) (absPath (hs @ ts @ [t])) =
      (if nameIn s (absPath (hs @ ts @ [t])) \<noteq> [] then nameIn s (absPath (hs @ ts @ [t]))
       else walkUp s True (absPath hs) (absPath (hs @ ts)))"
    by (subst walkUp.simps) (simp add: ne dir up)
  then show ?case
    using snoc dirsUp_snoc[of "length hs" "hs @ ts" t] by (simp add: firstName_Cons)
qed

text \<open>
  C40: the search for a declared name.  For an absolute working directory and home directory,
  \<open>findAgentFile\<close> ends and returns the first non-empty name declared in the working directory or
  one of its parents up to and including home, the nearest directory first; outside home it
  reads the working directory only.  No directory above home is ever consulted.  A directory counts as outside home
  also when the first element of its path below home begins with two dots.
\<close>

theorem agent_file_search:
  assumes "rooted cwd" and "rooted home"
  shows "findAgentFile wd s cwd home = firstName s (searchDirs (elemsOf cwd) (elemsOf home))"
proof -
  let ?es = "elemsOf cwd" and ?hs = "elemsOf home"
  have eq: "findAgentFile wd s cwd home = walkUp s (insideHome ?es ?hs) (absPath ?hs) (absPath ?es)"
    using assms by (auto simp: findAgentFile_def Abs_rooted isInside_iff elemsOf_plain rooted_def)
      (simp_all add: absPath_def)
  show ?thesis
  proof (cases "insideHome ?es ?hs")
    case True
    then obtain ts where ts: "?es = ?hs @ ts" unfolding insideHome_def by (metis append_take_drop_id)
    then have "list_all plainElem (?hs @ ts)" using elemsOf_plain[of cwd] by simp
    from walkUp_inside[OF this, of s] show ?thesis using True ts by (simp add: eq searchDirs_def)
  next
    case False
    then show ?thesis by (simp add: eq searchDirs_def walkUp_outside)
  qed
qed

text \<open>A project below home with a declaration in a parent directory.\<close>

theorem agent_file_search_witness:
  "findAgentFile (Inl ''no wd'') (sampleFs [(''/h/u/.claude-peers-agent'', ''jim'' @ nl), (''/.claude-peers-agent'', ''root'')])
     ''/h/u/p'' ''/h/u'' = ''jim''"
  using agent_file_search[of "''/h/u/p''" "''/h/u''" "Inl ''no wd''"
      "sampleFs [(''/h/u/.claude-peers-agent'', ''jim'' @ nl), (''/.claude-peers-agent'', ''root'')]"]
  by (simp add: path_eval elemsOf_def trimSpace_def isSpace_def searchDirs_def insideHome_def dirsUp_def firstName_def nameIn_def agentLine_def
      ReadFile_def sampleFs_def upt_rec)

text \<open>
  The test \<open>isInside\<close> takes any relative path that begins with two dots for one that leaves home,
  so a session in a directory of home whose name begins with two dots is not inside it.
\<close>

lemma dotdot_directory_is_outside: "\<not> isInside ''/h/..work'' ''/h''"
  using isInside_iff[of "[''h'', ''..work'']" "[''h'']"]
  by (simp add: absPath_def plainElem_def insideHome_def hasPrefix_def)

section \<open>The other answers\<close>

lemma rev_remdups_Cons:
  "rev (remdups (rev (f # fs))) = f # filter (\<lambda>g. g \<noteq> f) (rev (remdups (rev fs)))"
  by (induction fs rule: rev_induct) (auto simp: filter_id_conv)

lemma appendUnseen_spec:
  "appendUnseen files seen fs = files @ filter (\<lambda>f. \<not> seen f) (rev (remdups (rev fs)))"
proof (induction fs arbitrary: files seen)
  case (Cons f fs)
  let ?u = "rev (remdups (rev fs))"
  show ?case
  proof (cases "seen f")
    case True
    then have "filter (\<lambda>g. \<not> seen g) (filter (\<lambda>g. g \<noteq> f) ?u) = filter (\<lambda>g. \<not> seen g) ?u"
      by (auto intro: filter_cong)
    with True show ?thesis using Cons.IH[of files seen] unfolding rev_remdups_Cons by simp
  next
    case False
    have "filter (\<lambda>g. \<not> seen g) (filter (\<lambda>g. g \<noteq> f) ?u) = filter (\<lambda>g. \<not> (seen(f := True)) g) ?u"
      by (auto intro: filter_cong)
    with False show ?thesis using Cons.IH[of "files @ [f]" "seen(f := True)"]
      unfolding rev_remdups_Cons by (simp del: fun_upd_apply filter_filter)
  qed
qed simp

text \<open>
  The recent files are the changed ones, then the committed ones that are new, in order, cut
  to the limit.
\<close>

lemma recentFiles_spec:
  "recentFiles run cwd limit =
     (let files = splitNonEmpty (trimSpace (fst (run [''git'', ''diff'', ''--name-only'', ''HEAD''] cwd)));
          logged = splitNonEmpty (trimSpace (fst (run
                    [''git'', ''log'', ''--oneline'', ''--name-only'', ''-5'', ''--format=''] cwd)))
      in take limit (files @ filter (\<lambda>f. f \<notin> set files) (rev (remdups (rev logged)))))"
  by (simp add: recentFiles_def Let_def appendUnseen_spec)

lemma claudeCLISummary_short: "length (claudeCLISummary run bin prompt) \<le> 120"
  by (auto simp: claudeCLISummary_def Let_def split: option.splits prod.splits)

end
