(* ===== verification/Nats.thy ===== *)
theory Nats
  imports Types
begin

text \<open>
  \<^verbatim>\<open>src/fleet_nats.go\<close>: the event struct and the publisher the broker hands its events to.  A
  publisher is the list of the events it has handed to JetStream; the nil publisher of a broker
  without a NATS connection is \<open>None\<close>.  What JetStream does with an event, and a failed publish,
  are only logged by the code.
\<close>

record FleetEvent =
  fe_Type :: string
  fe_PeerID :: string
  fe_Machine :: string
  fe_Summary :: string
  fe_CWD :: string
  fe_Data :: string
  fe_Timestamp :: string

definition fleetEvent :: FleetEvent where
  "fleetEvent = \<lparr>fe_Type = [], fe_PeerID = [], fe_Machine = [], fe_Summary = [], fe_CWD = [],
     fe_Data = [], fe_Timestamp = []\<rparr>"

type_synonym NATSPublisher = "(string \<times> FleetEvent) list"

definition publish :: "time \<Rightarrow> string \<Rightarrow> FleetEvent \<Rightarrow> NATSPublisher option \<Rightarrow> NATSPublisher option" where
  "publish t subject event p = (case p of None \<Rightarrow> None
     | Some sent \<Rightarrow> Some (sent @ [(subject, event\<lparr>fe_Timestamp := nowISO t\<rparr>)]))"

lemma publish_nil [simp]: "publish t s e None = None"
  by (simp add: publish_def)

lemma publish_frame: "publish t s e p = None \<longleftrightarrow> p = None"
  by (cases p) (auto simp: publish_def)

end
