(* ===== verification/Broker.thy ===== *)
theory Broker
  imports Store Nats "HOL-Library.Sublist"
begin

text \<open>
  The message broker of \<^verbatim>\<open>src/broker_core.go\<close>: its state, start-up, the background sweep, and one
  definition per operation behind the HTTP routes.  Each operation takes the clock readings it
  makes (\<open>clk 0\<close>, \<open>clk 1\<close>, ...) and returns the response with the new state.  A query that
  fails (\<open>dbErr\<close>) leaves the Go variable at its zero value, as \<open>Scan\<close> does.

  The token validator field of the Go struct is kept with the HTTP server state.
\<close>

record Broker =
  bdb :: db
  nats :: "NATSPublisher option"
  fleetMemory :: string

definition run :: "stmt \<Rightarrow> Broker \<Rightarrow> Broker" where
  "run s b = b\<lparr>bdb := exec s (bdb b)\<rparr>"

definition publishTo :: "time \<Rightarrow> string \<Rightarrow> FleetEvent \<Rightarrow> Broker \<Rightarrow> Broker" where
  "publishTo t subject ev b = b\<lparr>nats := publish t subject ev (nats b)\<rparr>"

text \<open>\<open>rand.Read\<close> fills the four bytes; they are the argument.\<close>

definition generatePeerID :: "bytes \<Rightarrow> string" where
  "generatePeerID r = hexEncode (take 4 r)"

section \<open>Start-up\<close>

text \<open>
  \<open>colMissing\<close> on the answer of \<open>PRAGMA table_info\<close>: an error, or the column names (no row when
  the table does not exist).
\<close>

definition colMissing :: "string + string list \<Rightarrow> string \<Rightarrow> bool" where
  "colMissing info col = (case info of Inl _ \<Rightarrow> True
     | Inr cols \<Rightarrow> if cols = [] then True else col \<notin> set cols)"

text \<open>
  The one-shot migration: dropping a table also drops its AUTOINCREMENT counter.
\<close>

definition migrate :: "string + string list \<Rightarrow> string + string list \<Rightarrow> db \<Rightarrow> db" where
  "migrate peersInfo messagesInfo d =
     (let d1 = (if colMissing peersInfo ''agent_name'' then d\<lparr>peers := []\<rparr> else d)
      in if colMissing messagesInfo ''to_agent'' then d1\<lparr>messages := [], messages_seq := 0\<rparr> else d1)"

definition minStr :: "string list \<Rightarrow> string" where
  "minStr ss = foldr min (tl ss) (hd ss)"

definition backfillNames :: "db \<Rightarrow> stmt list" where
  "backfillNames d = map (\<lambda>p. SeenName (p_AgentName p) (p_RegisteredAt p))
     (filter (\<lambda>p. p_AgentName p \<noteq> []) (peers d))"

definition backfillTargets :: "db \<Rightarrow> stmt list" where
  "backfillTargets d = map (\<lambda>a. SeenName a (minStr (map w_sent_at (filter (\<lambda>m. w_to_agent m = a) (messages d)))))
     (sort (remdups (filter (\<lambda>a. a \<noteq> []) (map w_to_agent (messages d)))))"

definition fleetMemoryRow :: "db \<Rightarrow> string option" where
  "fleetMemoryRow d = (case query (\<lambda>d. lookup_row fst ''fleet_memory'' (kv d)) d of
     Inr (Some r) \<Rightarrow> Some (snd r) | _ \<Rightarrow> None)"

text \<open>
  What \<open>newBroker\<close> has built when it returns, but for the validator, which is built by \<open>startValidator\<close>.  The goroutine that it starts
  is \<open>sweepRound\<close> below; its first round, which does not wait, is part of the start of a process.
\<close>

definition newBroker :: "string + string list \<Rightarrow> string + string list \<Rightarrow> NATSPublisher option \<Rightarrow> db \<Rightarrow> Broker" where
  "newBroker peersInfo messagesInfo np d =
     (let d1 = (if dbErr d = None then migrate peersInfo messagesInfo d else d);
          d2 = execAll (backfillNames d1) d1;
          d3 = execAll (backfillTargets d2) d2
      in \<lparr>bdb = d3, nats = np, fleetMemory = (case fleetMemoryRow d3 of None \<Rightarrow> [] | Some m \<Rightarrow> m)\<rparr>)"

section \<open>Events\<close>

definition emitEvent :: "time \<Rightarrow> string \<Rightarrow> string \<Rightarrow> string \<Rightarrow> string \<Rightarrow> Broker \<Rightarrow> Broker" where
  "emitEvent t eventType peerID machine dat = run (InsertEvent eventType peerID machine dat (nowISO t))"

text \<open>SQLite reads a negative LIMIT as no limit.\<close>

definition limitRows :: "int \<Rightarrow> 'a list \<Rightarrow> 'a list" where
  "limitRows n xs = (if n < 0 then xs else take (nat n) xs)"

definition recentEvents :: "int \<Rightarrow> Broker \<Rightarrow> Event list" where
  "recentEvents lim b = (case query (\<lambda>d. limitRows lim (rev (sort_key e_ID (events d)))) (bdb b) of
     Inl _ \<Rightarrow> [] | Inr es \<Rightarrow> es)"

section \<open>The background sweep\<close>

definition staleCutoff :: "int \<Rightarrow> time \<Rightarrow> string" where
  "staleCutoff staleTimeout now =
     (let timeout = (if staleTimeout \<le> 0 then 20 else staleTimeout)
      in fmtRFC3339 (now + wrap64 (- timeout * second)))"

definition releaseSession :: "string \<Rightarrow> stmt list" where
  "releaseSession i = [DropDirect i, RequeueAgent i]"

definition deadIDs :: "string \<Rightarrow> db \<Rightarrow> string list" where
  "deadIDs cutoff d = (case query (\<lambda>d. map p_ID (filter (\<lambda>p. p_LastSeen p < cutoff) (peers d))) d of
     Inl _ \<Rightarrow> [] | Inr is \<Rightarrow> is)"

definition cleanStalePeers :: "int \<Rightarrow> clock \<Rightarrow> Broker \<Rightarrow> Broker" where
  "cleanStalePeers staleTimeout clk b =
     (let cutoff = staleCutoff staleTimeout (clk 0);
          dead = deadIDs cutoff (bdb b);
          b1 = run (DeleteStalePeers cutoff) b;
          b2 = fold run (concat (map releaseSession dead)) b1
      in run (PurgeEvents (fmtRFC3339 (clk 1 - hour))) b2)"

text \<open>
  One round of the goroutine started by \<open>newBroker\<close>; the result is the new tick.  The WAL
  checkpoint does not change the tables.
\<close>

definition sweepRound :: "int \<Rightarrow> clock \<Rightarrow> nat \<times> Broker \<Rightarrow> nat \<times> Broker" where
  "sweepRound staleTimeout clk tb =
     (let (tick, b) = tb; b1 = cleanStalePeers staleTimeout clk b; tick' = tick + 1
      in (tick', if tick' mod 30 = 0
                 then run (PurgeUnacked (fmtRFC3339 (clk 3 - 24 * hour)))
                        (run (PurgeAcked (fmtRFC3339 (clk 2 - hour))) b1)
                 else b1))"

section \<open>Sessions\<close>

definition holderOf :: "string \<Rightarrow> db \<Rightarrow> Peer option" where
  "holderOf name d = (case query (\<lambda>d. select_one (\<lambda>p. p_AgentName p = name) (peers d)) d of
     Inl _ \<Rightarrow> None | Inr r \<Rightarrow> r)"

definition sessionRow :: "string \<Rightarrow> db \<Rightarrow> Peer option" where
  "sessionRow i d = (case query (\<lambda>d. select_one (\<lambda>p. p_ID p = i) (peers d)) d of
     Inl _ \<Rightarrow> None | Inr r \<Rightarrow> r)"

definition agentNameOf :: "string \<Rightarrow> db \<Rightarrow> string" where
  "agentNameOf i d = (case sessionRow i d of None \<Rightarrow> [] | Some p \<Rightarrow> p_AgentName p)"

definition heldError :: "string \<Rightarrow> string \<Rightarrow> string" where
  "heldError name sid = ''agent '' @ goQuote name @ '' already held by session '' @ sid"

definition registerCheck :: "RegisterRequest \<Rightarrow> db \<Rightarrow> RegisterResponse option" where
  "registerCheck req d =
     (if rq_AgentName req \<noteq> [] then
        (case holderOf (rq_AgentName req) d of None \<Rightarrow> None
         | Some held \<Rightarrow> Some \<lparr>rr_OK = False, rr_ID = [],
             rr_Error = heldError (rq_AgentName req) (p_ID held),
             rr_HeldBySession = p_ID held, rr_HeldByMachine = p_Machine held,
             rr_HeldByCWD = p_CWD held, rr_HeldBySince = p_RegisteredAt held\<rparr>)
      else None)"

definition newPeer :: "string \<Rightarrow> string \<Rightarrow> RegisterRequest \<Rightarrow> Peer" where
  "newPeer i now req = \<lparr>p_ID = i, p_AgentName = rq_AgentName req, p_PID = rq_PID req,
     p_Machine = rq_Machine req, p_CWD = rq_CWD req, p_GitRoot = rq_GitRoot req, p_TTY = rq_TTY req,
     p_Project = rq_Project req, p_Branch = rq_Branch req, p_Summary = rq_Summary req,
     p_RegisteredAt = now, p_LastSeen = now\<rparr>"

definition registerCommit :: "clock \<Rightarrow> bytes \<Rightarrow> RegisterRequest \<Rightarrow> Broker \<Rightarrow> RegisterResponse \<times> Broker" where
  "registerCommit clk rnd req b =
     (let now = nowISO (clk 0); i = generatePeerID rnd;
          b1 = run (InsertPeer (newPeer i now req)) b;
          b2 = (if rq_AgentName req \<noteq> []
                then run (SeenName (rq_AgentName req) now) (run (BindQueued i (rq_AgentName req)) b1)
                else b1);
          b3 = emitEvent (clk 1) ''peer_joined'' i (rq_Machine req) (rq_Summary req) b2;
          b4 = publishTo (clk 2) ''fleet.peer.joined''
                 (fleetEvent\<lparr>fe_Type := ''peer_joined'', fe_PeerID := i, fe_Machine := rq_Machine req,
                    fe_Summary := rq_Summary req, fe_CWD := rq_CWD req\<rparr>) b3
      in (\<lparr>rr_OK = True, rr_ID = i, rr_Error = [], rr_HeldBySession = [], rr_HeldByMachine = [],
           rr_HeldByCWD = [], rr_HeldBySince = []\<rparr>, b4))"

definition register :: "clock \<Rightarrow> bytes \<Rightarrow> RegisterRequest \<Rightarrow> Broker \<Rightarrow> RegisterResponse \<times> Broker" where
  "register clk rnd req b = (case registerCheck req (bdb b) of
     Some resp \<Rightarrow> (resp, b)
   | None \<Rightarrow> registerCommit clk rnd req b)"

definition heartbeat :: "clock \<Rightarrow> HeartbeatRequest \<Rightarrow> Broker \<Rightarrow> HeartbeatResponse \<times> Broker" where
  "heartbeat clk req b =
     (if dbErr (bdb b) \<noteq> None then (\<lparr>hr_OK = False, hr_Reason = ''db_error''\<rparr>, b)
      else let n = length (filter (\<lambda>p. p_ID p = hq_ID req) (peers (bdb b)));
               b1 = run (TouchPeer (nowISO (clk 0)) (hq_ID req)) b
           in if n = 0 then (\<lparr>hr_OK = False, hr_Reason = HeartbeatReasonUnknownSession\<rparr>, b1)
              else (\<lparr>hr_OK = True, hr_Reason = []\<rparr>, b1))"

definition setSummary :: "clock \<Rightarrow> SetSummaryRequest \<Rightarrow> Broker \<Rightarrow> Broker" where
  "setSummary clk req b =
     publishTo (clk 1) ''fleet.summary''
       (fleetEvent\<lparr>fe_Type := ''summary_changed'', fe_PeerID := sq_ID req, fe_Summary := sq_Summary req\<rparr>)
       (emitEvent (clk 0) ''summary_changed'' (sq_ID req) [] (sq_Summary req)
         (run (SetSummary (sq_Summary req) (sq_ID req)) b))"

text \<open>The nil slice of an empty answer is the empty list.\<close>

definition listPeers :: "ListPeersRequest \<Rightarrow> Broker \<Rightarrow> Peer list" where
  "listPeers req b =
     (let inScope =
        (if lq_Scope req = ''directory'' then (\<lambda>p. p_CWD p = lq_CWD req)
         else if lq_Scope req = ''repo'' then
           (if lq_GitRoot req \<noteq> [] then (\<lambda>p. p_GitRoot p = lq_GitRoot req) else (\<lambda>p. p_CWD p = lq_CWD req))
         else if lq_Scope req = ''machine'' then
           (if lq_Machine req \<noteq> [] then (\<lambda>p. p_Machine p = lq_Machine req) else (\<lambda>p. True))
         else (\<lambda>p. True))
      in case query (\<lambda>d. filter inScope (peers d)) (bdb b) of
           Inl _ \<Rightarrow> []
         | Inr rows \<Rightarrow> filter (\<lambda>p. \<not> (lq_ExcludeID req \<noteq> [] \<and> p_ID p = lq_ExcludeID req)) rows)"

section \<open>Messages\<close>

definition sendFail :: "string \<Rightarrow> SendMessageResponse" where
  "sendFail e = \<lparr>mr_OK = False, mr_MessageID = 0, mr_Queued = False,
     mr_DeliveryStatus = DeliveryStatusNone, mr_Error = e\<rparr>"

definition nameSeen :: "string \<Rightarrow> db \<Rightarrow> bool" where
  "nameSeen name d = (case query (\<lambda>d. name \<in> set (map fst (agent_names_seen d))) d of
     Inl _ \<Rightarrow> False | Inr r \<Rightarrow> r)"

text \<open>
  Where a message goes: the error of a missing session, or the session it is bound to, whether
  it is queued, and the verdict for the sender.
\<close>

definition routeMessage :: "SendMessageRequest \<Rightarrow> db \<Rightarrow> string + string \<times> string \<times> bool \<times> DeliveryStatus" where
  "routeMessage req d =
     (if mq_ToSession req \<noteq> [] then
        (if sessionRow (mq_ToSession req) d = None
         then Inl (''session '' @ mq_ToSession req @ '' not found'')
         else Inr ([], mq_ToSession req, False, DeliveryStatusBound))
      else case holderOf (mq_ToAgent req) d of
          Some p \<Rightarrow> if p_ID p \<noteq> [] then Inr (mq_ToAgent req, p_ID p, False, DeliveryStatusBound)
                    else Inr (mq_ToAgent req, [], True,
                      if nameSeen (mq_ToAgent req) d then DeliveryStatusQueuedOffline else DeliveryStatusQueuedUnknown)
        | None \<Rightarrow> Inr (mq_ToAgent req, [], True,
                      if nameSeen (mq_ToAgent req) d then DeliveryStatusQueuedOffline else DeliveryStatusQueuedUnknown))"

definition preview :: "string \<Rightarrow> string" where
  "preview txt = (if length txt > 500 then take 500 txt @ ''...'' else txt)"

definition sendMessage :: "clock \<Rightarrow> SendMessageRequest \<Rightarrow> Broker \<Rightarrow> SendMessageResponse \<times> Broker" where
  "sendMessage clk req b =
     (if (mq_ToAgent req = []) = (mq_ToSession req = []) then
        (sendFail ''exactly one of to_agent or to_session must be set'', b)
      else let now = nowISO (clk 0); fromAgent = agentNameOf (mq_FromID req) (bdb b) in
        case routeMessage req (bdb b) of
          Inl e \<Rightarrow> (sendFail e, b)
        | Inr (toAgent, toSession, queued, status) \<Rightarrow>
            (case dbErr (bdb b) of
               Some e \<Rightarrow> (sendFail e, b)
             | None \<Rightarrow>
                 let b1 = run (InsertMessage toAgent toSession (mq_FromID req) fromAgent (mq_Text req) now) b;
                     msgID = messages_seq (bdb b1);
                     target = (if toAgent = [] then toSession else toAgent);
                     b2 = emitEvent (clk 1) ''message_sent'' (mq_FromID req) []
                            (''to='' @ target @ '' text='' @ preview (mq_Text req)) b1;
                     b3 = publishTo (clk 2) ''fleet.message''
                            (fleetEvent\<lparr>fe_Type := ''message_sent'', fe_PeerID := mq_FromID req, fe_Data := target\<rparr>) b2
                 in (\<lparr>mr_OK = True, mr_MessageID = msgID, mr_Queued = queued,
                      mr_DeliveryStatus = status, mr_Error = []\<rparr>, b3)))"

definition scanMessage :: "messageRow \<Rightarrow> Message" where
  "scanMessage m = \<lparr>m_ID = w_id m, m_ToAgent = w_to_agent m, m_ToSession = w_to_session m,
     m_FromSession = w_from_session m, m_FromAgent = w_from_agent m, m_Text = w_text m,
     m_SentAt = w_sent_at m, m_DeliveredAt = [], m_AckAt = [], m_AckSession = [],
     m_Attempts = w_attempts m\<rparr>"

definition waitingFor :: "string \<Rightarrow> string \<Rightarrow> messageRow \<Rightarrow> bool" where
  "waitingFor i name m \<longleftrightarrow> w_delivered_at m = None \<and>
     (w_to_session m = i \<or> (w_to_agent m \<noteq> [] \<and> w_to_agent m = name))"

definition waitingMessages :: "string \<Rightarrow> db \<Rightarrow> Message list" where
  "waitingMessages i d =
     (case query (\<lambda>d. map scanMessage (sort_key w_sent_at (filter (waitingFor i (agentNameOf i d)) (messages d)))) d of
        Inl _ \<Rightarrow> [] | Inr ms \<Rightarrow> ms)"

definition pollMessages :: "clock \<Rightarrow> PollMessagesRequest \<Rightarrow> Broker \<Rightarrow> PollMessagesResponse \<times> Broker" where
  "pollMessages clk req b =
     (let msgs = waitingMessages (pq_ID req) (bdb b); now = nowISO (clk 0)
      in (\<lparr>pr_Messages = msgs\<rparr>, fold (\<lambda>m. run (MarkDelivered now (pq_ID req) (m_ID m))) msgs b))"

definition peekMessages :: "PollMessagesRequest \<Rightarrow> Broker \<Rightarrow> PollMessagesResponse" where
  "peekMessages req b = \<lparr>pr_Messages = waitingMessages (pq_ID req) (bdb b)\<rparr>"

definition claimFail :: "string \<Rightarrow> ClaimAgentResponse" where
  "claimFail e = \<lparr>cr_OK = False, cr_Error = e, cr_HeldBySession = [], cr_HeldByMachine = [],
     cr_HeldByCWD = [], cr_HeldBySince = []\<rparr>"

definition claimCheck :: "ClaimAgentRequest \<Rightarrow> db \<Rightarrow> ClaimAgentResponse option" where
  "claimCheck req d =
     (if cq_AgentName req = [] then Some (claimFail ''agent_name is required'')
      else case sessionRow (cq_SessionID req) d of
        None \<Rightarrow> Some (claimFail (''session '' @ cq_SessionID req @ '' not found''))
      | Some p \<Rightarrow>
          if p_AgentName p \<noteq> [] then
            Some (claimFail (''session '' @ cq_SessionID req @ '' already has agent name '' @
              goQuote (p_AgentName p) @ '' -- cannot re-claim''))
          else case holderOf (cq_AgentName req) d of
            None \<Rightarrow> None
          | Some held \<Rightarrow> Some \<lparr>cr_OK = False, cr_Error = heldError (cq_AgentName req) (p_ID held),
              cr_HeldBySession = p_ID held, cr_HeldByMachine = p_Machine held,
              cr_HeldByCWD = p_CWD held, cr_HeldBySince = p_RegisteredAt held\<rparr>)"

definition claimCommit :: "clock \<Rightarrow> ClaimAgentRequest \<Rightarrow> Broker \<Rightarrow> ClaimAgentResponse \<times> Broker" where
  "claimCommit clk req b =
     (let b1 = run (SetAgentName (cq_AgentName req) (cq_SessionID req)) b;
          b2 = run (BindQueued (cq_SessionID req) (cq_AgentName req)) b1;
          b3 = run (SeenName (cq_AgentName req) (nowISO (clk 0))) b2;
          b4 = emitEvent (clk 1) ''agent_claimed'' (cq_SessionID req) [] (cq_AgentName req) b3;
          b5 = publishTo (clk 2) ''fleet.agent.claimed''
                 (fleetEvent\<lparr>fe_Type := ''agent_claimed'', fe_PeerID := cq_SessionID req,
                    fe_Data := cq_AgentName req\<rparr>) b4
      in (\<lparr>cr_OK = True, cr_Error = [], cr_HeldBySession = [], cr_HeldByMachine = [],
           cr_HeldByCWD = [], cr_HeldBySince = []\<rparr>, b5))"

definition claimAgent :: "clock \<Rightarrow> ClaimAgentRequest \<Rightarrow> Broker \<Rightarrow> ClaimAgentResponse \<times> Broker" where
  "claimAgent clk req b = (case claimCheck req (bdb b) of
     Some resp \<Rightarrow> (resp, b)
   | None \<Rightarrow> claimCommit clk req b)"

definition ackMessage :: "clock \<Rightarrow> AckMessageRequest \<Rightarrow> Broker \<Rightarrow> Broker" where
  "ackMessage clk req = run (AckRow (nowISO (clk 0)) (aq_SessionID req) (aq_MessageID req))"

definition unregister :: "clock \<Rightarrow> UnregisterRequest \<Rightarrow> Broker \<Rightarrow> Broker" where
  "unregister clk req b =
     (let b1 = emitEvent (clk 0) ''peer_left'' (uq_ID req) [] [] b;
          b2 = publishTo (clk 1) ''fleet.peer.left''
                 (fleetEvent\<lparr>fe_Type := ''peer_left'', fe_PeerID := uq_ID req\<rparr>) b1
      in fold run (DeletePeer (uq_ID req) # releaseSession (uq_ID req)) b2)"

section \<open>Fleet memory and counters\<close>

definition setFleetMemory :: "string \<Rightarrow> Broker \<Rightarrow> Broker" where
  "setFleetMemory txt b = run (SetKV ''fleet_memory'' txt) (b\<lparr>fleetMemory := txt\<rparr>)"

definition getFleetMemory :: "Broker \<Rightarrow> string" where
  "getFleetMemory b = fleetMemory b"

definition peerCount :: "Broker \<Rightarrow> int" where
  "peerCount b = (case query (\<lambda>d. int (length (peers d))) (bdb b) of Inl _ \<Rightarrow> 0 | Inr n \<Rightarrow> n)"

definition shortKID :: "string \<Rightarrow> string" where
  "shortKID s = (if length s \<le> 8 then s else take 8 s)"

section \<open>Operations as statement sequences\<close>

lemma run_simps [simp]:
  "bdb (run s b) = exec s (bdb b)" "nats (run s b) = nats b" "fleetMemory (run s b) = fleetMemory b"
  by (simp_all add: run_def)

lemma publishTo_simps [simp]:
  "bdb (publishTo t sub e b) = bdb b" "fleetMemory (publishTo t sub e b) = fleetMemory b"
  by (simp_all add: publishTo_def)

lemma execAll_simps [simp]:
  "execAll [] d = d" "execAll (s # ss) d = execAll ss (exec s d)"
  "execAll (ss @ ss') d = execAll ss' (execAll ss d)"
  by (simp_all add: execAll_def)

lemma fold_run [simp]:
  "bdb (fold run ss b) = execAll ss (bdb b)" "fleetMemory (fold run ss b) = fleetMemory b"
  by (induction ss arbitrary: b) simp_all

lemma exec_dbErr [simp]: "dbErr (exec s d) = dbErr d"
  by (cases s) (auto simp: exec_def)

lemma execAll_dbErr [simp]: "dbErr (execAll ss d) = dbErr d"
  by (induction ss arbitrary: d) simp_all

text \<open>The statements of each operation, in the order it executes them.\<close>

definition joinStmts :: "clock \<Rightarrow> string \<Rightarrow> RegisterRequest \<Rightarrow> stmt list" where
  "joinStmts clk i req =
     InsertPeer (newPeer i (nowISO (clk 0)) req) #
     (if rq_AgentName req \<noteq> []
      then [BindQueued i (rq_AgentName req), SeenName (rq_AgentName req) (nowISO (clk 0))] else []) @
     [InsertEvent ''peer_joined'' i (rq_Machine req) (rq_Summary req) (nowISO (clk 1))]"

lemma registerCommit_db:
  "bdb (snd (registerCommit clk rnd req b)) = execAll (joinStmts clk (generatePeerID rnd) req) (bdb b)"
  by (simp add: registerCommit_def joinStmts_def emitEvent_def Let_def)

lemma cleanStalePeers_db:
  "bdb (cleanStalePeers to clk b) =
     execAll (DeleteStalePeers (staleCutoff to (clk 0)) #
       concat (map releaseSession (deadIDs (staleCutoff to (clk 0)) (bdb b))) @
       [PurgeEvents (fmtRFC3339 (clk 1 - hour))]) (bdb b)"
  by (simp add: cleanStalePeers_def Let_def)

lemma pollMessages_db:
  "bdb (snd (pollMessages clk req b)) =
     execAll (map (\<lambda>m. MarkDelivered (nowISO (clk 0)) (pq_ID req) (m_ID m))
       (waitingMessages (pq_ID req) (bdb b))) (bdb b)"
proof -
  have "bdb (fold (\<lambda>m. run (MarkDelivered now i (m_ID m))) ms b') =
      execAll (map (\<lambda>m. MarkDelivered now i (m_ID m)) ms) (bdb b')"
    for now i ms b' by (induction ms arbitrary: b') simp_all
  then show ?thesis by (simp add: pollMessages_def Let_def)
qed

lemma claimCommit_db:
  "bdb (snd (claimCommit clk req b)) =
     execAll [SetAgentName (cq_AgentName req) (cq_SessionID req),
       BindQueued (cq_SessionID req) (cq_AgentName req),
       SeenName (cq_AgentName req) (nowISO (clk 0)),
       InsertEvent ''agent_claimed'' (cq_SessionID req) [] (cq_AgentName req) (nowISO (clk 1))] (bdb b)"
  by (simp add: claimCommit_def emitEvent_def Let_def)

lemma unregister_db:
  "bdb (unregister clk req b) =
     execAll ([InsertEvent ''peer_left'' (uq_ID req) [] [] (nowISO (clk 0)), DeletePeer (uq_ID req)] @
       releaseSession (uq_ID req)) (bdb b)"
  by (simp add: unregister_def emitEvent_def Let_def releaseSession_def)

lemma heartbeat_db:
  "bdb (snd (heartbeat clk req b)) = exec (TouchPeer (nowISO (clk 0)) (hq_ID req)) (bdb b)"
  by (auto simp: heartbeat_def Let_def exec_def)

section \<open>Runs of the broker\<close>

text \<open>
  A run is any sequence of handler calls, sweep rounds and restarts on an existing database
  (whose tables then have the current columns).
\<close>

inductive brokerStep :: "Broker \<Rightarrow> Broker \<Rightarrow> bool" where
  Register: "brokerStep b (snd (register clk rnd req b))"
| Heartbeat: "brokerStep b (snd (heartbeat clk hreq b))"
| Summary: "brokerStep b (setSummary clk sreq b)"
| Send: "brokerStep b (snd (sendMessage clk mreq b))"
| Poll: "brokerStep b (snd (pollMessages clk preq b))"
| Claim: "brokerStep b (snd (claimAgent clk creq b))"
| Ack: "brokerStep b (ackMessage clk areq b)"
| Unregister: "brokerStep b (unregister clk ureq b)"
| Memory: "brokerStep b (setFleetMemory txt b)"
| Sweep: "brokerStep b (snd (sweepRound to clk (tick, b)))"
| Restart: "\<not> colMissing pinfo ''agent_name'' \<Longrightarrow> \<not> colMissing minfo ''to_agent'' \<Longrightarrow>
    brokerStep b (newBroker pinfo minfo np (bdb b))"

lemma dbStep_exec_trans: "dbStep\<^sup>*\<^sup>* d e \<Longrightarrow> dbStep\<^sup>*\<^sup>* d (exec s e)"
  by (auto intro: rtranclp.rtrancl_into_rtrancl exec_step)

lemma dbStep_execAll_trans: "dbStep\<^sup>*\<^sup>* d e \<Longrightarrow> dbStep\<^sup>*\<^sup>* d (execAll ss e)"
  by (rule rtranclp_trans[OF _ dbStep_execAll])

lemmas dbStep_intros = dbStep_exec_trans dbStep_execAll_trans rtranclp.rtrancl_refl

lemma brokerStep_dbStep: "brokerStep b b' \<Longrightarrow> dbStep\<^sup>*\<^sup>* (bdb b) (bdb b')"
proof (induction rule: brokerStep.induct)
  case (Register b clk rnd req)
  show ?case
    by (auto simp: register_def registerCommit_db simp del: execAll_simps
        split: option.split intro: dbStep_intros)
next
  case (Send b clk mreq)
  show ?case
    by (auto simp: sendMessage_def Let_def emitEvent_def split: sum.split option.split intro!: dbStep_intros)
next
  case (Claim b clk creq)
  show ?case
    by (auto simp: claimAgent_def claimCommit_db simp del: execAll_simps
        split: option.split intro: dbStep_intros)
next
  case (Sweep b to clk tick)
  show ?case
    by (auto simp: sweepRound_def cleanStalePeers_db Let_def simp del: execAll_simps intro!: dbStep_intros)
next
  case (Restart pinfo minfo b np)
  then show ?case
    by (auto simp: newBroker_def migrate_def Let_def simp del: execAll_simps intro!: dbStep_intros)
qed (simp_all add: heartbeat_db setSummary_def emitEvent_def pollMessages_db ackMessage_def
      unregister_db setFleetMemory_def dbStep_intros del: execAll_simps)

lemma brokerSteps_dbSteps: "brokerStep\<^sup>*\<^sup>* b b' \<Longrightarrow> dbStep\<^sup>*\<^sup>* (bdb b) (bdb b')"
  by (induction rule: rtranclp_induct) (auto intro: rtranclp_trans brokerStep_dbStep)

interpretation broker_runs: inductive_invariant "\<lambda>b. bdb b = emptyDB" brokerStep "\<lambda>b. dbOk (bdb b)"
  by unfold_locales
    (use statements.holds_start in auto, use brokerStep_dbStep statements.holds_steps in blast)

end
