(* ===== verification/Delivery.thy ===== *)
theory Delivery
  imports Broker
begin

text \<open>
  What the broker promises its clients (\<^verbatim>\<open>src/broker_core.go\<close>): sessions and names
  (\<open>register\<close>, \<open>claimAgent\<close>, \<open>heartbeat\<close>), routing (\<open>sendMessage\<close>), delivery
  (\<open>pollMessages\<close>, \<open>peekMessages\<close>), redelivery after a session dies, eviction and retention
  bounds of the background sweep, and the persistence of the fleet memory.
\<close>

section \<open>Lookups\<close>

lemma queryUp [simp]: "dbErr d = None \<Longrightarrow> query f d = Inr (f d)"
  by (simp add: query_def)

lemma holderOf_None: "dbErr d = None \<Longrightarrow> holderOf n d = None \<longleftrightarrow> n \<notin> p_AgentName ` set (peers d)"
  by (auto simp: holderOf_def select_one_None)

lemma holderOf_SomeD: "holderOf n d = Some p \<Longrightarrow> p \<in> set (peers d) \<and> p_AgentName p = n"
  by (auto simp: holderOf_def query_def split: option.splits dest: select_one_SomeD)

lemma sessionRow_None: "dbErr d = None \<Longrightarrow> sessionRow i d = None \<longleftrightarrow> i \<notin> p_ID ` set (peers d)"
  by (auto simp: sessionRow_def select_one_None)

lemma sessionRow_lookup: "dbErr d = None \<Longrightarrow> sessionRow i d = lookup_row p_ID i (peers d)"
  by (simp add: sessionRow_def lookup_row_def)

lemma sessionRow_iff:
  "dbErr d = None \<Longrightarrow> dbOk d \<Longrightarrow> sessionRow i d = Some p \<longleftrightarrow> p \<in> set (peers d) \<and> p_ID p = i"
  by (simp add: sessionRow_lookup lookup_row_Some_iff dbOk_def)

lemma execUp [simp]: "dbErr d = None \<Longrightarrow> exec s d = execStmt s d"
  by (simp add: exec_def)

lemma execStmt_dbErr [simp]: "dbErr (execStmt s d) = dbErr d"
  by (cases s) auto

lemma emptyDB_up: "dbErr emptyDB = None"
  by (simp add: emptyDB_def)

lemma dbOk_execAll_empty: "dbOk (execAll ss emptyDB)"
  using dbStep_execAll statements.holds_reachable[OF refl] by blast

section \<open>Registration\<close>

lemma insertPeer_fresh:
  "p_ID p \<notin> p_ID ` set ps \<Longrightarrow> p_AgentName p = [] \<or> p_AgentName p \<notin> p_AgentName ` set ps \<Longrightarrow>
   insertPeer p ps = ps @ [p]"
  by (auto simp: insertPeer_def nameHeld_def insert_row_def)

lemma register_OK_iff:
  "dbErr (bdb b) = None \<Longrightarrow> rr_OK (fst (register clk rnd req b)) \<longleftrightarrow>
     rq_AgentName req = [] \<or> rq_AgentName req \<notin> p_AgentName ` set (peers (bdb b))"
  using holderOf_None[of "bdb b" "rq_AgentName req"]
  by (auto simp: register_def registerCheck_def registerCommit_def Let_def split: option.split)

lemma register_OK_commit:
  "rr_OK (fst (register clk rnd req b)) \<Longrightarrow> register clk rnd req b = registerCommit clk rnd req b"
  by (auto simp: register_def registerCheck_def split: option.splits if_splits)

lemma register_fail:
  "\<not> rr_OK (fst (register clk rnd req b)) \<Longrightarrow>
   \<exists>p \<in> set (peers (bdb b)). p_AgentName p = rq_AgentName req \<and>
     register clk rnd req b = (\<lparr>rr_OK = False, rr_ID = [],
       rr_Error = heldError (rq_AgentName req) (p_ID p), rr_HeldBySession = p_ID p,
       rr_HeldByMachine = p_Machine p, rr_HeldByCWD = p_CWD p, rr_HeldBySince = p_RegisteredAt p\<rparr>, b)"
  by (auto simp: register_def registerCheck_def registerCommit_def Let_def
      split: option.splits if_splits dest!: holderOf_SomeD)

lemma peers_join:
  assumes "dbErr d = None" and "i \<notin> p_ID ` set (peers d)"
    and "rq_AgentName req = [] \<or> rq_AgentName req \<notin> p_AgentName ` set (peers d)"
  shows "peers (execAll (joinStmts clk i req) d) = peers d @ [newPeer i (nowISO (clk 0)) req]"
  using assms by (simp add: joinStmts_def insertPeer_fresh newPeer_def)

lemma messages_join:
  assumes "dbErr d = None"
  shows "messages (execAll (joinStmts clk i req) d) =
    (if rq_AgentName req = [] then messages d
     else update_where (\<lambda>m. w_to_agent m = rq_AgentName req \<and> w_to_session m = [] \<and> w_delivered_at m = None)
            (\<lambda>m. m\<lparr>w_to_session := i\<rparr>) (messages d))"
  using assms by (simp add: joinStmts_def)

lemma events_join:
  assumes "dbErr d = None"
  shows "events (execAll (joinStmts clk i req) d) = events d @ [\<lparr>e_ID = events_seq d + 1, e_Type = ''peer_joined'',
      e_PeerID = i, e_Machine = rq_Machine req, e_Data = rq_Summary req, e_CreatedAt = nowISO (clk 1)\<rparr>]"
  using assms by (simp add: joinStmts_def)

lemma seen_join:
  assumes "dbErr d = None"
  shows "agent_names_seen (execAll (joinStmts clk i req) d) =
    (if rq_AgentName req = [] \<or> rq_AgentName req \<in> fst ` set (agent_names_seen d) then agent_names_seen d
     else agent_names_seen d @ [(rq_AgentName req, nowISO (clk 0))])"
  using assms by (simp add: joinStmts_def insert_row_def)

lemma rest_join:
  "kv (execAll (joinStmts clk i req) d) = kv d" "known_tokens (execAll (joinStmts clk i req) d) = known_tokens d"
  "messages_seq (execAll (joinStmts clk i req) d) = messages_seq d"
  by (simp_all add: joinStmts_def exec_def)

text \<open>
  C9: \<open>register\<close> succeeds exactly when the request is unnamed or no live session holds the name.
  On success with a fresh random id, the answer is that id, and the new state is exactly the old one with
  one session row that carries the request and the id, every undelivered unbound message for that
  name bound to the new session, one \<open>peer_joined\<close> event, which is also published, and the name in the history of
  names.  On a collision nothing changes and the answer identifies a live holder of the name.
\<close>

theorem register_outcome:
  assumes "dbErr (bdb b) = None" and "generatePeerID rnd \<notin> p_ID ` set (peers (bdb b))"
    and "register clk rnd req b = (r, b')"
  shows "if rq_AgentName req = [] \<or> rq_AgentName req \<notin> p_AgentName ` set (peers (bdb b))
    then rr_OK r \<and> rr_ID r = generatePeerID rnd \<and>
      peers (bdb b') = peers (bdb b) @ [newPeer (rr_ID r) (nowISO (clk 0)) req] \<and>
      messages (bdb b') = map (\<lambda>m. if rq_AgentName req \<noteq> [] \<and> w_to_agent m = rq_AgentName req \<and> w_to_session m = [] \<and>
         w_delivered_at m = None then m\<lparr>w_to_session := rr_ID r\<rparr> else m) (messages (bdb b)) \<and>
      events (bdb b') = events (bdb b) @ [\<lparr>e_ID = events_seq (bdb b) + 1, e_Type = ''peer_joined'', e_PeerID = rr_ID r,
         e_Machine = rq_Machine req, e_Data = rq_Summary req, e_CreatedAt = nowISO (clk 1)\<rparr>] \<and>
      agent_names_seen (bdb b') =
        (if rq_AgentName req = [] \<or> rq_AgentName req \<in> fst ` set (agent_names_seen (bdb b)) then agent_names_seen (bdb b)
         else agent_names_seen (bdb b) @ [(rq_AgentName req, nowISO (clk 0))]) \<and>
      kv (bdb b') = kv (bdb b) \<and> known_tokens (bdb b') = known_tokens (bdb b) \<and>
      messages_seq (bdb b') = messages_seq (bdb b) \<and> fleetMemory b' = fleetMemory b \<and>
      nats b' = publish (clk 2) ''fleet.peer.joined'' (fleetEvent\<lparr>fe_Type := ''peer_joined'', fe_PeerID := rr_ID r,
         fe_Machine := rq_Machine req, fe_Summary := rq_Summary req, fe_CWD := rq_CWD req\<rparr>) (nats b)
    else \<not> rr_OK r \<and> b' = b \<and> (\<exists>p \<in> set (peers (bdb b)). p_AgentName p = rq_AgentName req \<and>
      rr_Error r = heldError (rq_AgentName req) (p_ID p) \<and> rr_HeldBySession r = p_ID p \<and>
      rr_HeldByMachine r = p_Machine p \<and> rr_HeldByCWD r = p_CWD p \<and> rr_HeldBySince r = p_RegisteredAt p)"
proof (cases "rr_OK r")
  case True
  have free: "rq_AgentName req = [] \<or> rq_AgentName req \<notin> p_AgentName ` set (peers (bdb b))"
    using True assms(3) register_OK_iff[OF assms(1), of clk rnd req] by simp
  have c: "registerCommit clk rnd req b = (r, b')"
    using register_OK_commit[of clk rnd req b] True assms(3) by simp
  then have i: "rr_ID r = generatePeerID rnd" by (auto simp: registerCommit_def Let_def)
  have db: "bdb b' = execAll (joinStmts clk (rr_ID r) req) (bdb b)" using registerCommit_db[of clk rnd req b] c i by simp
  have "fleetMemory b' = fleetMemory b" "nats b' = publish (clk 2) ''fleet.peer.joined''
      (fleetEvent\<lparr>fe_Type := ''peer_joined'', fe_PeerID := rr_ID r, fe_Machine := rq_Machine req, fe_Summary := rq_Summary req,
         fe_CWD := rq_CWD req\<rparr>) (nats b)"
    using c by (auto simp: registerCommit_def Let_def emitEvent_def publishTo_def)
  moreover note peers_join[OF assms(1) assms(2)[folded i] free, of clk]
  ultimately show ?thesis
    using True free i by (simp add: db messages_join[OF assms(1)] events_join[OF assms(1)] seen_join[OF assms(1)] rest_join
        update_where_def cong: if_cong del: execAll_simps)
next
  case False
  with register_fail[of clk rnd req b] register_OK_iff[OF assms(1), of clk rnd req] assms(3)
  show ?thesis by auto
qed

definition sampleReq :: "string \<Rightarrow> RegisterRequest" where
  "sampleReq name = \<lparr>rq_AgentName = name, rq_PID = 7, rq_Machine = ''m1'', rq_CWD = ''/w'', rq_GitRoot = [],
     rq_TTY = [], rq_Project = [], rq_Branch = [], rq_Summary = []\<rparr>"

definition sampleBroker :: Broker where
  "sampleBroker = \<lparr>bdb = sampleDB [RequeueAgent ''s1''], nats = None, fleetMemory = []\<rparr>"

theorem register_outcome_witness:
  "rr_OK (fst (register (\<lambda>_. 0) ''abcd'' (sampleReq ''bob'') sampleBroker)) \<and>
   map w_to_session (messages (bdb sampleBroker)) = [[]] \<and>
   map w_to_session (messages (bdb (snd (register (\<lambda>_. 0) ''abcd'' (sampleReq ''bob'') sampleBroker)))) = [generatePeerID ''abcd'']"
proof -
  obtain r b' where p: "register (\<lambda>_. 0) ''abcd'' (sampleReq ''bob'') sampleBroker = (r, b')" by fastforce
  have d: "dbErr (bdb sampleBroker) = None" "peers (bdb sampleBroker) = []"
      "map (\<lambda>m. (w_to_agent m, w_to_session m, w_delivered_at m)) (messages (bdb sampleBroker)) = [(''bob'', [], None)]"
    by (simp_all add: sampleBroker_def sample_eval)
  have n: "rq_AgentName (sampleReq ''bob'') = ''bob''" by (simp add: sampleReq_def)
  from d(3) have "\<exists>m. messages (bdb sampleBroker) = [m] \<and> w_to_agent m = ''bob'' \<and> w_to_session m = [] \<and> w_delivered_at m = None" by auto
  with register_outcome[OF d(1) _ p] d(2) n p show ?thesis by auto
qed

section \<open>Claiming a name\<close>

lemma setAgentName_held:
  "unique_key p_ID ps \<Longrightarrow> p \<in> set ps \<Longrightarrow> p_ID p = i \<Longrightarrow> n \<notin> p_AgentName ` set ps \<Longrightarrow>
   lookup_row p_ID i (setAgentName n i ps) = Some (p\<lparr>p_AgentName := n\<rparr>)"
  using lookup_update_where[of "\<lambda>q. p_ID q = i" p_ID "\<lambda>q. q\<lparr>p_AgentName := n\<rparr>" i ps]
    lookup_row_Some_iff[of p_ID ps i p]
  by (auto simp: setAgentName_def nameHeld_def)

lemma claimCheck_None:
  assumes "dbErr d = None" and "dbOk d"
  shows "claimCheck req d = None \<longleftrightarrow> cq_AgentName req \<noteq> [] \<and>
    (\<exists>p \<in> set (peers d). p_ID p = cq_SessionID req \<and> p_AgentName p = []) \<and>
    cq_AgentName req \<notin> p_AgentName ` set (peers d)"
  using holderOf_None[OF assms(1), of "cq_AgentName req"] sessionRow_iff[OF assms, of "cq_SessionID req"]
  by (auto simp: claimCheck_def split: option.split) (metis option.distinct(1) option.inject)+

text \<open>
  C10: \<open>claimAgent\<close> succeeds exactly when a non-empty name is claimed by an existing unnamed
  session and no live session holds it; then the session's row carries the name, so that every
  further claim by that session, of any name, is refused.  A refused claim changes nothing.
\<close>

theorem claim_once:
  assumes "dbErr (bdb b) = None" and "dbOk (bdb b)" and "claimAgent clk req b = (r, b')"
  shows "if cq_AgentName req \<noteq> [] \<and> cq_AgentName req \<notin> p_AgentName ` set (peers (bdb b)) \<and>
       (\<exists>p \<in> set (peers (bdb b)). p_ID p = cq_SessionID req \<and> p_AgentName p = [])
    then cr_OK r \<and> agentNameOf (cq_SessionID req) (bdb b') = cq_AgentName req \<and>
      (\<forall>clk2 n. \<not> cr_OK (fst (claimAgent clk2 \<lparr>cq_SessionID = cq_SessionID req, cq_AgentName = n\<rparr> b')))
    else \<not> cr_OK r \<and> b' = b"
proof (cases "claimCheck req (bdb b)")
  case None
  note ok = None[unfolded claimCheck_None[OF assms(1,2)]]
  from ok obtain p where p: "p \<in> set (peers (bdb b))" "p_ID p = cq_SessionID req" by blast
  have b': "(r, b') = claimCommit clk req b" using assms(3) None by (simp add: claimAgent_def)
  have db: "bdb b' = execAll [SetAgentName (cq_AgentName req) (cq_SessionID req),
       BindQueued (cq_SessionID req) (cq_AgentName req), SeenName (cq_AgentName req) (nowISO (clk 0)),
       InsertEvent ''agent_claimed'' (cq_SessionID req) [] (cq_AgentName req) (nowISO (clk 1))] (bdb b)"
    using b' claimCommit_db[of clk req b] by (metis snd_conv)
  have row: "sessionRow (cq_SessionID req) (bdb b') = Some (p\<lparr>p_AgentName := cq_AgentName req\<rparr>)"
    using assms(1,2) ok p by (simp add: db sessionRow_lookup dbOk_def setAgentName_held)
  have "\<not> cr_OK (fst (claimAgent clk2 \<lparr>cq_SessionID = cq_SessionID req, cq_AgentName = n\<rparr> b'))" for clk2 n
    using ok row by (auto simp: claimAgent_def claimCheck_def claimFail_def)
  moreover have "cr_OK r" using b' by (auto simp: claimCommit_def Let_def)
  ultimately show ?thesis using ok row by (simp add: agentNameOf_def)
next
  case (Some resp)
  then have "\<not> cr_OK resp"
    by (auto simp: claimCheck_def claimFail_def split: if_splits option.splits)
  with Some assms(3) show ?thesis
    using claimCheck_None[OF assms(1,2), of req] by (auto simp: claimAgent_def)
qed

definition unnamedBroker :: Broker where
  "unnamedBroker = \<lparr>bdb = execAll [InsertPeer (newPeer ''s9'' ''t0'' (sampleReq []))] emptyDB,
     nats = None, fleetMemory = []\<rparr>"

theorem claim_once_witness:
  "cr_OK (fst (claimAgent (\<lambda>_. 0) \<lparr>cq_SessionID = ''s9'', cq_AgentName = ''bob''\<rparr> unnamedBroker))"
proof -
  have "dbOk (bdb unnamedBroker)" "dbErr (bdb unnamedBroker) = None"
    by (simp_all add: unnamedBroker_def dbOk_execAll_empty emptyDB_up del: execAll_simps)
  from claim_once[OF this(2,1), of "\<lambda>_. 0" "\<lparr>cq_SessionID = ''s9'', cq_AgentName = ''bob''\<rparr>"]
  show ?thesis
    by (auto simp: unnamedBroker_def emptyDB_def insertPeer_def nameHeld_def insert_row_def
        newPeer_def sampleReq_def prod_eq_iff)
qed

section \<open>Routing\<close>

lemma msgAt_insert:
  assumes "dbOk d" and "dbErr d = None"
  shows "msgAt (messages_seq d + 1) (exec (InsertMessage ta ts f fa txt now) d) =
    Some \<lparr>w_id = messages_seq d + 1, w_to_agent = ta, w_to_session = ts, w_from_session = f,
      w_from_agent = fa, w_text = txt, w_sent_at = now, w_delivered_at = None, w_ack_at = None,
      w_ack_session = None, w_attempts = 0\<rparr>"
proof -
  have "messages_seq d + 1 \<notin> w_id ` set (messages d)"
    using assms(1) by (auto simp: dbOk_def idsIncrease_def)
  with assms(2) show ?thesis by (simp add: msgAt_def lookup_row_snoc lookup_row_None_iff[THEN iffD2])
qed

text \<open>
  Routing as the API promises it: a direct message is bound to the named session; a message to
  an agent is bound to the session that holds the name, or queued, and then the verdict says
  whether the name was ever seen.
\<close>

definition holds :: "db \<Rightarrow> string \<Rightarrow> string \<Rightarrow> bool" where
  "holds d i name \<longleftrightarrow> i \<noteq> [] \<and> (\<exists>p \<in> set (peers d). p_ID p = i \<and> p_AgentName p = name)"

definition routed :: "SendMessageRequest \<Rightarrow> db \<Rightarrow> string \<Rightarrow> DeliveryStatus \<Rightarrow> bool" where
  "routed req d toSession status \<longleftrightarrow>
     (if mq_ToSession req \<noteq> [] then toSession = mq_ToSession req \<and> status = DeliveryStatusBound
      else if \<exists>i. holds d i (mq_ToAgent req)
           then holds d toSession (mq_ToAgent req) \<and> status = DeliveryStatusBound
      else toSession = [] \<and>
        status = (if mq_ToAgent req \<in> fst ` set (agent_names_seen d) then DeliveryStatusQueuedOffline
                  else DeliveryStatusQueuedUnknown))"

lemma holderOf_unique:
  assumes "dbErr d = None" and "dbOk d" and "n \<noteq> []"
  shows "holderOf n d = Some p \<longleftrightarrow> p \<in> set (peers d) \<and> p_AgentName p = n"
proof
  assume p: "p \<in> set (peers d) \<and> p_AgentName p = n"
  then obtain q where q: "holderOf n d = Some q"
    using holderOf_None[OF assms(1), of n] by (cases "holderOf n d") auto
  with p have "q = p"
    using namesUniqueD[of "peers d" p q] assms(2,3) by (auto simp: dbOk_def dest: holderOf_SomeD)
  with q show "holderOf n d = Some p" by simp
qed (rule holderOf_SomeD)

lemma routeMessage_Inr:
  assumes "dbErr d = None" and "dbOk d" and "(mq_ToAgent req = []) \<noteq> (mq_ToSession req = [])"
    and "routeMessage req d = Inr (ta, ts, q, st)"
  shows "ta = mq_ToAgent req \<and> q = (ts = []) \<and> routed req d ts st"
proof (cases "mq_ToSession req = []")
  case True
  with assms(3) have n: "mq_ToAgent req \<noteq> []" by simp
  have "\<forall>p. holderOf (mq_ToAgent req) d = Some p \<longleftrightarrow> p \<in> set (peers d) \<and> p_AgentName p = mq_ToAgent req"
    using holderOf_unique[OF assms(1,2) n] by blast
  then show ?thesis
    using assms True n
    by (cases "holderOf (mq_ToAgent req) d")
      (auto simp: routeMessage_def routed_def holds_def nameSeen_def image_iff split: if_splits, metis+)
next
  case False
  with assms(1,3,4) show ?thesis by (auto simp: routeMessage_def routed_def split: if_splits)
qed

lemma routeMessage_Inl:
  assumes "dbErr d = None"
  shows "(\<exists>e. routeMessage req d = Inl e) \<longleftrightarrow> mq_ToSession req \<noteq> [] \<and> mq_ToSession req \<notin> p_ID ` set (peers d)"
  using sessionRow_None[OF assms, of "mq_ToSession req"]
  by (auto simp: routeMessage_def split: option.split)

lemma sendMessage_db:
  assumes "dbErr (bdb b) = None" and "(mq_ToAgent req = []) \<noteq> (mq_ToSession req = [])"
    and "routeMessage req (bdb b) = Inr (ta, ts, q, st)"
  shows "mr_OK (fst (sendMessage clk req b)) \<and> mr_Queued (fst (sendMessage clk req b)) = q \<and>
    mr_MessageID (fst (sendMessage clk req b)) = messages_seq (bdb b) + 1 \<and>
    bdb (snd (sendMessage clk req b)) = execAll
      [InsertMessage ta ts (mq_FromID req) (agentNameOf (mq_FromID req) (bdb b)) (mq_Text req) (nowISO (clk 0)),
       InsertEvent ''message_sent'' (mq_FromID req) []
         (''to='' @ (if ta = [] then ts else ta) @ '' text='' @ preview (mq_Text req)) (nowISO (clk 1))] (bdb b)"
  using assms by (simp add: sendMessage_def Let_def emitEvent_def)

text \<open>
  C11: \<open>sendMessage\<close> refuses, without any change, a request that names both or neither of agent
  and session, and a direct message to a session that does not exist.  Every other request stores
  exactly one message, under the id it returns, undelivered, with the request's text, recipient
  and sender, the sender's current agent name, and routed as \<open>routed\<close> says; the response reports
  that routing.  No existing message is touched.
\<close>

theorem send_outcome:
  assumes "dbErr (bdb b) = None" and "dbOk (bdb b)" and "sendMessage clk req b = (r, b')"
  shows "if (mq_ToAgent req = []) = (mq_ToSession req = []) \<or>
       mq_ToSession req \<noteq> [] \<and> mq_ToSession req \<notin> p_ID ` set (peers (bdb b))
    then \<not> mr_OK r \<and> b' = b
    else mr_OK r \<and> mr_MessageID r = messages_seq (bdb b) + 1 \<and>
      (\<exists>ts. routed req (bdb b) ts (mr_DeliveryStatus r) \<and> mr_Queued r = (ts = []) \<and>
         messages (bdb b') = messages (bdb b) @ [\<lparr>w_id = mr_MessageID r, w_to_agent = mq_ToAgent req,
            w_to_session = ts, w_from_session = mq_FromID req,
            w_from_agent = agentNameOf (mq_FromID req) (bdb b), w_text = mq_Text req,
            w_sent_at = nowISO (clk 0), w_delivered_at = None, w_ack_at = None,
            w_ack_session = None, w_attempts = 0\<rparr>])"
proof (cases "(mq_ToAgent req = []) = (mq_ToSession req = [])")
  case True
  with assms(3) show ?thesis by (auto simp: sendMessage_def sendFail_def)
next
  case one: False
  show ?thesis
  proof (cases "routeMessage req (bdb b)")
    case (Inl e)
    with one assms(1,3) routeMessage_Inl[OF assms(1), of req] show ?thesis
      by (auto simp: sendMessage_def sendFail_def Let_def)
  next
    case (Inr x)
    obtain ta ts q st where x: "x = (ta, ts, q, st)" by (cases x)
    note rt = routeMessage_Inr[OF assms(1,2) one, of ta ts q st] Inr[unfolded x]
    have "\<not> (mq_ToSession req \<noteq> [] \<and> mq_ToSession req \<notin> p_ID ` set (peers (bdb b)))"
      using routeMessage_Inl[OF assms(1), of req] Inr by auto
    with one rt assms(1,3) show ?thesis
      by (auto simp: sendMessage_def Let_def emitEvent_def)
  qed
qed

theorem send_outcome_witness:
  "mr_DeliveryStatus (fst (sendMessage (\<lambda>_. 0) \<lparr>mq_FromID = ''s2'', mq_ToAgent = ''zoe'', mq_ToSession = [],
      mq_Text = ''hi''\<rparr> sampleBroker)) = DeliveryStatusQueuedUnknown"
  using send_outcome[of sampleBroker "\<lambda>_. 0"
      "\<lparr>mq_FromID = ''s2'', mq_ToAgent = ''zoe'', mq_ToSession = [], mq_Text = ''hi''\<rparr>"
      "fst (sendMessage (\<lambda>_. 0) \<lparr>mq_FromID = ''s2'', mq_ToAgent = ''zoe'', mq_ToSession = [],
         mq_Text = ''hi''\<rparr> sampleBroker)"
      "snd (sendMessage (\<lambda>_. 0) \<lparr>mq_FromID = ''s2'', mq_ToAgent = ''zoe'', mq_ToSession = [],
         mq_Text = ''hi''\<rparr> sampleBroker)"] dbOk_sampleDB
  by (simp add: sampleBroker_def routed_def holds_def) (simp add: sample_eval)

section \<open>Polling\<close>

definition marked :: "string \<Rightarrow> string \<Rightarrow> messageRow \<Rightarrow> messageRow" where
  "marked now i m = m\<lparr>w_delivered_at := Some now, w_to_session := i, w_attempts := w_attempts m + 1\<rparr>"

lemma w_id_marked [simp]: "w_id (marked now i m) = w_id m"
  by (simp add: marked_def)

lemma waiting_up:
  "dbErr d = None \<Longrightarrow> waitingMessages i d =
     map scanMessage (sort_key w_sent_at (filter (waitingFor i (agentNameOf i d)) (messages d)))"
  by (simp add: waitingMessages_def)

lemma in_waiting_iff:
  "dbErr d = None \<Longrightarrow> x \<in> set (waitingMessages i d) \<longleftrightarrow>
     (\<exists>m \<in> set (messages d). waitingFor i (agentNameOf i d) m \<and> x = scanMessage m)"
  by (auto simp: waiting_up)

lemma waiting_ids_distinct:
  assumes "dbErr d = None" and "dbOk d"
  shows "distinct (map m_ID (waitingMessages i d))"
proof -
  have "m_ID \<circ> scanMessage = w_id" by (auto simp: scanMessage_def)
  moreover have "distinct (map w_id (messages d))"
    using assms(2) by (auto simp: dbOk_def dest: idsIncrease_distinct)
  ultimately show ?thesis
    using assms(1) by (simp add: waiting_up distinct_map distinct_filter inj_on_def)
qed

lemma mark_peers [simp]: "peers (execAll (map (MarkDelivered now s) is) d) = peers d"
  by (induction "is" arbitrary: d) (auto simp: exec_def)

lemma mark_messages:
  assumes "dbErr d = None" and "distinct is"
  shows "messages (execAll (map (MarkDelivered now s) is) d) =
    update_where (\<lambda>m. w_id m \<in> set is) (marked now s) (messages d)"
  using assms
proof (induction "is" arbitrary: d)
  case (Cons i "is")
  then have "messages (execAll (map (MarkDelivered now s) (i # is)) d) =
      update_where (\<lambda>m. w_id m \<in> set is) (marked now s)
        (update_where (\<lambda>m. w_id m = i) (marked now s) (messages d))"
    by (simp add: marked_def[abs_def])
  also have "\<dots> = update_where (\<lambda>m. w_id m \<in> set (i # is)) (marked now s) (messages d)"
    using Cons.prems(2) by (auto simp: update_where_def)
  finally show ?case .
qed (simp add: update_where_def)

lemma poll_messages:
  assumes "dbErr (bdb b) = None" and "dbOk (bdb b)"
  shows "messages (bdb (snd (pollMessages clk req b))) =
    update_where (waitingFor (pq_ID req) (agentNameOf (pq_ID req) (bdb b)))
      (marked (nowISO (clk 0)) (pq_ID req)) (messages (bdb b))"
proof -
  let ?ws = "waitingMessages (pq_ID req) (bdb b)"
  have "m_ID ` set ?ws = w_id ` {m \<in> set (messages (bdb b)).
      waitingFor (pq_ID req) (agentNameOf (pq_ID req) (bdb b)) m}"
    by (simp add: waiting_up[OF assms(1)] image_image scanMessage_def)
  moreover have "inj_on w_id (set (messages (bdb b)))"
    using dbOk_msg_ids[OF assms(2)] by blast
  ultimately have ids: "m \<in> set (messages (bdb b)) \<Longrightarrow> w_id m \<in> m_ID ` set ?ws \<longleftrightarrow>
      waitingFor (pq_ID req) (agentNameOf (pq_ID req) (bdb b)) m" for m
    by (auto dest: inj_onD)
  have "messages (bdb (snd (pollMessages clk req b))) =
      update_where (\<lambda>m. w_id m \<in> set (map m_ID ?ws)) (marked (nowISO (clk 0)) (pq_ID req)) (messages (bdb b))"
    using mark_messages[OF assms(1) waiting_ids_distinct[OF assms], of "nowISO (clk 0)" "pq_ID req" "pq_ID req"]
    by (simp add: pollMessages_db o_def)
  also have "\<dots> = update_where (waitingFor (pq_ID req) (agentNameOf (pq_ID req) (bdb b)))
      (marked (nowISO (clk 0)) (pq_ID req)) (messages (bdb b))"
    using ids by (simp add: update_where_def)
  finally show ?thesis .
qed

lemma poll_peers [simp]: "peers (bdb (snd (pollMessages clk req b))) = peers (bdb b)"
  using mark_peers[of "nowISO (clk 0)" "pq_ID req" "map m_ID (waitingMessages (pq_ID req) (bdb b))" "bdb b"]
  by (simp add: pollMessages_db o_def)

lemma agentNameOf_cong: "peers d = peers d' \<Longrightarrow> dbErr d = dbErr d' \<Longrightarrow> agentNameOf i d = agentNameOf i d'"
  by (cases "dbErr d'") (simp_all add: agentNameOf_def sessionRow_def query_def)

text \<open>
  C12: \<open>pollMessages\<close> returns exactly what \<open>peekMessages\<close> would: one entry for each undelivered
  message that is bound to the session or addressed to the agent name it holds.  Each of these
  rows is stamped as delivered, bound to the polling session and counted as an attempt, and every
  other row is left alone.  After that a peek finds nothing, and neither does a second poll, however much later
  it comes: the code has no retry window, an unacknowledged message comes back only when its session ends.
\<close>

theorem poll_drains:
  assumes "dbErr (bdb b) = None" and "dbOk (bdb b)" and "pollMessages clk req b = (r, b')"
  shows "r = peekMessages req b \<and>
    set (pr_Messages r) = scanMessage ` {m \<in> set (messages (bdb b)).
       waitingFor (pq_ID req) (agentNameOf (pq_ID req) (bdb b)) m} \<and>
    messages (bdb b') = map (\<lambda>m. if waitingFor (pq_ID req) (agentNameOf (pq_ID req) (bdb b)) m
       then marked (nowISO (clk 0)) (pq_ID req) m else m) (messages (bdb b)) \<and>
    pr_Messages (peekMessages req b') = [] \<and> pr_Messages (fst (pollMessages clk2 req b')) = []"
proof -
  have r: "r = peekMessages req b" and b': "b' = snd (pollMessages clk req b)"
    using assms(3) by (auto simp: pollMessages_def peekMessages_def Let_def)
  have up: "dbErr (bdb b') = None" using assms(1) by (simp add: b' pollMessages_db)
  have name: "agentNameOf (pq_ID req) (bdb b') = agentNameOf (pq_ID req) (bdb b)"
    by (rule agentNameOf_cong) (simp_all add: b', simp add: pollMessages_db)
  have msgs: "messages (bdb b') = map (\<lambda>m. if waitingFor (pq_ID req) (agentNameOf (pq_ID req) (bdb b)) m
       then marked (nowISO (clk 0)) (pq_ID req) m else m) (messages (bdb b))"
    using poll_messages[OF assms(1,2)] by (simp add: b' update_where_def)
  have "x \<notin> set (waitingMessages (pq_ID req) (bdb b'))" for x
    by (auto simp: in_waiting_iff[OF up] name msgs) (simp add: waitingFor_def marked_def)
  then have empty: "waitingMessages (pq_ID req) (bdb b') = []"
    by (metis list.set_intros(1) neq_Nil_conv)
  have "set (pr_Messages r) = scanMessage ` {m \<in> set (messages (bdb b)).
       waitingFor (pq_ID req) (agentNameOf (pq_ID req) (bdb b)) m}"
    by (auto simp: r peekMessages_def in_waiting_iff[OF assms(1)])
  with r msgs empty show ?thesis by (simp add: peekMessages_def pollMessages_def Let_def)
qed

lemma dbOk_sampleBroker: "dbErr (bdb sampleBroker) = None" "dbOk (bdb sampleBroker)"
  by (simp_all add: sampleBroker_def dbOk_sampleDB) (simp add: sampleDB_def emptyDB_up)

text \<open>A broker with a session that holds a name and has a message waiting.\<close>

definition inboxBroker :: Broker where
  "inboxBroker = \<lparr>bdb = execAll [InsertPeer (newPeer ''s1'' (nowISO 0) (sampleReq ''bob'')),
       InsertMessage ''bob'' ''s1'' ''s2'' ''eve'' ''hi'' (nowISO 0)] emptyDB, nats = None, fleetMemory = []\<rparr>"

lemma inboxBroker_up: "dbErr (bdb inboxBroker) = None" "dbOk (bdb inboxBroker)"
  by (simp_all add: inboxBroker_def dbOk_execAll_empty emptyDB_up del: execAll_simps)

theorem poll_drains_witness:
  "\<exists>r b'. pollMessages (\<lambda>_. 0) \<lparr>pq_ID = ''s1''\<rparr> inboxBroker = (r, b') \<and> m_Text ` set (pr_Messages r) = {''hi''} \<and>
     pr_Messages (fst (pollMessages (\<lambda>_. 24 * hour) \<lparr>pq_ID = ''s1''\<rparr> b')) = []"
proof -
  obtain r b' where p: "pollMessages (\<lambda>_. 0) \<lparr>pq_ID = ''s1''\<rparr> inboxBroker = (r, b')" by fastforce
  note d = poll_drains[OF inboxBroker_up p]
  have m: "map (\<lambda>m. (w_text m, w_to_session m, w_delivered_at m)) (messages (bdb inboxBroker)) = [(''hi'', ''s1'', None)]"
    by (simp add: inboxBroker_def sample_eval)
  then have "{m \<in> set (messages (bdb inboxBroker)). waitingFor ''s1'' n m} = set (messages (bdb inboxBroker))" for n
    by (auto simp: waitingFor_def)
  moreover have "w_text ` set (messages (bdb inboxBroker)) = {''hi''}" using m by auto
  moreover note d[THEN conjunct2, THEN conjunct1]
  ultimately have "m_Text ` set (pr_Messages r) = {''hi''}" by (simp add: image_image scanMessage_def)
  with p d show ?thesis by blast
qed

section \<open>Redelivery\<close>

text \<open>
  A message that is still deliverable to a name: addressed to it, unacknowledged, with the given
  identity, and not marked as delivered.
\<close>

definition deliverable :: "messageRow \<Rightarrow> messageRow \<Rightarrow> bool" where
  "deliverable m m' \<longleftrightarrow> content m' = content m \<and> w_delivered_at m' = None \<and> w_ack_at m' = None"

lemma release_rows:
  assumes "w_to_agent m \<noteq> []" and "w_ack_at m = None"
    and "w_to_session m \<in> set dead \<or> w_delivered_at m = None"
  shows "\<exists>m'. rowEffects (concat (map releaseSession dead)) m = Some m' \<and> deliverable m m'"
  using assms
proof (induction dead arbitrary: m)
  case (Cons s dead)
  show ?case
  proof (cases "w_to_session m = s")
    case True
    let ?m = "m\<lparr>w_to_session := [], w_delivered_at := None\<rparr>"
    have "content ?m = content m" by (simp add: content_def)
    with Cons.IH[of ?m] Cons.prems True show ?thesis
      by (auto simp: releaseSession_def deliverable_def)
  next
    case False
    with Cons.IH[of m] Cons.prems show ?thesis by (auto simp: releaseSession_def)
  qed
qed (simp add: deliverable_def)

lemma join_row:
  "w_delivered_at m = None \<Longrightarrow>
   \<exists>m'. rowEffects (joinStmts clk i req) m = Some m' \<and> content m' = content m \<and> w_delivered_at m' = None"
  by (auto simp: joinStmts_def content_def)

lemma joiner_receives:
  assumes "dbErr (bdb b) = None" and "dbOk (bdb b)" and "generatePeerID rnd \<notin> p_ID ` set (peers (bdb b))"
    and "rq_AgentName req = w_to_agent m" and "w_to_agent m \<noteq> []"
    and "w_to_agent m \<notin> p_AgentName ` set (peers (bdb b))"
    and "msgAt k (bdb b) = Some m" and "w_delivered_at m = None"
    and "register clk rnd req b = (r, b')"
  shows "rr_OK r \<and> (\<exists>x \<in> set (pr_Messages (fst (pollMessages clk2 \<lparr>pq_ID = rr_ID r\<rparr> b'))).
    m_ID x = k \<and> m_Text x = w_text m \<and> m_FromSession x = w_from_session m)"
proof -
  let ?i = "generatePeerID rnd" and ?d = "execAll (joinStmts clk (generatePeerID rnd) req) (bdb b)"
  have ok: "rr_OK r" using register_OK_iff[OF assms(1), of clk rnd req] assms by simp
  then have c: "registerCommit clk rnd req b = (r, b')"
    using register_OK_commit[of clk rnd req b] assms(9) by simp
  have i: "rr_ID r = ?i" using c by (auto simp: registerCommit_def Let_def)
  have db: "bdb b' = ?d" using registerCommit_db[of clk rnd req b] c by simp
  have okd: "dbOk ?d" and up: "dbErr ?d = None"
    using assms(1,2) dbOk_execAll by (simp_all del: execAll_simps)
  have "sessionRow ?i ?d = Some (newPeer ?i (nowISO (clk 0)) req)"
    using peers_join[OF assms(1,3), of req clk] assms(4,6)
    by (simp add: sessionRow_iff[OF up okd] newPeer_def del: execAll_simps)
  then have name: "agentNameOf ?i ?d = w_to_agent m" using assms(4) by (simp add: agentNameOf_def newPeer_def)
  obtain m' where m': "msgAt k ?d = Some m'" "content m' = content m" "w_delivered_at m' = None"
    using msgAt_execAll[OF assms(2,1,7)] join_row[OF assms(8)] by metis
  have "m' \<in> set (messages ?d)" "w_id m' = k" using m'(1) msgAt_iff[OF okd] by auto
  moreover have "waitingFor ?i (agentNameOf ?i ?d) m'"
    using m'(2,3) assms(5) by (simp add: waitingFor_def name content_def)
  ultimately have "scanMessage m' \<in> set (waitingMessages ?i ?d)"
    using in_waiting_iff[OF up] by blast
  with ok m'(2) \<open>w_id m' = k\<close> show ?thesis
    by (intro conjI bexI[of _ "scanMessage m'"])
      (auto simp: pollMessages_def Let_def db i scanMessage_def content_def simp del: execAll_simps)
qed

text \<open>
  C4: a message queued for a name that nobody holds reaches the next session that registers under
  the name: the registration succeeds and the session's first poll returns the message.
\<close>

theorem offline_message_delivered:
  assumes "dbErr (bdb b) = None" and "dbOk (bdb b)" and "generatePeerID rnd \<notin> p_ID ` set (peers (bdb b))"
    and "mq_ToAgent sreq \<noteq> []" and "mq_ToSession sreq = []"
    and "mq_ToAgent sreq \<notin> p_AgentName ` set (peers (bdb b))"
    and "rq_AgentName req = mq_ToAgent sreq"
    and "sendMessage clk sreq b = (sr, b1)" and "register clk2 rnd req b1 = (r, b2)"
  shows "mr_OK sr \<and> mr_Queued sr \<and> rr_OK r \<and>
    (\<exists>x \<in> set (pr_Messages (fst (pollMessages clk3 \<lparr>pq_ID = rr_ID r\<rparr> b2))).
       m_ID x = mr_MessageID sr \<and> m_Text x = mq_Text sreq \<and> m_FromSession x = mq_FromID sreq)"
proof -
  have "holderOf (mq_ToAgent sreq) (bdb b) = None" using assms(6) holderOf_None[OF assms(1)] by simp
  then obtain st where rt: "routeMessage sreq (bdb b) = Inr (mq_ToAgent sreq, [], True, st)"
    using assms(5) by (simp add: routeMessage_def)
  have one: "(mq_ToAgent sreq = []) \<noteq> (mq_ToSession sreq = [])" using assms(4,5) by simp
  note db1 = sendMessage_db[OF assms(1) one rt, of clk]
  have p1: "peers (bdb b1) = peers (bdb b)" and up1: "dbErr (bdb b1) = None"
    using db1 assms(1,8) by simp_all
  have ok1: "dbOk (bdb b1)" using db1 assms(2,8) dbOk_execAll by (metis snd_conv)
  obtain m where m: "msgAt (mr_MessageID sr) (bdb b1) = Some m" "w_to_agent m = mq_ToAgent sreq"
      "w_text m = mq_Text sreq" "w_from_session m = mq_FromID sreq" "w_delivered_at m = None"
    using msgAt_insert[OF assms(2,1)] db1 assms(1,8) by (simp add: msgAt_def)
  from joiner_receives[OF up1 ok1 _ _ _ _ m(1,5) assms(9)] assms(3,4,6,7,8) m p1 db1
  show ?thesis by auto
qed

theorem offline_message_delivered_witness:
  "\<exists>sr b1 r b2.
     sendMessage (\<lambda>_. 0) \<lparr>mq_FromID = ''s2'', mq_ToAgent = ''bob'', mq_ToSession = [], mq_Text = ''yo''\<rparr> sampleBroker = (sr, b1) \<and>
     register (\<lambda>_. 5) ''abcd'' (sampleReq ''bob'') b1 = (r, b2) \<and>
     (\<exists>x \<in> set (pr_Messages (fst (pollMessages (\<lambda>_. 9) \<lparr>pq_ID = rr_ID r\<rparr> b2))). m_Text x = ''yo'')"
proof -
  let ?s = "\<lparr>mq_FromID = ''s2'', mq_ToAgent = ''bob'', mq_ToSession = [], mq_Text = ''yo''\<rparr>"
  obtain sr b1 where 1: "sendMessage (\<lambda>_. 0) ?s sampleBroker = (sr, b1)" by fastforce
  obtain r b2 where 2: "register (\<lambda>_. 5) ''abcd'' (sampleReq ''bob'') b1 = (r, b2)" by fastforce
  have "peers (bdb sampleBroker) = []" by (simp add: sampleBroker_def sample_eval)
  with offline_message_delivered[OF dbOk_sampleBroker _ _ _ _ _ 1 2, of "\<lambda>_. 9"] 1 2 show ?thesis
    by (auto simp: sampleReq_def)
qed

lemma freed_name:
  assumes "dbOk d" and "holds d s n" and "n \<noteq> []"
    and "\<And>p. p \<in> set ps \<Longrightarrow> p \<in> set (peers d) \<and> p_ID p \<noteq> s"
  shows "n \<notin> p_AgentName ` set ps"
proof
  assume "n \<in> p_AgentName ` set ps"
  then obtain q where q: "q \<in> set ps" "p_AgentName q = n" by auto
  obtain p where p: "p \<in> set (peers d)" "p_ID p = s" "p_AgentName p = n"
    using assms(2) by (auto simp: holds_def)
  have "q = p"
    using namesUniqueD[of "peers d" p q] p q assms(1,3,4) by (auto simp: dbOk_def)
  with q p assms(4) show False by blast
qed

lemma release_peers [simp]: "peers (execAll (concat (map releaseSession dead)) d) = peers d"
  by (induction dead arbitrary: d) (auto simp: releaseSession_def exec_def)

text \<open>
  C5: a message that a session received but did not acknowledge is not lost when the session
  unregisters: the name is free at once, the next session that registers under it succeeds and
  receives the message on its first poll.
\<close>

theorem unregister_redelivers:
  assumes "dbErr (bdb b) = None" and "dbOk (bdb b)" and "msgAt k (bdb b) = Some m"
    and "w_ack_at m = None" and "w_to_agent m \<noteq> []" and "w_to_session m = s"
    and "holds (bdb b) s (w_to_agent m)"
    and "b1 = unregister clk \<lparr>uq_ID = s\<rparr> b"
    and "generatePeerID rnd \<notin> p_ID ` set (peers (bdb b1))" and "rq_AgentName req = w_to_agent m"
    and "register clk2 rnd req b1 = (r, b2)"
  shows "rr_OK r \<and> (\<exists>x \<in> set (pr_Messages (fst (pollMessages clk3 \<lparr>pq_ID = rr_ID r\<rparr> b2))).
    m_ID x = k \<and> m_Text x = w_text m \<and> m_FromSession x = w_from_session m)"
proof -
  let ?ss = "[InsertEvent ''peer_left'' s [] [] (nowISO (clk 0)), DeletePeer s] @ releaseSession s"
  have db: "bdb b1 = execAll ?ss (bdb b)"
    using unregister_db[of clk "\<lparr>uq_ID = s\<rparr>" b] assms(8) by simp
  have up1: "dbErr (bdb b1) = None" and ok1: "dbOk (bdb b1)"
    using assms(1,2) dbOk_execAll unfolding db by (simp_all del: execAll_simps)
  obtain m1 where m1: "msgAt k (bdb b1) = Some m1" "deliverable m m1"
    using release_rows[OF assms(5,4), of "[s]"] msgAt_execAll[OF assms(2,1,3), of ?ss] assms(6)
    unfolding db by auto
  have "w_to_agent m \<notin> p_AgentName ` set (peers (bdb b1))"
    by (rule freed_name[OF assms(2,7,5)])
      (use assms(1) in \<open>auto simp: db releaseSession_def table_simps\<close>)
  with joiner_receives[OF up1 ok1 assms(9) _ _ _ m1(1) _ assms(11), of clk3] m1(2) assms(5,10)
  show ?thesis by (auto simp: deliverable_def content_def)
qed

text \<open>
  C6: the same holds when the session crashes and is evicted: after a sweep that finds its last
  heartbeat older than the cutoff, the next session under the name receives every message the
  dead session had not acknowledged.
\<close>

theorem eviction_redelivers:
  assumes "dbErr (bdb b) = None" and "dbOk (bdb b)" and "msgAt k (bdb b) = Some m"
    and "w_ack_at m = None" and "w_to_agent m \<noteq> []" and "w_to_session m = p_ID p"
    and "p \<in> set (peers (bdb b))" and "p_ID p \<noteq> []" and "p_AgentName p = w_to_agent m"
    and "p_LastSeen p < staleCutoff timeout (clk 0)"
    and "b1 = cleanStalePeers timeout clk b"
    and "generatePeerID rnd \<notin> p_ID ` set (peers (bdb b1))" and "rq_AgentName req = w_to_agent m"
    and "register clk2 rnd req b1 = (r, b2)"
  shows "rr_OK r \<and> (\<exists>x \<in> set (pr_Messages (fst (pollMessages clk3 \<lparr>pq_ID = rr_ID r\<rparr> b2))).
    m_ID x = k \<and> m_Text x = w_text m \<and> m_FromSession x = w_from_session m)"
proof -
  let ?c = "staleCutoff timeout (clk 0)"
  let ?ss = "DeleteStalePeers ?c # concat (map releaseSession (deadIDs ?c (bdb b))) @
       [PurgeEvents (fmtRFC3339 (clk 1 - hour))]"
  have db: "bdb b1 = execAll ?ss (bdb b)" using cleanStalePeers_db[of timeout clk b] assms(11) by simp
  have up1: "dbErr (bdb b1) = None" and ok1: "dbOk (bdb b1)"
    using assms(1,2) dbOk_execAll unfolding db by (simp_all del: execAll_simps)
  have dead: "w_to_session m \<in> set (deadIDs ?c (bdb b))"
    using assms(1,6,7,10) by (auto simp: deadIDs_def)
  obtain m1 where m1: "msgAt k (bdb b1) = Some m1" "deliverable m m1"
    using release_rows[OF assms(5,4), of "deadIDs ?c (bdb b)"] msgAt_execAll[OF assms(2,1,3), of ?ss] dead
    unfolding db by auto
  have ps: "peers (bdb b1) = filter (\<lambda>q. \<not> p_LastSeen q < ?c) (peers (bdb b))"
    using assms(1) by (simp add: db delete_where_def)
  have "q \<in> set (peers (bdb b)) \<Longrightarrow> p_ID q = p_ID p \<Longrightarrow> q = p" for q
    using assms(2,7) by (auto simp: dbOk_def unique_key_def distinct_map inj_on_def)
  then have "w_to_agent m \<notin> p_AgentName ` set (peers (bdb b1))"
    using assms(7-10) ps
    by (intro freed_name[OF assms(2) _ assms(5), of "p_ID p"]) (auto simp: holds_def)
  with joiner_receives[OF up1 ok1 assms(12) _ _ _ m1(1) _ assms(14), of clk3] m1(2) assms(5,13)
  show ?thesis by (auto simp: deliverable_def content_def)
qed

text \<open>A broker with a session that holds a name and has polled a message without acknowledging it.\<close>

definition busyBroker :: Broker where
  "busyBroker = \<lparr>bdb = execAll [InsertPeer (newPeer ''s1'' (nowISO 0) (sampleReq ''bob'')),
       InsertMessage ''bob'' ''s1'' ''s2'' ''eve'' ''hi'' (nowISO 0), MarkDelivered (nowISO 0) ''s1'' 1] emptyDB,
     nats = None, fleetMemory = []\<rparr>"

lemma busyBroker_up: "dbErr (bdb busyBroker) = None" "dbOk (bdb busyBroker)"
  by (simp_all add: busyBroker_def dbOk_execAll_empty emptyDB_up del: execAll_simps)

lemma busyBroker_peers: "peers (bdb busyBroker) = [newPeer ''s1'' (nowISO 0) (sampleReq ''bob'')]"
  by (simp add: busyBroker_def emptyDB_def insertPeer_def nameHeld_def insert_row_def)

lemma busyBroker_msg: "\<exists>m. msgAt 1 (bdb busyBroker) = Some m \<and> w_ack_at m = None \<and>
    w_to_agent m = ''bob'' \<and> w_to_session m = ''s1'' \<and> w_text m = ''hi'' \<and> w_delivered_at m \<noteq> None"
  by (simp add: busyBroker_def sample_eval)

theorem unregister_redelivers_witness:
  "\<exists>r b2. register (\<lambda>_. 5) ''abcd'' (sampleReq ''bob'') (unregister (\<lambda>_. 3) \<lparr>uq_ID = ''s1''\<rparr> busyBroker) = (r, b2) \<and>
     (\<exists>x \<in> set (pr_Messages (fst (pollMessages (\<lambda>_. 9) \<lparr>pq_ID = rr_ID r\<rparr> b2))). m_Text x = ''hi'')"
proof -
  obtain m where m: "msgAt 1 (bdb busyBroker) = Some m" "w_ack_at m = None"
    "w_to_agent m = ''bob''" "w_to_session m = ''s1''" "w_text m = ''hi''" using busyBroker_msg by blast
  let ?b1 = "unregister (\<lambda>_. 3) \<lparr>uq_ID = ''s1''\<rparr> busyBroker"
  obtain r b2 where r: "register (\<lambda>_. 5) ''abcd'' (sampleReq ''bob'') ?b1 = (r, b2)" by fastforce
  have "holds (bdb busyBroker) ''s1'' ''bob''"
    by (simp add: holds_def busyBroker_peers newPeer_def sampleReq_def)
  moreover have "peers (bdb ?b1) = []"
    by (simp add: unregister_db busyBroker_up busyBroker_peers releaseSession_def delete_where_def newPeer_def)
  ultimately show ?thesis
    using unregister_redelivers[OF busyBroker_up m(1,2) _ m(4) _ refl _ _ r, of "\<lambda>_. 9"] m r
    by (auto simp: sampleReq_def)
qed

lemma busyBroker_stale: "nowISO 0 < staleCutoff 20 (100 * second)"
  unfolding staleCutoff_def nowISO_def Let_def
  by (simp, rule nano_below_cutoff)
    (simp_all add: calendarRange_def secsOf_def second_def wrap64_id)

theorem eviction_redelivers_witness:
  "\<exists>r b2. register (\<lambda>_. 5) ''abcd'' (sampleReq ''bob'') (cleanStalePeers 20 (\<lambda>_. 100 * second) busyBroker) = (r, b2) \<and>
     (\<exists>x \<in> set (pr_Messages (fst (pollMessages (\<lambda>_. 9) \<lparr>pq_ID = rr_ID r\<rparr> b2))). m_Text x = ''hi'')"
proof -
  obtain m where m: "msgAt 1 (bdb busyBroker) = Some m" "w_ack_at m = None"
    "w_to_agent m = ''bob''" "w_to_session m = ''s1''" "w_text m = ''hi''" using busyBroker_msg by blast
  let ?b1 = "cleanStalePeers 20 (\<lambda>_. 100 * second) busyBroker"
  let ?p = "newPeer ''s1'' (nowISO 0) (sampleReq ''bob'')"
  obtain r b2 where r: "register (\<lambda>_. 5) ''abcd'' (sampleReq ''bob'') ?b1 = (r, b2)" by fastforce
  have p: "p_LastSeen ?p = nowISO 0" "p_ID ?p = ''s1''" "p_AgentName ?p = ''bob''"
    by (simp_all add: newPeer_def sampleReq_def)
  have "peers (bdb ?b1) = []"
    using busyBroker_stale
    by (simp add: cleanStalePeers_db busyBroker_up busyBroker_peers delete_where_def p)
  then show ?thesis
    using eviction_redelivers[OF busyBroker_up m(1,2), of ?p 20 "\<lambda>_. 100 * second" ?b1 "''abcd''"
        "sampleReq ''bob''" "\<lambda>_. 5" r b2 "\<lambda>_. 9"] m r p busyBroker_stale busyBroker_peers
    by (auto simp: sampleReq_def)
qed

end
