(* ===== verification/Client.thy ===== *)
theory Client
  imports Cli Identity Delivery
begin

text \<open>
  The client side of the broker's API (\<open>cliFetch\<close>, \<open>cliFetchOnce\<close> and \<open>doRefreshToken\<close> of
  \<^verbatim>\<open>src/main.go\<close>) and the commands built on it.  The network is the parameter \<open>h_do\<close>: the answer to
  a request is an error, or a status code with the text of the body, and its state \<open>'w\<close> is whatever
  is behind it.  The JSON encoders and decoders are the fields of \<open>codec\<close>; a decoder is given the
  value it decodes into and returns its error together with what it left there.
\<close>

record httpRequest =
  r_Method :: string
  r_URL :: string
  r_Auth :: string
  r_Body :: string

text \<open>The diagnostic file of an MCP server (\<^verbatim>\<open>src/fleet_server.go\<close>), which is JSON too.\<close>

record SessionState =
  y_SessionID :: string
  y_AgentName :: string
  y_ConfiguredAgentName :: string
  y_EphemeralFallback :: bool
  y_CWD :: string
  y_Machine :: string
  y_PID :: int
  y_ParentPID :: int
  y_RegisteredAt :: string

type_synonym 'r decoder = "string \<Rightarrow> 'r \<Rightarrow> string option \<times> 'r"

record codec =
  encRegister :: "RegisterRequest \<Rightarrow> string"
  encHeartbeat :: "HeartbeatRequest \<Rightarrow> string"
  encSetSummary :: "SetSummaryRequest \<Rightarrow> string"
  encListPeers :: "ListPeersRequest \<Rightarrow> string"
  encSend :: "SendMessageRequest \<Rightarrow> string"
  encPoll :: "PollMessagesRequest \<Rightarrow> string"
  encAck :: "AckMessageRequest \<Rightarrow> string"
  encClaim :: "ClaimAgentRequest \<Rightarrow> string"
  encUnregister :: "UnregisterRequest \<Rightarrow> string"
  encChallenge :: "ChallengeRequest \<Rightarrow> string"
  unRegister :: "RegisterResponse decoder"
  unHeartbeat :: "HeartbeatResponse decoder"
  unPeers :: "Peer list decoder"
  unSend :: "SendMessageResponse decoder"
  unPoll :: "PollMessagesResponse decoder"
  unClaim :: "ClaimAgentResponse decoder"
  unHealth :: "HealthResponse decoder"
  unEvents :: "Event list decoder"
  unChallenge :: "ChallengeResponse decoder"
  unToken :: "string \<Rightarrow> string + string"
  encState :: "SessionState \<Rightarrow> string"
  unState :: "string \<Rightarrow> string + SessionState"

record 'w clientEnv =
  h_cfg :: Config
  h_os :: osEnv
  h_json :: codec
  h_do :: "httpRequest \<Rightarrow> 'w \<Rightarrow> (string + int \<times> string) \<times> 'w"

text \<open>The process: the global \<open>authToken\<close>, the local files, and the network.\<close>

record 'w host =
  authToken :: string
  disk :: fs
  net :: 'w

section \<open>One request\<close>

definition bearer :: "string \<Rightarrow> string" where
  "bearer tok = (if tok \<noteq> [] then ''Bearer '' @ tok else [])"

definition apiRequest :: "'w clientEnv \<Rightarrow> string \<Rightarrow> string option \<Rightarrow> string \<Rightarrow> httpRequest" where
  "apiRequest E path body tok = \<lparr>r_Method = (if body \<noteq> None then ''POST'' else ''GET''),
     r_URL = g_BrokerURL (h_cfg E) @ path, r_Auth = bearer tok,
     r_Body = (case body of None \<Rightarrow> [] | Some b \<Rightarrow> b)\<rparr>"

definition send_request :: "'w clientEnv \<Rightarrow> httpRequest \<Rightarrow> 'w host \<Rightarrow> (string + int \<times> string) \<times> 'w host" where
  "send_request E q h = (let (res, w) = h_do E q (net h) in (res, h\<lparr>net := w\<rparr>))"

definition statusError :: "int \<Rightarrow> string \<Rightarrow> string" where
  "statusError st txt = itoa st @ '': '' @ txt"

text \<open>What \<open>cliFetchOnce\<close> makes of an answer; a 409 with a decodable body is not an error.\<close>

definition readAnswer :: "'r decoder option \<Rightarrow> 'r \<Rightarrow> string + int \<times> string \<Rightarrow> string option \<times> 'r" where
  "readAnswer dec r res = (case res of
      Inl e \<Rightarrow> (Some e, r)
    | Inr (st, txt) \<Rightarrow>
        if st \<noteq> 200 then
          (case (if st = 409 then dec else None) of
             None \<Rightarrow> (Some (statusError st txt), r)
           | Some d \<Rightarrow> (case d txt r of (None, r') \<Rightarrow> (None, r') | (Some _, r') \<Rightarrow> (Some (statusError st txt), r')))
        else (case dec of None \<Rightarrow> (None, r) | Some d \<Rightarrow> d txt r))"

definition cliFetchOnce :: "'w clientEnv \<Rightarrow> string \<Rightarrow> string option \<Rightarrow> 'r decoder option \<Rightarrow> 'r \<Rightarrow> 'w host \<Rightarrow>
    (string option \<times> 'r) \<times> 'w host" where
  "cliFetchOnce E path body dec r h =
     (let (res, h1) = send_request E (apiRequest E path body (authToken h)) h in (readAnswer dec r res, h1))"

section \<open>Renewal of the token\<close>

definition saveRefreshed :: "'w clientEnv \<Rightarrow> string \<Rightarrow> 'w host \<Rightarrow> string option \<times> 'w host" where
  "saveRefreshed E tok h = (case SaveTokenFile tok (configDir (h_os E)) (disk h) of
      (Some e, s) \<Rightarrow> (Some (''save refreshed token: '' @ e), h\<lparr>disk := s\<rparr>)
    | (None, s) \<Rightarrow> (None, h\<lparr>disk := s, authToken := tok\<rparr>))"

definition refreshAnswer :: "'w clientEnv \<Rightarrow> string + int \<times> string \<Rightarrow> 'w host \<Rightarrow> string option \<times> 'w host" where
  "refreshAnswer E res h = (case res of
      Inl e \<Rightarrow> (Some (''refresh request: '' @ e), h)
    | Inr (st, txt) \<Rightarrow>
        if st \<noteq> 200 then (Some (''refresh failed ('' @ itoa st @ ''): '' @ txt), h)
        else (case unToken (h_json E) txt of
            Inl e \<Rightarrow> (Some (''decode refresh response: '' @ e), h)
          | Inr tok \<Rightarrow> if tok = [] then (Some ''broker returned empty token'', h) else saveRefreshed E tok h))"

definition refreshRequest :: "'w clientEnv \<Rightarrow> string \<Rightarrow> httpRequest" where
  "refreshRequest E current = \<lparr>r_Method = ''POST'', r_URL = g_BrokerURL (h_cfg E) @ ''/refresh-token'',
     r_Auth = ''Bearer '' @ current, r_Body = ''{}''\<rparr>"

definition doRefreshToken :: "'w clientEnv \<Rightarrow> 'w host \<Rightarrow> string option \<times> 'w host" where
  "doRefreshToken E h =
     (case (if authToken h \<noteq> [] then Inr (authToken h) else loadTokenIn (configDir (h_os E)) (disk h)) of
        Inl e \<Rightarrow> (Some (''no token to refresh: '' @ e), h)
      | Inr current \<Rightarrow>
          (let (res, h1) = send_request E (refreshRequest E current) h in refreshAnswer E res h1))"

definition isExpired :: "string \<Rightarrow> bool" where
  "isExpired e \<longleftrightarrow> contains e ''TOKEN_EXPIRED'' \<or> contains e ''token expired''"

definition cliFetch :: "'w clientEnv \<Rightarrow> string \<Rightarrow> string option \<Rightarrow> 'r decoder option \<Rightarrow> 'r \<Rightarrow> 'w host \<Rightarrow>
    (string option \<times> 'r) \<times> 'w host" where
  "cliFetch E path body dec r h =
     (case cliFetchOnce E path body dec r h of
        ((None, r1), h1) \<Rightarrow> ((None, r1), h1)
      | ((Some e, r1), h1) \<Rightarrow>
          if isExpired e then
            (case doRefreshToken E h1 of
               (None, h2) \<Rightarrow> cliFetchOnce E path body dec r1 h2
             | (Some _, h2) \<Rightarrow> ((Some e, r1), h2))
          else ((Some e, r1), h1))"

abbreviation brokerFetch :: "'w clientEnv \<Rightarrow> string \<Rightarrow> string option \<Rightarrow> 'r decoder option \<Rightarrow> 'r \<Rightarrow> 'w host \<Rightarrow>
    (string option \<times> 'r) \<times> 'w host" where
  "brokerFetch \<equiv> cliFetch"

text \<open>A call without result: \<open>nil\<close> is passed for it.\<close>

definition fetchNil :: "'w clientEnv \<Rightarrow> string \<Rightarrow> string \<Rightarrow> 'w host \<Rightarrow> string option \<times> 'w host" where
  "fetchNil E path body h = (let ((e, _), h1) = cliFetch E path (Some body) (None :: unit decoder option) () h in (e, h1))"

definition loadAuthToken :: "osEnv \<Rightarrow> fs \<Rightarrow> string" where
  "loadAuthToken os s = (if Getenv os ''CLAUDE_PEERS_TOKEN'' \<noteq> [] then Getenv os ''CLAUDE_PEERS_TOKEN''
     else orEmpty (loadTokenIn (configDir os) s))"

section \<open>Zero values\<close>

definition noRegister :: RegisterResponse where
  "noRegister = \<lparr>rr_OK = False, rr_ID = [], rr_Error = [], rr_HeldBySession = [], rr_HeldByMachine = [],
     rr_HeldByCWD = [], rr_HeldBySince = []\<rparr>"

definition noHeartbeat :: HeartbeatResponse where
  "noHeartbeat = \<lparr>hr_OK = False, hr_Reason = []\<rparr>"

definition noSend :: SendMessageResponse where
  "noSend = \<lparr>mr_OK = False, mr_MessageID = 0, mr_Queued = False, mr_DeliveryStatus = DeliveryStatusNone, mr_Error = []\<rparr>"

definition noClaim :: ClaimAgentResponse where
  "noClaim = \<lparr>cr_OK = False, cr_Error = [], cr_HeldBySession = [], cr_HeldByMachine = [], cr_HeldByCWD = [], cr_HeldBySince = []\<rparr>"

definition noHealth :: HealthResponse where
  "noHealth = \<lparr>he_Status = [], he_Peers = 0, he_Machine = []\<rparr>"

definition listAll :: ListPeersRequest where
  "listAll = \<lparr>lq_Scope = ''all'', lq_Machine = [], lq_CWD = [], lq_GitRoot = [], lq_ExcludeID = []\<rparr>"

definition fetchPeers :: "'w clientEnv \<Rightarrow> ListPeersRequest \<Rightarrow> 'w host \<Rightarrow> (string option \<times> Peer list) \<times> 'w host" where
  "fetchPeers E req h = cliFetch E ''/list-peers'' (Some (encListPeers (h_json E) req)) (Some (unPeers (h_json E))) [] h"

section \<open>Sending\<close>

text \<open>
  The addressing rule of \<open>cliSend\<close> and of the tool \<open>send_message\<close>: a session id only when a live
  session without a name has exactly that id.
\<close>

definition isEphemeral :: "string \<Rightarrow> Peer list \<Rightarrow> bool" where
  "isEphemeral to ps \<longleftrightarrow> (\<exists>p \<in> set ps. p_ID p = to \<and> p_AgentName p = [])"

definition addressed :: "string \<Rightarrow> string \<Rightarrow> string \<Rightarrow> Peer list \<Rightarrow> SendMessageRequest" where
  "addressed from to txt ps =
     (let target = (if isEphemeral to ps then to else [])
      in \<lparr>mq_FromID = from, mq_ToAgent = (if target \<noteq> [] then [] else to), mq_ToSession = target, mq_Text = txt\<rparr>)"

definition fetchSend :: "'w clientEnv \<Rightarrow> SendMessageRequest \<Rightarrow> 'w host \<Rightarrow> (string option \<times> SendMessageResponse) \<times> 'w host" where
  "fetchSend E req h = cliFetch E ''/send-message'' (Some (encSend (h_json E) req)) (Some (unSend (h_json E))) noSend h"

definition sendReport :: "string \<Rightarrow> SendMessageResponse \<Rightarrow> string" where
  "sendReport to resp = (case mr_DeliveryStatus resp of
      DeliveryStatusBound \<Rightarrow> ''Message sent to '' @ to @ '' (recipient is online).'' @ nl
    | DeliveryStatusQueuedOffline \<Rightarrow> ''Agent '' @ goQuote to @
        '' is offline. Message queued -- will deliver when that agent reconnects.'' @ nl
    | DeliveryStatusQueuedUnknown \<Rightarrow> ''WARNING: no session has ever claimed agent name '' @ goQuote to @
        '' on this broker. Message queued but may sit indefinitely if the name is wrong. Run `claude-peers peers` to verify.'' @ nl
    | DeliveryStatusNone \<Rightarrow>
        if mr_Queued resp then ''Message queued for agent '' @ goQuote to @
          '' (no live session holds it right now -- will deliver on reconnect).'' @ nl
        else ''Message sent to '' @ to @ nl)"

definition cliSend :: "'w clientEnv \<Rightarrow> string \<Rightarrow> string \<Rightarrow> 'w host \<Rightarrow> cmdResult \<times> 'w host" where
  "cliSend E to msg h =
     (let ((_, ps), h1) = fetchPeers E listAll h;
          ((e, resp), h2) = fetchSend E (addressed ''cli'' to msg ps) h1
      in case e of
           Some err \<Rightarrow> (dies 1 (''Error: '' @ err @ nl), h2)
         | None \<Rightarrow> if \<not> mr_OK resp then (dies 1 (''Failed: '' @ mr_Error resp @ nl), h2)
             else (\<lparr>z_status = 0, z_stdout = sendReport to resp, z_stderr = []\<rparr>, h2))"

section \<open>Listing\<close>

definition printPeerLine :: "Peer \<Rightarrow> string \<Rightarrow> string" where
  "printPeerLine p indent =
     (if p_AgentName p \<noteq> []
      then indent @ p_AgentName p @ '' (agent) on '' @ p_Machine p @ '' [session '' @ p_ID p @ '']  '' @ p_CWD p @ nl
      else indent @ ''session '' @ p_ID p @ '' on '' @ p_Machine p @ '' (ephemeral)  '' @ p_CWD p @ nl) @
     (if p_Summary p \<noteq> [] then indent @ ''  '' @ p_Summary p @ nl else []) @
     indent @ ''  Last seen: '' @ p_LastSeen p @ nl"

definition notReachable :: "'w clientEnv \<Rightarrow> string" where
  "notReachable E = ''Broker at '' @ g_BrokerURL (h_cfg E) @ '' is not reachable.'' @ nl"

definition cliPeers :: "'w clientEnv \<Rightarrow> 'w host \<Rightarrow> string \<times> 'w host" where
  "cliPeers E h =
     (let ((e, ps), h1) = fetchPeers E listAll h
      in (if e \<noteq> None then notReachable E
          else if ps = [] then ''No peers registered.'' @ nl
          else concat (map (\<lambda>p. printPeerLine p []) ps), h1))"

definition cliStatus :: "'w clientEnv \<Rightarrow> 'w host \<Rightarrow> string \<times> 'w host" where
  "cliStatus E h =
     (let ((e, health), h1) = cliFetch E ''/health'' None (Some (unHealth (h_json E))) noHealth h
      in if e \<noteq> None then (notReachable E, h1)
         else let out = ''Broker: '' @ he_Status health @ '' ('' @ itoa (he_Peers health) @ '' peer(s), host: '' @ he_Machine health @ '')'' @ nl @
                    ''URL: '' @ g_BrokerURL (h_cfg E) @ nl
              in if he_Peers health > 0
                 then let ((_, ps), h2) = fetchPeers E listAll h1
                      in (out @ nl @ ''Peers:'' @ nl @ concat (map (\<lambda>p. printPeerLine p ''  '') ps), h2)
                 else (out, h1))"

definition cliShowConfig :: "osEnv \<Rightarrow> Config \<Rightarrow> string" where
  "cliShowConfig os c = ''Config: '' @ configPath os @ nl @ nl @
     ''  role:         '' @ g_Role c @ nl @ ''  machine_name: '' @ g_MachineName c @ nl @
     ''  broker_url:   '' @ g_BrokerURL c @ nl @ ''  listen:       '' @ g_Listen c @ nl @
     ''  db_path:      '' @ g_DBPath c @ nl @ ''  stale_timeout: '' @ itoa (g_StaleTimeout c) @ ''s'' @ nl"

text \<open>The port of \<open>kill-broker\<close> and the processes it kills; \<open>lsof\<close> is the output of that program.\<close>

definition listenPort :: "string \<Rightarrow> string" where
  "listenPort listen = (let port = trimPrefix listen ''0.0.0.0:''
     in if contains port '':'' then last (splitByte (CHR '':'') port) else port)"

definition cliKillBroker :: "'w clientEnv \<Rightarrow> (string \<Rightarrow> string option) \<Rightarrow> 'w host \<Rightarrow> string \<times> string list \<times> 'w host" where
  "cliKillBroker E lsof h =
     (let ((e, health), h1) = cliFetch E ''/health'' None (Some (unHealth (h_json E))) noHealth h
      in if e \<noteq> None then (''Broker is not running.'' @ nl, [], h1)
         else let out = ''Broker has '' @ itoa (he_Peers health) @ '' peer(s). Shutting down...'' @ nl
              in case lsof (listenPort (g_Listen (h_cfg E))) of
                   None \<Rightarrow> (out @ ''Could not find broker process.'' @ nl, [], h1)
                 | Some pids \<Rightarrow> (out @ ''Broker stopped.'' @ nl,
                     filter (\<lambda>p. p \<noteq> []) (splitByte (CHR 0x0A) (trimSpace pids)), h1))"

section \<open>The refresh command\<close>

definition newExpiry :: "cliEnv \<Rightarrow> clock \<Rightarrow> fs \<Rightarrow> string" where
  "newExpiry X clk s = (case loadTokenIn (configDir (x_os X)) s of
      Inl _ \<Rightarrow> []
    | Inr t \<Rightarrow> (case LoadPublicKey (x_pem X) (Join [configDir (x_os X), rootPubKeyFile]) s of
        Inl _ \<Rightarrow> []
      | Inr rootPub \<Rightarrow> (case fst (Validate (x_jwt X) dropSave (clk 0) t (NewTokenValidator rootPub, ())) of
          Inl _ \<Rightarrow> []
        | Inr claims \<Rightarrow> (case c_ExpiresAt claims of None \<Rightarrow> [] | Some e \<Rightarrow> ''New expiry: '' @ fmtRFC3339 e @ nl))))"

definition cliRefreshToken :: "cliEnv \<Rightarrow> 'w clientEnv \<Rightarrow> clock \<Rightarrow> 'w host \<Rightarrow> cmdResult \<times> 'w host" where
  "cliRefreshToken X E clk h = (case doRefreshToken E h of
      (Some e, h1) \<Rightarrow> (dies 1 (''Error: '' @ e @ nl), h1)
    | (None, h1) \<Rightarrow>
        (\<lparr>z_status = 0, z_stdout = ''Token refreshed and saved to '' @ Join [configDir (h_os E), tokenFile] @ nl @
            newExpiry X clk (disk h1), z_stderr = []\<rparr>, h1))"

end
