(* ===== verification/TimeParse.thy ===== *)
theory TimeParse
  imports GoTime
begin

text \<open>
  \<open>time.Parse\<close> with the layout \<open>time.RFC3339\<close>, as \<open>timeAgoStr\<close> of \<^verbatim>\<open>src/fleet_dream.go\<close> uses it: a
  fraction of a second is accepted though the layout has none, and cut to nanoseconds; the zone is
  \<open>Z\<close> or a signed offset.  The main lemma says that the time stamps the broker writes are read
  back exactly.
\<close>

section \<open>Reading the parts\<close>

definition readNum :: "nat \<Rightarrow> string \<Rightarrow> (nat \<times> string) option" where
  "readNum w s = (if length (take w s) = w \<and> list_all isDigit (take w s) then Some (digitsVal (take w s), drop w s) else None)"

definition readLit :: "char \<Rightarrow> string \<Rightarrow> string option" where
  "readLit c s = (case s of [] \<Rightarrow> None | x # r \<Rightarrow> if x = c then Some r else None)"

definition dayNumber :: "civil \<Rightarrow> int" where
  "dayNumber c = yearBase (cYear c) - yearBase 1970 + sum_list (take (nat (cMonth c - 1)) (monthLens (cYear c))) + cDay c - 1"

definition validDate :: "civil \<Rightarrow> bool" where
  "validDate c \<longleftrightarrow> 1 \<le> cMonth c \<and> cMonth c \<le> 12 \<and> 1 \<le> cDay c \<and> cDay c \<le> monthLens (cYear c) ! nat (cMonth c - 1)"

definition readDay :: "string \<Rightarrow> (civil \<times> string) option" where
  "readDay s =
     Option.bind (readNum 4 s) (\<lambda>(y, s). Option.bind (readLit (CHR ''-'') s) (\<lambda>s.
     Option.bind (readNum 2 s) (\<lambda>(m, s). Option.bind (readLit (CHR ''-'') s) (\<lambda>s.
     Option.bind (readNum 2 s) (\<lambda>(d, s).
       let c = Civil (int y) (int m) (int d) in if validDate c then Some (c, s) else None)))))"

definition readClock :: "string \<Rightarrow> (nat \<times> string) option" where
  "readClock s =
     Option.bind (readNum 2 s) (\<lambda>(h, s). Option.bind (readLit (CHR '':'') s) (\<lambda>s.
     Option.bind (readNum 2 s) (\<lambda>(m, s). Option.bind (readLit (CHR '':'') s) (\<lambda>s.
     Option.bind (readNum 2 s) (\<lambda>(sc, s).
       if h < 24 \<and> m < 60 \<and> sc < 60 then Some ((h * 60 + m) * 60 + sc, s) else None)))))"

text \<open>A dot or comma and digits; the digits after the ninth are ignored.\<close>

definition readFraction :: "string \<Rightarrow> nat \<times> string" where
  "readFraction s = (case s of
      c # r \<Rightarrow>
        if (c = CHR ''.'' \<or> c = CHR '','') \<and> r \<noteq> [] \<and> isDigit (hd r)
        then (digitsVal (take 9 (takeWhile isDigit r @ replicate 9 (CHR ''0''))), dropWhile isDigit r) else (0, s)
    | [] \<Rightarrow> (0, s))"

definition readZone :: "string \<Rightarrow> int option" where
  "readZone s = (if s = ''Z'' then Some 0
     else case s of
        [] \<Rightarrow> None
      | c # r \<Rightarrow> if c = CHR ''+'' \<or> c = CHR ''-'' then
           Option.bind (readNum 2 r) (\<lambda>(h, r). Option.bind (readLit (CHR '':'') r) (\<lambda>r.
           Option.bind (readNum 2 r) (\<lambda>(m, r).
             if r = [] \<and> h \<le> 24 \<and> m \<le> 60
             then Some ((if c = CHR ''-'' then -1 else 1) * int ((h * 60 + m) * 60)) else None)))
         else None)"

definition parseRFC3339 :: "string \<Rightarrow> time option" where
  "parseRFC3339 s =
     Option.bind (readDay s) (\<lambda>(c, s). Option.bind (readLit (CHR ''T'') s) (\<lambda>s.
     Option.bind (readClock s) (\<lambda>(sec, s).
       let (frac, s) = readFraction s
       in map_option (\<lambda>off. (dayNumber c * 86400 + int sec - off) * second + int frac) (readZone s))))"

section \<open>Reading back what was written\<close>

lemma list_all_padDigits: "list_all isDigit (padDigits w n)"
  by (induction w n rule: padDigits.induct) (auto simp: list_all_iff)

lemma digitsVal_padDigits: "digitsVal (padDigits w n) = n mod 10 ^ w"
proof (induction w n rule: padDigits.induct)
  case (1 n)
  then show ?case by (simp add: digitsVal_def)
next
  case (2 w n)
  have "n mod 10 ^ Suc w = 10 * (n div 10 mod 10 ^ w) + n mod 10" by (simp add: mod_mult2_eq)
  with 2 show ?case by (simp add: digitsVal_snoc)
qed

lemma readNum_pad: "n < 10 ^ w \<Longrightarrow> readNum w (padDigits w n @ s) = Some (n, s)"
  by (simp add: readNum_def list_all_padDigits digitsVal_padDigits)

lemma readLit_same [simp]: "readLit c (c # s) = Some s"
  by (simp add: readLit_def)

lemma peelMonths_sum:
  assumes "0 \<le> d" "d < sum_list ls" "peelMonths ls m d = (M, D)"
  shows "m \<le> M \<and> M < m + int (length ls) \<and> sum_list (take (nat (M - m)) ls) + D - 1 = d \<and> 1 \<le> D \<and>
    D \<le> ls ! nat (M - m)"
  using assms
proof (induction ls arbitrary: m d)
  case (Cons l ls)
  show ?case
  proof (cases "d < l")
    case True
    then show ?thesis using Cons.prems by auto
  next
    case False
    then have IH: "m + 1 \<le> M \<and> M < m + 1 + int (length ls) \<and> sum_list (take (nat (M - (m + 1))) ls) + D - 1 = d - l \<and>
        1 \<le> D \<and> D \<le> ls ! nat (M - (m + 1))"
      using Cons.IH[of "d - l" "m + 1"] Cons.prems by auto
    then have "nat (M - m) = Suc (nat (M - (m + 1)))" by auto
    then show ?thesis using IH by auto
  qed
qed simp

lemma dayNumber_civilOfDay: "dayNumber (civilOfDay n) = n \<and> validDate (civilOfDay n)"
proof -
  obtain y d where p: "peelYears 1970 n = (y, d)" by fastforce
  obtain m e where q: "peelMonths (monthLens y) 1 d = (m, e)" by fastforce
  have sp: "0 \<le> d" "d < yearLen y" "yearBase y + d = yearBase 1970 + n" using peelYears_spec[OF p[symmetric]] by auto
  have len: "sum_list (monthLens y) = yearLen y" "length (monthLens y) = 12"
    by (auto simp: monthLens_def yearLen_def)
  with peelMonths_sum[of d "monthLens y" 1 m e] sp q show ?thesis
    by (auto simp: civilOfDay_def p dayNumber_def validDate_def)
qed

lemma readDay_dateStr:
  assumes "civilOk c" "validDate c"
  shows "readDay (dateStr c @ s) = Some (c, s)"
proof -
  have b: "nat (cYear c) < 10 ^ 4" "nat (cMonth c) < 10 ^ 2" "nat (cDay c) < 10 ^ 2"
    using assms(1) by (auto simp: civilOk_def nat_less_iff)
  have "Civil (int (nat (cYear c))) (int (nat (cMonth c))) (int (nat (cDay c))) = c"
    using assms(1) by (cases c) (simp add: civilOk_def)
  then show ?thesis using readNum_pad[OF b(1)] readNum_pad[OF b(2)] readNum_pad[OF b(3)] assms(2)
    by (simp add: readDay_def dateStr_def)
qed

lemma readClock_clockStr:
  assumes "r < 86400"
  shows "readClock (clockStr r @ s) = Some (r, s)"
proof -
  have b: "r div 60 div 60 < 10 ^ 2" "r div 60 mod 60 < 10 ^ 2" "r mod 60 < 10 ^ 2" "r div 60 div 60 < 24"
    using assms by (auto simp: less_mult_imp_div_less intro: less_trans[OF mod_less_divisor])
  have "(r div 60 div 60 * 60 + r div 60 mod 60) * 60 + r mod 60 = r"
    by (metis div_mult_mod_eq)
  then show ?thesis using readNum_pad[OF b(1)] readNum_pad[OF b(2)] readNum_pad[OF b(3)] b(4)
    by (simp add: readClock_def clockStr_def)
qed

lemma digits_then_zeros:
  "rev (dropWhile (\<lambda>c. c = z) (rev s)) @ replicate (length s - length (dropWhile (\<lambda>c. c = z) (rev s))) z = s"
proof (induction s rule: rev_induct)
  case (snoc x s)
  have le: "length (dropWhile (\<lambda>c. c = z) (rev s)) \<le> length s" using length_dropWhile_le[of _ "rev s"] by simp
  show ?case
  proof (cases "x = z")
    case True
    have "replicate (Suc (length s - length (dropWhile (\<lambda>c. c = z) (rev s)))) z =
        replicate (length s - length (dropWhile (\<lambda>c. c = z) (rev s))) z @ [z]" by (simp add: replicate_append_same)
    with True snoc le show ?thesis by (simp add: Suc_diff_le)
  qed simp
qed simp

lemma readFraction_frac:
  assumes "0 < n" "n < 10 ^ 9"
  shows "readFraction (CHR ''.'' # fracDigits n @ ''Z'') = (n, ''Z'')"
proof -
  let ?z = "CHR ''0''" and ?p = "padDigits 9 n"
  have sub: "set (fracDigits n) \<subseteq> set ?p" unfolding fracDigits_def by (auto dest: set_dropWhileD)
  then have dig: "\<forall>c \<in> set (fracDigits n). isDigit c" using list_all_padDigits[of 9 n] by (auto simp: list_all_iff)
  have whole: "fracDigits n @ replicate (9 - length (fracDigits n)) ?z = ?p"
    using digits_then_zeros[of ?z ?p] by (simp add: fracDigits_def)
  have ne: "fracDigits n \<noteq> []"
  proof
    assume "fracDigits n = []"
    then have "?p = replicate 9 ?z" using whole by simp
    moreover have "digitsVal (replicate 9 ?z) = 0" by (simp add: digitsVal_def digitVal_def eval_nat_numeral)
    ultimately show False using digitsVal_padDigits[of 9 n] assms by simp
  qed
  have len: "length (fracDigits n) \<le> 9" using arg_cong[OF whole, of length] by simp
  have "take 9 (fracDigits n @ replicate 9 ?z) = ?p"
  proof -
    have "take 9 (fracDigits n @ replicate 9 ?z) = fracDigits n @ replicate (9 - length (fracDigits n)) ?z"
      using len by simp
    then show ?thesis using whole by simp
  qed
  moreover have "takeWhile isDigit (fracDigits n @ ''Z'') = fracDigits n" "dropWhile isDigit (fracDigits n @ ''Z'') = ''Z''"
    using dig by (simp_all add: takeWhile_append2 dropWhile_append2 isDigit_def)
  ultimately show ?thesis using ne dig digitsVal_padDigits[of 9 n] assms(2)
    by (cases "fracDigits n") (simp_all add: readFraction_def)
qed

text \<open>
  Time stamps are read back.  Every instant whose year has four digits is recovered exactly
  from the text the broker stores for it, nanoseconds included.
\<close>

theorem timestamp_round_trip:
  assumes "calendarRange t"
  shows "parseRFC3339 (fmtRFC3339Nano t) = Some t"
proof -
  let ?day = "secsOf t div 86400" and ?r = "nat (secsOf t mod 86400)" and ?n = "nat (nanosOf t)"
  let ?f = "if nanosOf t = 0 then [] else CHR ''.'' # fracDigits ?n"
  have "- 719528 \<le> ?day" "?day < 2932897" using assms by (auto simp: calendarRange_def)
  then have ok: "civilOk (civilOfDay ?day)" by (rule civilOfDay_ok)
  note d = dayNumber_civilOfDay[of ?day]
  have r: "?r < 86400" by (simp add: nat_less_iff)
  have n: "0 \<le> nanosOf t" "nanosOf t < 1000000000" by (simp_all add: nanosOf_def second_def)
  have fr: "readFraction (?f @ ''Z'') = (?n, ''Z'')"
  proof (cases "nanosOf t = 0")
    case True
    then show ?thesis by (simp add: readFraction_def)
  next
    case False
    with n have "0 < ?n" "?n < 10 ^ 9" by (auto simp: nat_less_iff)
    with readFraction_frac[of ?n] False show ?thesis by simp
  qed
  have "(?day * 86400 + int ?r) * second + int ?n = t"
  proof -
    have "?day * 86400 + int ?r = secsOf t" by simp
    then show ?thesis using n by (simp add: secsOf_def nanosOf_def second_def)
  qed
  then show ?thesis
    using readDay_dateStr[OF ok] readClock_clockStr[OF r] d fr
    by (simp add: parseRFC3339_def fmtRFC3339Nano_def dateTime_def readZone_def)
qed

theorem timestamp_round_trip_witness: "parseRFC3339 (fmtRFC3339Nano 1500000000123456700) = Some 1500000000123456700"
  by (rule timestamp_round_trip) (simp add: calendarRange_def secsOf_def second_def)

end
