(* ===== verification/Dream.thy ===== *)
theory Dream
  imports Client TimeParse
begin

text \<open>
  \<^verbatim>\<open>src/fleet_dream.go\<close>: the fleet memory file, built from the sessions and events of the broker,
  written beside the memory index of Claude and pushed back to the broker.  A Go map is ranged
  over in an unspecified order: the order of the machines is the argument \<open>order\<close>.
\<close>

definition fleetMemoryFile :: string where "fleetMemoryFile = ''fleet-activity.md''"

section \<open>Text\<close>

definition shortenPath :: "string \<Rightarrow> string \<Rightarrow> string" where
  "shortenPath home p = (if hasPrefix p home then ''~'' @ drop (length home) p else p)"

text \<open>\<open>now\<close> is the clock reading of \<open>time.Since\<close>; conversions to \<open>int\<close> truncate towards zero.\<close>

definition truncDiv :: "int \<Rightarrow> int \<Rightarrow> int" where
  "truncDiv a b = sgn a * (\<bar>a\<bar> div b)"

definition timeAgoStr :: "time \<Rightarrow> string \<Rightarrow> string" where
  "timeAgoStr now stamp = (case parseRFC3339 stamp of
      None \<Rightarrow> ''?''
    | Some t \<Rightarrow>
        (let d = now - t
         in if d < minute then itoa (truncDiv d second) @ ''s''
            else if d < hour then itoa (truncDiv d minute) @ ''m''
            else if d < 24 * hour then itoa (truncDiv d hour) @ ''h''
            else itoa (truncDiv d (24 * hour)) @ ''d''))"

definition peerEntry :: "string \<Rightarrow> Peer \<Rightarrow> string" where
  "peerEntry home p =
     (let repo = (if p_GitRoot p \<noteq> [] then last (splitByte sep (p_GitRoot p)) else [])
      in ''- **'' @ shortenPath home (p_CWD p) @ ''**'' @
         (if repo \<noteq> [] then '' (repo: '' @ repo @ '')'' else []) @
         (if p_Summary p \<noteq> [] then '': '' @ p_Summary p else []) @ nl)"

definition machineSection :: "string \<Rightarrow> Peer list \<Rightarrow> string \<Rightarrow> string" where
  "machineSection home ps mach =
     (let mPeers = filter (\<lambda>p. p_Machine p = mach) ps
      in ''### '' @ mach @ '' ('' @ itoa (int (length mPeers)) @ '' sessions)'' @ nl @
         concat (map (peerEntry home) mPeers) @ nl)"

definition typeLabels :: "string \<Rightarrow> string" where
  "typeLabels t =
     (if t = ''peer_joined'' then ''joined'' else if t = ''peer_left'' then ''left''
      else if t = ''summary_changed'' then ''working on'' else if t = ''message_sent'' then ''messaged'' else t)"

definition eventLine :: "time \<Rightarrow> Event \<Rightarrow> string" where
  "eventLine now e =
     ''- '' @ (if e_Machine e = [] then e_PeerID e else e_Machine e) @ '' '' @ typeLabels (e_Type e) @
     (if e_Data e \<noteq> [] \<and> e_Type e = ''summary_changed'' then '': '' @ e_Data e else []) @
     '' ('' @ timeAgoStr now (e_CreatedAt e) @ '' ago)'' @ nl"

text \<open>The loop over the events: at most 15 lines, one for each pair of session and type.\<close>

definition eventKey :: "Event \<Rightarrow> string" where
  "eventKey e = e_PeerID e @ '':'' @ e_Type e"

fun shownEvents :: "nat \<Rightarrow> string set \<Rightarrow> Event list \<Rightarrow> Event list" where
  "shownEvents shown seen [] = []"
| "shownEvents shown seen (e # es) =
     (if shown \<ge> 15 then []
      else if eventKey e \<in> seen then shownEvents shown seen es
      else e # shownEvents (Suc shown) (insert (eventKey e) seen) es)"

definition memoryHeader :: "time \<Rightarrow> string" where
  "memoryHeader now =
     ''---'' @ nl @ ''name: fleet-activity'' @ nl @
     ''description: Live fleet activity across all machines -- updated automatically by claude-peers dream'' @ nl @
     ''type: project'' @ nl @ ''---'' @ nl @ nl @ ''Last updated: '' @ fmtRFC3339 now @ nl @ nl"

definition buildFleetMemory :: "string \<Rightarrow> clock \<Rightarrow> string list \<Rightarrow> Peer list \<Rightarrow> Event list \<Rightarrow> string" where
  "buildFleetMemory home clk order ps es =
     memoryHeader (clk 0) @ ''## Active Claude Instances'' @ nl @ nl @
     (if ps = [] then ''No active instances.'' @ nl @ nl else concat (map (machineSection home ps) order)) @
     ''## Recent Activity'' @ nl @ nl @
     (if es = [] then ''No recent events.'' @ nl
      else concat (map (\<lambda>(i, e). eventLine (clk i) e) (enumerate 1 (shownEvents 0 {} es))))"

section \<open>Files\<close>

definition replaceSep :: "string \<Rightarrow> string" where
  "replaceSep s = map (\<lambda>c. if c = sep then CHR ''-'' else c) s"

text \<open>An index into the empty string panics.\<close>

definition claudeProjectKey :: "osEnv \<Rightarrow> string outcome" where
  "claudeProjectKey os = (case replaceSep (orEmpty (UserHomeDir os)) of
      [] \<Rightarrow> Panic ''index out of range [0] with length 0''
    | c # r \<Rightarrow> Ret (if c = CHR ''-'' then c # r else CHR ''-'' # c # r))"

definition claudeMemoryDir :: "osEnv \<Rightarrow> string outcome" where
  "claudeMemoryDir os = (case claudeProjectKey os of
      Panic e \<Rightarrow> Panic e
    | Ret key \<Rightarrow> Ret (Join [orEmpty (UserHomeDir os), ''.claude'', ''projects'', key, ''memory'']))"

definition indexEntry :: string where
  "indexEntry = ''- ['' @ fleetMemoryFile @ '']('' @ fleetMemoryFile @
     '') - Live fleet activity across all machines, auto-updated by claude-peers dream''"

definition updateMemoryIndex :: "string \<Rightarrow> fs \<Rightarrow> fs" where
  "updateMemoryIndex memDir s =
     (let indexPath = Join [memDir, ''MEMORY.md'']; existing = orEmpty (ReadFile indexPath s)
      in if contains existing fleetMemoryFile then s
         else snd (WriteFile indexPath
                ((if existing = [] then ''# Memory Index'' @ nl @ nl else existing) @ indexEntry @ nl) s))"

definition pushFleetMemoryToBroker :: "'w clientEnv \<Rightarrow> string \<Rightarrow> 'w host \<Rightarrow> 'w host" where
  "pushFleetMemoryToBroker E txt h = snd (send_request E
     \<lparr>r_Method = ''POST'', r_URL = g_BrokerURL (h_cfg E) @ ''/fleet-memory'', r_Auth = bearer (authToken h), r_Body = txt\<rparr> h)"

definition writeFleetMemory :: "'w clientEnv \<Rightarrow> string \<Rightarrow> 'w host \<Rightarrow> (string \<times> 'w host) outcome" where
  "writeFleetMemory E txt h = (case claudeMemoryDir (h_os E) of
      Panic e \<Rightarrow> Panic e
    | Ret memDir \<Rightarrow>
        (let path = Join [memDir, fleetMemoryFile];
             s1 = snd (WriteFile path txt (snd (MkdirAll memDir (disk h))))
         in Ret (path, pushFleetMemoryToBroker E txt (h\<lparr>disk := updateMemoryIndex memDir s1\<rparr>))))"

definition fetchFleetState :: "'w clientEnv \<Rightarrow> 'w host \<Rightarrow> (Peer list \<times> Event list) \<times> 'w host" where
  "fetchFleetState E h =
     (let ((_, ps), h1) = fetchPeers E (listAll\<lparr>lq_CWD := ''/''\<rparr>) h;
          ((e, es), h2) = cliFetch E ''/events?limit=100'' None (Some (unEvents (h_json E))) [] h1
      in ((ps, if e = None then es else []), h2))"

definition cliDream :: "'w clientEnv \<Rightarrow> clock \<Rightarrow> (string set \<Rightarrow> string list) \<Rightarrow> 'w host \<Rightarrow> (string \<times> 'w host) outcome" where
  "cliDream E clk order h =
     (let ((ps, es), h1) = fetchFleetState E h;
          txt = buildFleetMemory (orEmpty (UserHomeDir (h_os E))) clk (order (p_Machine ` set ps)) ps es
      in case writeFleetMemory E txt h1 of
           Panic e \<Rightarrow> Panic e
         | Ret (path, h2) \<Rightarrow> Ret (''[dream] Fleet memory updated: '' @ path @ nl @
             ''[dream] '' @ itoa (int (length ps)) @ '' peers, '' @ itoa (int (length es)) @ '' events'' @ nl, h2))"

text \<open>
  \<open>consolidate\<close>, which is also what a tick of the watch without events and an iteration of
  \<open>dreamPollLoop\<close> do: rebuild the memory from the broker's state.  The path written to is returned for
  the log line.
\<close>

definition consolidate :: "'w clientEnv \<Rightarrow> clock \<Rightarrow> (string set \<Rightarrow> string list) \<Rightarrow> 'w host \<Rightarrow> (string \<times> 'w host) outcome" where
  "consolidate E clk order h =
     (let ((ps, es), h1) = fetchFleetState E h
      in writeFleetMemory E (buildFleetMemory (orEmpty (UserHomeDir (h_os E))) clk (order (p_Machine ` set ps)) ps es) h1)"

text \<open>The collection of \<open>cliDreamWatch\<close>: an event that makes thirty consolidates and ends with no event kept.\<close>

definition watchEvent :: "'w clientEnv \<Rightarrow> clock \<Rightarrow> (string set \<Rightarrow> string list) \<Rightarrow> FleetEvent \<Rightarrow>
    FleetEvent list \<times> 'w host \<Rightarrow> (FleetEvent list \<times> 'w host) outcome" where
  "watchEvent E clk order e st =
     (let events = fst st @ [e]
      in if length events \<ge> 30
         then (case consolidate E clk order (snd st) of Panic p \<Rightarrow> Panic p | Ret (_, h) \<Rightarrow> Ret ([], h))
         else Ret (events, snd st))"

definition watchTick :: "'w clientEnv \<Rightarrow> clock \<Rightarrow> (string set \<Rightarrow> string list) \<Rightarrow>
    FleetEvent list \<times> 'w host \<Rightarrow> (FleetEvent list \<times> 'w host) outcome" where
  "watchTick E clk order st =
     (case consolidate E clk order (snd st) of Panic p \<Rightarrow> Panic p | Ret (_, h) \<Rightarrow> Ret ([], h))"

section \<open>Properties\<close>

lemma shownEvents_spec:
  assumes "shown \<le> 15"
  shows "length (shownEvents shown seen es) \<le> 15 - shown \<and> distinct (map eventKey (shownEvents shown seen es)) \<and>
    set (shownEvents shown seen es) \<subseteq> set es \<and> eventKey ` set (shownEvents shown seen es) \<inter> seen = {}"
  using assms
proof (induction shown seen es rule: shownEvents.induct)
  case (2 shown seen e es)
  consider "shown \<ge> 15" | "shown < 15" "eventKey e \<in> seen" | "shown < 15" "eventKey e \<notin> seen" by linarith
  then show ?case
  proof cases
    case 2
    with "2.IH"(1) "2.prems" show ?thesis by auto
  next
    case 3
    with "2.IH"(2) show ?thesis by auto
  qed simp
qed simp

lemma contains_appended: "contains (a @ b @ c) b"
  by (rule containsI)

text \<open>The index mentions the fleet memory once it has been updated, and is then left alone.\<close>

lemma updateMemoryIndex_idem:
  assumes "readErr s (Join [memDir, ''MEMORY.md'']) = None" "writeErr s (Join [memDir, ''MEMORY.md'']) = None"
  shows "updateMemoryIndex memDir (updateMemoryIndex memDir s) = updateMemoryIndex memDir s"
proof (cases "contains (orEmpty (ReadFile (Join [memDir, ''MEMORY.md'']) s)) fleetMemoryFile")
  case True
  then show ?thesis by (simp add: updateMemoryIndex_def Let_def)
next
  case False
  let ?p = "Join [memDir, ''MEMORY.md'']"
  let ?pre = "if orEmpty (ReadFile ?p s) = [] then ''# Memory Index'' @ nl @ nl else orEmpty (ReadFile ?p s)"
  have u: "updateMemoryIndex memDir s = snd (WriteFile ?p (?pre @ indexEntry @ nl) s)"
    using False by (simp add: updateMemoryIndex_def Let_def)
  have "ReadFile ?p (updateMemoryIndex memDir s) = Inr (?pre @ indexEntry @ nl)"
    unfolding u by (rule read_after_write) (use assms in \<open>simp_all add: write_ok\<close>)
  moreover have "contains (?pre @ indexEntry @ nl) fleetMemoryFile"
    unfolding contains_iff indexEntry_def by (metis append.assoc)
  ultimately show ?thesis
    by (simp add: updateMemoryIndex_def[of memDir "updateMemoryIndex memDir s"] orEmpty_def Let_def)
qed

lemma memory_dir_panics: "orEmpty (UserHomeDir os) = [] \<Longrightarrow> \<exists>e. claudeMemoryDir os = Panic e"
  by (simp add: claudeMemoryDir_def claudeProjectKey_def replaceSep_def)

end
