(* ===== verification/Protocol.thy ===== *)
theory Protocol
  imports Json Paths
begin

text \<open>
  The JSON-RPC layer of \<^verbatim>\<open>src/fleet_mcp.go\<close>: the JSON values that are written, \<open>json.Marshal\<close> on them, the
  frames of the protocol, the constants and the tool schemas, and the line discipline of standard
  input (\<open>bufio.Scanner\<close>) and output.  A request is decoded by \<open>json.Unmarshal\<close>, which is an argument
  of the reading operation.
\<close>

section \<open>JSON values\<close>

text \<open>A number is its text.\<close>

datatype json = JNull | JBool bool | JNum string | JStr string | JArr "json list" | JObj "(string \<times> json) list"

text \<open>A Go map is written with its keys sorted, a struct in the order of its fields.\<close>

definition goMap :: "(string \<times> json) list \<Rightarrow> json" where
  "goMap kvs = JObj (sort_key fst kvs)"

text \<open>The number of bytes of the UTF-8 sequence at the front, zero when there is none.\<close>

definition inRange :: "nat \<Rightarrow> nat \<Rightarrow> char \<Rightarrow> bool" where
  "inRange lo hi c \<longleftrightarrow> lo \<le> of_char c \<and> of_char c \<le> hi"

definition followers :: "nat \<Rightarrow> (nat \<times> nat) list option" where
  "followers x =
     (if 0xC2 \<le> x \<and> x \<le> 0xDF then Some [(0x80, 0xBF)]
      else if 0xE0 \<le> x \<and> x \<le> 0xEF then
        Some [(if x = 0xE0 then 0xA0 else 0x80, if x = 0xED then 0x9F else 0xBF), (0x80, 0xBF)]
      else if 0xF0 \<le> x \<and> x \<le> 0xF4 then
        Some [(if x = 0xF0 then 0x90 else 0x80, if x = 0xF4 then 0x8F else 0xBF), (0x80, 0xBF), (0x80, 0xBF)]
      else None)"

definition runeLen :: "string \<Rightarrow> nat" where
  "runeLen s = (case s of [] \<Rightarrow> 0
     | a # r \<Rightarrow> if (of_char a :: nat) < 0x80 then 1
         else (case followers (of_char a) of None \<Rightarrow> 0
           | Some rs \<Rightarrow> if list_all2 (\<lambda>(lo, hi). inRange lo hi) rs (take (length rs) r) then Suc (length rs) else 0))"

text \<open>
  The body of a string literal: a byte that begins no valid sequence becomes the replacement
  character, and the two line separators of Unicode are escaped.
\<close>

definition jsonRune :: "string \<Rightarrow> string" where
  "jsonRune r = (if r = [CHR 0xE2, CHR 0x80, CHR 0xA8] then CHR 0x5C # ''u2028''
     else if r = [CHR 0xE2, CHR 0x80, CHR 0xA9] then CHR 0x5C # ''u2029''
     else r)"

function jsonText :: "string \<Rightarrow> string" where
  "jsonText [] = []"
| "jsonText (c # cs) =
     (if (of_char c :: nat) < 0x80 then jsonByte c @ jsonText cs
      else let n = runeLen (c # cs)
           in if n = 0 then (CHR 0x5C # ''ufffd'') @ jsonText cs
              else jsonRune (take n (c # cs)) @ jsonText (drop n (c # cs)))"
  by pat_completeness auto
termination
  by (relation "measure length") auto

definition quoteJson :: "string \<Rightarrow> string" where
  "quoteJson s = [CHR 0x22] @ jsonText s @ [CHR 0x22]"

primrec marshal :: "json \<Rightarrow> string" where
  "marshal JNull = ''null''"
| "marshal (JBool b) = (if b then ''true'' else ''false'')"
| "marshal (JNum t) = t"
| "marshal (JStr s) = quoteJson s"
| "marshal (JArr js) = ''['' @ joinStr '','' (map marshal js) @ '']''"
| "marshal (JObj kvs) = ''{'' @ joinStr '','' (map (\<lambda>(k, t). quoteJson k @ '':'' @ t) (map (map_prod id marshal) kvs)) @ ''}''"

section \<open>Frames\<close>

type_synonym rpcID = json

record jsonrpcRequest =
  jr_JSONRPC :: string
  jr_ID :: "rpcID option"
  jr_Method :: string
  jr_Params :: string

record jsonrpcError =
  er_Code :: int
  er_Message :: string

record jsonrpcResponse =
  rs_JSONRPC :: string
  rs_ID :: "rpcID option"
  rs_Result :: "json option"
  rs_Error :: "jsonrpcError option"

record jsonrpcNotification =
  nt_JSONRPC :: string
  nt_Method :: string
  nt_Params :: "json option"

definition omitempty :: "string \<Rightarrow> json option \<Rightarrow> (string \<times> json) list" where
  "omitempty k v = (case v of None \<Rightarrow> [] | Some j \<Rightarrow> [(k, j)])"

definition errorJson :: "jsonrpcError \<Rightarrow> json" where
  "errorJson e = JObj [(''code'', JNum (itoa (er_Code e))), (''message'', JStr (er_Message e))]"

definition responseJson :: "jsonrpcResponse \<Rightarrow> json" where
  "responseJson r = JObj ([(''jsonrpc'', JStr (rs_JSONRPC r)), (''id'', case rs_ID r of None \<Rightarrow> JNull | Some i \<Rightarrow> i)] @
     omitempty ''result'' (rs_Result r) @ omitempty ''error'' (map_option errorJson (rs_Error r)))"

definition notificationJson :: "jsonrpcNotification \<Rightarrow> json" where
  "notificationJson n = JObj ([(''jsonrpc'', JStr (nt_JSONRPC n)), (''method'', JStr (nt_Method n))] @ omitempty ''params'' (nt_Params n))"

text \<open>What the server writes: the calls of \<open>toolResult\<close>, \<open>toolError\<close>, \<open>respondError\<close> and the other writers.\<close>

datatype mcpOutput =
    ToolResult "rpcID option" string
  | ToolError "rpcID option" string
  | RespondError "rpcID option" int string
  | Initialized "rpcID option" string
  | ToolsListed "rpcID option"
  | ChannelNote string "(string \<times> string) list"

section \<open>Constants\<close>

definition mcpProtocolVersion :: string where "mcpProtocolVersion = ''2025-03-26''"
definition serverName :: string where "serverName = ''claude-peers''"
definition serverVersion :: string where "serverVersion = ''1.0.0''"

definition mcpTools :: "json list" where
  "mcpTools = [
     goMap [(''name'', JStr ''list_peers''),
            (''description'', JStr (''List other Claude Code instances across the network. Returns their ID, machine, working directory, '' @
                  ''git repo, and summary.'')),
            (''inputSchema'', goMap [(''type'', JStr ''object''),
                   (''properties'', goMap [(''scope'', goMap [(''type'', JStr ''string''),
                                 (''enum'', JArr [JStr ''all'', JStr ''machine'', JStr ''directory'', JStr ''repo'']),
                                 (''description'', JStr (''Scope of peer discovery. \"all\" = every peer on every machine. \"machine\" = only this machine. '' @
                                       ''\"directory\" = same working directory. \"repo\" = same git repository.''))])]),
                   (''required'', JArr [JStr ''scope''])])],
     goMap [(''name'', JStr ''send_message''),
            (''description'', JStr (''Send a message to another Claude Code session. Use the agent name (stable handle) when you know it; '' @
                  ''fall back to session ID for ephemeral peers. Agent-addressed messages queue if the recipient is '' @
                  ''offline and deliver on reconnect. Session-addressed messages drop if the session is gone.'')),
            (''inputSchema'', goMap [(''type'', JStr ''object''),
                   (''properties'', goMap [(''to'', goMap [(''type'', JStr ''string''),
                                 (''description'', JStr (''Agent name (preferred, stable across restarts) or session ID (for ephemeral peers). Agent names are '' @
                                       ''listed by list_peers under the (agent) label.''))]),
                          (''message'', goMap [(''type'', JStr ''string''),
                                 (''description'', JStr ''The message to send'')])]),
                   (''required'', JArr [JStr ''to'', JStr ''message''])])],
     goMap [(''name'', JStr ''set_summary''),
            (''description'', JStr (''Set a brief summary (1-2 sentences) of what you are currently working on. Visible to other Claude '' @
                  ''Code instances when they list peers.'')),
            (''inputSchema'', goMap [(''type'', JStr ''object''),
                   (''properties'', goMap [(''summary'', goMap [(''type'', JStr ''string''),
                                 (''description'', JStr ''A 1-2 sentence summary of your current work'')])]),
                   (''required'', JArr [JStr ''summary''])])],
     goMap [(''name'', JStr ''check_messages''),
            (''description'', JStr (''Manually check for new messages. Normally messages push automatically via '' @
                  ''notifications/claude/channel with ACK; this tool is the fallback path.'')),
            (''inputSchema'', goMap [(''type'', JStr ''object''),
                   (''properties'', goMap [])])],
     goMap [(''name'', JStr ''claim_agent_name''),
            (''description'', JStr (''Claim a stable agent name for THIS session without restarting. Use this when the user tells you to '' @
                  ''call yourself something (e.g. 'you are jim'), or when you want an addressable stable handle. Names '' @
                  ''are globally unique while held -- if another session already holds the name, you get a 409 with the '' @
                  ''holder's info. A session can only claim once; after that, the name is stuck. Preferred over '' @
                  ''restarting with --as when the session is already mid-work.'')),
            (''inputSchema'', goMap [(''type'', JStr ''object''),
                   (''properties'', goMap [(''name'', goMap [(''type'', JStr ''string''),
                                 (''description'', JStr ''The agent name to claim (e.g. 'jim', 'caretaker'). Must be unique across the fleet.'')])]),
                   (''required'', JArr [JStr ''name''])])]]"

definition mcpInstructions :: string where
  "mcpInstructions = ''You are connected to the claude-peers network. Other Claude Code sessions across the fleet can see '' @
     ''you and send you messages.'' @ nl @ nl @ ''IDENTITY:'' @ nl @
     ''- Your identity on the network is your \"agent name\" -- declared at startup via the --as flag, '' @
     ''CLAUDE_PEERS_AGENT env var, or a .claude-peers-agent file in the working directory.'' @ nl @
     ''- If you have no agent name, you are ephemeral: visible in list_peers but NOT addressable by name. '' @
     ''You can still send messages.'' @ nl @
     ''- Agent names are globally unique while held. Never change names mid-session -- identity is '' @
     ''declared at startup.'' @ nl @ nl @ ''MESSAGING:'' @ nl @
     ''- Push delivery: messages arrive as notifications/claude/channel with from_agent / from_session / '' @
     ''message_id in the meta block. You don't need to poll on every prompt -- push + ack is reliable.'' @ nl @
     ''- To reply to a notification, call send_message with to = from_agent (stable, preferred) or '' @
     ''from_session (ephemeral fallback).'' @ nl @
     ''- send_message to an offline agent name queues the message -- it delivers when that agent '' @
     ''reconnects. Don't assume the recipient is online.'' @ nl @
     ''- On new conversations: call check_messages ONCE to drain anything that came in before the MCP '' @
     ''channel was up. After that, trust the push.'' @ nl @ nl @ ''TOOLS:'' @ nl @
     ''- list_peers: Discover sessions on the network (scope: all/machine/directory/repo).'' @ nl @
     ''- send_message(to, message): Send a message. \"to\" is an agent name or session ID.'' @ nl @
     ''- set_summary: Set a 1-2 sentence summary of your current work.'' @ nl @
     ''- check_messages: Drain undelivered messages (fallback -- push is the normal path).'' @ nl @
     ''- claim_agent_name(name): Claim a stable agent name for THIS session without restarting. Use when '' @
     ''the user says \"you are X\" or \"call yourself X\". Names are globally unique while held. A session can '' @
     ''only claim once.''"

section \<open>Writing\<close>

definition respondWith :: "rpcID option \<Rightarrow> json \<Rightarrow> jsonrpcResponse" where
  "respondWith rid result = \<lparr>rs_JSONRPC = ''2.0'', rs_ID = rid, rs_Result = Some result, rs_Error = None\<rparr>"

definition respondError :: "rpcID option \<Rightarrow> int \<Rightarrow> string \<Rightarrow> jsonrpcResponse" where
  "respondError rid code msg = \<lparr>rs_JSONRPC = ''2.0'', rs_ID = rid, rs_Result = None,
     rs_Error = Some \<lparr>er_Code = code, er_Message = msg\<rparr>\<rparr>"

definition writeNotification :: "string \<Rightarrow> json \<Rightarrow> jsonrpcNotification" where
  "writeNotification method params = \<lparr>nt_JSONRPC = ''2.0'', nt_Method = method, nt_Params = Some params\<rparr>"

definition textContent :: "string \<Rightarrow> json" where
  "textContent t = JArr [goMap [(''type'', JStr ''text''), (''text'', JStr t)]]"

definition toolResult :: "rpcID option \<Rightarrow> string \<Rightarrow> jsonrpcResponse" where
  "toolResult rid t = respondWith rid (goMap [(''content'', textContent t)])"

definition toolError :: "rpcID option \<Rightarrow> string \<Rightarrow> jsonrpcResponse" where
  "toolError rid t = respondWith rid (goMap [(''content'', textContent t), (''isError'', JBool True)])"

definition initializeResult :: "string \<Rightarrow> json" where
  "initializeResult instructions = goMap [
     (''protocolVersion'', JStr mcpProtocolVersion),
     (''capabilities'', goMap [(''experimental'', goMap [(''claude/channel'', goMap [])]), (''tools'', goMap [])]),
     (''serverInfo'', goMap [(''name'', JStr serverName), (''version'', JStr serverVersion)]),
     (''instructions'', JStr instructions)]"

definition channelParams :: "string \<Rightarrow> (string \<times> string) list \<Rightarrow> json" where
  "channelParams t meta = goMap [(''content'', JStr t), (''meta'', goMap (map (\<lambda>(k, v). (k, JStr v)) meta))]"

fun frame :: "mcpOutput \<Rightarrow> json" where
  "frame (ToolResult rid t) = responseJson (toolResult rid t)"
| "frame (ToolError rid t) = responseJson (toolError rid t)"
| "frame (RespondError rid code msg) = responseJson (respondError rid code msg)"
| "frame (Initialized rid instructions) = responseJson (respondWith rid (initializeResult instructions))"
| "frame (ToolsListed rid) = responseJson (respondWith rid (goMap [(''tools'', JArr mcpTools)]))"
| "frame (ChannelNote t meta) = notificationJson (writeNotification ''notifications/claude/channel'' (channelParams t meta))"

text \<open>The mutex of the transport makes a frame one write; standard output is what was written, in order.\<close>

definition writeFrame :: "json \<Rightarrow> string" where
  "writeFrame j = marshal j @ nl"

definition stdoutOf :: "mcpOutput list \<Rightarrow> string" where
  "stdoutOf outs = concat (map (writeFrame \<circ> frame) outs)"

section \<open>Reading\<close>

text \<open>
  \<open>bufio.Scanner\<close> with \<open>ScanLines\<close> and a buffer of one megabyte: the next line without its end, an error
  when the buffer is full and holds no line end, or the end of the input.
\<close>

definition maxLine :: nat where "maxLine = 1024 * 1024"

datatype scanned = Line string string | ScanErr string | ScanEnd

definition dropCR :: "string \<Rightarrow> string" where
  "dropCR l = (if l \<noteq> [] \<and> last l = CHR 0x0D then butlast l else l)"

definition Scan :: "string \<Rightarrow> scanned" where
  "Scan inp = (let l = takeWhile (\<lambda>c. c \<noteq> CHR 0x0A) inp
     in if inp = [] then ScanEnd
        else if length l \<ge> maxLine then ScanErr ''bufio.Scanner: token too long''
        else Line (dropCR l) (drop (Suc (length l)) inp))"

definition EOF :: string where "EOF = ''EOF''"

definition readRequest :: "(string \<Rightarrow> string + jsonrpcRequest) \<Rightarrow> string \<Rightarrow> string + jsonrpcRequest \<times> string" where
  "readRequest dec inp = (case Scan inp of
      ScanErr e \<Rightarrow> Inl e
    | ScanEnd \<Rightarrow> Inl EOF
    | Line l rest \<Rightarrow> (case dec l of Inl e \<Rightarrow> Inl e | Inr req \<Rightarrow> Inr (req, rest)))"

section \<open>One frame, one line\<close>

abbreviation (input) oneLine :: "string \<Rightarrow> bool" where
  "oneLine s \<equiv> CHR 0x0A \<notin> set s"

lemma hexc_line: "d < 16 \<Longrightarrow> hexc d \<noteq> CHR 0x0A"
  using of_char_hexc[of d] by (auto split: if_splits)

lemma jsonByte_line: "oneLine (jsonByte c)"
proof (cases "map_of shortEscapes c")
  case None
  then have "c \<noteq> CHR 0x0A" by (auto simp: shortEscapes_def)
  moreover have "hexc (of_char c div 16) \<noteq> CHR 0x0A" "hexc (of_char c mod 16) \<noteq> CHR 0x0A"
    using nat_of_char_less_256[of c] by (auto intro!: hexc_line simp: less_mult_imp_div_less)
  ultimately show ?thesis using None by (auto simp: jsonByte_def)
next
  case (Some e)
  then have "(c, e) \<in> set shortEscapes" by (rule map_of_SomeD)
  then have "e \<noteq> CHR 0x0A" by (auto simp: shortEscapes_def)
  with Some show ?thesis by (simp add: jsonByte_def)
qed

lemma followers_high: "followers x = Some rs \<Longrightarrow> (lo, hi) \<in> set rs \<Longrightarrow> 0x80 \<le> lo"
  by (auto simp: followers_def split: if_splits)

lemma rune_high:
  assumes "0x80 \<le> (of_char c :: nat)" and "x \<in> set (take (runeLen (c # cs)) (c # cs))"
  shows "0x80 \<le> (of_char x :: nat)"
proof (cases "followers (of_char c)")
  case (Some rs)
  show ?thesis
  proof (cases "list_all2 (\<lambda>(lo, hi). inRange lo hi) rs (take (length rs) cs)")
    case True
    with Some assms have "x = c \<or> x \<in> set (take (length rs) cs)" by (simp add: runeLen_def)
    moreover have "0x80 \<le> (of_char y :: nat)" if y: "y \<in> set (take (length rs) cs)" for y
    proof -
      obtain i where "i < length rs" "take (length rs) cs ! i = y" using y True by (metis in_set_conv_nth list_all2_lengthD)
      with True have "(\<lambda>(lo, hi). inRange lo hi) (rs ! i) y" "rs ! i \<in> set rs" by (auto dest: list_all2_nthD)
      with followers_high[OF Some] show ?thesis by (fastforce simp: inRange_def split: prod.splits)
    qed
    ultimately show ?thesis using assms(1) by auto
  qed (use assms Some in \<open>simp add: runeLen_def\<close>)
qed (use assms in \<open>simp add: runeLen_def\<close>)

lemma jsonText_line: "oneLine (jsonText s)"
proof (induction s rule: jsonText.induct)
  case (2 c cs)
  show ?case
  proof (cases "(of_char c :: nat) < 0x80")
    case True
    with 2(1) show ?thesis by (simp add: jsonByte_line)
  next
    case False
    then have "oneLine (jsonRune (take (runeLen (c # cs)) (c # cs)))"
      using rune_high[of c "CHR 0x0A" cs] by (auto simp: jsonRune_def)
    with 2(2,3) False show ?thesis by (simp add: Let_def del: take_Suc_Cons)
  qed
qed simp

lemma joinStr_line: "oneLine d \<Longrightarrow> \<forall>s \<in> set ss. oneLine s \<Longrightarrow> oneLine (joinStr d ss)"
  by (induction d ss rule: joinStr.induct) auto

primrec numbersOk :: "json \<Rightarrow> bool" where
  "numbersOk JNull = True"
| "numbersOk (JBool b) = True"
| "numbersOk (JNum t) = oneLine t"
| "numbersOk (JStr s) = True"
| "numbersOk (JArr js) = list_all id (map numbersOk js)"
| "numbersOk (JObj kvs) = list_all snd (map (map_prod id numbersOk) kvs)"

lemma marshal_line: "numbersOk j \<Longrightarrow> oneLine (marshal j)"
proof (induction j)
  case (JArr js)
  then have "\<forall>s \<in> set (map marshal js). oneLine s" by (auto simp: list_all_iff)
  then show ?case using joinStr_line[of "'',''" "map marshal js"] by simp
next
  case (JObj kvs)
  let ?ss = "map (\<lambda>(k, t). quoteJson k @ '':'' @ t) (map (map_prod id marshal) kvs)"
  have "\<forall>s \<in> set ?ss. oneLine s" using JObj by (fastforce simp: quoteJson_def jsonText_line list_all_iff)
  then show ?case using joinStr_line[of "'',''" ?ss] by simp
qed (simp_all add: quoteJson_def jsonText_line)

lemma numbersOk_goMap [simp]: "numbersOk (goMap kvs) \<longleftrightarrow> list_all (numbersOk \<circ> snd) kvs"
  by (auto simp: goMap_def list_all_iff)

lemma itoa_line: "oneLine (itoa n)"
  using natDigits_isDigit[of "CHR 0x0A"] by (auto simp: itoa_def isDigit_def)

fun outID :: "mcpOutput \<Rightarrow> rpcID option" where
  "outID (ToolResult rid _) = rid"
| "outID (ToolError rid _) = rid"
| "outID (RespondError rid _ _) = rid"
| "outID (Initialized rid _) = rid"
| "outID (ToolsListed rid) = rid"
| "outID (ChannelNote _ _) = None"

lemma tools_numbersOk: "list_all numbersOk mcpTools"
  by (simp add: mcpTools_def)

lemma frame_numbersOk: "pred_option numbersOk (outID out) \<Longrightarrow> numbersOk (frame out)"
  by (cases out) (auto simp: responseJson_def notificationJson_def omitempty_def errorJson_def itoa_line respondWith_def respondError_def
      toolResult_def toolError_def textContent_def initializeResult_def writeNotification_def channelParams_def
      tools_numbersOk[unfolded list_all_iff] list_all_iff split: option.split)

text \<open>
  A frame of JSON-RPC 2.0: a response has an id and either a result or an error, a notification has
  a method and no id.
\<close>

definition rpcFrame :: "json \<Rightarrow> bool" where
  "rpcFrame j = (case j of JObj kvs \<Rightarrow>
      map_of kvs ''jsonrpc'' = Some (JStr ''2.0'') \<and> distinct (map fst kvs) \<and>
      (if ''id'' \<in> fst ` set kvs then ''method'' \<notin> fst ` set kvs \<and> (''result'' \<in> fst ` set kvs) \<noteq> (''error'' \<in> fst ` set kvs)
       else ''method'' \<in> fst ` set kvs)
    | _ \<Rightarrow> False)"

lemma frame_rpc: "rpcFrame (frame out)"
  by (cases out) (simp_all add: rpcFrame_def responseJson_def notificationJson_def omitempty_def respondWith_def respondError_def
      toolResult_def toolError_def writeNotification_def)

lemma split_lines: "\<forall>s \<in> set ss. oneLine s \<Longrightarrow> splitByte (CHR 0x0A) (concat (map (\<lambda>s. s @ nl) ss)) = ss @ [[]]"
proof (induction ss)
  case (Cons s ss)
  then show ?case using splitByte_append_sep[of "CHR 0x0A" s] by simp
qed simp

text \<open>
  C34: what the server writes is JSON-RPC, one frame per line.  Whatever texts the outputs carry, with line
  ends, quotes or bytes that are not UTF-8, and for ids that are JSON values, standard output splits
  at its line ends into exactly the encodings of the frames, in order, and every frame is a response
  with an id and exactly one of result and error, or a notification without id.
\<close>

theorem frames_on_lines:
  assumes "\<forall>out \<in> set outs. pred_option numbersOk (outID out)"
  shows "splitByte (CHR 0x0A) (stdoutOf outs) = map (marshal \<circ> frame) outs @ [[]] \<and> (\<forall>out \<in> set outs. rpcFrame (frame out))"
proof -
  have "stdoutOf outs = concat (map (\<lambda>s. s @ nl) (map (marshal \<circ> frame) outs))"
    by (simp add: stdoutOf_def writeFrame_def comp_def)
  moreover have "\<forall>s \<in> set (map (marshal \<circ> frame) outs). oneLine s" using assms frame_numbersOk marshal_line by auto
  ultimately show ?thesis using split_lines frame_rpc by metis
qed

theorem frames_on_lines_witness:
  "let out = [ToolResult (Some (JNum ''7'')) (''a'' @ nl @ ''b''), ChannelNote (nl @ nl) [(''message_id'', ''1'')]]
   in length (splitByte (CHR 0x0A) (stdoutOf out)) = 3"
  using frames_on_lines[of "[ToolResult (Some (JNum ''7'')) (''a'' @ nl @ ''b''), ChannelNote (nl @ nl) [(''message_id'', ''1'')]]"]
  by (simp add: Let_def)

end
