(* ===== verification/Mcp.thy ===== *)
theory Mcp
  imports Dream Protocol
begin

text \<open>
  The MCP server of \<^verbatim>\<open>src/fleet_server.go\<close>: finding and verifying the broker, registration with its
  fallback, the session state file, re-registration after an eviction, the summary goroutines and the end.
  What the server writes is a list of \<open>mcpOutput\<close> (theory \<open>Protocol\<close>); log lines are left out.
\<close>

section \<open>Finding the broker\<close>

definition isBrokerAlive :: "'w clientEnv \<Rightarrow> 'w host \<Rightarrow> bool \<times> 'w host" where
  "isBrokerAlive E h =
     (let (res, h1) = send_request E \<lparr>r_Method = ''GET'', r_URL = g_BrokerURL (h_cfg E) @ ''/health'', r_Auth = [], r_Body = []\<rparr> h
      in ((case res of Inl _ \<Rightarrow> False | Inr (st, _) \<Rightarrow> st = 200), h1))"

definition isLocalBroker :: "Config \<Rightarrow> bool" where
  "isLocalBroker c \<longleftrightarrow> contains (g_BrokerURL c) ''127.0.0.1'' \<or> contains (g_BrokerURL c) ''localhost''"

fun awaitBroker :: "nat \<Rightarrow> 'w clientEnv \<Rightarrow> 'w host \<Rightarrow> string option \<times> 'w host" where
  "awaitBroker 0 E h = (Some ''broker failed to start after 6s'', h)"
| "awaitBroker (Suc n) E h =
     (let (ok, h1) = isBrokerAlive E h in if ok then (None, h1) else awaitBroker n E h1)"

text \<open>\<open>start\<close> is \<open>os.Executable\<close> with \<open>exec.Cmd.Start\<close>: its error, and its effect on what the network reaches.\<close>

definition ensureBroker :: "'w clientEnv \<Rightarrow> ('w \<Rightarrow> string option \<times> 'w) \<Rightarrow> 'w host \<Rightarrow> string option \<times> 'w host" where
  "ensureBroker E start h =
     (let (ok, h1) = isBrokerAlive E h
      in if ok then (None, h1)
         else if \<not> isLocalBroker (h_cfg E)
         then (Some (''remote broker at '' @ g_BrokerURL (h_cfg E) @ '' is not reachable''), h1)
         else let (e, w) = start (net h1); h2 = h1\<lparr>net := w\<rparr>
              in case e of Some err \<Rightarrow> (Some err, h2) | None \<Rightarrow> awaitBroker 30 E h2)"

text \<open>
  \<open>rnd\<close> is the result of reading 32 random bytes, \<open>verify\<close> is \<open>ed25519.Verify\<close>.  A missing key, an
  unreachable broker and a status other than 200 are passed over.
\<close>

definition noChallenge :: ChallengeResponse where
  "noChallenge = \<lparr>cs_Nonce = [], cs_Signature = [], cs_PublicKey = []\<rparr>"

definition checkChallenge :: "(bytes \<Rightarrow> string \<Rightarrow> bytes \<Rightarrow> bool) \<Rightarrow> bytes \<Rightarrow> string \<Rightarrow> ChallengeResponse \<Rightarrow> string option" where
  "checkChallenge verify rootPub nonce c =
     (if cs_Nonce c \<noteq> nonce then Some ''broker returned wrong nonce''
      else case b64Decode (cs_Signature c) of
        Inl e \<Rightarrow> Some (''decode signature: '' @ e)
      | Inr sig \<Rightarrow> if \<not> verify rootPub nonce sig
          then Some ''BROKER IDENTITY VERIFICATION FAILED: signature does not match root.pub'' else None)"

definition verifyBrokerIdentity ::
  "'w clientEnv \<Rightarrow> pemLib \<Rightarrow> (bytes \<Rightarrow> string \<Rightarrow> bytes \<Rightarrow> bool) \<Rightarrow> string + bytes \<Rightarrow> 'w host \<Rightarrow> string option \<times> 'w host" where
  "verifyBrokerIdentity E P verify rnd h =
     (case LoadPublicKey P (Join [configDir (h_os E), rootPubKeyFile]) (disk h) of
        Inl _ \<Rightarrow> (None, h)
      | Inr rootPub \<Rightarrow>
          (case rnd of
             Inl e \<Rightarrow> (Some (''generate nonce: '' @ e), h)
           | Inr nonceBytes \<Rightarrow>
               (let nonce = b64Encode nonceBytes;
                    (res, h1) = send_request E \<lparr>r_Method = ''POST'', r_URL = g_BrokerURL (h_cfg E) @ ''/challenge'',
                       r_Auth = [], r_Body = encChallenge (h_json E) \<lparr>ch_Nonce = nonce\<rparr>\<rparr> h
                in case res of
                     Inl _ \<Rightarrow> (None, h1)
                   | Inr (st, txt) \<Rightarrow>
                       if st \<noteq> 200 then (None, h1)
                       else (case unChallenge (h_json E) txt noChallenge of
                           (Some e, _) \<Rightarrow> (Some (''decode challenge response: '' @ e), h1)
                         | (None, c) \<Rightarrow> (checkChallenge verify rootPub nonce c, h1)))))"

section \<open>The session state file\<close>

definition sessionStateDir :: "osEnv \<Rightarrow> string" where
  "sessionStateDir os = (if Getenv os ''XDG_CACHE_HOME'' \<noteq> [] then Join [Getenv os ''XDG_CACHE_HOME'', ''claude-peers'']
     else (case UserHomeDir os of Inl _ \<Rightarrow> [] | Inr home \<Rightarrow> Join [home, ''.cache'', ''claude-peers'']))"

definition writeSessionStateFile :: "'w clientEnv \<Rightarrow> int \<Rightarrow> SessionState \<Rightarrow> fs \<Rightarrow> string \<times> fs" where
  "writeSessionStateFile E ppid state s =
     (let dir = sessionStateDir (h_os E)
      in if dir = [] then ([], s)
         else case MkdirAll dir s of
           (Some _, s1) \<Rightarrow> ([], s1)
         | (None, s1) \<Rightarrow>
             (let path = Join [dir, ''current-'' @ itoa ppid @ ''.json'']
              in case replaceFile path (encState (h_json E) state) s1 of
                   (Some _, s2) \<Rightarrow> ([], s2)
                 | (None, s2) \<Rightarrow> (path, s2)))"

definition updateSessionStateAgentName :: "'w clientEnv \<Rightarrow> string \<Rightarrow> string \<Rightarrow> fs \<Rightarrow> fs" where
  "updateSessionStateAgentName E path newName s =
     (if path = [] then s
      else case ReadFile path s of
        Inl _ \<Rightarrow> s
      | Inr dat \<Rightarrow>
          (case unState (h_json E) dat of
             Inl _ \<Rightarrow> s
           | Inr state \<Rightarrow>
               snd (replaceFile path (encState (h_json E) (state\<lparr>y_AgentName := newName, y_EphemeralFallback := False\<rparr>)) s)))"

section \<open>Registration\<close>

text \<open>What the server has found out about itself before it registers.\<close>

record selfInfo =
  b_agent :: string
  b_cwd :: string
  b_root :: string
  b_tty :: string
  b_project :: string
  b_branch :: string
  b_summary :: string
  b_pid :: int
  b_ppid :: int

definition registerReqFor :: "'w clientEnv \<Rightarrow> selfInfo \<Rightarrow> RegisterRequest" where
  "registerReqFor E I = \<lparr>rq_AgentName = b_agent I, rq_PID = b_pid I, rq_Machine = g_MachineName (h_cfg E),
     rq_CWD = b_cwd I, rq_GitRoot = b_root I, rq_TTY = b_tty I, rq_Project = b_project I,
     rq_Branch = b_branch I, rq_Summary = b_summary I\<rparr>"

definition fetchRegister :: "'w clientEnv \<Rightarrow> RegisterRequest \<Rightarrow> RegisterResponse \<Rightarrow> 'w host \<Rightarrow>
    (string option \<times> RegisterResponse) \<times> 'w host" where
  "fetchRegister E req r h = brokerFetch E ''/register'' (Some (encRegister (h_json E) req)) (Some (unRegister (h_json E))) r h"

text \<open>
  One registration with the fallback to an ephemeral one: the error, or the answer and the name
  the session has.  The three error prefixes differ between start and re-registration; the
  fallback decodes into the answer of the first attempt.
\<close>

definition registerWithFallback :: "'w clientEnv \<Rightarrow> string \<times> string \<times> string \<Rightarrow> RegisterRequest \<Rightarrow> 'w host \<Rightarrow>
    (string + RegisterResponse \<times> string) \<times> 'w host" where
  "registerWithFallback E msgs req h =
     (let (m1, m2, m3) = msgs; ((e, reg), h1) = fetchRegister E req noRegister h
      in case e of
           Some err \<Rightarrow> (Inl (m1 @ err), h1)
         | None \<Rightarrow>
             if \<not> rr_OK reg \<and> rq_AgentName req \<noteq> [] then
               (let ((e2, reg2), h2) = fetchRegister E (req\<lparr>rq_AgentName := []\<rparr>) reg h1
                in case e2 of
                     Some err \<Rightarrow> (Inl (m2 @ err), h2)
                   | None \<Rightarrow> if \<not> rr_OK reg2 then (Inl (m3 @ rr_Error reg2), h2) else (Inr (reg2, []), h2))
             else if \<not> rr_OK reg then (Inl (m3 @ rr_Error reg), h1)
             else (Inr (reg, rq_AgentName req), h1))"

record 'w mcp =
  v_host :: "'w host"
  v_session :: "string option"
  v_statePath :: string
  v_pushed :: "int set"
  v_out :: "mcpOutput list"

definition sessionGet :: "string option \<Rightarrow> string" where
  "sessionGet r = (case r of None \<Rightarrow> [] | Some i \<Rightarrow> i)"

definition stateFor :: "'w clientEnv \<Rightarrow> selfInfo \<Rightarrow> time \<Rightarrow> string \<Rightarrow> string \<Rightarrow> SessionState" where
  "stateFor E I now i name = \<lparr>y_SessionID = i, y_AgentName = name, y_ConfiguredAgentName = b_agent I,
     y_EphemeralFallback = (b_agent I \<noteq> [] \<and> name = []), y_CWD = b_cwd I, y_Machine = g_MachineName (h_cfg E),
     y_PID = b_pid I, y_ParentPID = b_ppid I, y_RegisteredAt = nowISO now\<rparr>"

definition startMsgs :: "string \<times> string \<times> string" where
  "startMsgs = (''register: '', ''register (ephemeral fallback after '' @ goQuote [] @ '' collision): '', ''register failed: '')"

definition rebindMsgs :: "string \<times> string \<times> string" where
  "rebindMsgs = (''re-register: '', ''re-register ephemeral: '', ''re-register failed: '')"

text \<open>The start of \<open>runServer\<close> after the self inspection: registration and the state file.\<close>

definition startSession :: "'w clientEnv \<Rightarrow> selfInfo \<Rightarrow> time \<Rightarrow> 'w host \<Rightarrow> string + 'w mcp" where
  "startSession E I now h = (case registerWithFallback E startMsgs (registerReqFor E I) h of
      (Inl e, h1) \<Rightarrow> Inl e
    | (Inr (reg, name), h1) \<Rightarrow>
        (let (path, s) = writeSessionStateFile E (b_ppid I) (stateFor E I now (rr_ID reg) name) (disk h1)
         in Inr \<lparr>v_host = h1\<lparr>disk := s\<rparr>, v_session = Some (rr_ID reg), v_statePath = path, v_pushed = {}, v_out = []\<rparr>))"

text \<open>
  \<open>inspectSelf\<close>: what \<open>runServer\<close> finds out before it registers.  \<open>summary\<close> is what
  \<open>generateSummary\<close> sent on its channel, \<open>None\<close> when five seconds passed first.
\<close>

definition inspectSelf :: "'w clientEnv \<Rightarrow> runner \<Rightarrow> string \<Rightarrow> int \<Rightarrow> int \<Rightarrow> string option \<Rightarrow> fs \<Rightarrow> selfInfo" where
  "inspectSelf E sh ovr pid ppid summary s =
     (let cwd = orEmpty (Getwd (h_os E)); home = orEmpty (UserHomeDir (h_os E)); root = gitRoot sh cwd
      in \<lparr>b_agent = resolveAgentName ovr (Getenv (h_os E) ''CLAUDE_PEERS_AGENT'') home (Getwd (h_os E)) s cwd,
          b_cwd = cwd, b_root = root, b_tty = getTTY sh ppid, b_project = autoProject home cwd root,
          b_branch = gitBranch sh cwd, b_summary = (case summary of None \<Rightarrow> [] | Some t \<Rightarrow> t),
          b_pid = pid, b_ppid = ppid\<rparr>)"

text \<open>\<open>runServer\<close> up to its loops; a broker that fails the identity check is only logged.\<close>

definition runServer :: "'w clientEnv \<Rightarrow> pemLib \<Rightarrow> (bytes \<Rightarrow> string \<Rightarrow> bytes \<Rightarrow> bool) \<Rightarrow> string + bytes \<Rightarrow>
    ('w \<Rightarrow> string option \<times> 'w) \<Rightarrow> runner \<Rightarrow> string \<Rightarrow> int \<Rightarrow> int \<Rightarrow> string option \<Rightarrow> time \<Rightarrow> 'w host \<Rightarrow> string + 'w mcp" where
  "runServer E P verify rnd start sh ovr pid ppid summary now h =
     (case ensureBroker E start h of
        (Some e, _) \<Rightarrow> Inl e
      | (None, h1) \<Rightarrow>
          (let (_, h2) = verifyBrokerIdentity E P verify rnd h1;
               h3 = h2\<lparr>authToken := loadAuthToken (h_os E) (disk h2)\<rparr>
           in startSession E (inspectSelf E sh ovr pid ppid summary (disk h3)) now h3))"

definition rebindToBroker :: "'w clientEnv \<Rightarrow> selfInfo \<Rightarrow> time \<Rightarrow> 'w mcp \<Rightarrow> string option \<times> 'w mcp" where
  "rebindToBroker E I now v =
     (case registerWithFallback E rebindMsgs ((registerReqFor E I)\<lparr>rq_Summary := []\<rparr>) (v_host v) of
        (Inl e, h1) \<Rightarrow> (Some e, v\<lparr>v_host := h1\<rparr>)
      | (Inr (reg, name), h1) \<Rightarrow>
          (let (_, s) = writeSessionStateFile E (b_ppid I) (stateFor E I now (rr_ID reg) name) (disk h1)
           in (None, v\<lparr>v_host := h1\<lparr>disk := s\<rparr>, v_session := Some (rr_ID reg)\<rparr>)))"

definition heartbeatTick :: "'w clientEnv \<Rightarrow> selfInfo \<Rightarrow> time \<Rightarrow> 'w mcp \<Rightarrow> 'w mcp" where
  "heartbeatTick E I now v =
     (let ((e, resp), h1) = brokerFetch E ''/heartbeat'' (Some (encHeartbeat (h_json E) \<lparr>hq_ID = sessionGet (v_session v)\<rparr>))
            (Some (unHeartbeat (h_json E))) noHeartbeat (v_host v);
          v1 = v\<lparr>v_host := h1\<rparr>
      in if e \<noteq> None then v1
         else if \<not> hr_OK resp \<and> hr_Reason resp = HeartbeatReasonUnknownSession then snd (rebindToBroker E I now v1)
         else v1)"

text \<open>The summary goroutines, and the deferred function at exit.\<close>

definition summaryRefresh :: "'w clientEnv \<Rightarrow> string \<Rightarrow> 'w mcp \<Rightarrow> 'w mcp" where
  "summaryRefresh E summary v = (if summary = [] then v
     else v\<lparr>v_host := snd (fetchNil E ''/set-summary''
            (encSetSummary (h_json E) \<lparr>sq_ID = sessionGet (v_session v), sq_Summary = summary\<rparr>) (v_host v))\<rparr>)"

definition shutdown :: "'w clientEnv \<Rightarrow> 'w mcp \<Rightarrow> 'w mcp" where
  "shutdown E v =
     (let h1 = snd (fetchNil E ''/unregister'' (encUnregister (h_json E) \<lparr>uq_ID = sessionGet (v_session v)\<rparr>) (v_host v))
      in v\<lparr>v_host := (if v_statePath v \<noteq> [] then h1\<lparr>disk := snd (Remove (v_statePath v) (disk h1))\<rparr> else h1)\<rparr>)"

definition syncFleetMemory :: "'w clientEnv \<Rightarrow> 'w host \<Rightarrow> 'w host outcome" where
  "syncFleetMemory E h =
     (let (res, h1) = send_request E (apiRequest E ''/fleet-memory'' None (authToken h)) h
      in case res of
           Inl _ \<Rightarrow> Ret h1
         | Inr (st, dat) \<Rightarrow>
             if st \<noteq> 200 \<or> dat = [] then Ret h1
             else (case claudeMemoryDir (h_os E) of
                 Panic e \<Rightarrow> Panic e
               | Ret memDir \<Rightarrow>
                   Ret (h1\<lparr>disk := updateMemoryIndex memDir
                     (snd (WriteFile (Join [memDir, ''fleet-activity.md'']) dat (snd (MkdirAll memDir (disk h1)))))\<rparr>)))"

end
