(* ===== verification/Tools.thy ===== *)
theory Tools
  imports Mcp
begin

text \<open>
  The five tools of the MCP server (\<open>handleToolCall\<close>), the push loop (\<open>pollAndPush\<close>) and the dispatch
  of requests, of \<^verbatim>\<open>src/fleet_server.go\<close>, with the context of \<open>buildFleetContext\<close> of
  \<^verbatim>\<open>src/fleet_mcp.go\<close>.  A decoded call is its name and its string arguments, an absent one being empty.
\<close>

record toolCall =
  j_Name :: string
  j_Arg :: "string \<Rightarrow> string"

section \<open>list\_peers\<close>

definition arrow :: string where "arrow = [CHR 0xE2, CHR 0x86, CHR 0x90]"

definition writePeerRow :: "Peer \<Rightarrow> bool \<Rightarrow> string" where
  "writePeerRow p isSelf =
     (if p_AgentName p \<noteq> []
      then p_AgentName p @ '' (agent) on '' @ p_Machine p @ '' [session '' @ p_ID p @ '']''
      else ''session '' @ p_ID p @ '' on '' @ p_Machine p @ '' (ephemeral -- not addressable by name)'') @
     (if isSelf then ''  '' @ arrow @ '' this session'' else []) @ nl @
     (if p_Project p \<noteq> [] then ''  Project: '' @ p_Project p @
        (if p_Branch p \<noteq> [] then '' ['' @ p_Branch p @ '']'' else []) @ nl else []) @
     ''  CWD: '' @ p_CWD p @ nl @
     (if p_Summary p \<noteq> [] then ''  Summary: '' @ p_Summary p @ nl else []) @
     ''  Last seen: '' @ p_LastSeen p @ nl @ nl"

fun firstIndex :: "('a \<Rightarrow> bool) \<Rightarrow> 'a list \<Rightarrow> nat option" where
  "firstIndex P [] = None"
| "firstIndex P (x # xs) = (if P x then Some 0 else map_option Suc (firstIndex P xs))"

definition otherRows :: "nat option \<Rightarrow> Peer list \<Rightarrow> string" where
  "otherRows self ps = concat (map (\<lambda>(i, p). if Some i = self then [] else writePeerRow p False) (enumerate 0 ps))"

definition listReport :: "string \<Rightarrow> string \<Rightarrow> Peer list \<Rightarrow> string" where
  "listReport scope myID ps =
     (if ps = [] then ''No peers registered (scope: '' @ scope @ ''). The broker has no sessions at all.''
      else let self = firstIndex (\<lambda>p. p_ID p = myID) ps
           in if length ps = 1 \<and> self = Some 0
              then ''Only this session is registered (scope: '' @ scope @ '', no other peers).'' @ nl @ nl @ writePeerRow (ps ! 0) True
              else ''Found '' @ itoa (int (length ps)) @ '' peer(s) (scope: '' @ scope @ ''):'' @ nl @ nl @
                   (case self of None \<Rightarrow> [] | Some i \<Rightarrow> writePeerRow (ps ! i) True) @
                   otherRows self ps @
                   (if self = None then ''WARNING: this session ['' @ myID @ ''] is not in the peer registry. '' @
                      ''Registration may have failed; messages addressed to this session '' @
                      ''will not deliver. Try restarting the claude-peers MCP server.'' @ nl else []))"

section \<open>Handlers of the tools\<close>

definition emit :: "mcpOutput \<Rightarrow> 'w mcp \<Rightarrow> 'w mcp" where
  "emit o' v = v\<lparr>v_out := v_out v @ [o']\<rparr>"

definition withHost :: "'w host \<Rightarrow> 'w mcp \<Rightarrow> 'w mcp" where
  "withHost h v = v\<lparr>v_host := h\<rparr>"

definition toolListPeers :: "'w clientEnv \<Rightarrow> selfInfo \<Rightarrow> rpcID option \<Rightarrow> toolCall \<Rightarrow> 'w mcp \<Rightarrow> 'w mcp" where
  "toolListPeers E I rid call v =
     (let scope = j_Arg call ''scope'';
          req = \<lparr>lq_Scope = scope, lq_Machine = (if scope = ''machine'' then g_MachineName (h_cfg E) else []),
                 lq_CWD = b_cwd I, lq_GitRoot = b_root I, lq_ExcludeID = []\<rparr>;
          ((e, ps), h1) = fetchPeers E req (v_host v)
      in emit (case e of
            Some err \<Rightarrow> ToolError rid (''Error listing peers: '' @ err)
          | None \<Rightarrow> ToolResult rid (listReport scope (sessionGet (v_session v)) ps)) (withHost h1 v))"

definition toolSendReport :: "string \<Rightarrow> SendMessageResponse \<Rightarrow> string" where
  "toolSendReport to resp = (case mr_DeliveryStatus resp of
      DeliveryStatusBound \<Rightarrow> ''Message sent to '' @ to @ '' (recipient is online, message is bound for delivery).''
    | DeliveryStatusQueuedOffline \<Rightarrow> ''Agent '' @ goQuote to @
        '' is offline. Message queued -- will deliver when that agent reconnects.''
    | DeliveryStatusQueuedUnknown \<Rightarrow> ''WARNING: no session has ever claimed agent name '' @ goQuote to @
        '' on this broker. Message is queued but may sit indefinitely if the name is wrong. Run list_peers to verify the recipient's agent name.''
    | DeliveryStatusNone \<Rightarrow>
        if mr_Queued resp then ''Message queued for agent '' @ goQuote to @
          '' (no live session holds it right now -- will deliver on reconnect).''
        else ''Message sent to '' @ to)"

definition toolSend :: "'w clientEnv \<Rightarrow> rpcID option \<Rightarrow> toolCall \<Rightarrow> 'w mcp \<Rightarrow> 'w mcp" where
  "toolSend E rid call v =
     (let to = j_Arg call ''to''
      in if to = [] then emit (ToolError rid ''to is required (agent name or session id)'') v
         else let ((_, ps), h1) = fetchPeers E listAll (v_host v);
                  ((e, resp), h2) = fetchSend E (addressed (sessionGet (v_session v)) to (j_Arg call ''message'') ps) h1
              in emit (case e of
                    Some err \<Rightarrow> ToolError rid (''Error sending message: '' @ err)
                  | None \<Rightarrow> if \<not> mr_OK resp then ToolError rid (''Failed to send: '' @ mr_Error resp)
                      else ToolResult rid (toolSendReport to resp)) (withHost h2 v))"

definition toolSetSummary :: "'w clientEnv \<Rightarrow> rpcID option \<Rightarrow> toolCall \<Rightarrow> 'w mcp \<Rightarrow> 'w mcp" where
  "toolSetSummary E rid call v =
     (let summary = j_Arg call ''summary'';
          (e, h1) = fetchNil E ''/set-summary''
            (encSetSummary (h_json E) \<lparr>sq_ID = sessionGet (v_session v), sq_Summary = summary\<rparr>) (v_host v)
      in emit (case e of
            Some err \<Rightarrow> ToolError rid (''Error setting summary: '' @ err)
          | None \<Rightarrow> ToolResult rid (''Summary updated: '' @ goQuote summary)) (withHost h1 v))"

definition fetchClaim :: "'w clientEnv \<Rightarrow> ClaimAgentRequest \<Rightarrow> 'w host \<Rightarrow> (string option \<times> ClaimAgentResponse) \<times> 'w host" where
  "fetchClaim E req h = brokerFetch E ''/claim-agent'' (Some (encClaim (h_json E) req)) (Some (unClaim (h_json E))) noClaim h"

definition claimReport :: "rpcID option \<Rightarrow> string \<Rightarrow> string option \<Rightarrow> ClaimAgentResponse \<Rightarrow> mcpOutput" where
  "claimReport rid name e resp = (case e of
      Some err \<Rightarrow> ToolError rid (''Error claiming agent name: '' @ err)
    | None \<Rightarrow>
        if \<not> cr_OK resp then
          (if cr_HeldBySession resp \<noteq> []
           then ToolError rid (''Cannot claim '' @ goQuote name @ '': '' @ cr_Error resp @ nl @ ''  held by session '' @
                  cr_HeldBySession resp @ '' on '' @ cr_HeldByMachine resp @ '' (cwd: '' @ cr_HeldByCWD resp @ '')'' @ nl @
                  ''  started: '' @ cr_HeldBySince resp)
           else ToolError rid (''Cannot claim '' @ goQuote name @ '': '' @ cr_Error resp))
        else ToolResult rid (''Claimed agent name: '' @ name @ ''. Other sessions can now address this session as '' @
               goQuote name @ '' across restarts (as long as this session holds the name).''))"

definition toolClaim :: "'w clientEnv \<Rightarrow> rpcID option \<Rightarrow> toolCall \<Rightarrow> 'w mcp \<Rightarrow> 'w mcp" where
  "toolClaim E rid call v =
     (let name = j_Arg call ''name''
      in if name = [] then emit (ToolError rid ''name is required'') v
         else let ((e, resp), h1) = fetchClaim E \<lparr>cq_SessionID = sessionGet (v_session v), cq_AgentName = name\<rparr> (v_host v);
                  h2 = (if e = None \<and> cr_OK resp
                        then h1\<lparr>disk := updateSessionStateAgentName E (v_statePath v) name (disk h1)\<rparr> else h1)
              in emit (claimReport rid name e resp) (withHost h2 v))"

definition messageEntry :: "Peer list \<Rightarrow> Message \<Rightarrow> string" where
  "messageEntry ps m =
     (let sender = (if m_FromAgent m = [] then m_FromSession m else m_FromAgent m);
          (fromMachine, fromSummary) = (case find (\<lambda>p. p_ID p = m_FromSession m) ps of
             None \<Rightarrow> ([], []) | Some p \<Rightarrow> (p_Machine p, p_Summary p))
      in ''From '' @ sender @ '' on '' @ fromMachine @ (if fromSummary \<noteq> [] then '' ('' @ fromSummary @ '')'' else []) @
         '' at '' @ m_SentAt m @ '':'' @ nl @ m_Text m @ nl @ nl @ ''---'' @ nl @ nl)"

definition messagesReport :: "Peer list \<Rightarrow> Message list \<Rightarrow> string" where
  "messagesReport ps msgs =
     itoa (int (length msgs)) @ '' new message(s):'' @ nl @ nl @ concat (map (messageEntry ps) msgs)"

definition ackOne :: "'w clientEnv \<Rightarrow> string \<Rightarrow> Message \<Rightarrow> 'w host \<Rightarrow> 'w host" where
  "ackOne E myID m h = snd (fetchNil E ''/ack-message'' (encAck (h_json E) \<lparr>aq_SessionID = myID, aq_MessageID = m_ID m\<rparr>) h)"

definition fetchPoll :: "'w clientEnv \<Rightarrow> string \<Rightarrow> string \<Rightarrow> 'w host \<Rightarrow> (string option \<times> PollMessagesResponse) \<times> 'w host" where
  "fetchPoll E path myID h = brokerFetch E path (Some (encPoll (h_json E) \<lparr>pq_ID = myID\<rparr>)) (Some (unPoll (h_json E)))
     \<lparr>pr_Messages = []\<rparr> h"

definition toolCheckMessages :: "'w clientEnv \<Rightarrow> rpcID option \<Rightarrow> 'w mcp \<Rightarrow> 'w mcp" where
  "toolCheckMessages E rid v =
     (let myID = sessionGet (v_session v); ((e, resp), h1) = fetchPoll E ''/poll-messages'' myID (v_host v);
          msgs = pr_Messages resp
      in case e of
           Some err \<Rightarrow> emit (ToolError rid (''Error checking messages: '' @ err)) (withHost h1 v)
         | None \<Rightarrow>
             if msgs = [] then emit (ToolResult rid ''No new messages.'') (withHost h1 v)
             else let ((_, ps), h2) = fetchPeers E listAll h1
                  in emit (ToolResult rid (messagesReport ps msgs)) (withHost (fold (ackOne E myID) msgs h2) v))"

definition handleToolCall :: "'w clientEnv \<Rightarrow> selfInfo \<Rightarrow> rpcID option \<Rightarrow> toolCall \<Rightarrow> 'w mcp \<Rightarrow> 'w mcp" where
  "handleToolCall E I rid call v =
     (if j_Name call = ''list_peers'' then toolListPeers E I rid call v
      else if j_Name call = ''send_message'' then toolSend E rid call v
      else if j_Name call = ''set_summary'' then toolSetSummary E rid call v
      else if j_Name call = ''claim_agent_name'' then toolClaim E rid call v
      else if j_Name call = ''check_messages'' then toolCheckMessages E rid v
      else emit (RespondError rid (-32601) (''Unknown tool: '' @ j_Name call)) v)"

section \<open>The push loop\<close>

definition noPeer :: Peer where
  "noPeer = \<lparr>p_ID = [], p_AgentName = [], p_PID = 0, p_Machine = [], p_CWD = [], p_GitRoot = [], p_TTY = [],
     p_Project = [], p_Branch = [], p_Summary = [], p_RegisteredAt = [], p_LastSeen = []\<rparr>"

text \<open>\<open>peerByID\<close>: the map is filled in order, so the last peer with an id is the one found.\<close>

definition peerByID :: "Peer list \<Rightarrow> string \<Rightarrow> Peer" where
  "peerByID ps i = (case find (\<lambda>p. p_ID p = i) (rev ps) of None \<Rightarrow> noPeer | Some p \<Rightarrow> p)"

definition pushNote :: "Peer list \<Rightarrow> Message \<Rightarrow> mcpOutput" where
  "pushNote ps m =
     (let p = peerByID ps (m_FromSession m)
      in ChannelNote (m_Text m) [(''message_id'', itoa (m_ID m)), (''from_agent'', m_FromAgent m),
           (''from_session'', m_FromSession m), (''from_machine'', p_Machine p), (''from_summary'', p_Summary p),
           (''from_cwd'', p_CWD p), (''sent_at'', m_SentAt m)])"

definition pushOne :: "Peer list \<Rightarrow> Message \<Rightarrow> 'w mcp \<Rightarrow> 'w mcp" where
  "pushOne ps m v = (if m_ID m \<in> v_pushed v then v
     else emit (pushNote ps m) (v\<lparr>v_pushed := insert (m_ID m) (v_pushed v)\<rparr>))"

definition pollAndPush :: "'w clientEnv \<Rightarrow> 'w mcp \<Rightarrow> 'w mcp" where
  "pollAndPush E v =
     (let ((e, resp), h1) = fetchPoll E ''/peek-messages'' (sessionGet (v_session v)) (v_host v)
      in if e \<noteq> None \<or> pr_Messages resp = [] then withHost h1 v
         else let ((_, ps), h2) = fetchPeers E listAll h1
              in fold (pushOne ps) (pr_Messages resp) (withHost h2 v))"

section \<open>The protocol frame\<close>

definition contextLine :: "Peer \<Rightarrow> string" where
  "contextLine p = nl @ ''- '' @ (if p_AgentName p = [] then ''session '' @ p_ID p @ '' (ephemeral)'' else p_AgentName p) @
     '' on '' @ p_Machine p @ (if p_Summary p \<noteq> [] then '' -- '' @ p_Summary p else [])"

definition buildFleetContext :: "'w clientEnv \<Rightarrow> 'w host \<Rightarrow> string \<times> 'w host" where
  "buildFleetContext E h =
     (let ((e, ps), h1) = fetchPeers E listAll h;
          ((e2, es), h2) = cliFetch E ''/events?limit=5'' None (Some (unEvents (h_json E))) [] h1;
          (res, h3) = send_request E (apiRequest E ''/fleet-memory'' None (authToken h2)) h2
      in ((if e = None \<and> ps \<noteq> [] then nl @ nl @ ''--- FLEET CONTEXT (injected at session start) ---'' @ nl @
             itoa (int (length ps)) @ '' active Claude session(s) on the network:'' @ concat (map contextLine ps) else []) @
          (if e2 = None \<and> es \<noteq> [] then nl @ nl @ ''Recent fleet events:'' @
             concat (map (\<lambda>e. nl @ ''- ['' @ e_Type e @ ''] '' @ e_PeerID e @ '' '' @ e_Data e) es) else []) @
          (case res of
             Inl _ \<Rightarrow> []
           | Inr (st, dat) \<Rightarrow>
               (let mem = (if length dat > 500 then take 500 dat @ ''...'' else dat)
                in if st = 200 \<and> length mem > 10 then nl @ nl @ ''Fleet memory:'' @ nl @ mem else [])), h3))"

definition handleInitialize :: "'w clientEnv \<Rightarrow> rpcID option \<Rightarrow> 'w mcp \<Rightarrow> 'w mcp" where
  "handleInitialize E rid v =
     (let (ctx, h1) = buildFleetContext E (v_host v) in emit (Initialized rid (mcpInstructions @ ctx)) (withHost h1 v))"

definition handleToolsList :: "rpcID option \<Rightarrow> 'w mcp \<Rightarrow> 'w mcp" where
  "handleToolsList rid v = emit (ToolsListed rid) v"

text \<open>
  The dispatch of \<open>runServer\<close>; a request without id is a notification.  \<open>dc\<close> decodes the parameters of a
  tool call; what it cannot decode is left empty.
\<close>

definition handleRequest :: "'w clientEnv \<Rightarrow> selfInfo \<Rightarrow> (string \<Rightarrow> toolCall) \<Rightarrow> jsonrpcRequest \<Rightarrow> 'w mcp \<Rightarrow> 'w mcp" where
  "handleRequest E I dc req v =
     (if jr_Method req = ''initialize'' then handleInitialize E (jr_ID req) v
      else if jr_Method req = ''notifications/initialized'' then v
      else if jr_Method req = ''tools/list'' then handleToolsList (jr_ID req) v
      else if jr_Method req = ''tools/call'' then handleToolCall E I (jr_ID req) (dc (jr_Params req)) v
      else if jr_ID req \<noteq> None then emit (RespondError (jr_ID req) (-32601) (''Method not found: '' @ jr_Method req)) v
      else v)"

section \<open>What a tool writes\<close>

text \<open>The answer of a tool is one result or one tool error; otherwise only the host may change.\<close>

definition toolAnswers :: "rpcID option \<Rightarrow> 'w mcp \<Rightarrow> 'w mcp \<Rightarrow> bool" where
  "toolAnswers rid v v' \<longleftrightarrow> (\<exists>out h t. v' = emit out (withHost h v) \<and> (out = ToolResult rid t \<or> out = ToolError rid t))"

lemma toolAnswers_emit:
  assumes "\<exists>t. out = ToolResult rid t \<or> out = ToolError rid t"
  shows "toolAnswers rid v (emit out (withHost h v))" "toolAnswers rid v (emit out v)"
proof -
  show *: "toolAnswers rid v (emit out (withHost h v))" for h using assms unfolding toolAnswers_def by blast
  show "toolAnswers rid v (emit out v)" using *[of "v_host v"] by (simp add: withHost_def)
qed

lemma claimReport_out: "\<exists>t. claimReport rid name e resp = ToolResult rid t \<or> claimReport rid name e resp = ToolError rid t"
  by (simp add: claimReport_def split: option.split)

lemma tool_outputs:
  "toolAnswers rid v (toolListPeers E I rid call v)" "toolAnswers rid v (toolSend E rid call v)"
  "toolAnswers rid v (toolSetSummary E rid call v)" "toolAnswers rid v (toolClaim E rid call v)"
  "toolAnswers rid v (toolCheckMessages E rid v)"
  unfolding toolListPeers_def toolSend_def toolSetSummary_def toolClaim_def toolCheckMessages_def
  by (auto simp: Let_def toolAnswers_emit claimReport_out split: prod.split option.split)

lemma handleToolCall_outputs:
  "toolAnswers rid v (handleToolCall E I rid call v) \<or>
   handleToolCall E I rid call v = emit (RespondError rid (-32601) (''Unknown tool: '' @ j_Name call)) v"
  by (simp add: handleToolCall_def tool_outputs)

end
