(* ===== verification/RateLimiter.thy ===== *)
theory RateLimiter
  imports GoTime
begin

text \<open>
  \<^verbatim>\<open>src/rate_limiter.go\<close>: the sliding-window limiter of the broker.  The map from IP to the
  slice of admitted instants is \<open>windows\<close>; a missing key reads as the empty slice, and the
  key is present after \<open>allow\<close>.  The clock reading of a call is its argument \<open>now\<close>.  The code reads the
  clock before it takes the mutex, so two calls that meet can take it in the other order; a run in which
  they do is a sequence of calls like any other, but not one in clock order.
\<close>

record rateLimiter =
  windows :: "string \<rightharpoonup> time list"
  limit :: int
  window :: duration

definition newRateLimiter :: "int \<Rightarrow> duration \<Rightarrow> rateLimiter" where
  "newRateLimiter lim win = \<lparr>windows = Map.empty, limit = lim, window = win\<rparr>"

definition slot :: "rateLimiter \<Rightarrow> string \<Rightarrow> time list" where
  "slot rl ip = (case windows rl ip of None \<Rightarrow> [] | Some ts \<Rightarrow> ts)"

definition allow :: "time \<Rightarrow> string \<Rightarrow> rateLimiter \<Rightarrow> bool \<times> rateLimiter" where
  "allow now ip rl =
     (let cutoff = now - window rl;
          valid = filter (\<lambda>t. cutoff < t) (slot rl ip)
      in if int (length valid) \<ge> limit rl
         then (False, rl\<lparr>windows := (windows rl)(ip \<mapsto> valid)\<rparr>)
         else (True, rl\<lparr>windows := (windows rl)(ip \<mapsto> valid @ [now])\<rparr>))"

text \<open>One pass of the \<open>cleanup\<close> goroutine: every key is pruned, an emptied key is deleted.\<close>

definition cleanup :: "time \<Rightarrow> rateLimiter \<Rightarrow> rateLimiter" where
  "cleanup now rl =
     (let cutoff = now - window rl
      in rl\<lparr>windows := (\<lambda>ip. case windows rl ip of
           None \<Rightarrow> None
         | Some ts \<Rightarrow> (let valid = filter (\<lambda>t. cutoff < t) ts
                       in if valid = [] then None else Some valid))\<rparr>)"

section \<open>Behaviour of one call\<close>

lemma allow_frame [simp]:
  "limit (snd (allow now ip rl)) = limit rl" "window (snd (allow now ip rl)) = window rl"
  by (auto simp: allow_def Let_def)

lemma cleanup_frame [simp]: "limit (cleanup now rl) = limit rl" "window (cleanup now rl) = window rl"
  by (auto simp: cleanup_def Let_def)

lemma slot_allow:
  "slot (snd (allow now ip rl)) ip' =
     (if ip' = ip then filter (\<lambda>t. now - window rl < t) (slot rl ip) @ (if fst (allow now ip rl) then [now] else [])
      else slot rl ip')"
  by (auto simp: allow_def Let_def slot_def)

lemma fst_allow:
  "fst (allow now ip rl) \<longleftrightarrow>
     int (length (filter (\<lambda>t. now - window rl < t) (slot rl ip))) < limit rl"
  by (auto simp: allow_def Let_def)

lemma slot_cleanup: "slot (cleanup now rl) ip = filter (\<lambda>t. now - window rl < t) (slot rl ip)"
  by (auto simp: cleanup_def Let_def slot_def split: option.splits)

section \<open>Runs\<close>

text \<open>
  A run is a list of events in clock order: a call of \<open>allow\<close> for an IP, or a pass of the
  cleanup goroutine.  \<open>admitted\<close> collects the instants at which calls for one IP were let
  through.
\<close>

datatype rlEvent = Call time string | Sweep time

fun evTime :: "rlEvent \<Rightarrow> time" where
  "evTime (Call t _) = t"
| "evTime (Sweep t) = t"

fun rlStep :: "rateLimiter \<Rightarrow> rlEvent \<Rightarrow> rateLimiter" where
  "rlStep rl (Call t ip) = snd (allow t ip rl)"
| "rlStep rl (Sweep t) = cleanup t rl"

fun rlRun :: "rateLimiter \<Rightarrow> rlEvent list \<Rightarrow> rateLimiter" where
  "rlRun rl [] = rl"
| "rlRun rl (e # es) = rlRun (rlStep rl e) es"

fun admitted :: "rateLimiter \<Rightarrow> string \<Rightarrow> rlEvent list \<Rightarrow> time list" where
  "admitted rl ip [] = []"
| "admitted rl ip (Call t ip' # es) =
     (if ip' = ip \<and> fst (allow t ip' rl) then [t] else []) @ admitted (snd (allow t ip' rl)) ip es"
| "admitted rl ip (Sweep t # es) = admitted (cleanup t rl) ip es"

definition clockOrder :: "rlEvent list \<Rightarrow> bool" where
  "clockOrder es \<longleftrightarrow> sorted (map evTime es)"

lemma rlRun_frame [simp]: "limit (rlRun rl es) = limit rl" "window (rlRun rl es) = window rl"
proof (induction es arbitrary: rl)
  case (Cons e es)
  { case 1 show ?case using Cons[of "rlStep rl e"] by (cases e) auto }
  { case 2 show ?case using Cons[of "rlStep rl e"] by (cases e) auto }
qed auto

lemma rlRun_append: "rlRun rl (es @ es') = rlRun (rlRun rl es) es'"
  by (induction es arbitrary: rl) auto

lemma admitted_append: "admitted rl ip (es @ es') = admitted rl ip es @ admitted (rlRun rl es) ip es'"
  by (induction rl ip es rule: admitted.induct) auto

section \<open>The limiter against its history\<close>

text \<open>
  \<open>tracks\<close> is what the state keeps of the history: the stored slice and the full list of
  admitted instants agree above every cutoff the limiter can still use.
\<close>

definition tracks :: "duration \<Rightarrow> time \<Rightarrow> time list \<Rightarrow> time list \<Rightarrow> bool" where
  "tracks w now hist ts \<longleftrightarrow>
     (\<forall>c \<ge> now - w. filter (\<lambda>t. c < t) ts = filter (\<lambda>t. c < t) hist) \<and> (\<forall>t \<in> set hist. t \<le> now)"

lemma tracks_later: "tracks w now hist ts \<Longrightarrow> now \<le> now' \<Longrightarrow> tracks w now' hist ts"
  unfolding tracks_def by force

lemma tracks_cutoff:
  "tracks w now hist ts \<Longrightarrow> filter (\<lambda>t. now - w < t) ts = filter (\<lambda>t. now - w < t) hist"
  by (simp add: tracks_def)

lemma tracks_prune: "tracks w now hist ts \<Longrightarrow> tracks w now hist (filter (\<lambda>t. now - w < t) ts)"
  unfolding tracks_def by (auto simp: conj_commute intro!: filter_cong elim!: allE[of _ "_ :: int"])

lemma tracks_admit: "tracks w now hist ts \<Longrightarrow> tracks w now (hist @ [now]) (ts @ [now])"
  by (simp add: tracks_def)

lemma rlRun_tracks:
  assumes "clockOrder es" and "\<forall>e \<in> set es. evTime e \<le> T"
  shows "tracks win T (admitted (newRateLimiter lim win) ip es)
    (slot (rlRun (newRateLimiter lim win) es) ip)"
  using assms
proof (induction es arbitrary: T rule: rev_induct)
  case Nil
  then show ?case by (simp add: tracks_def newRateLimiter_def slot_def)
next
  case (snoc e es)
  let ?rl = "rlRun (newRateLimiter lim win) es" and ?h = "admitted (newRateLimiter lim win) ip es"
  have win: "window ?rl = win" by (simp add: newRateLimiter_def)
  have IH: "tracks win (evTime e) ?h (slot ?rl ip)"
    using snoc.prems by (intro snoc.IH) (auto simp: clockOrder_def sorted_append)
  note pr = tracks_prune[OF IH]
  have "tracks win (evTime e) (admitted (newRateLimiter lim win) ip (es @ [e]))
      (slot (rlRun (newRateLimiter lim win) (es @ [e])) ip)"
  proof (cases e)
    case (Call t ip')
    with IH pr tracks_admit[OF pr] win show ?thesis
      by (auto simp: admitted_append rlRun_append slot_allow)
  next
    case (Sweep t)
    with pr win show ?thesis by (simp add: admitted_append rlRun_append slot_cleanup)
  qed
  then show ?case by (rule tracks_later) (use snoc.prems in auto)
qed

lemma clockOrder_snoc:
  "clockOrder (es @ [e]) \<longleftrightarrow> clockOrder es \<and> (\<forall>e' \<in> set es. evTime e' \<le> evTime e)"
  by (auto simp: clockOrder_def sorted_append)

lemma allow_counts_history:
  assumes "clockOrder (es @ [Call t ip])"
  shows "fst (allow t ip (rlRun (newRateLimiter lim win) es)) \<longleftrightarrow>
    int (length (filter (\<lambda>u. t - win < u) (admitted (newRateLimiter lim win) ip es))) < lim"
proof -
  have "tracks win t (admitted (newRateLimiter lim win) ip es)
      (slot (rlRun (newRateLimiter lim win) es) ip)"
    using assms by (intro rlRun_tracks) (auto simp: clockOrder_snoc)
  from tracks_cutoff[OF this] show ?thesis by (simp add: fst_allow) (simp add: newRateLimiter_def)
qed

definition inWindow :: "time \<Rightarrow> duration \<Rightarrow> time list \<Rightarrow> time list" where
  "inWindow x win ts = filter (\<lambda>u. x - win < u \<and> u \<le> x) ts"

lemma length_filter_imp: "(\<And>x. P x \<Longrightarrow> Q x) \<Longrightarrow> length (filter P xs) \<le> length (filter Q xs)"
  by (induction xs) auto

lemma admitted_in_window:
  assumes "clockOrder es" and "0 \<le> lim"
  shows "int (length (inWindow x win (admitted (newRateLimiter lim win) ip es))) \<le> lim"
  using assms(1)
proof (induction es rule: rev_induct)
  case Nil
  then show ?case using assms(2) by (simp add: inWindow_def)
next
  case (snoc e es)
  let ?h = "admitted (newRateLimiter lim win) ip es"
  have IH: "int (length (inWindow x win ?h)) \<le> lim"
    using snoc by (simp add: clockOrder_snoc)
  show ?case
  proof (cases "\<exists>t. e = Call t ip \<and> fst (allow t ip (rlRun (newRateLimiter lim win) es))")
    case True
    then obtain t where e: "e = Call t ip" and a: "fst (allow t ip (rlRun (newRateLimiter lim win) es))"
      by blast
    have h: "int (length (filter (\<lambda>u. t - win < u) ?h)) < lim"
      using allow_counts_history[of es t ip] snoc.prems a e by simp
    show ?thesis
    proof (cases "t \<le> x")
      case True
      then have "length (inWindow x win ?h) \<le> length (filter (\<lambda>u. t - win < u) ?h)"
        unfolding inWindow_def by (intro length_filter_imp) linarith
      with h show ?thesis using a e by (simp add: admitted_append inWindow_def)
    next
      case False
      with IH show ?thesis using a e by (simp add: admitted_append inWindow_def)
    qed
  next
    case False
    with IH show ?thesis by (cases e) (auto simp: admitted_append)
  qed
qed

section \<open>Properties\<close>

text \<open>
  C37: The limiter never lets more than \<open>limit\<close> requests of one IP through in any interval of
  one window length, for every run of calls and cleanup passes in clock order: each call is one step, and
  the steps are in the order of their clock readings.
\<close>

theorem rate_limit_sliding_window:
  assumes "clockOrder es" and "0 \<le> lim"
  shows "int (length (inWindow x win (admitted (newRateLimiter lim win) ip es))) \<le> lim"
  using assms by (rule admitted_in_window)

text \<open>
  The decision of \<open>allow\<close> is the one of the history: a call is let through exactly when
  fewer than \<open>limit\<close> earlier calls of the same IP were let through inside the window.  Cleanup
  passes and calls of other IPs do not matter.
\<close>

theorem allow_refines_history:
  assumes "clockOrder (es @ [Call t ip])"
  shows "fst (allow t ip (rlRun (newRateLimiter lim win) es)) \<longleftrightarrow>
    int (length (filter (\<lambda>u. t - win < u) (admitted (newRateLimiter lim win) ip es))) < lim"
  using assms by (rule allow_counts_history)

definition exampleRun :: "rlEvent list" where
  "exampleRun = [Call 1 ''a'', Call 2 ''a'', Call 3 ''b'', Sweep 4, Call 5 ''a'']"

theorem rate_limit_sliding_window_witness:
  "clockOrder exampleRun \<and> int (length (inWindow 5 10 (admitted (newRateLimiter 2 10) ''a'' exampleRun))) \<le> 2"
proof -
  have "clockOrder exampleRun" by (simp add: clockOrder_def exampleRun_def)
  then show ?thesis using rate_limit_sliding_window[of exampleRun 2 5 10 "''a''"] by simp
qed

theorem allow_refines_history_witness:
  "\<not> fst (allow 5 ''a'' (rlRun (newRateLimiter 2 10) [Call 1 ''a'', Call 2 ''a'', Call 3 ''b'', Sweep 4]))"
proof -
  have co: "clockOrder ([Call 1 ''a'', Call 2 ''a'', Call 3 ''b'', Sweep 4] @ [Call 5 ''a''])"
    by (simp add: clockOrder_def)
  have a: "admitted (newRateLimiter 2 10) ''a'' [Call 1 ''a'', Call 2 ''a'', Call 3 ''b'', Sweep 4] = [1, 2]"
    by (simp add: newRateLimiter_def allow_def cleanup_def slot_def Let_def)
  show ?thesis
    using allow_refines_history[OF co, of 2 10, unfolded a] by (simp del: rlRun.simps)
qed

end
