(* ===== verification/Http.thy ===== *)
theory Http
  imports Delivery TokenStore RateLimiter TTL Paths
begin

text \<open>
  The broker's HTTP surface: \<open>ucanMiddleware\<close>, \<open>requireCapability\<close> and \<open>writeAuthError\<close>
  (\<^verbatim>\<open>src/auth_middleware.go\<close>) and the routes of \<open>runBroker\<close> (\<^verbatim>\<open>src/broker_core.go\<close>), composed as the
  server composes them: the middleware around the multiplexer around the handlers.

  A request has the parts the handlers read.  A response body is a value of \<open>body\<close> that says what is
  encoded; the text \<open>encoding/json\<close> makes of it is not modelled.  The JSON decoders of the request
  bodies, the library functions and what the handlers read from disk are the fields of \<open>httpEnv\<close>.
  Log lines are left out.
\<close>

record request =
  q_Method :: string
  q_Path :: string
  q_Authorization :: string
  q_RemoteAddr :: string
  q_Body :: string
  q_Limit :: string

datatype body =
    AuthErrorBody string string
  | RateLimitedBody
  | ErrorText string
  | HealthBody HealthResponse
  | ChallengeBody ChallengeResponse
  | TokenBody string
  | RegisterBody RegisterResponse
  | HeartbeatBody HeartbeatResponse
  | OkBody
  | ClaimBody ClaimAgentResponse
  | PeersBody "Peer list"
  | SendBody SendMessageResponse
  | PollBody PollMessagesResponse
  | EventsBody "Event list"
  | MarkdownBody string
  | RedirectBody string
  | EmptyBody

record response =
  status :: int
  payload :: body

record httpEnv =
  jwt :: jwtLib
  ed25519Sign :: "bytes \<Rightarrow> bytes \<Rightarrow> bytes"
  floatMul :: fracMul
  cfgDefaultChildTTL :: string
  cfgMachineName :: string
  keyPairFile :: "string + KeyPair"
  rootTokenFile :: "string + string"
  decChallenge :: "string \<Rightarrow> string + ChallengeRequest"
  decRegister :: "string \<Rightarrow> string + RegisterRequest"
  decHeartbeat :: "string \<Rightarrow> string + HeartbeatRequest"
  decSetSummary :: "string \<Rightarrow> string + SetSummaryRequest"
  decAck :: "string \<Rightarrow> string + AckMessageRequest"
  decClaim :: "string \<Rightarrow> string + ClaimAgentRequest"
  decListPeers :: "string \<Rightarrow> string + ListPeersRequest"
  decSend :: "string \<Rightarrow> string + SendMessageRequest"
  decPoll :: "string \<Rightarrow> string + PollMessagesRequest"
  decUnregister :: "string \<Rightarrow> string + UnregisterRequest"

record server =
  broker :: Broker
  validator :: "TokenValidator option"
  sendRL :: rateLimiter
  registerRL :: rateLimiter

section \<open>Helpers\<close>

definition lastIndexByte :: "string \<Rightarrow> char \<Rightarrow> nat option" where
  "lastIndexByte s c = map_option (\<lambda>n. length s - 1 - n) (indexByte (rev s) c)"

text \<open>The host of \<open>net.SplitHostPort\<close>; \<open>None\<close> for each of its errors.\<close>

definition splitHost :: "string \<Rightarrow> string option" where
  "splitHost hp = (case lastIndexByte hp (CHR '':'') of
      None \<Rightarrow> None
    | Some i \<Rightarrow>
        if hd hp = CHR ''['' then
          (case indexByte hp (CHR '']'') of
             None \<Rightarrow> None
           | Some e \<Rightarrow>
               if e + 1 = i \<and> CHR ''['' \<notin> set (drop 1 hp) \<and> CHR '']'' \<notin> set (drop (e + 1) hp)
               then Some (drop 1 (take e hp)) else None)
        else if CHR '':'' \<in> set (take i hp) \<or> CHR ''['' \<in> set hp \<or> CHR '']'' \<in> set hp then None
        else Some (take i hp))"

definition stripPort :: "string \<Rightarrow> string" where
  "stripPort addr = (case splitHost addr of None \<Rightarrow> addr | Some host \<Rightarrow> host)"

text \<open>
  \<open>fmt.Sscanf(v, "%d", &limit)\<close>: leading blanks, a sign, digits; what does not scan leaves the
  default.
\<close>

definition sscanfInt :: "string \<Rightarrow> int \<Rightarrow> int" where
  "sscanfInt v deflt =
     (let s = dropWhile (\<lambda>c. isSpace c \<and> c \<noteq> CHR 0x0A) v;
          neg = (s \<noteq> [] \<and> hd s = CHR ''-'');
          r = (if s \<noteq> [] \<and> (hd s = CHR ''-'' \<or> hd s = CHR ''+'') then tl s else s);
          ds = takeWhile isDigit r;
          n = (if neg then - int (digitsVal ds) else int (digitsVal ds))
      in if ds = [] \<or> n < - (2 ^ 63) \<or> n \<ge> 2 ^ 63 then deflt else n)"

definition respond :: "int \<Rightarrow> body \<Rightarrow> response" where
  "respond st b = \<lparr>status = st, payload = b\<rparr>"

definition writeJSON :: "body \<Rightarrow> response" where
  "writeJSON b = respond 200 b"

definition httpError :: "string \<Rightarrow> int \<Rightarrow> response" where
  "httpError msg st = respond st (ErrorText (msg @ [CHR 0x0A]))"

definition writeAuthError :: "int \<Rightarrow> string \<Rightarrow> string \<Rightarrow> response" where
  "writeAuthError st msg code = respond st (AuthErrorBody msg code)"

definition writeRateLimited :: response where
  "writeRateLimited = respond 429 RateLimitedBody"

definition later :: "nat \<Rightarrow> clock \<Rightarrow> clock" where
  "later k clk = (\<lambda>i. clk (k + i))"

section \<open>Handlers\<close>

type_synonym handler = "httpEnv \<Rightarrow> clock \<Rightarrow> bytes \<Rightarrow> UCANClaims option \<Rightarrow> request \<Rightarrow> server \<Rightarrow> response \<times> server"

definition decodeBody :: "(string \<Rightarrow> string + 'a) \<Rightarrow> request \<Rightarrow> server \<Rightarrow> ('a \<Rightarrow> response \<times> server) \<Rightarrow> response \<times> server" where
  "decodeBody dec req srv k = (case dec (q_Body req) of Inl e \<Rightarrow> (httpError e 400, srv) | Inr v \<Rightarrow> k v)"

definition requireCapability :: "string \<Rightarrow> handler \<Rightarrow> handler" where
  "requireCapability res h env clk rnd claims req srv =
     (case claims of
        None \<Rightarrow> (writeAuthError 403 (''insufficient capability: '' @ res) ''MISSING_CAPABILITY'', srv)
      | Some c \<Rightarrow>
          if \<not> HasCapability c res
          then (writeAuthError 403 (''insufficient capability: '' @ res) ''MISSING_CAPABILITY'', srv)
          else h env clk rnd claims req srv)"

definition handleHealth :: handler where
  "handleHealth env clk rnd claims req srv =
     (writeJSON (HealthBody \<lparr>he_Status = ''ok'', he_Peers = peerCount (broker srv), he_Machine = cfgMachineName env\<rparr>), srv)"

definition handleChallenge :: handler where
  "handleChallenge env clk rnd claims req srv = decodeBody (decChallenge env) req srv (\<lambda>cr.
     (case keyPairFile env of
        Inl _ \<Rightarrow> (httpError ''broker has no keypair'' 500, srv)
      | Inr kp \<Rightarrow>
          (writeJSON (ChallengeBody \<lparr>cs_Nonce = ch_Nonce cr,
             cs_Signature = b64Encode (ed25519Sign env (PrivateKey kp) (ch_Nonce cr)),
             cs_PublicKey = pubKeyToString (PublicKey kp)\<rparr>), srv)))"

definition withTokens :: "server \<Rightarrow> TokenValidator \<times> db \<Rightarrow> server" where
  "withTokens srv vd = srv\<lparr>validator := Some (fst vd), broker := (broker srv)\<lparr>bdb := snd vd\<rparr>\<rparr>"

text \<open>
  The checks and the minting of the refresh handler once the presented token has been accepted.
\<close>

definition mintRefresh :: "httpEnv \<Rightarrow> time \<Rightarrow> UCANClaims \<Rightarrow> response + string" where
  "mintRefresh env now claims =
     (case keyPairFile env of
        Inl _ \<Rightarrow> Inl (httpError ''broker has no keypair'' 500)
      | Inr kp \<Rightarrow>
          if c_Audience claims = [] then Inl (writeAuthError 400 ''token has no audience'' ''INVALID_TOKEN'')
          else (case pubKeyFromString (hd (c_Audience claims)) of
              Inl _ \<Rightarrow> Inl (writeAuthError 400 ''invalid audience key'' ''INVALID_TOKEN'')
            | Inr audiencePub \<Rightarrow>
                (case pubKeyFromString (c_Issuer claims) of
                   Inl _ \<Rightarrow> Inl (writeAuthError 400 ''invalid issuer key'' ''INVALID_TOKEN'')
                 | Inr issuerPub \<Rightarrow>
                     if issuerPub = audiencePub
                     then Inl (writeAuthError 403 ''root tokens cannot be refreshed via this endpoint'' ''ROOT_TOKEN'')
                     else (case rootTokenFile env of
                         Inl _ \<Rightarrow> Inl (httpError ''broker root token unavailable'' 500)
                       | Inr parentToken \<Rightarrow>
                           (case MintToken (jwt env) now (PrivateKey kp) audiencePub (c_Capabilities claims)
                                   (defaultChildTTL (floatMul env) (cfgDefaultChildTTL env)) parentToken of
                              Inl e \<Rightarrow> Inl (httpError (''mint token: '' @ e) 500)
                            | Inr newToken \<Rightarrow> Inr newToken)))))"

text \<open>A token is accepted when it is valid, or expired within a grace window of one hour.\<close>

definition validOrGrace :: "jwtLib \<Rightarrow> clock \<Rightarrow> string \<Rightarrow> TokenValidator \<times> db \<Rightarrow> (string + UCANClaims) \<times> TokenValidator \<times> db" where
  "validOrGrace L clk tok vd =
     (let r1 = Validate L Save (clk 0) tok vd
      in case fst r1 of Inr _ \<Rightarrow> r1 | Inl _ \<Rightarrow> ValidateWithGrace L Save (clk 1) tok hour (snd r1))"

definition handleRefresh :: handler where
  "handleRefresh env clk rnd ctx req srv =
     (if q_Authorization req = [] then (writeAuthError 401 ''missing authorization header'' ''NO_AUTH'', srv)
      else let tokenStr = trimPrefix (q_Authorization req) ''Bearer '' in
        if tokenStr = q_Authorization req then (writeAuthError 401 ''missing bearer token'' ''NO_AUTH'', srv)
        else case validator srv of
          None \<Rightarrow> (httpError ''broker has no validator'' 500, srv)
        | Some v \<Rightarrow>
            let r2 = validOrGrace (jwt env) clk tokenStr (v, bdb (broker srv));
                srv2 = withTokens srv (snd r2)
            in (case fst r2 of
                  Inl e \<Rightarrow> (writeAuthError 401 e ''TOKEN_EXPIRED'', srv2)
                | Inr claims \<Rightarrow>
                    (case mintRefresh env (clk 2) claims of
                       Inl resp \<Rightarrow> (resp, srv2)
                     | Inr newToken \<Rightarrow>
                         (writeJSON (TokenBody newToken),
                          withTokens srv2 (RegisterToken (jwt env) Save (clk 3) newToken (c_Capabilities claims) (snd r2))))))"

definition handleRegister :: handler where
  "handleRegister env clk rnd claims req srv =
     (let (ok, rl) = allow (clk 0) (stripPort (q_RemoteAddr req)) (registerRL srv);
          srv1 = srv\<lparr>registerRL := rl\<rparr>
      in if \<not> ok then (writeRateLimited, srv1)
         else decodeBody (decRegister env) req srv1 (\<lambda>rq.
           let (resp, b) = register (later 1 clk) rnd rq (broker srv1)
           in (respond (if rr_OK resp then 200 else 409) (RegisterBody resp), srv1\<lparr>broker := b\<rparr>)))"

definition handleHeartbeat :: handler where
  "handleHeartbeat env clk rnd claims req srv = decodeBody (decHeartbeat env) req srv (\<lambda>rq.
     let (resp, b) = heartbeat clk rq (broker srv) in (writeJSON (HeartbeatBody resp), srv\<lparr>broker := b\<rparr>))"

definition handleSetSummary :: handler where
  "handleSetSummary env clk rnd claims req srv = decodeBody (decSetSummary env) req srv (\<lambda>rq.
     (writeJSON OkBody, srv\<lparr>broker := setSummary clk rq (broker srv)\<rparr>))"

definition handleAck :: handler where
  "handleAck env clk rnd claims req srv = decodeBody (decAck env) req srv (\<lambda>rq.
     (writeJSON OkBody, srv\<lparr>broker := ackMessage clk rq (broker srv)\<rparr>))"

definition handleClaim :: handler where
  "handleClaim env clk rnd claims req srv = decodeBody (decClaim env) req srv (\<lambda>rq.
     let (resp, b) = claimAgent clk rq (broker srv);
         st = (if cr_OK resp then 200 else if cr_HeldBySession resp \<noteq> [] then 409 else 400)
     in (respond st (ClaimBody resp), srv\<lparr>broker := b\<rparr>))"

definition handleListPeers :: handler where
  "handleListPeers env clk rnd claims req srv = decodeBody (decListPeers env) req srv (\<lambda>rq.
     (writeJSON (PeersBody (listPeers rq (broker srv))), srv))"

definition handleSend :: handler where
  "handleSend env clk rnd claims req srv =
     (let (ok, rl) = allow (clk 0) (stripPort (q_RemoteAddr req)) (sendRL srv);
          srv1 = srv\<lparr>sendRL := rl\<rparr>
      in if \<not> ok then (writeRateLimited, srv1)
         else decodeBody (decSend env) req srv1 (\<lambda>rq.
           if (case claims of None \<Rightarrow> False | Some c \<Rightarrow> c_Audience c \<noteq> []) \<and> mq_FromID rq = []
           then (httpError ''from_id is required'' 400, srv1)
           else let (resp, b) = sendMessage (later 1 clk) rq (broker srv1)
                in (writeJSON (SendBody resp), srv1\<lparr>broker := b\<rparr>)))"

definition handlePoll :: handler where
  "handlePoll env clk rnd claims req srv = decodeBody (decPoll env) req srv (\<lambda>rq.
     let (resp, b) = pollMessages clk rq (broker srv) in (writeJSON (PollBody resp), srv\<lparr>broker := b\<rparr>))"

definition handlePeek :: handler where
  "handlePeek env clk rnd claims req srv = decodeBody (decPoll env) req srv (\<lambda>rq.
     (writeJSON (PollBody (peekMessages rq (broker srv))), srv))"

definition handleUnregister :: handler where
  "handleUnregister env clk rnd claims req srv = decodeBody (decUnregister env) req srv (\<lambda>rq.
     (writeJSON OkBody, srv\<lparr>broker := unregister clk rq (broker srv)\<rparr>))"

definition handleEvents :: handler where
  "handleEvents env clk rnd claims req srv =
     (let lim = (if q_Limit req \<noteq> [] then sscanfInt (q_Limit req) 50 else 50)
      in (writeJSON (EventsBody (recentEvents lim (broker srv))), srv))"

definition handleGetMemory :: handler where
  "handleGetMemory env clk rnd claims req srv = (respond 200 (MarkdownBody (getFleetMemory (broker srv))), srv)"

text \<open>\<open>io.ReadAll\<close> of a request body that has arrived does not fail.\<close>

definition handleSetMemory :: handler where
  "handleSetMemory env clk rnd claims req srv =
     (writeJSON OkBody, srv\<lparr>broker := setFleetMemory (q_Body req) (broker srv)\<rparr>)"

section \<open>Routes and middleware\<close>

text \<open>
  The patterns registered on the multiplexer: path, method, and the handler with its required
  capability (\<open>None\<close> for the three open routes).
\<close>

definition routes :: "(string \<times> string \<times> string option \<times> handler) list" where
  "routes =
     [(''/health'', ''GET'', None, handleHealth),
      (''/challenge'', ''POST'', None, handleChallenge),
      (''/refresh-token'', ''POST'', None, handleRefresh),
      (''/register'', ''POST'', Some ''peer/register'', handleRegister),
      (''/heartbeat'', ''POST'', Some ''peer/heartbeat'', handleHeartbeat),
      (''/set-summary'', ''POST'', Some ''peer/set-summary'', handleSetSummary),
      (''/ack-message'', ''POST'', Some ''msg/ack'', handleAck),
      (''/claim-agent'', ''POST'', Some ''peer/set-summary'', handleClaim),
      (''/list-peers'', ''POST'', Some ''peer/list'', handleListPeers),
      (''/send-message'', ''POST'', Some ''msg/send'', handleSend),
      (''/poll-messages'', ''POST'', Some ''msg/poll'', handlePoll),
      (''/peek-messages'', ''POST'', Some ''msg/poll'', handlePeek),
      (''/unregister'', ''POST'', Some ''peer/unregister'', handleUnregister),
      (''/events'', ''GET'', Some ''events/read'', handleEvents),
      (''/fleet-memory'', ''GET'', Some ''memory/read'', handleGetMemory),
      (''/fleet-memory'', ''POST'', Some ''memory/write'', handleSetMemory)]"

definition methodMatches :: "string \<Rightarrow> string \<Rightarrow> bool" where
  "methodMatches pat meth \<longleftrightarrow> pat = meth \<or> (pat = ''GET'' \<and> meth = ''HEAD'')"

definition matching :: "request \<Rightarrow> (string \<times> string \<times> string option \<times> handler) list" where
  "matching req = filter (\<lambda>(path, meth, _). path = q_Path req \<and> methodMatches meth (q_Method req)) routes"

definition dispatch :: handler where
  "dispatch env clk rnd claims req srv = (case matching req of
      (_, _, cap, h) # _ \<Rightarrow>
        (case cap of None \<Rightarrow> h env clk rnd claims req srv
         | Some res \<Rightarrow> requireCapability res h env clk rnd claims req srv)
    | [] \<Rightarrow> (if q_Path req \<in> set (map fst routes) then httpError ''Method Not Allowed'' 405
             else httpError ''404 page not found'' 404, srv))"

text \<open>
  \<open>ServeMux\<close> refuses the request target \<open>*\<close> and, unless the method is CONNECT, redirects a path that is not clean
  to the clean one before it looks at the routes; the redirect is told by its location.  The path is
  the one without percent-escapes.
\<close>

definition cleanPath :: "string \<Rightarrow> string" where
  "cleanPath p = (if p = [] then ''/''
     else let q = (if rooted p then p else ''/'' @ p); np = Clean q
          in if last q = CHR ''/'' \<and> np \<noteq> ''/'' then np @ ''/'' else np)"

definition mux :: handler where
  "mux env clk rnd claims req srv =
     (if q_Path req = ''*'' then (respond 400 EmptyBody, srv)
      else if q_Method req \<noteq> ''CONNECT'' \<and> cleanPath (q_Path req) \<noteq> q_Path req
      then (respond 301 (RedirectBody (cleanPath (q_Path req))), srv)
      else dispatch env clk rnd claims req srv)"

lemma routes_clean: "(path, meth, cap, h) \<in> set routes \<Longrightarrow> path \<noteq> ''*'' \<and> cleanPath path = path"
  by (auto simp: routes_def cleanPath_def Clean_def rooted_def pathElems_def Let_def)

text \<open>A request for one of the routes gets past this.\<close>

lemma mux_matched:
  assumes "matching req \<noteq> []"
  shows "mux env clk rnd claims req srv = dispatch env clk rnd claims req srv"
proof -
  have "\<exists>x \<in> set (matching req). True" using assms by (cases "matching req") auto
  then obtain path meth cap h where "(path, meth, cap, h) \<in> set routes" "path = q_Path req"
    unfolding matching_def set_filter by fast
  then show ?thesis using routes_clean by (auto simp: mux_def)
qed

lemma mux_unmatched:
  assumes "matching req = []"
  shows "\<exists>resp. mux env clk rnd claims req srv = (resp, srv) \<and> status resp \<in> {301, 400, 404, 405}"
  using assms by (auto simp: mux_def dispatch_def httpError_def respond_def)

text \<open>
  \<open>Validate\<close> on a possibly nil validator: the receiver is dereferenced only after the token has
  parsed and its subject has been checked.
\<close>

definition validateOpt :: "jwtLib \<Rightarrow> time \<Rightarrow> string \<Rightarrow> TokenValidator option \<Rightarrow> db \<Rightarrow>
    ((string + UCANClaims) \<times> (TokenValidator \<times> db) option) outcome" where
  "validateOpt L now tok v d = (case v of
      Some v \<Rightarrow> (let (r, vd) = Validate L Save now tok (v, d) in Ret (r, Some vd))
    | None \<Rightarrow>
        (case parseWithClaims L now (Some (30 * second)) issuerKey tok of
           Inl e \<Rightarrow> Ret (Inl (''parse token: '' @ e), None)
         | Inr c \<Rightarrow>
             if c_Subject c \<noteq> ''claude-peers'' then Ret (Inl (''invalid subject: '' @ goQuote (c_Subject c)), None)
             else if c_Proof c = [] \<and> (\<exists>e. pubKeyFromString (c_Issuer c) = Inl e)
             then Ret (Inl (''decode root issuer: '' @ projl (pubKeyFromString (c_Issuer c))), None)
             else Panic ''invalid memory address or nil pointer dereference''))"

definition authFailure :: "string \<Rightarrow> response" where
  "authFailure msg =
     (if contains msg ''expired'' then writeAuthError 401 ''token expired'' ''TOKEN_EXPIRED''
      else if contains msg ''proof'' \<or> contains msg ''chain'' then writeAuthError 401 ''invalid delegation chain'' ''BAD_PROOF''
      else writeAuthError 401 msg ''INVALID_TOKEN'')"

definition openPaths :: "string list" where
  "openPaths = [''/health'', ''/challenge'', ''/refresh-token'']"

definition ucanMiddleware :: "handler \<Rightarrow> httpEnv \<Rightarrow> clock \<Rightarrow> bytes \<Rightarrow> request \<Rightarrow> server \<Rightarrow> (response \<times> server) outcome" where
  "ucanMiddleware next_handler env clk rnd req srv =
     (if q_Path req \<in> set openPaths then Ret (next_handler env clk rnd None req srv)
      else if q_Authorization req = [] then Ret (writeAuthError 401 ''missing authorization header'' ''NO_AUTH'', srv)
      else let tokenStr = trimPrefix (q_Authorization req) ''Bearer '' in
        if tokenStr = q_Authorization req then Ret (writeAuthError 401 ''missing authorization header'' ''NO_AUTH'', srv)
        else case validateOpt (jwt env) (clk 0) tokenStr (validator srv) (bdb (broker srv)) of
          Panic m \<Rightarrow> Panic m
        | Ret (Inl msg, _) \<Rightarrow> Ret (authFailure msg, srv)
        | Ret (Inr claims, vd) \<Rightarrow>
            Ret (next_handler env (later 1 clk) rnd (Some claims) req
                   (case vd of None \<Rightarrow> srv | Some x \<Rightarrow> withTokens srv x)))"

definition serve :: "httpEnv \<Rightarrow> clock \<Rightarrow> bytes \<Rightarrow> request \<Rightarrow> server \<Rightarrow> (response \<times> server) outcome" where
  "serve = ucanMiddleware mux"

end
