(* ===== verification/Access.thy ===== *)
theory Access
  imports Http
begin

text \<open>
  What the HTTP surface guarantees: nothing happens without a valid token that carries the route's
  capability, read-only roles change nothing, the refresh endpoint keeps rights and never renews a
  root token, and every request keeps the database invariant.
\<close>

section \<open>Shapes of the handlers\<close>

lemma decodeBody_cases:
  assumes "decodeBody dec req srv k = (resp, srv')"
  obtains (bad) "srv' = srv" | (good) v where "dec (q_Body req) = Inr v" "k v = (resp, srv')"
  using assms by (cases "dec (q_Body req)") (auto simp: decodeBody_def)

definition stepsTo :: "server \<Rightarrow> server \<Rightarrow> bool" where
  "stepsTo srv srv' \<longleftrightarrow> dbStep\<^sup>*\<^sup>* (bdb (broker srv)) (bdb (broker srv'))"

lemma stepsTo_refl: "stepsTo srv srv"
  by (simp add: stepsTo_def)

lemma stepsTo_trans: "stepsTo a b \<Longrightarrow> stepsTo b c \<Longrightarrow> stepsTo a c"
  unfolding stepsTo_def by (rule rtranclp_trans)

lemma stepsTo_broker: "brokerStep (broker srv) b \<Longrightarrow> stepsTo srv (srv\<lparr>broker := b\<rparr>)"
  by (simp add: stepsTo_def brokerStep_dbStep)

lemma stepsTo_limiter [simp]:
  "stepsTo srv (srv'\<lparr>sendRL := rl\<rparr>) \<longleftrightarrow> stepsTo srv srv'" "stepsTo srv (srv'\<lparr>registerRL := rl\<rparr>) \<longleftrightarrow> stepsTo srv srv'"
  "stepsTo (srv\<lparr>sendRL := rl\<rparr>) srv' \<longleftrightarrow> stepsTo srv srv'" "stepsTo (srv\<lparr>registerRL := rl\<rparr>) srv' \<longleftrightarrow> stepsTo srv srv'"
  by (simp_all add: stepsTo_def)

lemma RegisterToken_db: "snd (RegisterToken L Save now tok caps (v, d)) = d \<or>
    (\<exists>s. snd (RegisterToken L Save now tok caps (v, d)) = exec s d)"
  by (auto simp: RegisterToken_def Let_def persistKnown_def Save_def)

lemma RegisterToken_steps: "dbStep\<^sup>*\<^sup>* d (snd (RegisterToken L Save now tok caps (v, d)))"
  using RegisterToken_db[of L now tok caps v d] by (auto intro: dbStep_intros)

lemma Validate_steps: "dbStep\<^sup>*\<^sup>* d (snd (snd (Validate L Save now tok (v, d))))"
proof (cases "fst (Validate L Save now tok (v, d))")
  case (Inl e)
  then have "snd (Validate L Save now tok (v, d)) = (v, d)" by (metis Validate_Inl prod.collapse)
  then show ?thesis by simp
next
  case (Inr c)
  then have "snd (Validate L Save now tok (v, d)) = RegisterToken L Save now tok (c_Capabilities c) (v, d)"
    by (metis Validate_Inr prod.collapse)
  then show ?thesis by (simp add: RegisterToken_steps)
qed

lemma Grace_steps: "dbStep\<^sup>*\<^sup>* d (snd (snd (ValidateWithGrace L Save now tok g (v, d))))"
proof (cases "fst (ValidateWithGrace L Save now tok g (v, d))")
  case (Inl e)
  then have "snd (ValidateWithGrace L Save now tok g (v, d)) = (v, d)" by (metis Grace_Inl prod.collapse)
  then show ?thesis by simp
next
  case (Inr c)
  then have "snd (ValidateWithGrace L Save now tok g (v, d)) = RegisterToken L Save now tok (c_Capabilities c) (v, d)"
    by (metis Grace_Inr prod.collapse)
  then show ?thesis by (simp add: RegisterToken_steps)
qed

lemma stepsTo_withTokens: "dbStep\<^sup>*\<^sup>* (bdb (broker srv)) (snd vd) \<Longrightarrow> stepsTo srv (withTokens srv vd)"
  by (simp add: stepsTo_def withTokens_def)

section \<open>Every handler is a sequence of statements\<close>

lemma simple_handlers_step:
  "h \<in> {handleHealth, handleChallenge, handleHeartbeat, handleSetSummary, handleAck, handleClaim, handleListPeers,
     handlePoll, handlePeek, handleUnregister, handleEvents, handleGetMemory, handleSetMemory} \<Longrightarrow>
   stepsTo srv (snd (h env clk rnd claims req srv))"
  by (auto simp: handleHealth_def handleChallenge_def handleHeartbeat_def handleSetSummary_def handleAck_def
      handleClaim_def handleListPeers_def handlePoll_def handlePeek_def handleUnregister_def handleEvents_def
      handleGetMemory_def handleSetMemory_def decodeBody_def Let_def stepsTo_refl
      split: sum.splits prod.splits intro!: stepsTo_broker)
    (metis brokerStep.intros snd_conv)+

lemma handleRegister_step: "stepsTo srv (snd (handleRegister env clk rnd claims req srv))"
proof -
  obtain ok rl where a: "allow (clk 0) (stripPort (q_RemoteAddr req)) (registerRL srv) = (ok, rl)" by fastforce
  have "stepsTo srv (srv\<lparr>registerRL := rl, broker := snd (register c r rq (broker srv))\<rparr>)" for c r rq
    using stepsTo_broker[OF brokerStep.Register, of "srv\<lparr>registerRL := rl\<rparr>" c r rq] by simp
  then show ?thesis
    by (auto simp: handleRegister_def a decodeBody_def stepsTo_refl Let_def split: sum.splits prod.splits) (metis snd_conv)
qed

lemma handleSend_step: "stepsTo srv (snd (handleSend env clk rnd claims req srv))"
proof -
  obtain ok rl where a: "allow (clk 0) (stripPort (q_RemoteAddr req)) (sendRL srv) = (ok, rl)" by fastforce
  have "stepsTo srv (srv\<lparr>sendRL := rl, broker := snd (sendMessage c rq (broker srv))\<rparr>)" for c rq
    using stepsTo_broker[OF brokerStep.Send, of "srv\<lparr>sendRL := rl\<rparr>" c rq] by simp
  then show ?thesis
    by (auto simp: handleSend_def a decodeBody_def stepsTo_refl Let_def split: sum.splits prod.splits) (metis snd_conv)+
qed

lemma withTokens_db [simp]: "bdb (broker (withTokens srv vd)) = snd vd" "validator (withTokens srv vd) = Some (fst vd)"
  by (simp_all add: withTokens_def)

lemma validOrGrace_steps: "dbStep\<^sup>*\<^sup>* d (snd (snd (validOrGrace L clk tok (v, d))))"
proof -
  obtain res v1 d1 where r1: "Validate L Save (clk 0) tok (v, d) = (res, v1, d1)" by (metis prod_cases3)
  have "dbStep\<^sup>*\<^sup>* d d1" using Validate_steps[of d L "clk 0" tok v] by (simp add: r1)
  with rtranclp_trans[OF this Grace_steps[of d1 L "clk 1" tok hour v1]] show ?thesis
    by (simp add: validOrGrace_def Let_def r1 split: sum.split)
qed

lemma handleRefresh_step: "stepsTo srv (snd (handleRefresh env clk rnd claims req srv))"
proof (cases "q_Authorization req = [] \<or> trimPrefix (q_Authorization req) ''Bearer '' = q_Authorization req \<or> validator srv = None")
  case True
  then show ?thesis by (auto simp: handleRefresh_def Let_def stepsTo_refl)
next
  case False
  then obtain v where v: "validator srv = Some v" by auto
  let ?t = "trimPrefix (q_Authorization req) ''Bearer ''" and ?d = "bdb (broker srv)"
  define r2 where "r2 = validOrGrace (jwt env) clk ?t (v, ?d)"
  have 2: "dbStep\<^sup>*\<^sup>* ?d (snd (snd r2))" unfolding r2_def by (rule validOrGrace_steps)
  have 3: "dbStep\<^sup>*\<^sup>* ?d (snd (RegisterToken (jwt env) Save (clk 3) t caps (snd r2)))" for t caps
    using rtranclp_trans[OF 2] RegisterToken_steps[of "snd (snd r2)" "jwt env" "clk 3" t caps "fst (snd r2)"] by simp
  have "handleRefresh env clk rnd claims req srv = (case fst r2 of
        Inl e \<Rightarrow> (writeAuthError 401 e ''TOKEN_EXPIRED'', withTokens srv (snd r2))
      | Inr claims \<Rightarrow> (case mintRefresh env (clk 2) claims of
           Inl resp \<Rightarrow> (resp, withTokens srv (snd r2))
         | Inr newToken \<Rightarrow> (writeJSON (TokenBody newToken), withTokens (withTokens srv (snd r2))
             (RegisterToken (jwt env) Save (clk 3) newToken (c_Capabilities claims) (snd r2)))))"
    using False v unfolding handleRefresh_def Let_def r2_def by simp
  then show ?thesis using 2 3 by (auto simp: stepsTo_def split: sum.splits)
qed

lemma route_step:
  assumes "(path, meth, cap, h) \<in> set routes"
  shows "stepsTo srv (snd (h env clk rnd claims req srv))"
  using assms handleRegister_step handleSend_step handleRefresh_step simple_handlers_step
  unfolding routes_def by fastforce

lemma matching_route:
  assumes "matching req = (path, meth, cap, h) # rest"
  shows "(path, meth, cap, h) \<in> set routes"
proof -
  have "(path, meth, cap, h) \<in> set (matching req)" by (simp add: assms)
  then show ?thesis unfolding matching_def by (simp only: set_filter) blast
qed

lemma mux_step: "stepsTo srv (snd (mux env clk rnd claims req srv))"
proof (cases "matching req")
  case (Cons r rest)
  obtain path meth cap h where r: "r = (path, meth, cap, h)" by (cases r)
  note s = route_step[OF matching_route[OF Cons[unfolded r]]]
  from s show ?thesis
    by (auto simp: mux_matched dispatch_def Cons r requireCapability_def stepsTo_refl split: option.split)
next
  case Nil
  then show ?thesis using mux_unmatched[of req env clk rnd claims srv] by (auto simp: stepsTo_refl)
qed

lemma validateOpt_steps:
  "validateOpt L now tok v d = Ret (r, Some vd) \<Longrightarrow> dbStep\<^sup>*\<^sup>* d (snd vd)"
  using Validate_steps[of d L now tok]
  by (auto simp: validateOpt_def Let_def split: option.splits sum.splits prod.splits if_splits) (metis snd_conv)

lemma serve_step: "serve env clk rnd req srv = Ret (resp, srv') \<Longrightarrow> stepsTo srv srv'"
proof -
  assume s: "serve env clk rnd req srv = Ret (resp, srv')"
  let ?v = "validateOpt (jwt env) (clk 0) (trimPrefix (q_Authorization req) ''Bearer '') (validator srv) (bdb (broker srv))"
  have m: "stepsTo srv (snd (mux env c r cl req srv))" for c r cl by (rule mux_step)
  consider "srv' = srv" | c cl where "(resp, srv') = mux env c rnd cl req srv"
    | claims vd where "?v = Ret (Inr claims, Some vd)" "(resp, srv') = mux env (later 1 clk) rnd (Some claims) req (withTokens srv vd)"
    using s unfolding serve_def ucanMiddleware_def Let_def
    by (auto split: if_splits outcome.splits sum.splits option.splits prod.splits) metis+
  then show ?thesis
  proof cases
    case 1 then show ?thesis by (simp add: stepsTo_refl)
  next
    case 2 then show ?thesis using m by (metis snd_conv)
  next
    case 3
    have "stepsTo srv (withTokens srv vd)" using validateOpt_steps[OF 3(1)] by (rule stepsTo_withTokens)
    moreover have "stepsTo (withTokens srv vd) srv'" using mux_step 3(2) by (metis snd_conv)
    ultimately show ?thesis by (rule stepsTo_trans)
  qed
qed

section \<open>What changes besides the token table\<close>

definition sessionTables where
  "sessionTables d = (peers d, messages d, messages_seq d, events d, events_seq d, kv d, agent_names_seen d)"

definition sessionState where
  "sessionState srv = (sessionTables (bdb (broker srv)), nats (broker srv), fleetMemory (broker srv),
     sendRL srv, registerRL srv)"

lemma Save_tables: "sessionTables (Save h cs e d) = sessionTables d"
  by (simp add: sessionTables_def Save_def exec_def)

lemma Register_tables: "sessionTables (snd (RegisterToken L Save now tok caps vd)) = sessionTables (snd vd)"
  by (cases vd) (simp add: RegisterToken_def Let_def persistKnown_def Save_tables)

lemma Validate_tables:
  assumes "Validate L Save now tok (v, d) = (r, v', d')"
  shows "sessionTables d' = sessionTables d"
proof (cases r)
  case (Inl e) with assms Validate_Inl show ?thesis by fastforce
next
  case (Inr c)
  then have "(v', d') = RegisterToken L Save now tok (c_Capabilities c) (v, d)"
    using Validate_Inr assms by blast
  then show ?thesis using Register_tables[of L now tok "c_Capabilities c" "(v, d)"] by (metis snd_conv)
qed

lemma withTokens_state: "sessionTables (snd vd) = sessionTables (bdb (broker srv)) \<Longrightarrow> sessionState (withTokens srv vd) = sessionState srv"
  by (simp add: sessionState_def withTokens_def)

definition requiredCap :: "request \<Rightarrow> string option" where
  "requiredCap req = (case matching req of [] \<Rightarrow> None | (_, _, cap, _) # _ \<Rightarrow> cap)"

lemma open_routes: "(path, meth, None, h) \<in> set routes \<Longrightarrow> path \<in> set openPaths"
  by (auto simp: routes_def openPaths_def)

lemma matching_path: "matching req = (path, meth, cap, h) # rest \<Longrightarrow> path = q_Path req"
proof -
  assume "matching req = (path, meth, cap, h) # rest"
  then have "(path, meth, cap, h) \<in> set (matching req)" by simp
  then show ?thesis unfolding matching_def by (simp only: set_filter) blast
qed

lemma mux_gate:
  assumes "q_Path req \<notin> set openPaths" and "mux env clk rnd (Some c) req srv = (resp, srv')"
  shows "srv' = srv \<and> status resp \<in> {301, 400, 403, 404, 405} \<or> (\<exists>cap. requiredCap req = Some cap \<and> HasCapability c cap)"
proof (cases "matching req")
  case Nil
  with mux_unmatched[of req env clk rnd "Some c" srv] assms(2) show ?thesis by auto
next
  case (Cons r rest)
  obtain path meth cap h where r: "r = (path, meth, cap, h)" by (cases r)
  obtain res where res: "cap = Some res"
    using assms(1) matching_path[OF Cons[unfolded r]] open_routes[of path meth h] matching_route[OF Cons[unfolded r]]
    by (cases cap) auto
  with assms(2) show ?thesis
    by (auto simp: mux_matched dispatch_def Cons r requiredCap_def requireCapability_def writeAuthError_def respond_def split: if_splits)
qed

lemma serve_authenticated:
  assumes "q_Path req \<notin> set openPaths" and "validator srv = Some v" and "serve env clk rnd req srv = Ret (resp, srv')"
  shows "(status resp = 401 \<and> srv' = srv) \<or> (\<exists>c v1 d1. q_Authorization req \<noteq> [] \<and>
     Validate (jwt env) Save (clk 0) (trimPrefix (q_Authorization req) ''Bearer '') (v, bdb (broker srv)) = (Inr c, v1, d1) \<and>
     mux env (later 1 clk) rnd (Some c) req (withTokens srv (v1, d1)) = (resp, srv'))"
  using assms unfolding serve_def ucanMiddleware_def Let_def
  by (auto simp: validateOpt_def Let_def authFailure_def writeAuthError_def respond_def
      split: if_splits sum.splits prod.splits)

text \<open>
  C27: everything is authorised.  On every path but the three open ones, a request without an accepted token gets
  401 and changes nothing at all.  If its token is accepted but does not hold the capability of the route,
  or there is no route, the request is refused with 403, 404 or 405, or with 400 or a redirect for a target
  that is not a clean path: then the one thing that has changed is that the validator has recorded the token, in
  memory and in the token table, and the sessions, messages, events, name history, fleet memory, published events
  and rate limiters are as they were.  In every other case the token holds the capability of the route.
\<close>

theorem changes_are_authorised:
  assumes "q_Path req \<notin> set openPaths" and "validator srv = Some v" and "serve env clk rnd req srv = Ret (resp, srv')"
  shows "status resp = 401 \<and> srv' = srv \<or>
    (\<exists>c vd. Validate (jwt env) Save (clk 0) (trimPrefix (q_Authorization req) ''Bearer '') (v, bdb (broker srv)) = (Inr c, vd) \<and>
       (status resp \<in> {301, 400, 403, 404, 405} \<and> srv' = withTokens srv vd \<and> sessionState srv' = sessionState srv \<or>
        (\<exists>cap. requiredCap req = Some cap \<and> HasCapability c cap)))"
proof -
  from serve_authenticated[OF assms] consider "status resp = 401" "srv' = srv"
    | c v1 d1 where "Validate (jwt env) Save (clk 0) (trimPrefix (q_Authorization req) ''Bearer '') (v, bdb (broker srv)) = (Inr c, v1, d1)"
      "mux env (later 1 clk) rnd (Some c) req (withTokens srv (v1, d1)) = (resp, srv')" by blast
  then show ?thesis
  proof cases
    case 2
    have "sessionState (withTokens srv (v1, d1)) = sessionState srv"
      by (rule withTokens_state) (simp add: Validate_tables[OF 2(1)])
    with mux_gate[OF assms(1) 2(2)] 2(1) show ?thesis by auto
  qed simp
qed

definition sampleEnv :: httpEnv where
  "sampleEnv = \<lparr>jwt = plainLib, ed25519Sign = (\<lambda>k x. k @ x), floatMul = (\<lambda>f u sc. 0), cfgDefaultChildTTL = ''30d'',
     cfgMachineName = ''host'', keyPairFile = Inr \<lparr>PrivateKey = ''root'', PublicKey = plainPublic ''root''\<rparr>,
     rootTokenFile = Inr (plainToken ''root'' sampleRootClaims), decChallenge = (\<lambda>s. Inr \<lparr>ch_Nonce = s\<rparr>),
     decRegister = (\<lambda>s. Inr (sampleReq s)), decHeartbeat = (\<lambda>s. Inr \<lparr>hq_ID = s\<rparr>),
     decSetSummary = (\<lambda>s. Inl s), decAck = (\<lambda>s. Inl s), decClaim = (\<lambda>s. Inl s), decListPeers = (\<lambda>s. Inl s),
     decSend = (\<lambda>s. Inl s), decPoll = (\<lambda>s. Inr \<lparr>pq_ID = s\<rparr>), decUnregister = (\<lambda>s. Inr \<lparr>uq_ID = s\<rparr>)\<rparr>"

lemma sampleEnv_jwt: "jwt sampleEnv = plainLib"
  by (simp add: sampleEnv_def)

definition sampleServer :: server where
  "sampleServer = \<lparr>broker = busyBroker, validator = Some sampleValidator,
     sendRL = newRateLimiter 10 minute, registerRL = newRateLimiter 5 minute\<rparr>"

definition rootRequest :: "string \<Rightarrow> string \<Rightarrow> string \<Rightarrow> request" where
  "rootRequest meth path bdy = \<lparr>q_Method = meth, q_Path = path,
     q_Authorization = ''Bearer '' @ plainToken ''root'' sampleRootClaims, q_RemoteAddr = ''10.0.0.7:4242'',
     q_Body = bdy, q_Limit = []\<rparr>"

lemma root_validates:
  "\<exists>v1 d1. Validate plainLib Save 0 (plainToken ''root'' sampleRootClaims) (sampleValidator, d) = (Inr sampleRootClaims, v1, d1)"
proof -
  have "parseWithClaims plainLib 0 (Some (30 * second)) issuerKey (plainToken ''root'' sampleRootClaims) = Inr sampleRootClaims"
    by (rule parse_plain) (simp_all add: rootClaims_checks, simp add: second_def)
  then show ?thesis by (simp add: Validate_def accept_def rootClaims_checks RegisterToken_def Let_def)
qed

lemma serve_returns: "validator srv = Some v \<Longrightarrow> \<exists>resp srv'. serve env clk rnd req srv = Ret (resp, srv')"
  by (auto simp: serve_def ucanMiddleware_def validateOpt_def Let_def split: prod.split sum.split)

section \<open>Read-only roles\<close>

lemma read_routes:
  "(path, meth, Some cap, h) \<in> set routes \<Longrightarrow> cap \<in> Resource ` set FleetReadCapabilities \<Longrightarrow>
   snd (h env clk rnd claims req srv) = srv"
  by (auto simp: routes_def FleetReadCapabilities_def capsOf_def handleListPeers_def handleEvents_def
      handleGetMemory_def decodeBody_def split: sum.split)

lemma HasCapability_iff: "HasCapability c r \<longleftrightarrow> r \<in> capSet c"
  by (auto simp: HasCapability_def capSet_def list_ex_iff)

text \<open>
  C33: the read-only role is read-only.  Whatever a holder of a token within the fleet-read
  capabilities requests on the authenticated paths, no session, message, event, memory or rate
  limiter changes.
\<close>

theorem fleet_read_changes_nothing:
  assumes "q_Path req \<notin> set openPaths" and "validator srv = Some v" and "serve env clk rnd req srv = Ret (resp, srv')"
    and "Validate (jwt env) Save (clk 0) (trimPrefix (q_Authorization req) ''Bearer '') (v, bdb (broker srv)) = (Inr c, vd)"
    and "capSet c \<subseteq> Resource ` set FleetReadCapabilities"
  shows "sessionState srv' = sessionState srv"
proof (cases "srv' = srv")
  case False
  then obtain v1 d1 where m: "mux env (later 1 clk) rnd (Some c) req (withTokens srv (v1, d1)) = (resp, srv')" "vd = (v1, d1)"
    using serve_authenticated[OF assms(1-3)] assms(4) by auto
  have st: "sessionState (withTokens srv (v1, d1)) = sessionState srv"
    by (rule withTokens_state) (use Validate_tables assms(4) m(2) in force)
  have "srv' = withTokens srv (v1, d1)"
  proof (cases "matching req")
    case Nil with mux_unmatched[of req env "later 1 clk" rnd "Some c" "withTokens srv (v1, d1)"] m(1) show ?thesis by auto
  next
    case (Cons r rest)
    obtain path meth cap h where r: "r = (path, meth, cap, h)" by (cases r)
    note mr = matching_route[OF Cons[unfolded r]]
    obtain res where res: "cap = Some res"
      using assms(1) matching_path[OF Cons[unfolded r]] open_routes[of path meth h] mr by (cases cap) auto
    show ?thesis
    proof (cases "HasCapability c res")
      case True
      then have "res \<in> Resource ` set FleetReadCapabilities" using assms(5) HasCapability_iff by blast
      with read_routes[OF mr[unfolded res]] m(1) True show ?thesis
        by (auto simp: mux_matched dispatch_def Cons r res requireCapability_def) (metis snd_conv)
    next
      case False
      with m(1) show ?thesis by (simp add: mux_matched dispatch_def Cons r res requireCapability_def)
    qed
  qed
  with st show ?thesis by simp
qed simp

definition readerClaims :: UCANClaims where
  "readerClaims = newClaims plainLib 0 (pubKeyToString (plainPublic ''root'')) (pubKeyToString (plainPublic ''reader''))
     FleetReadCapabilities hour (TokenHash plainLib (plainToken ''root'' sampleRootClaims))"

definition readerRequest :: "string \<Rightarrow> string \<Rightarrow> request" where
  "readerRequest meth path = \<lparr>q_Method = meth, q_Path = path,
     q_Authorization = ''Bearer '' @ plainToken ''root'' readerClaims, q_RemoteAddr = ''10.0.0.7:4242'',
     q_Body = ''x'', q_Limit = []\<rparr>"

lemma reader_checks:
  "issuerKey readerClaims = Inr (plainPublic ''root'')" "c_NotBefore readerClaims = None"
  "c_ExpiresAt readerClaims = Some (3600 * second)" "chainError sampleValidator readerClaims = None"
proof -
  show "issuerKey readerClaims = Inr (plainPublic ''root'')"
    by (simp add: issuerKey_Inr readerClaims_def newClaims_def pubKey_round_trip length_plainPublic)
  show "c_NotBefore readerClaims = None" by (simp add: readerClaims_def newClaims_def)
  show "c_ExpiresAt readerClaims = Some (3600 * second)"
    by (simp add: readerClaims_def newClaims_def numericDate_plain secsOf_def hour_def minute_def second_def)
  have "knownTokens sampleValidator (TokenHash plainLib (plainToken ''root'' sampleRootClaims)) = Some (resources AllCapabilities)"
    by (simp add: sampleValidator_def)
  then show "chainError sampleValidator readerClaims = None"
    using TokenHash_nonempty[OF plainLib_ok(4)]
    by (auto simp: chainError_None readerClaims_def newClaims_def capSet_def FleetReadCapabilities_def
        AllCapabilities_def capsOf_def)
qed

lemma reader_validates:
  "\<exists>vd. Validate plainLib Save 0 (plainToken ''root'' readerClaims) (sampleValidator, d) = (Inr readerClaims, vd)"
proof -
  have "parseWithClaims plainLib 0 (Some (30 * second)) issuerKey (plainToken ''root'' readerClaims) = Inr readerClaims"
    by (rule parse_plain) (simp_all add: reader_checks, simp add: second_def)
  then show ?thesis by (simp add: Validate_def accept_def reader_checks)
qed

theorem changes_are_authorised_witness:
  "\<exists>resp srv'. serve sampleEnv (\<lambda>_. 0) [] (readerRequest ''POST'' ''/fleet-memory'') sampleServer = Ret (resp, srv') \<and>
     status resp \<noteq> 200 \<and> fleetMemory (broker srv') = fleetMemory (broker sampleServer) \<and>
     messages (bdb (broker srv')) = messages (bdb (broker sampleServer))"
proof -
  let ?r = "readerRequest ''POST'' ''/fleet-memory''"
  have p: "q_Path ?r \<notin> set openPaths" and v: "validator sampleServer = Some sampleValidator"
    by (simp_all add: readerRequest_def openPaths_def sampleServer_def)
  obtain resp srv' where s: "serve sampleEnv (\<lambda>_. 0) [] ?r sampleServer = Ret (resp, srv')"
    using serve_returns[OF v] by blast
  have t: "trimPrefix (q_Authorization ?r) ''Bearer '' = plainToken ''root'' readerClaims"
    using trimPrefix_append[of "''Bearer ''" "plainToken ''root'' readerClaims"] by (simp add: readerRequest_def)
  have cap: "requiredCap ?r = Some ''memory/write''" "\<not> HasCapability readerClaims ''memory/write''"
    by (simp_all add: requiredCap_def matching_def routes_def methodMatches_def readerRequest_def
        HasCapability_def readerClaims_def newClaims_def FleetReadCapabilities_def capsOf_def)
  obtain vd where "Validate plainLib Save 0 (plainToken ''root'' readerClaims) (sampleValidator, bdb (broker sampleServer)) = (Inr readerClaims, vd)"
    using reader_validates by blast
  with changes_are_authorised[OF p v s] cap t s show ?thesis
    by (auto simp: sampleEnv_jwt sessionState_def sessionTables_def)
qed

theorem fleet_read_changes_nothing_witness:
  "\<exists>resp srv'. serve sampleEnv (\<lambda>_. 0) [] (readerRequest ''POST'' ''/fleet-memory'') sampleServer = Ret (resp, srv') \<and>
     sessionState srv' = sessionState sampleServer"
proof -
  let ?r = "readerRequest ''POST'' ''/fleet-memory''"
  have p: "q_Path ?r \<notin> set openPaths" and v: "validator sampleServer = Some sampleValidator"
    by (simp_all add: readerRequest_def openPaths_def sampleServer_def)
  obtain resp srv' where s: "serve sampleEnv (\<lambda>_. 0) [] ?r sampleServer = Ret (resp, srv')"
    using serve_returns[OF v] by blast
  have t: "trimPrefix (q_Authorization ?r) ''Bearer '' = plainToken ''root'' readerClaims"
    using trimPrefix_append[of "''Bearer ''"] by (simp add: readerRequest_def)
  obtain vd where c: "Validate (jwt sampleEnv) Save 0 (trimPrefix (q_Authorization ?r) ''Bearer '')
      (sampleValidator, bdb (broker sampleServer)) = (Inr readerClaims, vd)"
    unfolding t sampleEnv_jwt using reader_validates by blast
  have "capSet readerClaims \<subseteq> Resource ` set FleetReadCapabilities"
    by (simp add: capSet_def readerClaims_def newClaims_def)
  from fleet_read_changes_nothing[OF p v s _ this] c s show ?thesis by auto
qed

section \<open>Token refresh\<close>

lemma validOrGrace_Inr:
  assumes "jwtSound L" and "fst (validOrGrace L clk tok vd) = Inr c"
  shows "parseUnverified L tok = Inr c \<and> chainError (fst vd) c = None \<and> (\<exists>k. issuerKey c = Inr k \<and> verifies L tok k) \<and>
    (\<forall>e. c_ExpiresAt c = Some e \<longrightarrow> clk 0 < e + 30 * second \<or> clk 1 - e \<le> hour)"
proof -
  obtain res vd1 where r1: "Validate L Save (clk 0) tok vd = (res, vd1)" by (cases "Validate L Save (clk 0) tok vd") auto
  have snd: "parseWithClaims L now lw issuerKey tok = Inr c \<Longrightarrow> parseUnverified L tok = Inr c \<and>
      (\<exists>k. issuerKey c = Inr k \<and> verifies L tok k) \<and> (\<forall>l e. lw = Some l \<and> c_ExpiresAt c = Some e \<longrightarrow> now < e + l)"
    for now lw using assms(1) unfolding jwtSound_def by blast
  show ?thesis
  proof (cases res)
    case (Inr c')
    with assms(2) r1 have "Validate L Save (clk 0) tok vd = (Inr c, vd1)" by (simp add: validOrGrace_def)
    with Validate_Inr snd show ?thesis by blast
  next
    case (Inl e)
    with r1 have "vd1 = vd" using Validate_Inl by blast
    with Inl assms(2) r1 obtain vd2 where "ValidateWithGrace L Save (clk 1) tok hour vd = (Inr c, vd2)"
      by (cases "ValidateWithGrace L Save (clk 1) tok hour vd") (auto simp: validOrGrace_def)
    with Grace_Inr snd show ?thesis by blast
  qed
qed

lemma mintRefresh_Inr:
  assumes "mintRefresh env now c = Inr tok"
  obtains kp aud iss root where "keyPairFile env = Inr kp" "c_Audience c \<noteq> []" "pubKeyFromString (hd (c_Audience c)) = Inr aud"
    "pubKeyFromString (c_Issuer c) = Inr iss" "iss \<noteq> aud" "rootTokenFile env = Inr root"
    "MintToken (jwt env) now (PrivateKey kp) aud (c_Capabilities c)
       (defaultChildTTL (floatMul env) (cfgDefaultChildTTL env)) root = Inr tok"
  using assms by (auto simp: mintRefresh_def split: sum.splits if_splits)

lemma handleRefresh_token:
  assumes "handleRefresh env clk rnd ctx req srv = (resp, srv')" and "payload resp = TokenBody tok"
  obtains v c where "validator srv = Some v" "hasPrefix (q_Authorization req) ''Bearer ''"
    "fst (validOrGrace (jwt env) clk (trimPrefix (q_Authorization req) ''Bearer '') (v, bdb (broker srv))) = Inr c"
    "mintRefresh env (clk 2) c = Inr tok"
proof -
  let ?t = "trimPrefix (q_Authorization req) ''Bearer ''"
  have auth: "q_Authorization req \<noteq> []" "?t \<noteq> q_Authorization req" "validator srv \<noteq> None"
    using assms by (auto simp: handleRefresh_def Let_def writeAuthError_def httpError_def respond_def split: if_splits option.splits)
  then obtain v where v: "validator srv = Some v" by auto
  have pre: "hasPrefix (q_Authorization req) ''Bearer ''" using auth(2) trimPrefix_noop by blast
  have "\<exists>c. fst (validOrGrace (jwt env) clk ?t (v, bdb (broker srv))) = Inr c \<and> mintRefresh env (clk 2) c = Inr tok"
  proof (cases "fst (validOrGrace (jwt env) clk ?t (v, bdb (broker srv)))")
    case (Inl e)
    with assms auth v show ?thesis by (auto simp: handleRefresh_def Let_def writeAuthError_def respond_def)
  next
    case (Inr c)
    with assms auth v have "mintRefresh env (clk 2) c = Inr tok"
    proof (cases "mintRefresh env (clk 2) c")
      case (Inl r)
      then have "\<forall>t. payload r \<noteq> TokenBody t"
        by (auto simp: mintRefresh_def writeAuthError_def httpError_def respond_def split: sum.splits if_splits)
      with Inl Inr assms auth v show ?thesis by (auto simp: handleRefresh_def Let_def)
    next
      case (Inr t)
      with \<open>fst (validOrGrace (jwt env) clk ?t (v, bdb (broker srv))) = Inr c\<close> assms auth v show ?thesis
        by (auto simp: handleRefresh_def Let_def writeJSON_def respond_def)
    qed
    with Inr show ?thesis by blast
  qed
  with that[OF v pre] show ?thesis by blast
qed

lemma matching_refresh:
  "q_Path req = ''/refresh-token'' \<Longrightarrow> q_Method req = ''POST'' \<Longrightarrow>
   matching req = [(''/refresh-token'', ''POST'', None, handleRefresh)]"
  by (simp add: matching_def routes_def methodMatches_def)

lemma serve_refresh:
  "q_Path req = ''/refresh-token'' \<Longrightarrow> q_Method req = ''POST'' \<Longrightarrow>
   serve env clk rnd req srv = Ret (handleRefresh env clk rnd None req srv)"
  by (simp add: serve_def ucanMiddleware_def openPaths_def mux_matched dispatch_def matching_refresh)

text \<open>
  C32: the refresh endpoint never widens rights.  If it hands out a token, the presented token was
  authentic, in good standing with the validator and at most an hour past its expiry, it was not a
  root token (issuer and audience keys differ), and the new token has the same capabilities, is for
  the same audience key, chains to the broker's root token and expires one default lifetime later.
\<close>

theorem refresh_keeps_rights:
  assumes "jwtSound (jwt env)" and "jwtSigns (jwt env)" and "keysOk (jwt env)"
    and "q_Path req = ''/refresh-token''" and "q_Method req = ''POST''"
    and "serve env clk rnd req srv = Ret (resp, srv')" and "payload resp = TokenBody tok"
  shows "\<exists>v c k aud root c'. validator srv = Some v \<and>
    parseUnverified (jwt env) (trimPrefix (q_Authorization req) ''Bearer '') = Inr c \<and>
    issuerKey c = Inr k \<and> verifies (jwt env) (trimPrefix (q_Authorization req) ''Bearer '') k \<and> chainError v c = None \<and>
    (\<forall>e. c_ExpiresAt c = Some e \<longrightarrow> clk 0 < e + 30 * second \<or> clk 1 - e \<le> hour) \<and>
    pubKeyFromString (hd (c_Audience c)) = Inr aud \<and> k \<noteq> aud \<and> rootTokenFile env = Inr root \<and>
    parseUnverified (jwt env) tok = Inr c' \<and> c_Capabilities c' = c_Capabilities c \<and>
    c_Audience c' = [pubKeyToString aud] \<and> c_Proof c' = TokenHash (jwt env) root \<and>
    c_ExpiresAt c' = Some (secsOf (clk 2 + defaultChildTTL (floatMul env) (cfgDefaultChildTTL env)) * second)"
proof -
  have h: "handleRefresh env clk rnd None req srv = (resp, srv')" using serve_refresh[OF assms(4,5)] assms(6) by simp
  obtain v c where v: "validator srv = Some v" and c:
    "fst (validOrGrace (jwt env) clk (trimPrefix (q_Authorization req) ''Bearer '') (v, bdb (broker srv))) = Inr c"
    and m: "mintRefresh env (clk 2) c = Inr tok"
    using handleRefresh_token[OF h assms(7)] by blast
  obtain kp aud iss root where r: "keyPairFile env = Inr kp" "c_Audience c \<noteq> []" "pubKeyFromString (hd (c_Audience c)) = Inr aud"
    "pubKeyFromString (c_Issuer c) = Inr iss" "iss \<noteq> aud" "rootTokenFile env = Inr root"
    "MintToken (jwt env) (clk 2) (PrivateKey kp) aud (c_Capabilities c)
       (defaultChildTTL (floatMul env) (cfgDefaultChildTTL env)) root = Inr tok"
    by (rule mintRefresh_Inr[OF m])
  define c' where "c' = newClaims (jwt env) (clk 2) (pubKeyToString (publicOf (jwt env) (PrivateKey kp))) (pubKeyToString aud)
      (c_Capabilities c) (defaultChildTTL (floatMul env) (cfgDefaultChildTTL env)) (TokenHash (jwt env) root)"
  have "signedString (jwt env) (PrivateKey kp) c' = Inr tok"
    using r(7) by (auto simp: MintToken_def c'_def split: sum.splits option.splits)
  moreover have "wholeSeconds c'"
    using assms(3) by (auto simp: wholeSeconds_def c'_def newClaims_def keysOk_def nanosOf_def)
  ultimately have "parseUnverified (jwt env) tok = Inr c'" using assms(2) by (auto simp: jwtSigns_def)
  moreover have "numericDate (jwt env) t = secsOf t * second" for t using assms(3) by (simp add: keysOk_def)
  ultimately show ?thesis
    using validOrGrace_Inr[OF assms(1) c] v r by (auto simp: c'_def newClaims_def issuerKey_Inr)
qed

lemma reader_mint:
  "\<exists>tok. mintRefresh sampleEnv t readerClaims = Inr tok"
proof -
  have a: "pubKeyFromString (hd (c_Audience readerClaims)) = Inr (plainPublic ''reader'')"
      "pubKeyFromString (c_Issuer readerClaims) = Inr (plainPublic ''root'')" "c_Audience readerClaims \<noteq> []"
    by (simp_all add: readerClaims_def newClaims_def pubKey_round_trip length_plainPublic)
  have ne: "plainPublic ''root'' \<noteq> plainPublic ''reader''" by (simp add: plainPublic_def)
  have "find (\<lambda>x. Resource x \<notin> set (resources (c_Capabilities sampleRootClaims))) (c_Capabilities readerClaims) = None"
    by (auto simp: find_resource_None readerClaims_def sampleRootClaims_def newClaims_def
        FleetReadCapabilities_def AllCapabilities_def capsOf_def)
  then have "\<exists>tok. MintToken plainLib t k aud (c_Capabilities readerClaims) ttl (plainToken ''root'' sampleRootClaims) = Inr tok"
    for k aud ttl by (simp add: MintToken_def decode_plain sign_plain)
  with a ne show ?thesis by (auto simp: mintRefresh_def sampleEnv_def split: sum.split) (metis sum.distinct(1))
qed

theorem refresh_keeps_rights_witness:
  "\<exists>resp srv' tok c'. serve sampleEnv (\<lambda>_. 0) [] (readerRequest ''POST'' ''/refresh-token'') sampleServer = Ret (resp, srv') \<and>
     payload resp = TokenBody tok \<and> parseUnverified plainLib tok = Inr c' \<and> c_Capabilities c' = FleetReadCapabilities"
proof -
  let ?r = "readerRequest ''POST'' ''/refresh-token''"
  have r: "q_Path ?r = ''/refresh-token''" "q_Method ?r = ''POST''" by (simp_all add: readerRequest_def)
  have t: "trimPrefix (q_Authorization ?r) ''Bearer '' = plainToken ''root'' readerClaims"
    using trimPrefix_append[of "''Bearer ''"] by (simp add: readerRequest_def)
  have pre: "hasPrefix (q_Authorization ?r) ''Bearer ''"
    using hasPrefix_append[of "''Bearer ''"] by (simp add: readerRequest_def)
  have auth: "q_Authorization ?r \<noteq> []" "trimPrefix (q_Authorization ?r) ''Bearer '' \<noteq> q_Authorization ?r"
    using trimPrefix_fixed[of "''Bearer ''" "q_Authorization ?r"] pre by (auto simp: readerRequest_def)
  obtain vd where "Validate plainLib Save 0 (plainToken ''root'' readerClaims) (sampleValidator, bdb (broker sampleServer)) =
      (Inr readerClaims, vd)" using reader_validates by blast
  then have vg: "validOrGrace plainLib (\<lambda>_. 0) (plainToken ''root'' readerClaims) (sampleValidator, bdb (broker sampleServer)) =
      (Inr readerClaims, vd)" by (simp add: validOrGrace_def)
  obtain tok where tok: "mintRefresh sampleEnv 0 readerClaims = Inr tok" using reader_mint by blast
  have v: "validator sampleServer = Some sampleValidator" by (simp add: sampleServer_def)
  obtain srv' where s: "serve sampleEnv (\<lambda>_. 0) [] ?r sampleServer = Ret (writeJSON (TokenBody tok), srv')"
    using auth tok vg by (simp add: serve_refresh[OF r] handleRefresh_def v Let_def sampleEnv_jwt t)
  have p: "payload (writeJSON (TokenBody tok)) = TokenBody tok" by (simp add: writeJSON_def respond_def)
  note ok = plainLib_ok(1,3,4)[folded sampleEnv_jwt]
  have "parseUnverified plainLib (plainToken ''root'' readerClaims) = Inr c \<Longrightarrow> c = readerClaims" for c
    by (simp add: decode_plain)
  with refresh_keeps_rights[OF ok r s p] s p show ?thesis
    unfolding t sampleEnv_jwt by (fastforce simp: readerClaims_def newClaims_def)
qed

section \<open>A broker without a key pair\<close>

text \<open>
  A broker that started without a key pair has a nil validator; a request with any well-signed,
  unexpired token for this system then does not get the announced 401 but makes the handler panic.
\<close>

theorem nil_validator_panics:
  assumes "validator srv = None" and "q_Path req \<notin> set openPaths" and "hasPrefix (q_Authorization req) ''Bearer ''"
    and "parseWithClaims (jwt env) (clk 0) (Some (30 * second)) issuerKey (trimPrefix (q_Authorization req) ''Bearer '') = Inr c"
    and "jwtSound (jwt env)" and "c_Subject c = ''claude-peers''"
  shows "\<exists>m. serve env clk rnd req srv = Panic m"
proof -
  have auth: "q_Authorization req \<noteq> []" "trimPrefix (q_Authorization req) ''Bearer '' \<noteq> q_Authorization req"
    using assms(3) trimPrefix_fixed[of "''Bearer ''" "q_Authorization req"] by (auto simp: hasPrefix_iff)
  obtain k where "issuerKey c = Inr k" using assms(4,5) unfolding jwtSound_def by blast
  then have "pubKeyFromString (c_Issuer c) = Inr k" by (simp add: issuerKey_Inr)
  with assms auth show ?thesis
    by (simp add: serve_def ucanMiddleware_def validateOpt_def Let_def)
qed

theorem nil_validator_panics_witness:
  "\<exists>m. serve sampleEnv (\<lambda>_. 0) [] (rootRequest ''GET'' ''/events'' []) (sampleServer\<lparr>validator := None\<rparr>) = Panic m"
proof (rule nil_validator_panics[where c = sampleRootClaims])
  let ?r = "rootRequest ''GET'' ''/events'' []"
  have t: "trimPrefix (q_Authorization ?r) ''Bearer '' = plainToken ''root'' sampleRootClaims"
    using trimPrefix_append[of "''Bearer ''"] by (simp add: rootRequest_def)
  show "parseWithClaims (jwt sampleEnv) 0 (Some (30 * second)) issuerKey (trimPrefix (q_Authorization ?r) ''Bearer '') = Inr sampleRootClaims"
    unfolding t sampleEnv_jwt by (rule parse_plain) (simp_all add: rootClaims_checks, simp add: second_def)
  show "hasPrefix (q_Authorization ?r) ''Bearer ''"
    using hasPrefix_append[of "''Bearer ''"] by (simp add: rootRequest_def)
  show "jwtSound (jwt sampleEnv)" using plainLib_ok(1) by (simp add: sampleEnv_jwt)
  show "c_Subject sampleRootClaims = ''claude-peers''" by (simp add: sampleRootClaims_def newClaims_def)
qed (simp_all add: rootRequest_def openPaths_def)

section \<open>The server as a whole\<close>

text \<open>Requests, and sweep rounds between them.\<close>

inductive serverStep :: "server \<Rightarrow> server \<Rightarrow> bool" where
  Request: "serve env clk rnd req srv = Ret (resp, srv') \<Longrightarrow> serverStep srv srv'"
| Sweeping: "serverStep srv (srv\<lparr>broker := snd (sweepRound to clk (tick, broker srv))\<rparr>)"

interpretation server_runs: inductive_invariant "\<lambda>srv. bdb (broker srv) = emptyDB" serverStep "\<lambda>srv. dbOk (bdb (broker srv))"
proof
  fix s s' assume ok: "dbOk (bdb (broker s))" and step: "serverStep s s'"
  from step have "stepsTo s s'" by (cases rule: serverStep.cases) (auto intro: serve_step stepsTo_broker brokerStep.Sweep)
  with ok show "dbOk (bdb (broker s'))" using statements.holds_steps unfolding stepsTo_def by blast
next
  fix s assume "bdb (broker s) = emptyDB"
  then show "dbOk (bdb (broker s))" using statements.holds_start by simp
qed

text \<open>
  Whatever requests arrive over HTTP, with whatever tokens and bodies, and whenever the sweep
  runs, no two live sessions ever have the same id or hold the same agent name.
\<close>

theorem server_keeps_names_unique:
  assumes "bdb (broker srv0) = emptyDB" and "serverStep\<^sup>*\<^sup>* srv0 srv"
  shows "distinct (map p_ID (peers (bdb (broker srv)))) \<and>
    (\<forall>p q. p \<in> set (peers (bdb (broker srv))) \<and> q \<in> set (peers (bdb (broker srv))) \<and> p_AgentName p = p_AgentName q \<longrightarrow>
       p_AgentName p = [] \<or> p = q)"
proof -
  have ok: "dbOk (bdb (broker srv))" by (rule server_runs.holds_reachable[OF assms])
  then have "namesUnique (peers (bdb (broker srv)))" by (simp add: dbOk_def)
  from namesUniqueD[OF this] ok show ?thesis by (auto simp: dbOk_def unique_key_def)
qed

theorem server_keeps_names_unique_witness:
  "distinct (map p_ID (peers (bdb (snd (sweepRound 20 (\<lambda>_. 0) (0, \<lparr>bdb = emptyDB, nats = None, fleetMemory = []\<rparr>))))))"
proof -
  let ?b = "\<lparr>bdb = emptyDB, nats = None, fleetMemory = []\<rparr>"
  let ?s = "sampleServer\<lparr>broker := ?b\<rparr>"
  have "serverStep\<^sup>*\<^sup>* ?s (?s\<lparr>broker := snd (sweepRound 20 (\<lambda>_. 0) (0, broker ?s))\<rparr>)"
    by (rule r_into_rtranclp, rule serverStep.Sweeping)
  from server_keeps_names_unique[OF _ this] show ?thesis by simp
qed

end
