(* ===== verification/Wire.thy ===== *)
theory Wire
  imports Tools Access
begin

text \<open>
  What travels between client and broker.  \<open>wireOk\<close> states what both sides rely on of
  \<open>encoding/json\<close>: a request that the client encodes is decoded to itself by the handler, and an
  answer that the handler encodes is decoded to itself by the client.  The library replaces
  invalid UTF-8 and refuses integers that do not fit, so the laws are about values whose texts are
  valid UTF-8 and whose integers fit 64 bits.  \<open>plainCodec\<close> is a codec that meets them.
\<close>

section \<open>Values that survive the encoding\<close>

definition contByte :: "char \<Rightarrow> bool" where
  "contByte c \<longleftrightarrow> 0x80 \<le> (of_char c :: nat) \<and> (of_char c :: nat) \<le> 0xBF"

text \<open>\<open>utf8.ValidString\<close>: no overlong forms, no surrogates, nothing above U+10FFFF.\<close>

fun utf8Valid :: "string \<Rightarrow> bool" where
  "utf8Valid [] = True"
| "utf8Valid (a # r) =
     (let x = (of_char a :: nat)
      in if x < 0x80 then utf8Valid r
         else if 0xC2 \<le> x \<and> x \<le> 0xDF then
           (case r of b # r' \<Rightarrow> contByte b \<and> utf8Valid r' | [] \<Rightarrow> False)
         else if 0xE0 \<le> x \<and> x \<le> 0xEF then
           (case r of b # d # r' \<Rightarrow>
              contByte b \<and> contByte d \<and> (x = 0xE0 \<longrightarrow> 0xA0 \<le> (of_char b :: nat)) \<and>
              (x = 0xED \<longrightarrow> (of_char b :: nat) \<le> 0x9F) \<and> utf8Valid r' | _ \<Rightarrow> False)
         else if 0xF0 \<le> x \<and> x \<le> 0xF4 then
           (case r of b # d # e # r' \<Rightarrow>
              contByte b \<and> contByte d \<and> contByte e \<and> (x = 0xF0 \<longrightarrow> 0x90 \<le> (of_char b :: nat)) \<and>
              (x = 0xF4 \<longrightarrow> (of_char b :: nat) \<le> 0x8F) \<and> utf8Valid r' | _ \<Rightarrow> False)
         else False)"

definition int64 :: "int \<Rightarrow> bool" where
  "int64 i \<longleftrightarrow> - (2 ^ 63) \<le> i \<and> i < 2 ^ 63"

definition cleanMessage :: "Message \<Rightarrow> bool" where
  "cleanMessage m \<longleftrightarrow> int64 (m_ID m) \<and> int64 (m_Attempts m) \<and>
     list_all utf8Valid [m_ToAgent m, m_ToSession m, m_FromSession m, m_FromAgent m, m_Text m, m_SentAt m,
       m_DeliveredAt m, m_AckAt m, m_AckSession m]"

definition cleanPeer :: "Peer \<Rightarrow> bool" where
  "cleanPeer p \<longleftrightarrow> int64 (p_PID p) \<and>
     list_all utf8Valid [p_ID p, p_AgentName p, p_Machine p, p_CWD p, p_GitRoot p, p_TTY p, p_Project p, p_Branch p,
       p_Summary p, p_RegisteredAt p, p_LastSeen p]"

definition cleanRegister :: "RegisterRequest \<Rightarrow> bool" where
  "cleanRegister q \<longleftrightarrow> int64 (rq_PID q) \<and>
     list_all utf8Valid [rq_AgentName q, rq_Machine q, rq_CWD q, rq_GitRoot q, rq_TTY q, rq_Project q, rq_Branch q, rq_Summary q]"

text \<open>
  The second registration of a fallback decodes into the answer of the first, whose fields stay
  where the new answer leaves them out: \<open>ok\<close> is always present, an \<open>id\<close> only when it is not empty.
  The law for this answer therefore is about these two fields only.
\<close>

definition wireOk :: "codec \<Rightarrow> httpEnv \<Rightarrow> (body \<Rightarrow> string) \<Rightarrow> bool" where
  "wireOk J env render \<longleftrightarrow>
     (\<forall>q. utf8Valid (pq_ID q) \<longrightarrow> decPoll env (encPoll J q) = Inr q) \<and>
     (\<forall>q. utf8Valid (aq_SessionID q) \<and> int64 (aq_MessageID q) \<longrightarrow> decAck env (encAck J q) = Inr q) \<and>
     decListPeers env (encListPeers J listAll) = Inr listAll \<and>
     (\<forall>q. utf8Valid (hq_ID q) \<longrightarrow> decHeartbeat env (encHeartbeat J q) = Inr q) \<and>
     (\<forall>q. cleanRegister q \<longrightarrow> decRegister env (encRegister J q) = Inr q) \<and>
     (\<forall>q. list_all utf8Valid [mq_FromID q, mq_ToAgent q, mq_ToSession q, mq_Text q] \<longrightarrow> decSend env (encSend J q) = Inr q) \<and>
     (\<forall>q. utf8Valid (uq_ID q) \<longrightarrow> decUnregister env (encUnregister J q) = Inr q) \<and>
     (\<forall>q. utf8Valid (ch_Nonce q) \<longrightarrow> decChallenge env (encChallenge J q) = Inr q) \<and>
     (\<forall>r r0. list_all cleanMessage (pr_Messages r) \<longrightarrow> unPoll J (render (PollBody r)) r0 = (None, r)) \<and>
     (\<forall>ps. list_all cleanPeer ps \<longrightarrow> unPeers J (render (PeersBody ps)) [] = (None, ps)) \<and>
     (\<forall>r. int64 (mr_MessageID r) \<and> utf8Valid (mr_Error r) \<longrightarrow> unSend J (render (SendBody r)) noSend = (None, r)) \<and>
     (\<forall>r. utf8Valid (hr_Reason r) \<longrightarrow> unHeartbeat J (render (HeartbeatBody r)) noHeartbeat = (None, r)) \<and>
     (\<forall>r r0. utf8Valid (rr_ID r) \<longrightarrow> (\<exists>r'. unRegister J (render (RegisterBody r)) r0 = (None, r') \<and> rr_OK r' = rr_OK r \<and>
        (rr_ID r \<noteq> [] \<longrightarrow> rr_ID r' = rr_ID r))) \<and>
     (\<forall>r. list_all utf8Valid [cs_Nonce r, cs_Signature r, cs_PublicKey r] \<longrightarrow>
        unChallenge J (render (ChallengeBody r)) noChallenge = (None, r))"

lemma wire_requests:
  assumes "wireOk J env render"
  shows "utf8Valid i \<Longrightarrow> decPoll env (encPoll J \<lparr>pq_ID = i\<rparr>) = Inr \<lparr>pq_ID = i\<rparr>"
    and "utf8Valid i \<Longrightarrow> int64 k \<Longrightarrow>
      decAck env (encAck J \<lparr>aq_SessionID = i, aq_MessageID = k\<rparr>) = Inr \<lparr>aq_SessionID = i, aq_MessageID = k\<rparr>"
    and "decListPeers env (encListPeers J listAll) = Inr listAll"
    and "utf8Valid i \<Longrightarrow> decHeartbeat env (encHeartbeat J \<lparr>hq_ID = i\<rparr>) = Inr \<lparr>hq_ID = i\<rparr>"
    and "cleanRegister q \<Longrightarrow> decRegister env (encRegister J q) = Inr q"
    and "utf8Valid i \<Longrightarrow> decChallenge env (encChallenge J \<lparr>ch_Nonce = i\<rparr>) = Inr \<lparr>ch_Nonce = i\<rparr>"
    and "list_all utf8Valid [mq_FromID mq, mq_ToAgent mq, mq_ToSession mq, mq_Text mq] \<Longrightarrow> decSend env (encSend J mq) = Inr mq"
    and "utf8Valid i \<Longrightarrow> decUnregister env (encUnregister J \<lparr>uq_ID = i\<rparr>) = Inr \<lparr>uq_ID = i\<rparr>"
  using assms by (simp_all add: wireOk_def)

lemma wire_answers:
  assumes "wireOk J env render"
  shows "list_all cleanMessage (pr_Messages r) \<Longrightarrow> unPoll J (render (PollBody r)) r0 = (None, r)"
    and "list_all cleanPeer ps \<Longrightarrow> unPeers J (render (PeersBody ps)) [] = (None, ps)"
    and "utf8Valid (hr_Reason hr) \<Longrightarrow> unHeartbeat J (render (HeartbeatBody hr)) noHeartbeat = (None, hr)"
    and "utf8Valid (rr_ID rr) \<Longrightarrow> \<exists>rr'. unRegister J (render (RegisterBody rr)) rr0 = (None, rr') \<and> rr_OK rr' = rr_OK rr \<and>
        (rr_ID rr \<noteq> [] \<longrightarrow> rr_ID rr' = rr_ID rr)"
    and "list_all utf8Valid [cs_Nonce cr, cs_Signature cr, cs_PublicKey cr] \<Longrightarrow>
        unChallenge J (render (ChallengeBody cr)) noChallenge = (None, cr)"
    and "int64 (mr_MessageID mr) \<Longrightarrow> utf8Valid (mr_Error mr) \<Longrightarrow> unSend J (render (SendBody mr)) noSend = (None, mr)"
  using assms by (simp_all add: wireOk_def)

section \<open>A codec that meets the laws\<close>

text \<open>Every value as the JSON array of its fields, an integer as its signed decimal, a truth value as one letter.\<close>

definition intField :: "int \<Rightarrow> string" where
  "intField i = dateField (Some i)"

definition readInt :: "string \<Rightarrow> int" where
  "readInt s = (case readDate s of None \<Rightarrow> 0 | Some i \<Rightarrow> i)"

definition boolField :: "bool \<Rightarrow> string" where
  "boolField b = (if b then ''t'' else ''f'')"

lemma readInt_intField [simp]: "readInt (intField i) = i"
  by (simp add: readInt_def intField_def)

lemma boolField_eq [simp]: "boolField b = ''t'' \<longleftrightarrow> b"
  by (simp add: boolField_def)

definition messageFields :: "Message \<Rightarrow> string list" where
  "messageFields m = [intField (m_ID m), m_ToAgent m, m_ToSession m, m_FromSession m, m_FromAgent m, m_Text m, m_SentAt m,
     m_DeliveredAt m, m_AckAt m, m_AckSession m, intField (m_Attempts m)]"

definition readMessage :: "string list \<Rightarrow> Message" where
  "readMessage fs = \<lparr>m_ID = readInt (fs ! 0), m_ToAgent = fs ! 1, m_ToSession = fs ! 2, m_FromSession = fs ! 3,
     m_FromAgent = fs ! 4, m_Text = fs ! 5, m_SentAt = fs ! 6, m_DeliveredAt = fs ! 7, m_AckAt = fs ! 8,
     m_AckSession = fs ! 9, m_Attempts = readInt (fs ! 10)\<rparr>"

definition peerFields :: "Peer \<Rightarrow> string list" where
  "peerFields p = [p_ID p, p_AgentName p, intField (p_PID p), p_Machine p, p_CWD p, p_GitRoot p, p_TTY p, p_Project p,
     p_Branch p, p_Summary p, p_RegisteredAt p, p_LastSeen p]"

definition readPeer :: "string list \<Rightarrow> Peer" where
  "readPeer fs = \<lparr>p_ID = fs ! 0, p_AgentName = fs ! 1, p_PID = readInt (fs ! 2), p_Machine = fs ! 3, p_CWD = fs ! 4,
     p_GitRoot = fs ! 5, p_TTY = fs ! 6, p_Project = fs ! 7, p_Branch = fs ! 8, p_Summary = fs ! 9,
     p_RegisteredAt = fs ! 10, p_LastSeen = fs ! 11\<rparr>"

definition registerFields :: "RegisterRequest \<Rightarrow> string list" where
  "registerFields q = [rq_AgentName q, intField (rq_PID q), rq_Machine q, rq_CWD q, rq_GitRoot q, rq_TTY q, rq_Project q,
     rq_Branch q, rq_Summary q]"

definition readRegister :: "string list \<Rightarrow> RegisterRequest" where
  "readRegister fs = \<lparr>rq_AgentName = fs ! 0, rq_PID = readInt (fs ! 1), rq_Machine = fs ! 2, rq_CWD = fs ! 3,
     rq_GitRoot = fs ! 4, rq_TTY = fs ! 5, rq_Project = fs ! 6, rq_Branch = fs ! 7, rq_Summary = fs ! 8\<rparr>"

definition registeredFields :: "RegisterResponse \<Rightarrow> string list" where
  "registeredFields r = [boolField (rr_OK r), rr_ID r, rr_Error r, rr_HeldBySession r, rr_HeldByMachine r,
     rr_HeldByCWD r, rr_HeldBySince r]"

definition readRegistered :: "string list \<Rightarrow> RegisterResponse" where
  "readRegistered fs = \<lparr>rr_OK = (fs ! 0 = ''t''), rr_ID = fs ! 1, rr_Error = fs ! 2, rr_HeldBySession = fs ! 3,
     rr_HeldByMachine = fs ! 4, rr_HeldByCWD = fs ! 5, rr_HeldBySince = fs ! 6\<rparr>"

definition statusField :: "DeliveryStatus \<Rightarrow> string" where
  "statusField st = (case st of DeliveryStatusNone \<Rightarrow> [] | DeliveryStatusBound \<Rightarrow> ''bound''
     | DeliveryStatusQueuedOffline \<Rightarrow> ''queued_offline'' | DeliveryStatusQueuedUnknown \<Rightarrow> ''queued_unknown'')"

definition readStatus :: "string \<Rightarrow> DeliveryStatus" where
  "readStatus s = (if s = ''bound'' then DeliveryStatusBound else if s = ''queued_offline'' then DeliveryStatusQueuedOffline
     else if s = ''queued_unknown'' then DeliveryStatusQueuedUnknown else DeliveryStatusNone)"

lemma readStatus_field [simp]: "readStatus (statusField st) = st"
  by (cases st) (simp_all add: readStatus_def statusField_def)

definition sentFields :: "SendMessageResponse \<Rightarrow> string list" where
  "sentFields r = [boolField (mr_OK r), intField (mr_MessageID r), boolField (mr_Queued r), statusField (mr_DeliveryStatus r), mr_Error r]"

definition readSent :: "string list \<Rightarrow> SendMessageResponse" where
  "readSent fs = \<lparr>mr_OK = (fs ! 0 = ''t''), mr_MessageID = readInt (fs ! 1), mr_Queued = (fs ! 2 = ''t''),
     mr_DeliveryStatus = readStatus (fs ! 3), mr_Error = fs ! 4\<rparr>"

lemma read_fields [simp]:
  "readMessage (messageFields m) = m" "readPeer (peerFields p) = p" "readRegister (registerFields q) = q"
  "readRegistered (registeredFields r) = r" "readSent (sentFields mr) = mr"
  by (simp_all add: readMessage_def messageFields_def readPeer_def peerFields_def readRegister_def registerFields_def
      readRegistered_def registeredFields_def readSent_def sentFields_def numeral_eq_Suc)

definition rowsText :: "('a \<Rightarrow> string list) \<Rightarrow> 'a list \<Rightarrow> string" where
  "rowsText f xs = jsonStrings (map (jsonStrings \<circ> f) xs)"

definition readRows :: "(string list \<Rightarrow> 'a) \<Rightarrow> string \<Rightarrow> 'a list" where
  "readRows g s = map (g \<circ> stringsOf) (stringsOf s)"

lemma readRows_rowsText: "(\<And>x. g (f x) = x) \<Longrightarrow> readRows g (rowsText f xs) = xs"
  by (simp add: readRows_def rowsText_def o_def)

definition plainRender :: "body \<Rightarrow> string" where
  "plainRender b = (case b of
      PollBody r \<Rightarrow> rowsText messageFields (pr_Messages r)
    | PeersBody ps \<Rightarrow> rowsText peerFields ps
    | HeartbeatBody r \<Rightarrow> jsonStrings [boolField (hr_OK r), hr_Reason r]
    | RegisterBody r \<Rightarrow> jsonStrings (registeredFields r)
    | SendBody r \<Rightarrow> jsonStrings (sentFields r)
    | ChallengeBody r \<Rightarrow> jsonStrings [cs_Nonce r, cs_Signature r, cs_PublicKey r]
    | AuthErrorBody msg code \<Rightarrow> jsonStrings [msg, code]
    | ErrorText t \<Rightarrow> t
    | MarkdownBody t \<Rightarrow> t
    | _ \<Rightarrow> [])"

definition noDecoder :: "'r decoder" where
  "noDecoder s r = (Some ''not decoded'', r)"

definition plainCodec :: codec where
  "plainCodec = \<lparr>encRegister = jsonStrings \<circ> registerFields, encHeartbeat = hq_ID, encSetSummary = sq_Summary,
     encListPeers = (\<lambda>q. jsonStrings [lq_Scope q, lq_Machine q, lq_CWD q, lq_GitRoot q, lq_ExcludeID q]),
     encSend = (\<lambda>q. jsonStrings [mq_FromID q, mq_ToAgent q, mq_ToSession q, mq_Text q]), encPoll = pq_ID, encAck = (\<lambda>q. jsonStrings [aq_SessionID q, intField (aq_MessageID q)]),
     encClaim = cq_AgentName, encUnregister = uq_ID, encChallenge = ch_Nonce,
     unRegister = (\<lambda>s r. (None, readRegistered (stringsOf s))),
     unHeartbeat = (\<lambda>s r. (None, \<lparr>hr_OK = (stringsOf s ! 0 = ''t''), hr_Reason = stringsOf s ! 1\<rparr>)),
     unPeers = (\<lambda>s r. (None, readRows readPeer s)), unSend = (\<lambda>s r. (None, readSent (stringsOf s))),
     unPoll = (\<lambda>s r. (None, \<lparr>pr_Messages = readRows readMessage s\<rparr>)), unClaim = noDecoder, unHealth = noDecoder,
     unEvents = noDecoder,
     unChallenge = (\<lambda>s r. (None, \<lparr>cs_Nonce = stringsOf s ! 0, cs_Signature = stringsOf s ! 1, cs_PublicKey = stringsOf s ! 2\<rparr>)),
     unToken = Inl, encState = y_SessionID, unState = Inl\<rparr>"

definition plainHttp :: "httpEnv \<Rightarrow> httpEnv" where
  "plainHttp env = env\<lparr>decChallenge := (\<lambda>s. Inr \<lparr>ch_Nonce = s\<rparr>), decRegister := (\<lambda>s. Inr (readRegister (stringsOf s))),
     decHeartbeat := (\<lambda>s. Inr \<lparr>hq_ID = s\<rparr>),
     decAck := (\<lambda>s. Inr \<lparr>aq_SessionID = stringsOf s ! 0, aq_MessageID = readInt (stringsOf s ! 1)\<rparr>),
     decListPeers := (\<lambda>s. Inr \<lparr>lq_Scope = stringsOf s ! 0, lq_Machine = stringsOf s ! 1, lq_CWD = stringsOf s ! 2,
       lq_GitRoot = stringsOf s ! 3, lq_ExcludeID = stringsOf s ! 4\<rparr>),
     decSend := (\<lambda>s. Inr \<lparr>mq_FromID = stringsOf s ! 0, mq_ToAgent = stringsOf s ! 1, mq_ToSession = stringsOf s ! 2,
       mq_Text = stringsOf s ! 3\<rparr>),
     decPoll := (\<lambda>s. Inr \<lparr>pq_ID = s\<rparr>), decUnregister := (\<lambda>s. Inr \<lparr>uq_ID = s\<rparr>)\<rparr>"

lemma plain_wireOk: "wireOk plainCodec (plainHttp env) plainRender"
  by (auto simp: wireOk_def plainCodec_def plainHttp_def plainRender_def readRows_rowsText listAll_def numeral_eq_Suc)

end
