(* ===== verification/Session.thy ===== *)
theory Session
  imports Wire
begin

text \<open>
  The MCP server over time (\<open>runServer\<close> of \<^verbatim>\<open>src/fleet_server.go\<close>): its goroutines take turns on the
  state \<open>mcp\<close>, and what is behind the network changes between the turns.  A message is announced
  at most once however the turns interleave.
\<close>

section \<open>Turns of the server\<close>

inductive turn :: "'w clientEnv \<Rightarrow> selfInfo \<Rightarrow> 'w mcp \<Rightarrow> 'w mcp \<Rightarrow> bool"
  for E :: "'w clientEnv" and I :: selfInfo where
  Push: "turn E I v (pollAndPush E v)"
| Beat: "turn E I v (heartbeatTick E I now v)"
| Summary: "turn E I v (summaryRefresh E summary v)"
| Elsewhere: "turn E I v (v\<lparr>v_host := (v_host v)\<lparr>net := w\<rparr>\<rparr>)"

inductive mcpStep :: "'w clientEnv \<Rightarrow> selfInfo \<Rightarrow> (string \<Rightarrow> toolCall) \<Rightarrow> 'w mcp \<Rightarrow> 'w mcp \<Rightarrow> bool"
  for E :: "'w clientEnv" and I :: selfInfo and dc :: "string \<Rightarrow> toolCall" where
  Turn: "turn E I v v' \<Longrightarrow> mcpStep E I dc v v'"
| Request: "mcpStep E I dc v (handleRequest E I dc req v)"

text \<open>The ids of the messages that have been announced, in order.\<close>

fun noteID :: "mcpOutput \<Rightarrow> string option" where
  "noteID (ChannelNote txt meta) = map_of meta ''message_id''"
| "noteID _ = None"

definition noteIDs :: "mcpOutput list \<Rightarrow> string list" where
  "noteIDs out = List.map_filter noteID out"

definition announcedOnce :: "'w mcp \<Rightarrow> bool" where
  "announcedOnce v \<longleftrightarrow> distinct (noteIDs (v_out v)) \<and> set (noteIDs (v_out v)) = itoa ` v_pushed v"

lemma noteIDs_simps [simp]:
  "noteIDs [] = []" "noteIDs (out @ out') = noteIDs out @ noteIDs out'"
  "noteIDs (x # out) = (case noteID x of None \<Rightarrow> noteIDs out | Some i \<Rightarrow> i # noteIDs out)"
  by (simp_all add: noteIDs_def map_filter_def split: option.split)

lemma noteID_push [simp]: "noteID (pushNote ps m) = Some (itoa (m_ID m))"
  by (simp add: pushNote_def Let_def)

lemma itoa_inj: "itoa i = itoa j \<Longrightarrow> i = j"
proof -
  assume eq: "itoa i = itoa j"
  have "natDigits n \<noteq> CHR ''-'' # s" for n s
    using natDigits_isDigit[of "CHR ''-''" n] by (auto simp: isDigit_def)
  with eq show "i = j" by (auto simp: itoa_def natDigits_inj split: if_splits) (metis list.sel(3))+
qed

section \<open>What a turn keeps\<close>

lemma emit_simps [simp]:
  "v_out (emit x v) = v_out v @ [x]" "v_pushed (emit x v) = v_pushed v" "v_session (emit x v) = v_session v"
  "v_host (emit x v) = v_host v" "v_statePath (emit x v) = v_statePath v"
  by (simp_all add: emit_def)

lemma withHost_simps [simp]:
  "v_out (withHost h v) = v_out v" "v_pushed (withHost h v) = v_pushed v" "v_session (withHost h v) = v_session v"
  "v_host (withHost h v) = h" "v_statePath (withHost h v) = v_statePath v"
  by (simp_all add: withHost_def)

definition quiet :: "'w mcp \<Rightarrow> 'w mcp \<Rightarrow> bool" where
  "quiet v v' \<longleftrightarrow> noteIDs (v_out v') = noteIDs (v_out v) \<and> v_pushed v' = v_pushed v"

lemma quiet_announced: "quiet v v' \<Longrightarrow> announcedOnce v \<Longrightarrow> announcedOnce v'"
  by (simp add: quiet_def announcedOnce_def)

lemma quiet_emit: "noteID x = None \<Longrightarrow> quiet v (emit x (withHost h v))" "noteID x = None \<Longrightarrow> quiet v (emit x v)"
  by (simp_all add: quiet_def)

lemma rebind_quiet: "quiet v (snd (rebindToBroker E I now v))"
  by (simp add: quiet_def rebindToBroker_def split: prod.split sum.split)

lemma heartbeat_quiet: "quiet v (heartbeatTick E I now v)"
  using rebind_quiet[of "v\<lparr>v_host := h\<rparr>" E I now for h]
  by (auto simp: heartbeatTick_def quiet_def Let_def split: prod.split)

lemma tool_quiet: "quiet v (handleToolCall E I rid call v)"
  using handleToolCall_outputs[of rid v E I call] by (auto simp: toolAnswers_def quiet_emit)

lemma request_quiet: "quiet v (handleRequest E I dc req v)"
  unfolding handleRequest_def handleInitialize_def handleToolsList_def
  by (auto simp: Let_def quiet_emit tool_quiet split: prod.split) (simp_all add: quiet_def)

section \<open>The push loop\<close>

lemma pushOne_announced: "announcedOnce v \<Longrightarrow> announcedOnce (pushOne ps m v)"
  by (auto simp: announcedOnce_def pushOne_def dest: itoa_inj)

lemma push_announced: "announcedOnce v \<Longrightarrow> announcedOnce (pollAndPush E v)"
proof -
  assume a: "announcedOnce v"
  have "announcedOnce (fold (pushOne ps) ms u)" if "announcedOnce u" for ps ms and u :: "'a mcp"
    using that by (induction ms arbitrary: u) (simp_all add: pushOne_announced)
  moreover have "announcedOnce (withHost h v)" for h using a by (simp add: announcedOnce_def)
  ultimately show ?thesis by (auto simp: pollAndPush_def Let_def split: prod.split)
qed

lemma turn_announced: "turn E I v v' \<Longrightarrow> announcedOnce v \<Longrightarrow> announcedOnce v'"
proof (induction rule: turn.induct)
  case (Push v)
  then show ?case by (rule push_announced)
next
  case (Beat v now)
  then show ?case using quiet_announced heartbeat_quiet by blast
qed (auto simp: announcedOnce_def summaryRefresh_def)

lemma step_announced: "mcpStep E I dc v v' \<Longrightarrow> announcedOnce v \<Longrightarrow> announcedOnce v'"
  by (auto elim!: mcpStep.cases dest: turn_announced quiet_announced[OF request_quiet])

interpretation server_turns: inductive_invariant
  "\<lambda>v. v_out v = [] \<and> v_pushed v = {}" "mcpStep E I dc" announcedOnce for E I dc
  by unfold_locales (simp add: announcedOnce_def, rule step_announced)

lemma started: "startSession E I now h = Inr v \<Longrightarrow> v_out v = [] \<and> v_pushed v = {}"
  by (auto simp: startSession_def split: prod.splits sum.splits)

text \<open>
  C23: A message is announced at most once.  However the push loop, the heartbeats, the summary
  goroutine and the requests of the client take turns after a start, and whatever the broker answers,
  the message ids of the channel notifications are pairwise distinct, and they are exactly the ids
  the server remembers as pushed.
\<close>

theorem announced_at_most_once:
  assumes "startSession E I now h = Inr v" and "(mcpStep E I dc)\<^sup>*\<^sup>* v v'"
  shows "distinct (noteIDs (v_out v')) \<and> set (noteIDs (v_out v')) = itoa ` v_pushed v'"
  using server_turns.holds_reachable[OF started[OF assms(1)] assms(2)] by (simp add: announcedOnce_def)

text \<open>A client whose broker registers every session and always has the same message waiting.\<close>

definition agreeableClient :: "unit clientEnv" where
  "agreeableClient = \<lparr>h_cfg = defaultConfig sampleOS, h_os = sampleOS,
     h_json = plainCodec\<lparr>unPeers := (\<lambda>s r. (None, [])), unPoll := (\<lambda>s r. (None, \<lparr>pr_Messages = [\<lparr>m_ID = 1, m_ToAgent = ''bob'',
       m_ToSession = ''s1'', m_FromSession = ''s2'', m_FromAgent = ''eve'', m_Text = ''hi'', m_SentAt = ''t'', m_DeliveredAt = [],
       m_AckAt = [], m_AckSession = [], m_Attempts = 0\<rparr>]\<rparr>))\<rparr>,
     h_do = (\<lambda>q w. (Inr (200, plainRender (RegisterBody (noRegister\<lparr>rr_OK := True, rr_ID := ''s1''\<rparr>))), w))\<rparr>"

definition sampleSelf :: selfInfo where
  "sampleSelf = \<lparr>b_agent = ''bob'', b_cwd = ''/w'', b_root = [], b_tty = [], b_project = [], b_branch = [], b_summary = [],
     b_pid = 7, b_ppid = 6\<rparr>"

theorem announced_at_most_once_witness:
  "\<exists>v v'. startSession agreeableClient sampleSelf 0 \<lparr>authToken = [], disk = sampleFs [], net = ()\<rparr> = Inr v \<and>
     v' = pollAndPush agreeableClient (pollAndPush agreeableClient v) \<and>
     distinct (noteIDs (v_out v')) \<and> noteIDs (v_out v') = [itoa 1]"
proof -
  let ?r = "noRegister\<lparr>rr_OK := True, rr_ID := ''s1''\<rparr>" and ?h = "\<lparr>authToken = [], disk = sampleFs [], net = ()\<rparr>"
  have "fetchRegister agreeableClient q r ?h = ((None, ?r), ?h)" for q r
    by (simp add: fetchRegister_def cliFetch_def cliFetchOnce_def send_request_def readAnswer_def agreeableClient_def
        plainCodec_def plainRender_def)
  then have "\<exists>v. startSession agreeableClient sampleSelf 0 ?h = Inr v"
    by (simp add: startSession_def registerWithFallback_def startMsgs_def split: prod.split)
  then obtain v where v: "startSession agreeableClient sampleSelf 0 ?h = Inr v" ..
  let ?v' = "pollAndPush agreeableClient (pollAndPush agreeableClient v)"
  have "mcpStep agreeableClient sampleSelf dc u (pollAndPush agreeableClient u)" for u by (intro mcpStep.Turn turn.Push)
  then have "(mcpStep agreeableClient sampleSelf dc)\<^sup>*\<^sup>* v ?v'" by (meson rtranclp.rtrancl_into_rtrancl rtranclp.rtrancl_refl)
  note once = announced_at_most_once[OF v this]
  have "v_pushed ?v' = {1}"
    using started[OF v] by (simp add: pollAndPush_def pushOne_def fetchPoll_def fetchPeers_def cliFetch_def cliFetchOnce_def
        send_request_def readAnswer_def agreeableClient_def)
  with once have "noteIDs (v_out ?v') = [itoa 1]" by (cases "noteIDs (v_out ?v')") (auto simp: subset_singleton_iff)
  with v once show ?thesis by blast
qed

end
