(* ===== verification/Link.thy ===== *)
theory Link
  imports Wire Session
begin

text \<open>
  Client and broker together.  \<open>brokerDo\<close> is a network behind which the broker of \<^verbatim>\<open>src/broker_core.go\<close>
  answers: a request is served by \<open>serve\<close>, one at a time, and the answer is rendered back.  The
  interface \<open>broker_link\<close> says what a client with a valid token can rely on from the endpoints it
  calls; the tools of the MCP server are proved against the interface, and the interface is proved
  for \<open>brokerDo\<close>.
\<close>

section \<open>The broker as a network\<close>

record world =
  w_server :: server
  w_count :: nat

text \<open>
  \<open>l_clk n\<close> and \<open>l_rnd n\<close> are the clock readings and the random bytes of request number \<open>n\<close>,
  \<open>l_addr\<close> is the client's address as the broker sees it.
\<close>

record link =
  l_env :: httpEnv
  l_clk :: "nat \<Rightarrow> clock"
  l_rnd :: "nat \<Rightarrow> bytes"
  l_render :: "body \<Rightarrow> string"
  l_base :: string
  l_addr :: string

definition toRequest :: "link \<Rightarrow> httpRequest \<Rightarrow> request" where
  "toRequest L q =
     (let target = drop (length (l_base L)) (r_URL q); path = takeWhile (\<lambda>c. c \<noteq> CHR ''?'') target
      in \<lparr>q_Method = r_Method q, q_Path = path, q_Authorization = r_Auth q, q_RemoteAddr = l_addr L, q_Body = r_Body q,
          q_Limit = trimPrefix (drop (length path) target) ''?limit=''\<rparr>)"

definition brokerDo :: "link \<Rightarrow> httpRequest \<Rightarrow> world \<Rightarrow> (string + int \<times> string) \<times> world" where
  "brokerDo L q w =
     (case serve (l_env L) (l_clk L (w_count w)) (l_rnd L (w_count w)) (toRequest L q) (w_server w) of
        Panic m \<Rightarrow> (Inl ''EOF'', w\<lparr>w_count := Suc (w_count w)\<rparr>)
      | Ret (resp, srv) \<Rightarrow> (Inr (status resp, l_render L (payload resp)), \<lparr>w_server = srv, w_count = Suc (w_count w)\<rparr>))"

abbreviation dbOf :: "world \<Rightarrow> db" where
  "dbOf w \<equiv> bdb (broker (w_server w))"

section \<open>The interface\<close>

definition ackedBy :: "string \<Rightarrow> string \<Rightarrow> messageRow \<Rightarrow> messageRow" where
  "ackedBy now i m = m\<lparr>w_ack_at := Some now, w_ack_session := Some i\<rparr>"

text \<open>
  The row of a message before and after \<open>check_messages\<close> of session \<open>i\<close>: a message that was waiting is
  delivered to it and acknowledged by it, and any other is left alone.
\<close>

definition drained :: "string \<Rightarrow> string \<Rightarrow> messageRow \<Rightarrow> messageRow \<Rightarrow> bool" where
  "drained i name m m' \<longleftrightarrow> (if waitingFor i name m then \<exists>t u. m' = ackedBy u i (marked t i m) else m' = m)"

definition ackRel :: "string \<Rightarrow> int set \<Rightarrow> messageRow \<Rightarrow> messageRow \<Rightarrow> bool" where
  "ackRel i K r r' \<longleftrightarrow> (if w_id r \<in> K \<and> w_to_session r = i then \<exists>u. r' = ackedBy u i r else r' = r)"

lemma ackRel_step:
  "ackRel i K (if w_id r = k \<and> w_to_session r = i then ackedBy now i r else r) r' \<Longrightarrow> ackRel i (insert k K) r r'"
  by (cases "w_id r = k \<and> w_to_session r = i"; cases "w_id r \<in> K") (auto simp: ackRel_def ackedBy_def)

lemma drained_served: "drained i n m m' \<Longrightarrow> \<not> waitingFor i n m'"
  by (auto simp: drained_def waitingFor_def ackedBy_def marked_def split: if_splits)

lemma drained_acked:
  assumes "ackRel i K (if waitingFor i n m then marked now i m else m) m'" and "w_id m \<in> K \<longleftrightarrow> waitingFor i n m"
  shows "drained i n m m'"
  using assms by (cases "waitingFor i n m") (auto simp: drained_def ackRel_def marked_def)

lemma list_all2_right: "list_all2 R xs ys \<Longrightarrow> y \<in> set ys \<Longrightarrow> \<exists>x \<in> set xs. R x y"
  by (induction rule: list_all2_induct) auto

lemma list_all2_left: "list_all2 R xs ys \<Longrightarrow> x \<in> set xs \<Longrightarrow> \<exists>y \<in> set ys. R x y"
  by (induction rule: list_all2_induct) auto

lemma waiting_id_iff:
  assumes "dbErr d = None" and "dbOk d" and "m \<in> set (messages d)"
  shows "w_id m \<in> m_ID ` set (waitingMessages i d) \<longleftrightarrow> waitingFor i (agentNameOf i d) m"
proof -
  have "m_ID ` set (waitingMessages i d) = w_id ` {m \<in> set (messages d). waitingFor i (agentNameOf i d) m}"
    by (simp add: waiting_up[OF assms(1)] image_image scanMessage_def)
  moreover have "inj_on w_id (set (messages d))" using dbOk_msg_ids[OF assms(2)] by blast
  ultimately show ?thesis using assms(3) by (auto dest: inj_onD)
qed

locale broker_link =
  fixes E :: "'w clientEnv"
    and view :: "'w \<Rightarrow> db"
    and linked :: "'w host \<Rightarrow> bool"
    and i :: string
  assumes up: "linked h \<Longrightarrow> dbErr (view (net h)) = None \<and> dbOk (view (net h))"
    and poll: "linked h \<Longrightarrow> \<exists>h' now. fetchPoll E ''/poll-messages'' i h =
        ((None, \<lparr>pr_Messages = waitingMessages i (view (net h))\<rparr>), h') \<and> linked h' \<and>
        peers (view (net h')) = peers (view (net h)) \<and>
        messages (view (net h')) = update_where (waitingFor i (agentNameOf i (view (net h)))) (marked now i) (messages (view (net h)))"
    and peek: "linked h \<Longrightarrow> \<exists>h'. fetchPoll E ''/peek-messages'' i h =
        ((None, \<lparr>pr_Messages = waitingMessages i (view (net h))\<rparr>), h') \<and> linked h' \<and>
        peers (view (net h')) = peers (view (net h)) \<and> messages (view (net h')) = messages (view (net h))"
    and list: "linked h \<Longrightarrow> \<exists>h'. fetchPeers E listAll h = ((None, peers (view (net h))), h') \<and> linked h' \<and>
        peers (view (net h')) = peers (view (net h)) \<and> messages (view (net h')) = messages (view (net h))"
    and ack: "linked h \<Longrightarrow> int64 (m_ID m) \<Longrightarrow> \<exists>now. linked (ackOne E i m h) \<and>
        peers (view (net (ackOne E i m h))) = peers (view (net h)) \<and>
        messages (view (net (ackOne E i m h))) =
          update_where (\<lambda>r. w_id r = m_ID m \<and> w_to_session r = i) (ackedBy now i) (messages (view (net h)))"
    and ids: "linked h \<Longrightarrow> m \<in> set (waitingMessages i (view (net h))) \<Longrightarrow> int64 (m_ID m)"
begin

lemma acks:
  assumes "linked h" and "\<forall>m \<in> set ms. int64 (m_ID m)"
  shows "linked (fold (ackOne E i) ms h) \<and> peers (view (net (fold (ackOne E i) ms h))) = peers (view (net h)) \<and>
    list_all2 (ackRel i (m_ID ` set ms)) (messages (view (net h))) (messages (view (net (fold (ackOne E i) ms h))))"
  using assms
proof (induction ms arbitrary: h)
  case Nil
  then show ?case by (simp add: list_all2_same ackRel_def)
next
  case (Cons m ms)
  let ?h = "ackOne E i m h"
  obtain now where a: "linked ?h" "peers (view (net ?h)) = peers (view (net h))"
      "messages (view (net ?h)) = update_where (\<lambda>r. w_id r = m_ID m \<and> w_to_session r = i) (ackedBy now i) (messages (view (net h)))"
    using ack[OF Cons.prems(1), of m] Cons.prems(2) by auto
  have "list_all2 (ackRel i (m_ID ` set (m # ms))) (messages (view (net h))) (messages (view (net (fold (ackOne E i) ms ?h))))"
    using Cons.IH[OF a(1)] Cons.prems(2) unfolding a(3) update_where_def list_all2_map1
    by (auto elim!: list_all2_mono dest: ackRel_step)
  with Cons.IH[OF a(1)] Cons.prems(2) a(2) show ?case by simp
qed

text \<open>\<open>check_messages\<close> shows all that waits, and leaves nothing waiting.\<close>

lemma nothing_waits:
  assumes "linked h'" and "peers (view (net h')) = peers (view (net h))" and "linked h"
    and "list_all2 (drained i (agentNameOf i (view (net h)))) (messages (view (net h))) (messages (view (net h')))"
  shows "waitingMessages i (view (net h')) = []"
proof -
  let ?d = "view (net h)" and ?d' = "view (net h')"
  have name: "agentNameOf i ?d' = agentNameOf i ?d"
    using up[OF assms(1)] up[OF assms(3)] assms(2) by (intro agentNameOf_cong) auto
  have "\<not> waitingFor i (agentNameOf i ?d) m'" if "m' \<in> set (messages ?d')" for m'
    using list_all2_right[OF assms(4) that] drained_served by blast
  then have "x \<notin> set (waitingMessages i ?d')" for x using in_waiting_iff[of ?d' x i] up[OF assms(1)] name by auto
  then show ?thesis by (metis list.set_intros(1) neq_Nil_conv)
qed

lemma check_messages:
  assumes "linked (v_host v)" and "v_session v = Some i"
    and "d = view (net (v_host v))" and "v' = toolCheckMessages E rid v" and "d' = view (net (v_host v'))"
  shows "linked (v_host v') \<and> waitingMessages i d' = [] \<and> peers d' = peers d \<and>
    list_all2 (drained i (agentNameOf i d)) (messages d) (messages d') \<and>
    v_out v' = v_out v @ [ToolResult rid (if waitingMessages i d = [] then ''No new messages.''
      else messagesReport (peers d) (waitingMessages i d))]"
proof -
  let ?ms = "waitingMessages i d"
  have u: "dbErr d = None" "dbOk d" using up[OF assms(1)] assms(3) by auto
  obtain h1 now where p: "fetchPoll E ''/poll-messages'' i (v_host v) = ((None, \<lparr>pr_Messages = ?ms\<rparr>), h1)" "linked h1"
      "peers (view (net h1)) = peers d"
      "messages (view (net h1)) = update_where (waitingFor i (agentNameOf i d)) (marked now i) (messages d)"
    using poll[OF assms(1)] assms(3) by blast
  obtain h2 where l: "fetchPeers E listAll h1 = ((None, peers d), h2)" "linked h2" "peers (view (net h2)) = peers d"
      "messages (view (net h2)) = messages (view (net h1))"
    using list[OF p(2)] p(3) by auto
  let ?h3 = "fold (ackOne E i) ?ms h2"
  have cl: "\<forall>m \<in> set ?ms. int64 (m_ID m)" using ids[OF assms(1)] assms(3) by blast
  have out: "v' = (if ?ms = [] then emit (ToolResult rid ''No new messages.'') (withHost h1 v)
      else emit (ToolResult rid (messagesReport (peers d) ?ms)) (withHost ?h3 v))"
    using p(1) l(1) assms(2,4) by (simp add: toolCheckMessages_def sessionGet_def Let_def)
  note id = waiting_id_iff[OF u]
  show ?thesis
  proof (cases "?ms = []")
    case True
    then have "\<not> waitingFor i (agentNameOf i d) m" if "m \<in> set (messages d)" for m using id[OF that, of i] by simp
    then have "list_all2 (drained i (agentNameOf i d)) (messages d) (messages (view (net h1)))"
      by (simp add: p(4) update_where_def list_all2_map2 list_all2_same drained_def)
    with nothing_waits[OF p(2) _ assms(1)] True p out assms(3,5) show ?thesis by auto
  next
    case False
    note a = acks[OF l(2) cl]
    have "list_all2 (drained i (agentNameOf i d)) (messages d) (messages (view (net ?h3)))"
      using a l(4) p(4) unfolding update_where_def
      by (auto simp: list_all2_map1 elim!: list.rel_mono_strong intro: drained_acked[OF _ id])
    with nothing_waits[of ?h3 "v_host v"] False a l(3) out assms(1,3,5) show ?thesis by auto
  qed
qed

text \<open>The push loop announces what waits and has not been announced, and takes nothing.\<close>

lemma fold_pushOne:
  assumes "distinct (map m_ID ms)"
  shows "v_out (fold (pushOne ps) ms v) = v_out v @ map (pushNote ps) (filter (\<lambda>m. m_ID m \<notin> v_pushed v) ms) \<and>
    v_pushed (fold (pushOne ps) ms v) = v_pushed v \<union> m_ID ` set ms \<and>
    v_host (fold (pushOne ps) ms v) = v_host v \<and> v_session (fold (pushOne ps) ms v) = v_session v"
  using assms
proof (induction ms arbitrary: v)
  case (Cons m ms)
  have "filter (\<lambda>x. m_ID x \<noteq> m_ID m \<and> m_ID x \<notin> v_pushed v) ms = filter (\<lambda>x. m_ID x \<notin> v_pushed v) ms"
    using Cons.prems by (intro filter_cong) (auto, metis image_eqI)
  with Cons show ?case by (auto simp: pushOne_def)
qed simp

lemma push_round:
  assumes "linked (v_host v)" and "v_session v = Some i"
    and "d = view (net (v_host v))" and "v' = pollAndPush E v" and "d' = view (net (v_host v'))"
  shows "linked (v_host v') \<and> messages d' = messages d \<and> peers d' = peers d \<and>
    v_out v' = v_out v @ map (pushNote (peers d)) (filter (\<lambda>m. m_ID m \<notin> v_pushed v) (waitingMessages i d)) \<and>
    v_pushed v' = v_pushed v \<union> m_ID ` set (waitingMessages i d) \<and> v_session v' = v_session v"
proof -
  let ?ms = "waitingMessages i d"
  obtain h1 where p: "fetchPoll E ''/peek-messages'' i (v_host v) = ((None, \<lparr>pr_Messages = ?ms\<rparr>), h1)" "linked h1"
      "peers (view (net h1)) = peers d" "messages (view (net h1)) = messages d"
    using peek[OF assms(1)] assms(3) by blast
  obtain h2 where l: "fetchPeers E listAll h1 = ((None, peers d), h2)" "linked h2" "peers (view (net h2)) = peers d"
      "messages (view (net h2)) = messages d"
    using list[OF p(2)] p(3,4) by auto
  have dist: "distinct (map m_ID ?ms)" using up[OF assms(1)] assms(3) waiting_ids_distinct by blast
  have "v' = (if ?ms = [] then withHost h1 v else fold (pushOne (peers d)) ?ms (withHost h2 v))"
    using p(1) l(1) assms(2,4) by (simp add: pollAndPush_def sessionGet_def Let_def)
  with fold_pushOne[OF dist, of "peers d" "withHost h2 v"] p l assms(5) show ?thesis by auto
qed

end

section \<open>The interface holds behind the broker\<close>

definition answered :: "link \<Rightarrow> nat \<Rightarrow> response \<times> server \<Rightarrow> (string + int \<times> string) \<times> world" where
  "answered L n r = (Inr (status (fst r), l_render L (payload (fst r))), \<lparr>w_server = snd r, w_count = Suc n\<rparr>)"

text \<open>
  A client of the broker with a token that stays valid: the token parses at every request, its
  capabilities include those of a peer session, and its delegation is known to the validator.
\<close>

definition mayCall :: "link \<Rightarrow> world clientEnv \<Rightarrow> string \<Rightarrow> UCANClaims \<Rightarrow> bool" where
  "mayCall L E tok c \<longleftrightarrow> h_do E = brokerDo L \<and> l_base L = g_BrokerURL (h_cfg E) \<and>
     wireOk (h_json E) (l_env L) (l_render L) \<and> tok \<noteq> [] \<and> set (resources PeerSessionCapabilities) \<subseteq> capSet c \<and>
     (\<forall>n. parseWithClaims (jwt (l_env L)) (l_clk L n 0) (Some (30 * second)) issuerKey tok = Inr c)"

definition ready :: "UCANClaims \<Rightarrow> server \<Rightarrow> bool" where
  "ready c srv \<longleftrightarrow> (\<exists>v. validator srv = Some v \<and> chainError v c = None) \<and>
     dbErr (bdb (broker srv)) = None \<and> dbOk (bdb (broker srv))"

definition linkedTo :: "link \<Rightarrow> world clientEnv \<Rightarrow> string \<Rightarrow> UCANClaims \<Rightarrow> string \<Rightarrow> world host \<Rightarrow> bool" where
  "linkedTo L E tok c i h \<longleftrightarrow> mayCall L E tok c \<and> authToken h = tok \<and> ready c (w_server (net h)) \<and> utf8Valid i \<and>
     list_all cleanMessage (waitingMessages i (dbOf (net h))) \<and> list_all cleanPeer (peers (dbOf (net h)))"

lemma linked_wire:
  assumes "linkedTo L E tok c i h"
  shows "wireOk (h_json E) (l_env L) (l_render L)" "utf8Valid i" "list_all cleanMessage (waitingMessages i (dbOf (net h)))"
    "list_all cleanPeer (peers (dbOf (net h)))"
  using assms by (simp_all add: linkedTo_def mayCall_def)

lemma chainError_registered:
  assumes "chainError v c = None"
  shows "chainError (fst (RegisterToken L save now tok (c_Capabilities c) (v, p))) c = None"
proof -
  have "capSet c \<subseteq> set (resources (c_Capabilities c))" by (simp add: capSet_def resources_def)
  with assms show ?thesis by (auto simp: chainError_None RegisterToken_def Let_def)
qed

lemma RegisterToken_up: "dbErr (snd (RegisterToken L Save now tok caps vd)) = dbErr (snd vd)"
  by (cases vd) (simp add: RegisterToken_def Let_def persistKnown_def Save_def)

text \<open>One authorised exchange: the handler runs on the server with the token noted.\<close>

lemma exchange:
  assumes "mayCall L E tok c" and "ready c (w_server w)"
    and "\<And>req. q_Path req = path \<Longrightarrow> q_Method req = ''POST'' \<Longrightarrow> matching req = [(path, ''POST'', Some cap, hnd)]"
    and "path \<notin> set openPaths" and "CHR ''?'' \<notin> set path" and "cap \<in> set (resources PeerSessionCapabilities)"
  obtains srv req where "ready c srv" "sessionState srv = sessionState (w_server w)" "q_Body req = b" "q_RemoteAddr req = l_addr L"
    "h_do E (apiRequest E path (Some b) tok) w =
       answered L (w_count w)
         (hnd (l_env L) (later 1 (l_clk L (w_count w))) (l_rnd L (w_count w)) (Some c) req srv)"
proof -
  let ?clk = "l_clk L (w_count w)" and ?d = "dbOf w" and ?J = "jwt (l_env L)"
  obtain v where v: "validator (w_server w) = Some v" "chainError v c = None" using assms(2) by (auto simp: ready_def)
  define vd where "vd = RegisterToken ?J Save (?clk 0) tok (c_Capabilities c) (v, ?d)"
  let ?srv = "withTokens (w_server w) vd"
  let ?q = "toRequest L (apiRequest E path (Some b) tok)"
  have val: "Validate ?J Save (?clk 0) tok (v, ?d) = (Inr c, vd)"
    using assms(1) v(2) by (simp add: mayCall_def Validate_def accept_def vd_def)
  have tw: "takeWhile (\<lambda>x. x \<noteq> CHR ''?'') path = path"
    using assms(5) by (simp add: takeWhile_eq_all_conv) metis
  have q: "q_Path ?q = path" "q_Method ?q = ''POST''" "q_Authorization ?q = ''Bearer '' @ tok" "q_Body ?q = b" "q_RemoteAddr ?q = l_addr L"
    using assms(1) tw by (simp_all add: toRequest_def apiRequest_def bearer_def mayCall_def Let_def)
  have auth: "q_Authorization ?q \<noteq> []" "trimPrefix (q_Authorization ?q) ''Bearer '' = tok" "tok \<noteq> q_Authorization ?q"
    unfolding q(3) by (simp, rule trimPrefix_append, metis append_self_conv2 list.distinct(1))
  have has: "HasCapability c cap" using assms(1,6) by (auto simp: HasCapability_iff mayCall_def)
  have "serve (l_env L) ?clk (l_rnd L (w_count w)) ?q (w_server w) =
      Ret (hnd (l_env L) (later 1 ?clk) (l_rnd L (w_count w)) (Some c) ?q ?srv)"
    using assms(3)[OF q(1,2)] assms(4) q(1) auth has val v(1)
    by (simp add: serve_def ucanMiddleware_def validateOpt_def mux_matched dispatch_def requireCapability_def Let_def)
  moreover have "ready c ?srv"
    using assms(2) chainError_registered[OF v(2)] RegisterToken_up[of ?J "?clk 0" tok "c_Capabilities c" "(v, ?d)"]
      statements.holds_steps[OF RegisterToken_steps[of ?d ?J "?clk 0" tok "c_Capabilities c" v]]
    by (simp add: ready_def vd_def)
  moreover have "sessionState ?srv = sessionState (w_server w)"
    by (rule withTokens_state) (simp add: vd_def Register_tables)
  ultimately show thesis
    using that[of ?srv ?q] q assms(1) by (simp add: mayCall_def brokerDo_def answered_def split: prod.split)
qed

lemma fetch_ok:
  assumes "h_do E (apiRequest E path (Some b) (authToken h)) (net h) = (Inr (200, t), w')" and "d t r = (None, r')"
  shows "cliFetch E path (Some b) (Some d) r h = ((None, r'), h\<lparr>net := w'\<rparr>)"
  using assms by (simp add: cliFetch_def cliFetchOnce_def send_request_def readAnswer_def)

lemma fetchNil_ok:
  assumes "h_do E (apiRequest E path (Some b) (authToken h)) (net h) = (Inr (200, t), w')"
  shows "fetchNil E path b h = (None, h\<lparr>net := w'\<rparr>)"
  using assms by (simp add: fetchNil_def cliFetch_def cliFetchOnce_def send_request_def readAnswer_def Let_def)

lemma the_routes:
  "q_Path req = ''/poll-messages'' \<Longrightarrow> q_Method req = ''POST'' \<Longrightarrow> matching req = [(''/poll-messages'', ''POST'', Some ''msg/poll'', handlePoll)]"
  "q_Path req = ''/peek-messages'' \<Longrightarrow> q_Method req = ''POST'' \<Longrightarrow> matching req = [(''/peek-messages'', ''POST'', Some ''msg/poll'', handlePeek)]"
  "q_Path req = ''/ack-message'' \<Longrightarrow> q_Method req = ''POST'' \<Longrightarrow> matching req = [(''/ack-message'', ''POST'', Some ''msg/ack'', handleAck)]"
  "q_Path req = ''/list-peers'' \<Longrightarrow> q_Method req = ''POST'' \<Longrightarrow> matching req = [(''/list-peers'', ''POST'', Some ''peer/list'', handleListPeers)]"
  "q_Path req = ''/heartbeat'' \<Longrightarrow> q_Method req = ''POST'' \<Longrightarrow> matching req = [(''/heartbeat'', ''POST'', Some ''peer/heartbeat'', handleHeartbeat)]"
  "q_Path req = ''/register'' \<Longrightarrow> q_Method req = ''POST'' \<Longrightarrow> matching req = [(''/register'', ''POST'', Some ''peer/register'', handleRegister)]"
  by (simp_all add: matching_def routes_def methodMatches_def)

lemma closed_paths:
  "''/poll-messages'' \<notin> set openPaths" "CHR ''?'' \<notin> set ''/poll-messages''"
  "''/peek-messages'' \<notin> set openPaths" "CHR ''?'' \<notin> set ''/peek-messages''"
  "''/ack-message'' \<notin> set openPaths" "CHR ''?'' \<notin> set ''/ack-message''"
  "''/list-peers'' \<notin> set openPaths" "CHR ''?'' \<notin> set ''/list-peers''"
  "''/heartbeat'' \<notin> set openPaths" "CHR ''?'' \<notin> set ''/heartbeat''"
  "''/register'' \<notin> set openPaths" "CHR ''?'' \<notin> set ''/register''"
  by (simp_all add: openPaths_def)

lemma peer_caps:
  "''msg/poll'' \<in> set (resources PeerSessionCapabilities)"
  "''msg/ack'' \<in> set (resources PeerSessionCapabilities)"
  "''peer/list'' \<in> set (resources PeerSessionCapabilities)"
  "''peer/heartbeat'' \<in> set (resources PeerSessionCapabilities)"
  "''peer/register'' \<in> set (resources PeerSessionCapabilities)"
  by (simp_all add: PeerSessionCapabilities_def capsOf_def resources_def)

lemma same_views:
  assumes "sessionState srv = sessionState srv'" and "ready c srv" and "ready c srv'"
  shows "peers (bdb (broker srv)) = peers (bdb (broker srv'))" "messages (bdb (broker srv)) = messages (bdb (broker srv'))"
    "agentNameOf i (bdb (broker srv)) = agentNameOf i (bdb (broker srv'))"
    "waitingMessages i (bdb (broker srv)) = waitingMessages i (bdb (broker srv'))"
proof -
  show p: "peers (bdb (broker srv)) = peers (bdb (broker srv'))" and m: "messages (bdb (broker srv)) = messages (bdb (broker srv'))"
    using assms(1) by (simp_all add: sessionState_def sessionTables_def)
  show n: "agentNameOf i (bdb (broker srv)) = agentNameOf i (bdb (broker srv'))"
    using assms(2,3) p by (intro agentNameOf_cong) (simp_all add: ready_def)
  show "waitingMessages i (bdb (broker srv)) = waitingMessages i (bdb (broker srv'))"
    using assms(2,3) m n by (simp add: ready_def waiting_up)
qed

lemma ready_broker:
  assumes "ready c srv" and "dbErr (bdb b) = dbErr (bdb (broker srv))" and "dbStep\<^sup>*\<^sup>* (bdb (broker srv)) (bdb b)"
  shows "ready c (srv\<lparr>broker := b\<rparr>)"
  using assms statements.holds_steps[OF assms(3)] by (simp add: ready_def)

lemma marked_not_waiting: "\<not> waitingFor i n (marked t i' m)"
  by (simp add: waitingFor_def marked_def)

lemma poll_leaves_nothing:
  assumes "dbErr (bdb b) = None" and "dbOk (bdb b)" and "b' = snd (pollMessages clk req b)"
  shows "waitingMessages (pq_ID req) (bdb b') = []"
proof -
  have up: "dbErr (bdb b') = None" using assms by (simp add: pollMessages_db)
  have name: "agentNameOf (pq_ID req) (bdb b') = agentNameOf (pq_ID req) (bdb b)"
    by (rule agentNameOf_cong) (simp_all add: assms(3), simp add: pollMessages_db)
  have "\<not> waitingFor (pq_ID req) (agentNameOf (pq_ID req) (bdb b)) m" if "m \<in> set (messages (bdb b'))" for m
    using that poll_messages[OF assms(1,2), of clk req, folded assms(3)]
    by (auto simp: in_update_where marked_not_waiting split: if_splits) (metis marked_not_waiting)
  then have "x \<notin> set (waitingMessages (pq_ID req) (bdb b'))" for x
    by (auto simp: in_waiting_iff[OF up] name)
  then show ?thesis by (metis list.set_intros(1) neq_Nil_conv)
qed

lemma poll_served:
  assumes "linkedTo L E tok c i h"
  shows "\<exists>h' now. fetchPoll E ''/poll-messages'' i h = ((None, \<lparr>pr_Messages = waitingMessages i (dbOf (net h))\<rparr>), h') \<and>
    linkedTo L E tok c i h' \<and> peers (dbOf (net h')) = peers (dbOf (net h)) \<and>
    messages (dbOf (net h')) = update_where (waitingFor i (agentNameOf i (dbOf (net h)))) (marked now i) (messages (dbOf (net h)))"
proof -
  let ?n = "w_count (net h)" and ?b = "encPoll (h_json E) \<lparr>pq_ID = i\<rparr>"
  have m: "mayCall L E tok c" "ready c (w_server (net h))" "authToken h = tok" using assms by (simp_all add: linkedTo_def)
  obtain srv req where x: "ready c srv" "sessionState srv = sessionState (w_server (net h))" "q_Body req = ?b"
      "q_RemoteAddr req = l_addr L"
      "h_do E (apiRequest E ''/poll-messages'' (Some ?b) tok) (net h) =
         answered L ?n (handlePoll (l_env L) (later 1 (l_clk L ?n)) (l_rnd L ?n) (Some c) req srv)"
    by (rule exchange[OF m(1,2) the_routes(1) closed_paths(1,2) peer_caps(1)])
  note views = same_views[OF x(2,1) m(2)]
  define b' where "b' = snd (pollMessages (later 1 (l_clk L ?n)) \<lparr>pq_ID = i\<rparr> (broker srv))"
  have up: "dbErr (bdb (broker srv)) = None" "dbOk (bdb (broker srv))" using x(1) by (simp_all add: ready_def)
  note wire = linked_wire[OF assms]
  have hnd: "handlePoll (l_env L) (later 1 (l_clk L ?n)) (l_rnd L ?n) (Some c) req srv =
      (writeJSON (PollBody \<lparr>pr_Messages = waitingMessages i (dbOf (net h))\<rparr>), srv\<lparr>broker := b'\<rparr>)"
    using x(3) wire views(4)[of i] by (simp add: wire_requests(1) handlePoll_def decodeBody_def pollMessages_def b'_def Let_def)
  let ?h = "h\<lparr>net := \<lparr>w_server = srv\<lparr>broker := b'\<rparr>, w_count = Suc ?n\<rparr>\<rparr>"
  have "fetchPoll E ''/poll-messages'' i h = ((None, \<lparr>pr_Messages = waitingMessages i (dbOf (net h))\<rparr>), ?h)"
    unfolding fetchPoll_def
    by (rule fetch_ok[where t = "l_render L (PollBody \<lparr>pr_Messages = waitingMessages i (dbOf (net h))\<rparr>)"])
      (use x(5) hnd m(3) wire in \<open>simp_all add: answered_def writeJSON_def respond_def wire_answers(1)[OF wire(1)]\<close>)
  moreover have "ready c (srv\<lparr>broker := b'\<rparr>)"
    by (rule ready_broker[OF x(1)]) (simp_all add: b'_def pollMessages_db dbStep_execAll del: execAll_simps)
  moreover have "messages (bdb b') = update_where (waitingFor i (agentNameOf i (dbOf (net h))))
      (marked (nowISO (l_clk L ?n 1)) i) (messages (dbOf (net h)))"
    using poll_messages[OF up, of "later 1 (l_clk L ?n)" "\<lparr>pq_ID = i\<rparr>"] views by (simp add: b'_def later_def)
  moreover have "waitingMessages i (bdb b') = []"
    using poll_leaves_nothing[OF up b'_def] by simp
  moreover have "peers (bdb b') = peers (dbOf (net h))" using views(1) by (simp add: b'_def)
  ultimately show ?thesis using assms by (auto simp: linkedTo_def)
qed

lemma reading_served:
  assumes "linkedTo L E tok c i h" and "h_do E (apiRequest E path (Some b) tok) (net h) = answered L n (resp, srv)"
    and "ready c srv" and "sessionState srv = sessionState (w_server (net h))"
    and "status resp = 200" and "dec (l_render L (payload resp)) r0 = (None, r)"
  shows "\<exists>h'. cliFetch E path (Some b) (Some dec) r0 h = ((None, r), h') \<and> linkedTo L E tok c i h' \<and>
    peers (dbOf (net h')) = peers (dbOf (net h)) \<and> messages (dbOf (net h')) = messages (dbOf (net h)) \<and>
    sessionState (w_server (net h')) = sessionState (w_server (net h))"
proof -
  have m: "ready c (w_server (net h))" "authToken h = tok" using assms(1) by (simp_all add: linkedTo_def)
  have "cliFetch E path (Some b) (Some dec) r0 h = ((None, r), h\<lparr>net := \<lparr>w_server = srv, w_count = Suc n\<rparr>\<rparr>)"
    by (rule fetch_ok[where t = "l_render L (payload resp)"]) (use assms m in \<open>simp_all add: answered_def\<close>)
  moreover note same_views[OF assms(4,3) m(1)]
  ultimately show ?thesis using assms(1,3,4) by (auto simp: linkedTo_def)
qed

lemma peek_served:
  assumes "linkedTo L E tok c i h"
  shows "\<exists>h'. fetchPoll E ''/peek-messages'' i h = ((None, \<lparr>pr_Messages = waitingMessages i (dbOf (net h))\<rparr>), h') \<and>
    linkedTo L E tok c i h' \<and> peers (dbOf (net h')) = peers (dbOf (net h)) \<and> messages (dbOf (net h')) = messages (dbOf (net h)) \<and>
    sessionState (w_server (net h')) = sessionState (w_server (net h))"
proof -
  let ?n = "w_count (net h)" and ?b = "encPoll (h_json E) \<lparr>pq_ID = i\<rparr>"
  have m: "mayCall L E tok c" "ready c (w_server (net h))" using assms by (simp_all add: linkedTo_def)
  obtain srv req where x: "ready c srv" "sessionState srv = sessionState (w_server (net h))" "q_Body req = ?b"
      "q_RemoteAddr req = l_addr L"
      "h_do E (apiRequest E ''/peek-messages'' (Some ?b) tok) (net h) =
         answered L ?n (handlePeek (l_env L) (later 1 (l_clk L ?n)) (l_rnd L ?n) (Some c) req srv)"
    by (rule exchange[OF m(1,2) the_routes(2) closed_paths(3,4) peer_caps(1)])
  note wire = linked_wire[OF assms] and views = same_views[OF x(2,1) m(2)]
  have eq: "handlePeek (l_env L) (later 1 (l_clk L ?n)) (l_rnd L ?n) (Some c) req srv =
      (writeJSON (PollBody \<lparr>pr_Messages = waitingMessages i (dbOf (net h))\<rparr>), srv)"
    using x(3) views(4)[of i] by (simp add: handlePeek_def decodeBody_def peekMessages_def wire_requests(1)[OF wire(1,2)])
  show ?thesis
    unfolding fetchPoll_def
    by (rule reading_served[OF assms x(5)[unfolded eq] x(1,2)])
      (use wire in \<open>simp_all add: writeJSON_def respond_def wire_answers(1)[OF wire(1)]\<close>)
qed

lemma list_served:
  assumes "linkedTo L E tok c i h"
  shows "\<exists>h'. fetchPeers E listAll h = ((None, peers (dbOf (net h))), h') \<and>
    linkedTo L E tok c i h' \<and> peers (dbOf (net h')) = peers (dbOf (net h)) \<and> messages (dbOf (net h')) = messages (dbOf (net h)) \<and>
    sessionState (w_server (net h')) = sessionState (w_server (net h))"
proof -
  let ?n = "w_count (net h)" and ?b = "encListPeers (h_json E) listAll"
  have m: "mayCall L E tok c" "ready c (w_server (net h))" using assms by (simp_all add: linkedTo_def)
  obtain srv req where x: "ready c srv" "sessionState srv = sessionState (w_server (net h))" "q_Body req = ?b"
      "q_RemoteAddr req = l_addr L"
      "h_do E (apiRequest E ''/list-peers'' (Some ?b) tok) (net h) =
         answered L ?n (handleListPeers (l_env L) (later 1 (l_clk L ?n)) (l_rnd L ?n) (Some c) req srv)"
    by (rule exchange[OF m(1,2) the_routes(4) closed_paths(7,8) peer_caps(3)])
  note wire = linked_wire[OF assms] and views = same_views[OF x(2,1) m(2)]
  have "listPeers listAll (broker srv) = peers (dbOf (net h))"
    using x(1) views(1) by (simp add: listPeers_def listAll_def ready_def query_def)
  then have eq: "handleListPeers (l_env L) (later 1 (l_clk L ?n)) (l_rnd L ?n) (Some c) req srv =
      (writeJSON (PeersBody (peers (dbOf (net h)))), srv)"
    using x(3) by (simp add: handleListPeers_def decodeBody_def wire_requests(3)[OF wire(1)])
  show ?thesis
    unfolding fetchPeers_def
    by (rule reading_served[OF assms x(5)[unfolded eq] x(1,2)])
      (use wire in \<open>simp_all add: writeJSON_def respond_def wire_answers(2)[OF wire(1)]\<close>)
qed

lemma sort_key_map:
  assumes "\<And>x. k (f x) = k x"
  shows "sort_key k (map f xs) = map f (sort_key k xs)"
proof -
  have "insort_key k (f x) (map f ys) = map f (insort_key k x ys)" for x ys
    using assms by (induction ys) simp_all
  then show ?thesis by (induction xs) simp_all
qed

lemma acked_waiting:
  assumes "dbErr d = None" and "dbErr d' = None" and "peers d' = peers d"
    and "messages d' = update_where P (ackedBy now j) (messages d)"
  shows "waitingMessages i d' = waitingMessages i d"
proof -
  have name: "agentNameOf i d' = agentNameOf i d" using assms by (intro agentNameOf_cong) simp_all
  let ?f = "\<lambda>m. if P m then ackedBy now j m else m"
  have f: "waitingFor i n (?f m) = waitingFor i n m" "w_sent_at (?f m) = w_sent_at m" "scanMessage (?f m) = scanMessage m" for n m
    by (simp_all add: ackedBy_def waitingFor_def scanMessage_def)
  show ?thesis
    using assms f by (simp add: waiting_up name update_where_def filter_map sort_key_map[of w_sent_at ?f] o_def)
qed

lemma ack_served:
  assumes "linkedTo L E tok c i h" and "int64 (m_ID m)"
  shows "\<exists>now. linkedTo L E tok c i (ackOne E i m h) \<and> peers (dbOf (net (ackOne E i m h))) = peers (dbOf (net h)) \<and>
    messages (dbOf (net (ackOne E i m h))) =
      update_where (\<lambda>r. w_id r = m_ID m \<and> w_to_session r = i) (ackedBy now i) (messages (dbOf (net h)))"
proof -
  let ?n = "w_count (net h)" and ?q = "\<lparr>aq_SessionID = i, aq_MessageID = m_ID m\<rparr>"
  let ?b = "encAck (h_json E) ?q" and ?now = "nowISO (l_clk L ?n 1)"
  have m: "mayCall L E tok c" "ready c (w_server (net h))" "authToken h = tok" using assms by (simp_all add: linkedTo_def)
  obtain srv req where x: "ready c srv" "sessionState srv = sessionState (w_server (net h))" "q_Body req = ?b"
      "q_RemoteAddr req = l_addr L"
      "h_do E (apiRequest E ''/ack-message'' (Some ?b) tok) (net h) =
         answered L ?n (handleAck (l_env L) (later 1 (l_clk L ?n)) (l_rnd L ?n) (Some c) req srv)"
    by (rule exchange[OF m(1,2) the_routes(3) closed_paths(5,6) peer_caps(2)])
  note wire = linked_wire[OF assms(1)] and views = same_views[OF x(2,1) m(2)]
  define b' where "b' = ackMessage (later 1 (l_clk L ?n)) ?q (broker srv)"
  have "handleAck (l_env L) (later 1 (l_clk L ?n)) (l_rnd L ?n) (Some c) req srv = (writeJSON OkBody, srv\<lparr>broker := b'\<rparr>)"
    using x(3) by (simp add: handleAck_def decodeBody_def wire_requests(2)[OF wire(1,2) assms(2)] b'_def)
  then have h: "ackOne E i m h = h\<lparr>net := \<lparr>w_server = srv\<lparr>broker := b'\<rparr>, w_count = Suc ?n\<rparr>\<rparr>"
    using fetchNil_ok[of E "''/ack-message''" ?b h] x(5) m(3)
    by (simp add: ackOne_def answered_def writeJSON_def respond_def)
  have r: "ready c (srv\<lparr>broker := b'\<rparr>)"
    by (rule ready_broker[OF x(1)]) (simp_all add: b'_def ackMessage_def dbStep_intros)
  have up: "dbErr (bdb (broker srv)) = None" "dbErr (bdb b') = None" using x(1) r by (simp_all add: ready_def)
  have b': "peers (bdb b') = peers (dbOf (net h))" "messages (bdb b') =
      update_where (\<lambda>r. w_id r = m_ID m \<and> w_to_session r = i) (ackedBy ?now i) (messages (dbOf (net h)))"
    using views up by (simp_all add: b'_def ackMessage_def exec_def ackedBy_def[abs_def] later_def)
  have "waitingMessages i (bdb b') = waitingMessages i (dbOf (net h))"
    by (rule acked_waiting[OF _ up(2) b']) (use m(2) in \<open>simp add: ready_def\<close>)
  with assms(1) h r b' show ?thesis by (auto simp: linkedTo_def)
qed

lemma linked_up:
  assumes "linkedTo L E tok c i h"
  shows "dbErr (dbOf (net h)) = None \<and> dbOk (dbOf (net h))"
    and "m \<in> set (waitingMessages i (dbOf (net h))) \<Longrightarrow> int64 (m_ID m)"
  using assms by (auto simp: linkedTo_def ready_def list_all_iff cleanMessage_def)

interpretation served: broker_link E dbOf "linkedTo L E tok c i" i for E L tok c i
  by unfold_locales (erule linked_up, erule poll_served, drule peek_served, blast, drule list_served, blast, erule (1) ack_served, erule (1) linked_up)

section \<open>The tools at work\<close>

text \<open>
  C3: \<open>check_messages\<close> shows all that waits, and leaves nothing waiting.  Called by a session whose token is
  valid, against the broker of this repository, it reports exactly the messages that wait for the
  session, with the senders looked up among the live sessions; afterwards each of these messages
  is delivered to and acknowledged by the session, every other message is unchanged, and nothing
  waits.
\<close>

theorem check_messages_drains:
  assumes "linkedTo L E tok c i (v_host v)" and "v_session v = Some i"
    and "d = dbOf (net (v_host v))" and "v' = toolCheckMessages E rid v" and "d' = dbOf (net (v_host v'))"
  shows "v_out v' = v_out v @ [ToolResult rid (if waitingMessages i d = [] then ''No new messages.''
      else messagesReport (peers d) (waitingMessages i d))] \<and>
    list_all2 (drained i (agentNameOf i d)) (messages d) (messages d') \<and> waitingMessages i d' = [] \<and>
    linkedTo L E tok c i (v_host v')"
  using served.check_messages[OF assms] by blast

text \<open>
  C22: The push loop takes nothing.  A tick announces every waiting message that has not been
  announced yet, in order, and remembers it; the messages and sessions of the broker stay as they
  are, so that \<open>check_messages\<close> still delivers what was announced.
\<close>

theorem push_takes_nothing:
  assumes "linkedTo L E tok c i (v_host v)" and "v_session v = Some i"
    and "d = dbOf (net (v_host v))" and "v' = pollAndPush E v" and "d' = dbOf (net (v_host v'))"
  shows "v_out v' = v_out v @ map (pushNote (peers d)) (filter (\<lambda>m. m_ID m \<notin> v_pushed v) (waitingMessages i d)) \<and>
    v_pushed v' = v_pushed v \<union> m_ID ` set (waitingMessages i d) \<and>
    messages d' = messages d \<and> peers d' = peers d \<and> linkedTo L E tok c i (v_host v')"
  using served.push_round[OF assms] by blast

section \<open>A running system\<close>

text \<open>A broker with one session and one message waiting for it, and a client that holds the root token.\<close>

definition waitingBroker :: Broker where
  "waitingBroker = \<lparr>bdb = execAll [InsertPeer (newPeer ''s1'' ''t0'' (sampleReq ''bob'')),
       InsertMessage ''bob'' ''s1'' ''s2'' ''eve'' ''hi'' ''t1''] emptyDB, nats = None, fleetMemory = []\<rparr>"

definition sampleLink :: link where
  "sampleLink = \<lparr>l_env = plainHttp sampleEnv, l_clk = (\<lambda>_ _. 0), l_rnd = (\<lambda>_. ''abcd''), l_render = plainRender,
     l_base = ''http://127.0.0.1:7899'', l_addr = ''10.0.0.7:4242''\<rparr>"

definition sampleClient :: "world clientEnv" where
  "sampleClient = \<lparr>h_cfg = defaultConfig sampleOS, h_os = sampleOS, h_json = plainCodec, h_do = brokerDo sampleLink\<rparr>"

definition sampleHost :: "Broker \<Rightarrow> world host" where
  "sampleHost b = \<lparr>authToken = plainToken ''root'' sampleRootClaims, disk = sampleFs [],
     net = \<lparr>w_server = sampleServer\<lparr>broker := b\<rparr>, w_count = 0\<rparr>\<rparr>"

definition sampleMcp :: "Broker \<Rightarrow> world mcp" where
  "sampleMcp b = \<lparr>v_host = sampleHost b, v_session = Some ''s1'', v_statePath = [], v_pushed = {}, v_out = []\<rparr>"

lemma sample_may_call: "mayCall sampleLink sampleClient (plainToken ''root'' sampleRootClaims) sampleRootClaims"
proof -
  have "jwt (plainHttp sampleEnv) = plainLib" by (simp add: plainHttp_def sampleEnv_jwt)
  moreover have "parseWithClaims plainLib 0 (Some (30 * second)) issuerKey (plainToken ''root'' sampleRootClaims) = Inr sampleRootClaims"
    by (rule parse_plain) (simp_all add: rootClaims_checks, simp add: second_def)
  moreover have "set (resources PeerSessionCapabilities) \<subseteq> capSet sampleRootClaims"
    by (simp add: PeerSessionCapabilities_def AllCapabilities_def capsOf_def resources_def capSet_def sampleRootClaims_def newClaims_def)
  moreover have "plainToken ''root'' sampleRootClaims \<noteq> []" by (simp add: plainToken_def jsonStrings_def)
  ultimately show ?thesis
    by (simp add: mayCall_def sampleLink_def sampleClient_def defaultConfig_def plain_wireOk)
qed

lemma sample_ready: "dbErr (bdb b) = None \<Longrightarrow> dbOk (bdb b) \<Longrightarrow> ready sampleRootClaims (sampleServer\<lparr>broker := b\<rparr>)"
  by (simp add: ready_def sampleServer_def rootClaims_checks)

lemma waiting_up_ok: "dbErr (bdb waitingBroker) = None" "dbOk (bdb waitingBroker)"
  by (simp_all add: waitingBroker_def dbOk_execAll_empty emptyDB_up del: execAll_simps)

lemma waiting_peers: "peers (bdb waitingBroker) = [newPeer ''s1'' ''t0'' (sampleReq ''bob'')]"
  by (simp add: waitingBroker_def emptyDB_def insertPeer_def nameHeld_def insert_row_def)

lemma waiting_one: "map m_Text (waitingMessages ''s1'' (bdb waitingBroker)) = [''hi'']"
  "list_all cleanMessage (waitingMessages ''s1'' (bdb waitingBroker))"
  by (simp_all add: waiting_up[OF waiting_up_ok(1)])
    (simp_all add: waitingBroker_def sample_eval waitingFor_def scanMessage_def cleanMessage_def int64_def Let_def)

lemma sample_linked:
  "linkedTo sampleLink sampleClient (plainToken ''root'' sampleRootClaims) sampleRootClaims ''s1'' (v_host (sampleMcp waitingBroker))"
  using sample_may_call sample_ready[OF waiting_up_ok] waiting_one(2)
  by (simp add: linkedTo_def sampleMcp_def sampleHost_def waiting_peers)
    (simp add: newPeer_def sampleReq_def cleanPeer_def int64_def Let_def)

theorem check_messages_drains_witness:
  "\<exists>ps ms. v_out (toolCheckMessages sampleClient None (sampleMcp waitingBroker)) = [ToolResult None (messagesReport ps ms)] \<and>
     map m_Text ms = [''hi''] \<and>
     waitingMessages ''s1'' (dbOf (net (v_host (toolCheckMessages sampleClient None (sampleMcp waitingBroker))))) = []"
proof -
  have v: "v_session (sampleMcp b) = Some ''s1''" "v_out (sampleMcp b) = []" "dbOf (net (v_host (sampleMcp b))) = bdb b" for b
    by (simp_all add: sampleMcp_def sampleHost_def)
  have "waitingMessages ''s1'' (bdb waitingBroker) \<noteq> []" using waiting_one(1) by auto
  with check_messages_drains[OF sample_linked v(1) refl refl refl, of None] v waiting_one(1) show ?thesis
    by (intro exI[of _ "peers (bdb waitingBroker)"] exI[of _ "waitingMessages ''s1'' (bdb waitingBroker)"]) simp
qed

theorem push_takes_nothing_witness:
  "\<exists>ps m. v_out (pollAndPush sampleClient (sampleMcp waitingBroker)) = [pushNote ps m] \<and> m_Text m = ''hi'' \<and>
     messages (dbOf (net (v_host (pollAndPush sampleClient (sampleMcp waitingBroker))))) = messages (bdb waitingBroker)"
proof -
  have v: "v_session (sampleMcp b) = Some ''s1''" "v_out (sampleMcp b) = []" "v_pushed (sampleMcp b) = {}"
      "dbOf (net (v_host (sampleMcp b))) = bdb b" for b
    by (simp_all add: sampleMcp_def sampleHost_def)
  obtain m where "waitingMessages ''s1'' (bdb waitingBroker) = [m]" "m_Text m = ''hi''" using waiting_one(1) by auto
  with push_takes_nothing[OF sample_linked v(1) refl refl refl] v show ?thesis by auto
qed

end
