(* ===== verification/Housekeeping.thy ===== *)
theory Housekeeping
  imports Delivery
begin

text \<open>
  Time in the broker (\<^verbatim>\<open>src/broker_core.go\<close>): heartbeats and eviction, retention of unacknowledged
  messages, the order of polled messages and of recent events, and the persistence of the fleet
  memory over restarts.  Two theorems record behaviour that falls short of the documentation:
  the order of messages within one second, and the interleaving of two registrations.
\<close>

section \<open>Heartbeats and eviction\<close>

definition effTimeout :: "int \<Rightarrow> int" where
  "effTimeout staleTimeout = (if staleTimeout \<le> 0 then 20 else staleTimeout)"

definition noOverflow :: "int \<Rightarrow> bool" where
  "noOverflow staleTimeout \<longleftrightarrow> effTimeout staleTimeout * second < 2 ^ 63"

lemma staleCutoff_exact:
  assumes "noOverflow st"
  shows "staleCutoff st now = fmtRFC3339 (now - effTimeout st * second)"
proof -
  have "wrap64 (- effTimeout st * second) = - effTimeout st * second"
    using assms by (intro wrap64_id) (auto simp: noOverflow_def effTimeout_def second_def)
  then show ?thesis by (simp add: staleCutoff_def effTimeout_def Let_def)
qed

lemma sweep_peers:
  "dbErr (bdb b) = None \<Longrightarrow> peers (bdb (cleanStalePeers st clk b)) =
     filter (\<lambda>p. \<not> p_LastSeen p < staleCutoff st (clk 0)) (peers (bdb b))"
  by (simp add: cleanStalePeers_db delete_where_def)

text \<open>
  C26: with a timeout of T seconds a sweep keeps every session whose last heartbeat is at most
  T - 1 seconds old and evicts every session whose last heartbeat is at least T + 1 seconds old
  (the two time stamp layouts compare exactly only up to one second).
\<close>

theorem eviction_window:
  assumes "dbErr (bdb b) = None" and "noOverflow st" and "p \<in> set (peers (bdb b))"
    and "p_LastSeen p = nowISO t" and "calendarRange t"
    and "calendarRange (clk 0 - effTimeout st * second)"
  shows "(clk 0 - t \<le> (effTimeout st - 1) * second \<longrightarrow> p \<in> set (peers (bdb (cleanStalePeers st clk b)))) \<and>
    ((effTimeout st + 1) * second \<le> clk 0 - t \<longrightarrow> p \<notin> set (peers (bdb (cleanStalePeers st clk b))))"
proof -
  let ?c = "clk 0 - effTimeout st * second"
  have "clk 0 - t \<le> (effTimeout st - 1) * second \<Longrightarrow> \<not> nowISO t < fmtRFC3339 ?c"
    unfolding nowISO_def by (rule nano_above_cutoff[OF assms(5,6)]) (simp add: algebra_simps)
  moreover have "(effTimeout st + 1) * second \<le> clk 0 - t \<Longrightarrow> nowISO t < fmtRFC3339 ?c"
    unfolding nowISO_def by (rule nano_below_cutoff[OF assms(5,6)]) (simp add: algebra_simps)
  ultimately show ?thesis
    using assms(1,3,4) by (auto simp: sweep_peers staleCutoff_exact[OF assms(2)])
qed

theorem eviction_window_witness:
  "peers (bdb (cleanStalePeers 20 (\<lambda>_. 15 * second) busyBroker)) = peers (bdb busyBroker) \<and>
   peers (bdb (cleanStalePeers 20 (\<lambda>_. 25 * second) busyBroker)) = []"
proof -
  let ?p = "newPeer ''s1'' (nowISO 0) (sampleReq ''bob'')"
  have p: "p_LastSeen ?p = nowISO 0" by (simp add: newPeer_def)
  have r: "noOverflow 20" "calendarRange 0" "calendarRange (15 * second - effTimeout 20 * second)"
      "calendarRange (25 * second - effTimeout 20 * second)"
    by (simp_all add: noOverflow_def effTimeout_def second_def calendarRange_def secsOf_def)
  have sub: "set (peers (bdb (cleanStalePeers 20 clk busyBroker))) \<subseteq> {?p} \<and>
      length (peers (bdb (cleanStalePeers 20 clk busyBroker))) \<le> 1" for clk
    by (simp add: sweep_peers busyBroker_up busyBroker_peers)
  have "?p \<in> set (peers (bdb (cleanStalePeers 20 (\<lambda>_. 15 * second) busyBroker)))"
    using eviction_window[OF busyBroker_up(1) r(1) _ p r(2), of "\<lambda>_. 15 * second"] r(3)
    by (simp add: busyBroker_peers effTimeout_def second_def)
  moreover have "?p \<notin> set (peers (bdb (cleanStalePeers 20 (\<lambda>_. 25 * second) busyBroker)))"
    using eviction_window[OF busyBroker_up(1) r(1) _ p r(2), of "\<lambda>_. 25 * second"] r(4)
    by (simp add: busyBroker_peers effTimeout_def second_def)
  ultimately show ?thesis
    by (auto simp: sweep_peers busyBroker_up busyBroker_peers split: if_splits)
qed

text \<open>
  C25: \<open>heartbeat\<close> answers OK exactly when the session still exists, and otherwise names the reason
  the client re-registers on.  A heartbeat of an existing session changes nothing but that
  session's last-seen time, and keeps the session through every sweep of the next T - 1 seconds.
\<close>

theorem heartbeat_keeps_alive:
  assumes "dbErr (bdb b) = None" and "noOverflow st" and "calendarRange (clk 0)"
    and "heartbeat clk req b = (r, b')"
  shows "(hr_OK r \<longleftrightarrow> hq_ID req \<in> p_ID ` set (peers (bdb b))) \<and>
    hr_Reason r = (if hr_OK r then [] else HeartbeatReasonUnknownSession) \<and>
    b' = b\<lparr>bdb := (bdb b)\<lparr>peers :=
      map (\<lambda>p. if p_ID p = hq_ID req then p\<lparr>p_LastSeen := nowISO (clk 0)\<rparr> else p) (peers (bdb b))\<rparr>\<rparr> \<and>
    (hr_OK r \<and> calendarRange (clk2 0 - effTimeout st * second) \<and>
       clk2 0 - clk 0 \<le> (effTimeout st - 1) * second \<longrightarrow>
     hq_ID req \<in> p_ID ` set (peers (bdb (cleanStalePeers st clk2 b'))))"
proof -
  have b': "bdb b' = execStmt (TouchPeer (nowISO (clk 0)) (hq_ID req)) (bdb b)"
    using heartbeat_db[of clk req b] assms(1,4) by simp
  have r: "hr_OK r \<longleftrightarrow> hq_ID req \<in> p_ID ` set (peers (bdb b))"
      "hr_Reason r = (if hr_OK r then [] else HeartbeatReasonUnknownSession)"
    using assms(1,4) by (auto simp: heartbeat_def Let_def filter_empty_conv image_iff eq_commute[of "hq_ID req"]
        split: if_splits)
  have up: "dbErr (bdb b') = None" using assms(1) by (simp add: b')
  have "hq_ID req \<in> p_ID ` set (peers (bdb (cleanStalePeers st clk2 b')))"
    if h: "hr_OK r" "calendarRange (clk2 0 - effTimeout st * second)"
      "clk2 0 - clk 0 \<le> (effTimeout st - 1) * second"
  proof -
    obtain p where p: "p \<in> set (peers (bdb b))" "p_ID p = hq_ID req" using h(1) r(1) by auto
    let ?q = "p\<lparr>p_LastSeen := nowISO (clk 0)\<rparr>"
    have q: "?q \<in> set (peers (bdb b'))" using p by (auto simp: b' in_update_where intro!: bexI[of _ p])
    have "\<not> nowISO (clk 0) < fmtRFC3339 (clk2 0 - effTimeout st * second)"
      unfolding nowISO_def by (rule nano_above_cutoff[OF assms(3) h(2)]) (use h(3) in \<open>simp add: algebra_simps\<close>)
    then have "?q \<in> set (peers (bdb (cleanStalePeers st clk2 b')))"
      using q by (simp add: sweep_peers[OF up] staleCutoff_exact[OF assms(2)])
    then show ?thesis using p(2) by force
  qed
  moreover have "b' = b\<lparr>bdb := (bdb b)\<lparr>peers :=
      map (\<lambda>p. if p_ID p = hq_ID req then p\<lparr>p_LastSeen := nowISO (clk 0)\<rparr> else p) (peers (bdb b))\<rparr>\<rparr>"
    using assms(1,4) by (auto simp: heartbeat_def run_def update_where_def Let_def split: if_splits)
  ultimately show ?thesis using r by blast
qed

theorem heartbeat_keeps_alive_witness:
  "hr_OK (fst (heartbeat (\<lambda>_. 5 * second) \<lparr>hq_ID = ''s1''\<rparr> busyBroker)) \<and>
   ''s1'' \<in> p_ID ` set (peers (bdb (cleanStalePeers 20 (\<lambda>_. 24 * second)
      (snd (heartbeat (\<lambda>_. 5 * second) \<lparr>hq_ID = ''s1''\<rparr> busyBroker)))))"
proof -
  have r: "noOverflow 20" "calendarRange (5 * second)" "calendarRange (24 * second - effTimeout 20 * second)"
    by (simp_all add: noOverflow_def effTimeout_def second_def calendarRange_def secsOf_def)
  obtain r' b' where h: "heartbeat (\<lambda>_. 5 * second) \<lparr>hq_ID = ''s1''\<rparr> busyBroker = (r', b')" by fastforce
  have "''s1'' \<in> p_ID ` set (peers (bdb busyBroker))" by (simp add: busyBroker_peers newPeer_def)
  moreover have "24 * second - 5 * second \<le> (effTimeout 20 - 1) * second" by (simp add: effTimeout_def second_def)
  ultimately show ?thesis
    using heartbeat_keeps_alive[OF busyBroker_up(1) r(1,2) h, of "\<lambda>_. 24 * second"] r(3) h by auto
qed

section \<open>Retention\<close>

lemma sweepRound_db:
  "\<exists>ss. bdb (snd (sweepRound st clk (tick, b))) = execAll ss (bdb b) \<and>
     (\<forall>c. PurgeUnacked c \<in> set ss \<longrightarrow> c = fmtRFC3339 (clk 3 - 24 * hour)) \<and> (\<forall>now s i. AckRow now s i \<notin> set ss)"
proof -
  let ?ss = "(DeleteStalePeers (staleCutoff st (clk 0)) #
       concat (map releaseSession (deadIDs (staleCutoff st (clk 0)) (bdb b))) @
       [PurgeEvents (fmtRFC3339 (clk 1 - hour))]) @
       (if (tick + 1) mod 30 = 0
        then [PurgeAcked (fmtRFC3339 (clk 2 - hour)), PurgeUnacked (fmtRFC3339 (clk 3 - 24 * hour))] else [])"
  have "bdb (snd (sweepRound st clk (tick, b))) = execAll ?ss (bdb b)"
    by (simp add: sweepRound_def cleanStalePeers_db)
  moreover have "(\<forall>c. PurgeUnacked c \<in> set ?ss \<longrightarrow> c = fmtRFC3339 (clk 3 - 24 * hour)) \<and>
      (\<forall>now s i. AckRow now s i \<notin> set ?ss)"
    by (auto simp: releaseSession_def)
  ultimately show ?thesis by blast
qed

text \<open>
  A round of the background goroutine never drops an unacknowledged message to an agent that
  is younger than 24 hours less one second: the row survives with its content, whichever sessions
  the round evicts.
\<close>

theorem day_of_retention:
  assumes "dbOk (bdb b)" and "msgAt i (bdb b) = Some m" and "w_to_agent m \<noteq> []" and "w_ack_at m = None"
    and "w_sent_at m = nowISO t" and "calendarRange t" and "calendarRange (clk 3 - 24 * hour)"
    and "clk 3 - t \<le> 24 * hour - second"
  shows "\<exists>m'. msgAt i (bdb (snd (sweepRound st clk (tick, b)))) = Some m' \<and> content m' = content m \<and> w_ack_at m' = None"
proof -
  have "\<not> w_sent_at m < fmtRFC3339 (clk 3 - 24 * hour)"
    unfolding assms(5) nowISO_def by (rule nano_above_cutoff[OF assms(6,7)]) (use assms(8) in simp)
  moreover obtain ss where "bdb (snd (sweepRound st clk (tick, b))) = execAll ss (bdb b)"
      "\<forall>c. PurgeUnacked c \<in> set ss \<longrightarrow> c = fmtRFC3339 (clk 3 - 24 * hour)" "\<forall>now s i. AckRow now s i \<notin> set ss"
    using sweepRound_db by blast
  ultimately show ?thesis using agent_row_survives[OF assms(1-4), of ss] by auto
qed

theorem day_of_retention_witness:
  "\<exists>m'. msgAt 1 (bdb (snd (sweepRound 20 (\<lambda>_. 20 * hour) (29, busyBroker)))) = Some m' \<and> w_text m' = ''hi''"
proof -
  have "\<exists>m. msgAt 1 (bdb busyBroker) = Some m \<and> w_ack_at m = None \<and> w_to_agent m \<noteq> [] \<and>
      w_sent_at m = nowISO 0 \<and> w_text m = ''hi''"
    by (simp add: busyBroker_def sample_eval)
  then obtain m where m: "msgAt 1 (bdb busyBroker) = Some m" "w_ack_at m = None" "w_to_agent m \<noteq> []"
      "w_sent_at m = nowISO 0" "w_text m = ''hi''" by blast
  have r: "calendarRange 0" "calendarRange (20 * hour - 24 * hour)" "20 * hour - 0 \<le> 24 * hour - second"
    by (simp_all add: calendarRange_def secsOf_def hour_def minute_def second_def)
  show ?thesis
    using day_of_retention[OF busyBroker_up(2) m(1,3,2,4) r(1), of "\<lambda>_. 20 * hour" 20 29] r(2,3) m(5)
    by (auto simp: content_def)
qed

section \<open>Order\<close>

lemma sent_order_secs:
  assumes "calendarRange t" and "calendarRange t'" and "nowISO t \<le> nowISO t'"
  shows "secsOf t \<le> secsOf t'"
  using assms nano_less_of_secs[of t' t] by (force simp: nowISO_def)

text \<open>
  A poll returns its messages in the order of their time stamp strings; so if every waiting
  message was stamped by \<open>nowISO\<close>, messages sent in different seconds come out in the order they
  were sent.
\<close>

theorem poll_order:
  assumes "dbErr (bdb b) = None"
    and "\<forall>m \<in> set (messages (bdb b)). calendarRange (sent (w_id m)) \<and> w_sent_at m = nowISO (sent (w_id m))"
  shows "sorted (map m_SentAt (pr_Messages (fst (pollMessages clk req b)))) \<and>
    sorted (map (\<lambda>x. secsOf (sent (m_ID x))) (pr_Messages (fst (pollMessages clk req b))))"
proof -
  let ?rows = "sort_key w_sent_at (filter (waitingFor (pq_ID req) (agentNameOf (pq_ID req) (bdb b))) (messages (bdb b)))"
  have eq: "pr_Messages (fst (pollMessages clk req b)) = map scanMessage ?rows"
    by (simp add: pollMessages_def Let_def waiting_up[OF assms(1)])
  have s: "sorted (map w_sent_at ?rows)" by simp
  then have "sorted_wrt (\<lambda>m m'. w_sent_at m \<le> w_sent_at m') ?rows" by (simp only: sorted_wrt_map)
  then have "sorted_wrt (\<lambda>m m'. secsOf (sent (w_id m)) \<le> secsOf (sent (w_id m'))) ?rows"
    by (rule sorted_wrt_mono_rel[rotated]) (use assms(2) in \<open>auto intro: sent_order_secs\<close>)
  then have "sorted (map (\<lambda>m. secsOf (sent (w_id m))) ?rows)" by (simp only: sorted_wrt_map)
  with s show ?thesis by (simp add: eq o_def scanMessage_def)
qed

text \<open>A broker with one named session, and messages sent to the name at two instants.\<close>

definition namedBroker :: Broker where
  "namedBroker = \<lparr>bdb = execAll [InsertPeer (newPeer ''s1'' (nowISO 0) (sampleReq ''bob''))] emptyDB,
     nats = None, fleetMemory = []\<rparr>"

definition sendBob :: "time \<Rightarrow> string \<Rightarrow> Broker \<Rightarrow> Broker" where
  "sendBob t txt b = snd (sendMessage (\<lambda>_. t)
     \<lparr>mq_FromID = ''s2'', mq_ToAgent = ''bob'', mq_ToSession = [], mq_Text = txt\<rparr> b)"

lemmas broker_eval = namedBroker_def emptyDB_def insertPeer_def nameHeld_def insert_row_def newPeer_def
  sampleReq_def sendMessage_def routeMessage_def holderOf_def select_one_def agentNameOf_def
  sessionRow_def emitEvent_def scanMessage_def waitingFor_def

text \<open>
  Within one second the order of a poll can be the reverse of the order of sending, because the
  layout drops trailing zeros of the fraction: a message sent at 0.12 s is polled after the
  one sent a nanosecond later.
\<close>

theorem poll_order_within_second:
  "\<exists>t t'. t < t' \<and> map m_Text (pr_Messages (fst (pollMessages (\<lambda>_. t' + 1) \<lparr>pq_ID = ''s1''\<rparr>
      (sendBob t' ''second'' (sendBob t ''first'' namedBroker))))) = [''second'', ''first'']"
proof -
  define n1 where "n1 = nowISO 120000000"
  define n2 where "n2 = nowISO 120000001"
  have lt: "n2 < n1" by (simp add: n1_def n2_def nowISO_def time_eval less_char_def)
  have b: "bdb (sendBob t x b) = execAll [InsertMessage ''bob'' ''s1'' ''s2'' [] x (nowISO t),
      InsertEvent ''message_sent'' ''s2'' [] (''to=bob text='' @ preview x) (nowISO t)] (bdb b)"
    if "dbErr (bdb b) = None" "peers (bdb b) = peers (bdb namedBroker)" for t x b
    using that by (simp add: sendBob_def broker_eval Let_def)
  have same: "dbErr (bdb (sendBob t x b)) = None" "peers (bdb (sendBob t x b)) = peers (bdb namedBroker)"
    if "dbErr (bdb b) = None" "peers (bdb b) = peers (bdb namedBroker)" for t x b
    using that by (simp_all add: b)
  let ?b = "sendBob 120000001 ''second'' (sendBob 120000000 ''first'' namedBroker)"
  have up: "dbErr (bdb namedBroker) = None" by (simp add: namedBroker_def emptyDB_up)
  have upb: "dbErr (bdb ?b) = None" using up by (simp add: same)
  have ms: "map (\<lambda>m. (w_to_session m, w_text m, w_sent_at m, w_delivered_at m)) (messages (bdb ?b)) =
      [(''s1'', ''first'', n1, None), (''s1'', ''second'', n2, None)]"
    using up by (simp add: b same n1_def n2_def) (simp add: namedBroker_def emptyDB_def)
  then obtain x y where xy: "messages (bdb ?b) = [x, y]" "w_to_session x = ''s1''" "w_text x = ''first''"
      "w_sent_at x = n1" "w_delivered_at x = None" "w_to_session y = ''s1''" "w_text y = ''second''"
      "w_sent_at y = n2" "w_delivered_at y = None" by auto
  have "map m_Text (pr_Messages (fst (pollMessages (\<lambda>_. 120000001 + 1) \<lparr>pq_ID = ''s1''\<rparr> ?b))) =
      [''second'', ''first'']"
    using lt xy by (simp add: pollMessages_def Let_def waiting_up[OF upb] waitingFor_def scanMessage_def)
  then show ?thesis by (intro exI[of _ 120000000] exI[of _ 120000001]) simp
qed

theorem poll_order_witness:
  "sorted (map m_SentAt (pr_Messages (fst (pollMessages (\<lambda>_. 9) \<lparr>pq_ID = ''s1''\<rparr> (sendBob 7 ''a'' namedBroker)))))"
proof -
  let ?b = "sendBob 7 ''a'' namedBroker"
  have up: "dbErr (bdb ?b) = None" and ms: "map (\<lambda>m. (w_id m, w_sent_at m)) (messages (bdb ?b)) = [(1, nowISO 7)]"
    by (simp_all add: sendBob_def broker_eval Let_def)
  have "\<forall>m \<in> set (messages (bdb ?b)). calendarRange 7 \<and> w_sent_at m = nowISO 7"
    using ms by (auto simp: calendarRange_def secsOf_def second_def)
  from poll_order[OF up, of "\<lambda>_. 7", OF this] show ?thesis by blast
qed

lemma recent_all:
  assumes "dbErr (bdb b) = None" and "dbOk (bdb b)"
  shows "recentEvents lim b = limitRows lim (rev (events (bdb b)))"
proof -
  have "sorted (map e_ID (events (bdb b)))"
    using assms(2) by (auto simp: dbOk_def idsIncrease_def strict_sorted_iff)
  then show ?thesis using assms(1) by (simp add: recentEvents_def sorted_sort_id sort_key_id_if_sorted)
qed

text \<open>
  \<open>recentEvents\<close> lists the newest events first, without repetition, at most as many as asked
  for: after an event is emitted, a positive limit returns that event at the head, followed by
  what the limit less one would have returned before.
\<close>

theorem recent_events_newest_first:
  assumes "dbErr (bdb b) = None" and "dbOk (bdb b)" and "0 < lim"
  shows "sorted_wrt (\<lambda>e f. e_ID e > e_ID f) (recentEvents lim b) \<and> int (length (recentEvents lim b)) \<le> lim \<and>
    recentEvents lim (emitEvent t typ pid mach dat b) =
      \<lparr>e_ID = events_seq (bdb b) + 1, e_Type = typ, e_PeerID = pid, e_Machine = mach, e_Data = dat,
        e_CreatedAt = nowISO t\<rparr> # recentEvents (lim - 1) b"
proof -
  have ok: "dbOk (bdb (emitEvent t typ pid mach dat b))" by (simp add: emitEvent_def dbOk_exec assms(2))
  have up: "dbErr (bdb (emitEvent t typ pid mach dat b)) = None" by (simp add: emitEvent_def assms(1))
  have "sorted_wrt (\<lambda>e f. e_ID e < e_ID f) (events (bdb b))"
    using assms(2) by (simp add: dbOk_def idsIncrease_def sorted_wrt_map)
  then have "sorted_wrt (\<lambda>e f. e_ID e > e_ID f) (rev (events (bdb b)))" by (simp add: sorted_wrt_rev)
  then have "sorted_wrt (\<lambda>e f. e_ID e > e_ID f) (recentEvents lim b)"
    using assms(3) by (simp add: recent_all[OF assms(1,2)] limitRows_def sorted_wrt_take)
  moreover have "int (length (recentEvents lim b)) \<le> lim"
    using assms(3) by (simp add: recent_all[OF assms(1,2)] limitRows_def)
  moreover have "events (bdb (emitEvent t typ pid mach dat b)) = events (bdb b) @
      [\<lparr>e_ID = events_seq (bdb b) + 1, e_Type = typ, e_PeerID = pid, e_Machine = mach, e_Data = dat,
        e_CreatedAt = nowISO t\<rparr>]" using assms(1) by (simp add: emitEvent_def)
  moreover have "nat lim = Suc (nat (lim - 1))" using assms(3) by simp
  ultimately show ?thesis
    using assms(3) by (simp add: recent_all[OF assms(1,2)] recent_all[OF up ok] limitRows_def)
qed

theorem recent_events_newest_first_witness:
  "length (recentEvents 1 (emitEvent 3 ''x'' [] [] [] busyBroker)) = 1"
  using recent_events_newest_first[OF busyBroker_up, of 1 3 "''x''" "[]" "[]" "[]"]
  by (simp add: recent_all busyBroker_up limitRows_def)

section \<open>Fleet memory\<close>

definition touchesKV :: "stmt \<Rightarrow> bool" where
  "touchesKV s \<longleftrightarrow> (case s of SetKV k v \<Rightarrow> True | _ \<Rightarrow> False)"

lemma kv_exec [simp]: "\<not> touchesKV s \<Longrightarrow> kv (exec s d) = kv d"
  by (cases s) (auto simp: exec_def touchesKV_def)

lemma kv_execAll: "\<forall>s \<in> set ss. \<not> touchesKV s \<Longrightarrow> kv (execAll ss d) = kv d"
  by (induction ss arbitrary: d) auto

lemma fleetMemoryRow_cong: "kv d = kv d' \<Longrightarrow> dbErr d = dbErr d' \<Longrightarrow> fleetMemoryRow d = fleetMemoryRow d'"
  by (cases "dbErr d'") (simp_all add: fleetMemoryRow_def query_def)

definition storedMemory :: "db \<Rightarrow> string" where
  "storedMemory d = (case fleetMemoryRow d of None \<Rightarrow> [] | Some m \<Rightarrow> m)"

text \<open>The cached memory and the stored one agree.\<close>

definition memorySynced :: "Broker \<Rightarrow> bool" where
  "memorySynced b \<longleftrightarrow> dbErr (bdb b) = None \<and> unique_key fst (kv (bdb b)) \<and> fleetMemory b = storedMemory (bdb b)"

definition memoryFrame :: "Broker \<Rightarrow> Broker \<Rightarrow> bool" where
  "memoryFrame b b' \<longleftrightarrow> kv (bdb b') = kv (bdb b) \<and> dbErr (bdb b') = dbErr (bdb b) \<and> fleetMemory b' = fleetMemory b"

lemma memoryFrame_synced: "memoryFrame b b' \<Longrightarrow> memorySynced b \<Longrightarrow> memorySynced b'"
  using fleetMemoryRow_cong[of "bdb b" "bdb b'"] by (simp add: memoryFrame_def memorySynced_def storedMemory_def)

lemma touchesKV_simps [simp]:
  "touchesKV (SetKV k v)" "\<not> touchesKV (InsertPeer p)" "\<not> touchesKV (TouchPeer n i)"
  "\<not> touchesKV (SetSummary t i)" "\<not> touchesKV (SetAgentName n i)" "\<not> touchesKV (DeletePeer i)"
  "\<not> touchesKV (DeleteStalePeers c)" "\<not> touchesKV (BindQueued i n)"
  "\<not> touchesKV (InsertMessage a b' c d e f)" "\<not> touchesKV (MarkDelivered n i j)"
  "\<not> touchesKV (AckRow n i j)" "\<not> touchesKV (DropDirect i)" "\<not> touchesKV (RequeueAgent i)"
  "\<not> touchesKV (PurgeAcked c)" "\<not> touchesKV (PurgeUnacked c)" "\<not> touchesKV (InsertEvent a b' c d e)"
  "\<not> touchesKV (PurgeEvents c)" "\<not> touchesKV (SeenName n t)"
  by (simp_all add: touchesKV_def)

lemma frame_refl: "memoryFrame b b"
  by (simp add: memoryFrame_def)

lemma frame_run: "memoryFrame b b' \<Longrightarrow> \<not> touchesKV s \<Longrightarrow> memoryFrame b (run s b')"
  by (simp add: memoryFrame_def)

lemma frame_publish: "memoryFrame b b' \<Longrightarrow> memoryFrame b (publishTo t sub e b')"
  by (simp add: memoryFrame_def)

lemma frame_emit: "memoryFrame b b' \<Longrightarrow> memoryFrame b (emitEvent t x p m dat b')"
  by (simp add: emitEvent_def frame_run)

lemma frame_fold: "memoryFrame b b' \<Longrightarrow> \<forall>s \<in> set ss. \<not> touchesKV s \<Longrightarrow> memoryFrame b (fold run ss b')"
  by (induction ss arbitrary: b') (auto intro: frame_run)

lemma frame_fold_map:
  "memoryFrame b b' \<Longrightarrow> (\<And>x. \<not> touchesKV (f x)) \<Longrightarrow> memoryFrame b (fold (\<lambda>x. run (f x)) xs b')"
  by (induction xs arbitrary: b') (auto intro: frame_run)

lemmas frame_intros = frame_refl frame_run frame_publish frame_emit frame_fold

lemma storedMemory_set:
  "dbErr d = None \<Longrightarrow> unique_key fst (kv d) \<Longrightarrow> storedMemory (exec (SetKV ''fleet_memory'' c) d) = c"
  by (simp add: storedMemory_def fleetMemoryRow_def lookup_upsert_row)

lemma frame_sweep: "memoryFrame b (snd (sweepRound st clk (tick, b)))"
  by (auto simp: sweepRound_def cleanStalePeers_def Let_def releaseSession_def intro!: frame_intros)

lemma memory_step: "brokerStep b b' \<Longrightarrow> memorySynced b \<Longrightarrow> memorySynced b'"
proof (induction rule: brokerStep.induct)
  case (Register b clk rnd req)
  show ?case
    by (rule memoryFrame_synced[OF _ Register])
      (auto simp: register_def registerCommit_def Let_def split: option.split intro!: frame_intros)
next
  case (Send b clk mreq)
  show ?case
    by (rule memoryFrame_synced[OF _ Send])
      (auto simp: sendMessage_def Let_def split: sum.split option.split intro!: frame_intros)
next
  case (Poll b clk preq)
  show ?case
    by (rule memoryFrame_synced[OF _ Poll]) (auto simp: pollMessages_def Let_def intro!: frame_fold_map frame_refl)
next
  case (Claim b clk creq)
  show ?case
    by (rule memoryFrame_synced[OF _ Claim])
      (auto simp: claimAgent_def claimCommit_def Let_def split: option.split intro!: frame_intros)
next
  case (Sweep b st clk tick)
  show ?case by (rule memoryFrame_synced[OF frame_sweep Sweep])
next
  case (Memory b x)
  then show ?case
    by (simp add: memorySynced_def setFleetMemory_def storedMemory_set del: execUp)
      (simp add: unique_upsert_row)
next
  case (Restart pinfo minfo b np)
  let ?b = "newBroker pinfo minfo np (bdb b)"
  have "\<exists>ss. bdb ?b = execAll ss (bdb b) \<and> (\<forall>s \<in> set ss. \<not> touchesKV s)"
    using Restart(1,2)
    by (intro exI[of _ "backfillNames (bdb b) @ backfillTargets (execAll (backfillNames (bdb b)) (bdb b))"])
      (auto simp: newBroker_def migrate_def Let_def backfillNames_def backfillTargets_def)
  then have "kv (bdb ?b) = kv (bdb b)" "dbErr (bdb ?b) = dbErr (bdb b)" by (auto simp: kv_execAll)
  moreover have "fleetMemory ?b = storedMemory (bdb ?b)"
    by (simp add: newBroker_def Let_def storedMemory_def)
  ultimately show ?case using Restart(3) by (simp add: memorySynced_def)
qed (auto simp: heartbeat_def setSummary_def ackMessage_def unregister_def releaseSession_def
      Let_def intro!: frame_intros elim!: memoryFrame_synced[rotated])

interpretation memory_runs: inductive_invariant memorySynced brokerStep memorySynced
  by unfold_locales (auto intro: memory_step)

text \<open>
  The fleet memory survives restarts.  After any run of the broker from a start on a fresh
  database, a restart on the same database file yields the same fleet memory; and a memory that
  is set is what a reader, and every later restart, gets.
\<close>

theorem fleet_memory_durable:
  assumes "brokerStep\<^sup>*\<^sup>* (newBroker (Inr [''agent_name'']) (Inr [''to_agent'']) np emptyDB) b"
    and "\<not> colMissing pinfo ''agent_name''" and "\<not> colMissing minfo ''to_agent''"
  shows "getFleetMemory (newBroker pinfo minfo np' (bdb b)) = getFleetMemory b \<and>
    getFleetMemory (setFleetMemory txt b) = txt \<and>
    getFleetMemory (newBroker pinfo minfo np' (bdb (setFleetMemory txt b))) = txt"
proof -
  have "memorySynced (newBroker (Inr [''agent_name'']) (Inr [''to_agent'']) np emptyDB)"
    by (simp add: memorySynced_def storedMemory_def newBroker_def Let_def migrate_def colMissing_def
        backfillNames_def backfillTargets_def emptyDB_def unique_key_def)
  then have s: "memorySynced b" using memory_runs.holds_steps assms(1) by blast
  then have s2: "memorySynced (setFleetMemory txt b)" by (rule memory_step[OF brokerStep.Memory])
  have r: "memorySynced c \<Longrightarrow> fleetMemory (newBroker pinfo minfo np' (bdb c)) = fleetMemory c" for c
  proof -
    assume c: "memorySynced c"
    let ?c = "newBroker pinfo minfo np' (bdb c)"
    have "memorySynced ?c" using memory_step[OF brokerStep.Restart[OF assms(2,3)] c] .
    moreover have "fleetMemoryRow (bdb ?c) = fleetMemoryRow (bdb c)"
      using assms(2,3)
      by (intro fleetMemoryRow_cong) (simp_all add: newBroker_def migrate_def Let_def kv_execAll
          backfillNames_def backfillTargets_def)
    ultimately show ?thesis using c by (simp add: memorySynced_def storedMemory_def)
  qed
  have "fleetMemory (setFleetMemory txt b) = txt" by (simp add: setFleetMemory_def)
  with r[OF s] r[OF s2] show ?thesis by (simp add: getFleetMemory_def)
qed

theorem fleet_memory_durable_witness:
  "getFleetMemory (newBroker (Inr [''agent_name'']) (Inr [''to_agent'']) None
     (bdb (setFleetMemory ''notes'' (newBroker (Inr [''agent_name'']) (Inr [''to_agent'']) None emptyDB)))) = ''notes''"
  using fleet_memory_durable[OF rtranclp.rtrancl_refl, of "Inr [''agent_name'']" "Inr [''to_agent'']" None None "''notes''"]
  by (simp add: colMissing_def)

section \<open>Interleavings that the handlers do not exclude\<close>

text \<open>
  Two registrations of the same free name whose uniqueness checks both run before either
  insert (each handler is a goroutine of its own) are both answered OK, although the unique index
  refuses the second insert: the second client holds an id for which no session exists.  The name
  stays unique.
\<close>

theorem register_race:
  assumes "dbErr (bdb b) = None" and "dbOk (bdb b)" and "rq_AgentName req \<noteq> []"
    and "registerCheck req (bdb b) = None"
    and "generatePeerID rnd1 \<notin> p_ID ` set (peers (bdb b))" and "generatePeerID rnd2 \<notin> p_ID ` set (peers (bdb b))"
    and "generatePeerID rnd1 \<noteq> generatePeerID rnd2"
    and "registerCommit clk1 rnd1 req b = (r1, b1)" and "registerCommit clk2 rnd2 req b1 = (r2, b2)"
  shows "rr_OK r1 \<and> rr_OK r2 \<and> sessionRow (rr_ID r1) (bdb b2) \<noteq> None \<and> sessionRow (rr_ID r2) (bdb b2) = None \<and>
    namesUnique (peers (bdb b2))"
proof -
  have free: "rq_AgentName req \<notin> p_AgentName ` set (peers (bdb b))"
    using assms(1,3,4) holderOf_None[OF assms(1), of "rq_AgentName req"]
    by (auto simp: registerCheck_def split: option.splits)
  have r: "rr_OK r1" "rr_ID r1 = generatePeerID rnd1" "rr_OK r2" "rr_ID r2 = generatePeerID rnd2"
    using assms(8,9) by (auto simp: registerCommit_def Let_def)
  have d1: "bdb b1 = execAll (joinStmts clk1 (generatePeerID rnd1) req) (bdb b)"
    and d2: "bdb b2 = execAll (joinStmts clk2 (generatePeerID rnd2) req) (bdb b1)"
    using registerCommit_db[of clk1 rnd1 req b] registerCommit_db[of clk2 rnd2 req b1] assms(8,9) by simp_all
  have up: "dbErr (bdb b1) = None" "dbErr (bdb b2) = None" using assms(1) d1 d2 by simp_all
  have p1: "peers (bdb b1) = peers (bdb b) @ [newPeer (generatePeerID rnd1) (nowISO (clk1 0)) req]"
    using peers_join[OF assms(1,5)] free by (simp add: d1)
  have p2: "peers (bdb b2) = peers (bdb b1)"
    using up assms(3) p1 by (simp add: d2 joinStmts_def insertPeer_def nameHeld_def newPeer_def)
  have "dbOk (bdb b2)" unfolding d2 d1 by (intro dbOk_execAll assms(2))
  then have "namesUnique (peers (bdb b2))" by (simp add: dbOk_def)
  moreover have "sessionRow (rr_ID r1) (bdb b2) \<noteq> None" "sessionRow (rr_ID r2) (bdb b2) = None"
    using assms(6,7) by (auto simp: sessionRow_None[OF up(2)] p2 p1 r newPeer_def)
  ultimately show ?thesis using r by simp
qed

theorem register_race_witness:
  "\<exists>r1 b1 r2 b2. registerCommit (\<lambda>_. 1) ''abcd'' (sampleReq ''bob'') sampleBroker = (r1, b1) \<and>
     registerCommit (\<lambda>_. 2) ''wxyz'' (sampleReq ''bob'') b1 = (r2, b2) \<and>
     rr_OK r2 \<and> sessionRow (rr_ID r2) (bdb b2) = None"
proof -
  obtain r1 b1 where 1: "registerCommit (\<lambda>_. 1) ''abcd'' (sampleReq ''bob'') sampleBroker = (r1, b1)" by fastforce
  obtain r2 b2 where 2: "registerCommit (\<lambda>_. 2) ''wxyz'' (sampleReq ''bob'') b1 = (r2, b2)" by fastforce
  have ps: "peers (bdb sampleBroker) = []" by (simp add: sampleBroker_def sample_eval)
  have ids: "generatePeerID ''abcd'' \<noteq> generatePeerID ''wxyz''"
    by (simp add: generatePeerID_def hexEncode_inj)
  have name: "rq_AgentName (sampleReq ''bob'') \<noteq> []" by (simp add: sampleReq_def)
  have "registerCheck (sampleReq ''bob'') (bdb sampleBroker) = None"
    using holderOf_None[OF dbOk_sampleBroker(1), of "''bob''"] ps by (simp add: registerCheck_def sampleReq_def)
  from register_race[OF dbOk_sampleBroker name this _ _ ids 1 2] ps 1 2 show ?thesis by auto
qed

text \<open>
  A poll with an empty session id takes every message that is queued for an absent agent: the
  answer contains it and its row is stamped as delivered without a session, so that no later poll
  of any session, not even of the agent itself, returns it.
\<close>

theorem empty_poll_takes_queue:
  assumes "dbErr (bdb b) = None" and "dbOk (bdb b)" and "msgAt k (bdb b) = Some m"
    and "phaseOf m = Queued" and "pollMessages clk \<lparr>pq_ID = []\<rparr> b = (r, b')"
  shows "(\<exists>x \<in> set (pr_Messages r). m_ID x = k) \<and>
    (\<forall>i clk2. k \<notin> m_ID ` set (pr_Messages (fst (pollMessages clk2 \<lparr>pq_ID = i\<rparr> b'))))"
proof -
  have q: "w_to_session m = []" "w_delivered_at m = None"
    using assms(4) by (auto simp: phaseOf_def split: option.splits if_splits)
  have m: "m \<in> set (messages (bdb b))" "w_id m = k" using assms(3) msgAt_iff[OF assms(2)] by auto
  have b': "b' = snd (pollMessages clk \<lparr>pq_ID = []\<rparr> b)" and r: "pr_Messages r = waitingMessages [] (bdb b)"
    using assms(5) by (auto simp: pollMessages_def Let_def)
  have up: "dbErr (bdb b') = None" using assms(1) by (simp add: b' pollMessages_db)
  have "scanMessage m \<in> set (pr_Messages r)"
    using m(1) q by (auto simp: r in_waiting_iff[OF assms(1)] waitingFor_def)
  then have "\<exists>x \<in> set (pr_Messages r). m_ID x = k" using m(2) by (force simp: scanMessage_def)
  moreover have "w_delivered_at m' \<noteq> None" if h: "m' \<in> set (messages (bdb b'))" "w_id m' = k" for m'
  proof -
    let ?f = "\<lambda>m0. if waitingFor [] (agentNameOf [] (bdb b)) m0 then marked (nowISO (clk 0)) [] m0 else m0"
    have "m' \<in> ?f ` set (messages (bdb b))"
      using h(1) poll_messages[OF assms(1,2), of clk "\<lparr>pq_ID = []\<rparr>"] by (simp add: b' update_where_def)
    then obtain m0 where m0: "m0 \<in> set (messages (bdb b))" "m' = ?f m0" by blast
    have "w_id m0 = k" using h(2) m0(2) by (simp split: if_splits)
    with m m0(1) have "m0 = m" using dbOk_msg_ids[OF assms(2)] by (auto dest: inj_onD)
    with m0(2) q show ?thesis by (simp add: waitingFor_def marked_def)
  qed
  then have "k \<notin> m_ID ` set (waitingMessages i (bdb b'))" for i
    by (fastforce simp: in_waiting_iff[OF up] waitingFor_def scanMessage_def)
  ultimately show ?thesis by (simp add: pollMessages_def Let_def)
qed

theorem empty_poll_takes_queue_witness:
  "1 \<in> m_ID ` set (pr_Messages (fst (pollMessages (\<lambda>_. 0) \<lparr>pq_ID = []\<rparr> sampleBroker)))"
proof -
  have "\<exists>m. msgAt 1 (bdb sampleBroker) = Some m \<and> phaseOf m = Queued"
    by (simp add: sampleBroker_def sample_eval phaseOf_def)
  then obtain m where "msgAt 1 (bdb sampleBroker) = Some m" "phaseOf m = Queued" by blast
  from empty_poll_takes_queue[OF dbOk_sampleBroker this, of "\<lambda>_. 0"] show ?thesis
    by (metis imageI prod.collapse)
qed

end
