(* ===== verification/Rebind.thy ===== *)
theory Rebind
  imports Link Housekeeping
begin

text \<open>
  A session that the broker has evicted, and the heartbeat of its MCP server: \<open>heartbeatTick\<close> with
  \<open>rebindToBroker\<close> of \<^verbatim>\<open>src/fleet_server.go\<close> against \<open>heartbeat\<close> and \<open>register\<close> of the broker, behind its
  middleware and its rate limiter.
\<close>

section \<open>Heartbeats and registrations behind the broker\<close>

definition online :: "link \<Rightarrow> world clientEnv \<Rightarrow> string \<Rightarrow> UCANClaims \<Rightarrow> world host \<Rightarrow> bool" where
  "online L E tok c h \<longleftrightarrow> mayCall L E tok c \<and> authToken h = tok \<and> ready c (w_server (net h))"

lemma linked_online: "linkedTo L E tok c i h \<Longrightarrow> online L E tok c h"
  by (simp add: linkedTo_def online_def)

text \<open>The limiter has room for \<open>k\<close> more requests from the client, whatever the clock reads.\<close>

definition room :: "link \<Rightarrow> nat \<Rightarrow> world \<Rightarrow> bool" where
  "room L k w \<longleftrightarrow> int (length (slot (registerRL (w_server w)) (stripPort (l_addr L)))) + int k \<le> limit (registerRL (w_server w))"

lemma allow_room:
  assumes "int (length (slot rl ip)) + int (Suc k) \<le> limit rl"
  shows "fst (allow now ip rl) \<and> int (length (slot (snd (allow now ip rl)) ip)) + int k \<le> limit (snd (allow now ip rl))"
proof -
  let ?fs = "filter (\<lambda>t. now - window rl < t) (slot rl ip)"
  have len: "int (length ?fs) \<le> int (length (slot rl ip))" by simp
  with assms have "fst (allow now ip rl)" unfolding fst_allow by linarith
  moreover from this have "int (length (slot (snd (allow now ip rl)) ip)) = int (length ?fs) + 1" by (simp add: slot_allow)
  ultimately show ?thesis using assms len unfolding allow_frame by linarith
qed

lemma heartbeat_served:
  assumes "online L E tok c h" and "utf8Valid i" and "i \<notin> p_ID ` set (peers (dbOf (net h)))"
  shows "\<exists>h'. brokerFetch E ''/heartbeat'' (Some (encHeartbeat (h_json E) \<lparr>hq_ID = i\<rparr>)) (Some (unHeartbeat (h_json E))) noHeartbeat h =
      ((None, \<lparr>hr_OK = False, hr_Reason = HeartbeatReasonUnknownSession\<rparr>), h') \<and> online L E tok c h' \<and>
    disk h' = disk h \<and> w_count (net h') = Suc (w_count (net h)) \<and>
    registerRL (w_server (net h')) = registerRL (w_server (net h)) \<and>
    peers (dbOf (net h')) = peers (dbOf (net h)) \<and> messages (dbOf (net h')) = messages (dbOf (net h))"
proof -
  let ?n = "w_count (net h)" and ?b = "encHeartbeat (h_json E) \<lparr>hq_ID = i\<rparr>"
  let ?r = "\<lparr>hr_OK = False, hr_Reason = HeartbeatReasonUnknownSession\<rparr>"
  have m: "mayCall L E tok c" "ready c (w_server (net h))" "authToken h = tok" using assms by (simp_all add: online_def)
  have wire: "wireOk (h_json E) (l_env L) (l_render L)" using m(1) by (simp add: mayCall_def)
  obtain srv req where x: "ready c srv" "sessionState srv = sessionState (w_server (net h))" "q_Body req = ?b"
      "q_RemoteAddr req = l_addr L"
      "h_do E (apiRequest E ''/heartbeat'' (Some ?b) tok) (net h) =
         answered L ?n (handleHeartbeat (l_env L) (later 1 (l_clk L ?n)) (l_rnd L ?n) (Some c) req srv)"
    by (rule exchange[OF m(1,2) the_routes(5) closed_paths(9,10) peer_caps(4)])
  note views = same_views[OF x(2,1) m(2)]
  define b' where "b' = snd (heartbeat (later 1 (l_clk L ?n)) \<lparr>hq_ID = i\<rparr> (broker srv))"
  have none: "filter (\<lambda>p. p_ID p = i) (peers (bdb (broker srv))) = []" using assms(3) views(1) by (auto simp: filter_empty_conv)
  have up: "dbErr (bdb (broker srv)) = None" using x(1) by (simp add: ready_def)
  have hb: "heartbeat (later 1 (l_clk L ?n)) \<lparr>hq_ID = i\<rparr> (broker srv) = (?r, b')"
    using up none by (simp add: heartbeat_def b'_def Let_def)
  have eq: "handleHeartbeat (l_env L) (later 1 (l_clk L ?n)) (l_rnd L ?n) (Some c) req srv =
      (writeJSON (HeartbeatBody ?r), srv\<lparr>broker := b'\<rparr>)"
    using x(3) hb by (simp add: handleHeartbeat_def decodeBody_def wire_requests(4)[OF wire assms(2)])
  let ?h = "h\<lparr>net := \<lparr>w_server = srv\<lparr>broker := b'\<rparr>, w_count = Suc ?n\<rparr>\<rparr>"
  have "brokerFetch E ''/heartbeat'' (Some ?b) (Some (unHeartbeat (h_json E))) noHeartbeat h = ((None, ?r), ?h)"
    by (rule fetch_ok[where t = "l_render L (HeartbeatBody ?r)"])
      (use x(5)[unfolded eq] m(3) wire_answers(3)[OF wire, of ?r] in \<open>simp_all add: answered_def writeJSON_def respond_def HeartbeatReasonUnknownSession_def\<close>)
  moreover have db: "bdb b' = exec (TouchPeer (nowISO (later 1 (l_clk L ?n) 0)) i) (bdb (broker srv))"
    using heartbeat_db[of "later 1 (l_clk L ?n)" "\<lparr>hq_ID = i\<rparr>" "broker srv"] by (simp add: b'_def)
  moreover have "ready c (srv\<lparr>broker := b'\<rparr>)"
    by (rule ready_broker[OF x(1)]) (simp_all add: db dbStep_intros)
  moreover have "peers (bdb b') = peers (dbOf (net h))" "messages (bdb b') = messages (dbOf (net h))"
    using views up none by (auto simp: db exec_def update_where_def filter_empty_conv intro: map_idI)
  moreover have "registerRL srv = registerRL (w_server (net h))" using x(2) by (simp add: sessionState_def)
  ultimately show ?thesis using m by (intro exI[of _ ?h]) (simp add: online_def)
qed

lemma utf8_ascii: "list_all (\<lambda>c. (of_char c :: nat) < 128) s \<Longrightarrow> utf8Valid s"
  by (induction s) (simp_all add: Let_def)

lemma hexc_ascii: "d < 16 \<Longrightarrow> (of_char (hexc d) :: nat) < 128"
  by (auto simp: hexc_def)

lemma hexEncode_utf8: "utf8Valid (hexEncode bs)"
proof -
  have "(of_char y :: nat) div 16 < 16" for y using nat_of_char_less_256[of y] by (simp add: less_mult_imp_div_less)
  then show ?thesis by (intro utf8_ascii) (auto simp: hexEncode_def list_all_iff intro!: hexc_ascii)
qed

lemma dbSteps_dbErr: "dbStep\<^sup>*\<^sup>* d e \<Longrightarrow> dbErr e = dbErr d"
  by (induction rule: rtranclp_induct) (auto simp: dbStep_iff)

definition freeName :: "RegisterRequest \<Rightarrow> db \<Rightarrow> bool" where
  "freeName q d \<longleftrightarrow> rq_AgentName q = [] \<or> rq_AgentName q \<notin> p_AgentName ` set (peers d)"

lemma register_effect:
  assumes "dbErr (bdb b) = None" and "register clk rnd q b = (resp, b')" and "generatePeerID rnd \<notin> p_ID ` set (peers (bdb b))"
  shows "rr_OK resp \<longleftrightarrow> freeName q (bdb b)" "rr_ID resp = (if rr_OK resp then generatePeerID rnd else [])"
    "peers (bdb b') = peers (bdb b) @ (if rr_OK resp then [newPeer (generatePeerID rnd) (nowISO (clk 0)) q] else [])"
proof -
  show ok: "rr_OK resp \<longleftrightarrow> freeName q (bdb b)"
    using register_OK_iff[OF assms(1), of clk rnd q] assms(2) by (simp add: freeName_def)
  show "rr_ID resp = (if rr_OK resp then generatePeerID rnd else [])"
    using assms(2) by (auto simp: register_def registerCheck_def registerCommit_def Let_def split: option.splits if_splits)
  show "peers (bdb b') = peers (bdb b) @ (if rr_OK resp then [newPeer (generatePeerID rnd) (nowISO (clk 0)) q] else [])"
  proof (cases "rr_OK resp")
    case True
    then have "registerCommit clk rnd q b = (resp, b')" using register_OK_commit[of clk rnd q b] by (simp only: assms(2) fst_conv)
    then have "bdb b' = execAll (joinStmts clk (generatePeerID rnd) q) (bdb b)" using registerCommit_db[of clk rnd q b] by (simp only: snd_conv)
    with True ok peers_join[OF assms(1), of "generatePeerID rnd" q clk] assms(3) show ?thesis
      by (simp add: freeName_def del: execAll_simps)
  next
    case False
    then show ?thesis using register_fail[of clk rnd q b] assms(2) by auto
  qed
qed

lemma register_served:
  assumes "online L E tok c h" and "cleanRegister q" and "room L (Suc k) (net h)"
    and "generatePeerID (l_rnd L (w_count (net h))) \<notin> p_ID ` set (peers (dbOf (net h)))"
    and "generatePeerID (l_rnd L (w_count (net h))) \<noteq> []"
  shows "\<exists>h' r t. fetchRegister E q r0 h = ((None, r), h') \<and> online L E tok c h' \<and> room L k (net h') \<and>
    w_count (net h') = Suc (w_count (net h)) \<and> disk h' = disk h \<and> (rr_OK r \<longleftrightarrow> freeName q (dbOf (net h))) \<and>
    (rr_OK r \<longrightarrow> rr_ID r = generatePeerID (l_rnd L (w_count (net h)))) \<and>
    peers (dbOf (net h')) = peers (dbOf (net h)) @
      (if rr_OK r then [newPeer (generatePeerID (l_rnd L (w_count (net h)))) t q] else [])"
proof -
  let ?n = "w_count (net h)" and ?b = "encRegister (h_json E) q"
  let ?clk = "later 1 (l_clk L ?n)" and ?ip = "stripPort (l_addr L)"
  have m: "mayCall L E tok c" "ready c (w_server (net h))" "authToken h = tok" using assms by (simp_all add: online_def)
  have wire: "wireOk (h_json E) (l_env L) (l_render L)" using m(1) by (simp add: mayCall_def)
  obtain srv req where x: "ready c srv" "sessionState srv = sessionState (w_server (net h))" "q_Body req = ?b"
      "q_RemoteAddr req = l_addr L"
      "h_do E (apiRequest E ''/register'' (Some ?b) tok) (net h) =
         answered L ?n (handleRegister (l_env L) ?clk (l_rnd L ?n) (Some c) req srv)"
    by (rule exchange[OF m(1,2) the_routes(6) closed_paths(11,12) peer_caps(5)])
  note views = same_views[OF x(2,1) m(2)]
  have rl: "registerRL srv = registerRL (w_server (net h))" using x(2) by (simp add: sessionState_def)
  obtain rl' where al: "allow (?clk 0) ?ip (registerRL srv) = (True, rl')"
      "int (length (slot rl' ?ip)) + int k \<le> limit rl'"
    using allow_room[of "registerRL srv" ?ip k "?clk 0"] assms(3) rl by (auto simp: room_def prod_eq_iff)
  obtain resp b' where reg: "register (later 1 ?clk) (l_rnd L ?n) q (broker srv) = (resp, b')" by fastforce
  let ?srv = "srv\<lparr>registerRL := rl', broker := b'\<rparr>"
  have up: "dbErr (bdb (broker srv)) = None" using x(1) by (simp add: ready_def)
  have "generatePeerID (l_rnd L ?n) \<notin> p_ID ` set (peers (bdb (broker srv)))" using assms(4) views(1) by simp
  note e = register_effect[OF up reg this]
  have ok: "rr_OK resp \<longleftrightarrow> freeName q (dbOf (net h))" using e(1) views(1) by (simp add: freeName_def)
  have peers': "peers (bdb b') = peers (dbOf (net h)) @
      (if rr_OK resp then [newPeer (generatePeerID (l_rnd L ?n)) (nowISO (later 1 ?clk 0)) q] else [])" using e(3) views(1) by simp
  have i: "rr_OK resp \<Longrightarrow> rr_ID resp = generatePeerID (l_rnd L ?n)" "\<not> rr_OK resp \<Longrightarrow> rr_ID resp = []" using e(2) by simp_all
  have "utf8Valid (rr_ID resp)" using i by (cases "rr_OK resp") (simp_all add: generatePeerID_def hexEncode_utf8)
  then obtain r where r: "unRegister (h_json E) (l_render L (RegisterBody resp)) r0 = (None, r)" "rr_OK r = rr_OK resp"
      "rr_OK resp \<Longrightarrow> rr_ID r = generatePeerID (l_rnd L ?n)"
    using wire_answers(4)[OF wire] i assms(5) by metis
  have eq: "handleRegister (l_env L) ?clk (l_rnd L ?n) (Some c) req srv =
      (respond (if rr_OK resp then 200 else 409) (RegisterBody resp), ?srv)"
    using al(1) reg x(3,4) wire_requests(5)[OF wire assms(2)] by (simp add: handleRegister_def decodeBody_def)
  let ?h = "h\<lparr>net := \<lparr>w_server = ?srv, w_count = Suc ?n\<rparr>\<rparr>"
  have "fetchRegister E q r0 h = ((None, r), ?h)"
    using x(5)[unfolded eq] r(1) m(3)
    by (simp add: fetchRegister_def cliFetch_def cliFetchOnce_def send_request_def readAnswer_def answered_def respond_def)
  moreover have "ready c ?srv"
  proof -
    have "brokerStep (broker srv) b'" using brokerStep.Register[of "broker srv" "later 1 ?clk" "l_rnd L ?n" q] by (simp only: reg snd_conv)
    note st = brokerStep_dbStep[OF this]
    show ?thesis using x(1) dbSteps_dbErr[OF st] statements.holds_steps[OF st] by (simp add: ready_def)
  qed
  moreover have "room L k (net ?h)" using al(2) by (simp add: room_def)
  ultimately show ?thesis using m ok r peers' by (intro exI[of _ ?h] exI[of _ r] exI[of _ "nowISO (later 1 ?clk 0)"]) (simp add: online_def)
qed

lemma register_free:
  assumes "online L E tok c h" and "cleanRegister q" and "room L (Suc k) (net h)"
    and "generatePeerID (l_rnd L (w_count (net h))) \<notin> p_ID ` set (peers (dbOf (net h)))"
    and "generatePeerID (l_rnd L (w_count (net h))) \<noteq> []" and "freeName q (dbOf (net h))"
  obtains h' r t where "fetchRegister E q r0 h = ((None, r), h')" "online L E tok c h'" "disk h' = disk h" "rr_OK r"
    "rr_ID r = generatePeerID (l_rnd L (w_count (net h)))"
    "peers (dbOf (net h')) = peers (dbOf (net h)) @ [newPeer (generatePeerID (l_rnd L (w_count (net h)))) t q]"
proof -
  from register_served[OF assms(1-5), of r0] obtain h' r t where x: "fetchRegister E q r0 h = ((None, r), h') \<and>
      online L E tok c h' \<and> room L k (net h') \<and> w_count (net h') = Suc (w_count (net h)) \<and> disk h' = disk h \<and>
      (rr_OK r \<longleftrightarrow> freeName q (dbOf (net h))) \<and> (rr_OK r \<longrightarrow> rr_ID r = generatePeerID (l_rnd L (w_count (net h)))) \<and>
      peers (dbOf (net h')) = peers (dbOf (net h)) @
        (if rr_OK r then [newPeer (generatePeerID (l_rnd L (w_count (net h)))) t q] else [])" by blast
  with assms(6) have "rr_OK r" by blast
  with x show thesis by (intro that[of r h' t]) simp_all
qed

section \<open>Re-registration\<close>

text \<open>The name the session has after a registration with the fallback.\<close>

definition grantedName :: "RegisterRequest \<Rightarrow> db \<Rightarrow> string" where
  "grantedName q d = (if freeName q d then rq_AgentName q else [])"

definition freshIDs :: "link \<Rightarrow> nat \<Rightarrow> nat \<Rightarrow> db \<Rightarrow> bool" where
  "freshIDs L n k d \<longleftrightarrow> (\<forall>j \<in> {n ..< n + k}. generatePeerID (l_rnd L j) \<notin> p_ID ` set (peers d) \<and> 4 \<le> length (l_rnd L j))"

lemma fresh_nonempty: "4 \<le> length rnd \<Longrightarrow> generatePeerID rnd \<noteq> []"
  using length_hexEncode[of "take 4 rnd"] by (auto simp: generatePeerID_def)

lemma fallback_served:
  assumes "online L E tok c h" and "cleanRegister q" and "room L 2 (net h)"
    and "freshIDs L (w_count (net h)) 2 (dbOf (net h))" and "d = dbOf (net h)"
  shows "\<exists>h' r i t. registerWithFallback E msgs q h = (Inr (r, grantedName q d), h') \<and> rr_ID r = i \<and> online L E tok c h' \<and>
    disk h' = disk h \<and> peers (dbOf (net h')) = peers d @ [newPeer i t (q\<lparr>rq_AgentName := grantedName q d\<rparr>)] \<and>
    i \<notin> p_ID ` set (peers d)"
proof -
  let ?n = "w_count (net h)" and ?q = "q\<lparr>rq_AgentName := []\<rparr>"
  have f: "generatePeerID (l_rnd L j) \<notin> p_ID ` set (peers d)" "generatePeerID (l_rnd L j) \<noteq> []" if "j \<in> {?n, Suc ?n}" for j
    using assms(4,5) that fresh_nonempty by (auto simp: freshIDs_def)
  obtain h1 r1 t1 where 1: "fetchRegister E q noRegister h = ((None, r1), h1)" "online L E tok c h1" "room L 1 (net h1)"
      "w_count (net h1) = Suc ?n" "disk h1 = disk h" "rr_OK r1 \<longleftrightarrow> freeName q d"
      "rr_OK r1 \<Longrightarrow> rr_ID r1 = generatePeerID (l_rnd L ?n)"
      "peers (dbOf (net h1)) = peers d @ (if rr_OK r1 then [newPeer (generatePeerID (l_rnd L ?n)) t1 q] else [])"
    using register_served[OF assms(1,2), of 1 noRegister] assms(3,5) f by (auto simp: numeral_2_eq_2)
  show ?thesis
  proof (cases "freeName q d")
    case True
    then show ?thesis
      using 1 f(1)[of ?n]
      by (cases msgs) (auto simp: registerWithFallback_def grantedName_def)
  next
    case False
    then have name: "rq_AgentName q \<noteq> []" by (simp add: freeName_def)
    have p1: "peers (dbOf (net h1)) = peers d" using 1 False by simp
    have q: "cleanRegister ?q" "freeName ?q (dbOf (net h1))" using assms(2) by (simp_all add: cleanRegister_def freeName_def)
    have "generatePeerID (l_rnd L (w_count (net h1))) \<notin> p_ID ` set (peers (dbOf (net h1)))"
      "generatePeerID (l_rnd L (w_count (net h1))) \<noteq> []" using f[of "Suc ?n"] 1(4) p1 by simp_all
    then obtain h2 r2 t2 where 2: "fetchRegister E ?q r1 h1 = ((None, r2), h2)" "online L E tok c h2" "disk h2 = disk h1" "rr_OK r2"
        "rr_ID r2 = generatePeerID (l_rnd L (w_count (net h1)))"
        "peers (dbOf (net h2)) = peers (dbOf (net h1)) @ [newPeer (generatePeerID (l_rnd L (w_count (net h1)))) t2 ?q]"
      using register_free[OF 1(2) q(1) 1(3)[unfolded One_nat_def] _ _ q(2)] by blast
    with 1 False name p1 f(1)[of "Suc ?n"] show ?thesis
      by (cases msgs) (auto simp: registerWithFallback_def grantedName_def)
  qed
qed

text \<open>
  C14: an evicted session comes back at the next heartbeat.  When the broker no longer knows the
  session, the heartbeat is answered with the reason for it, and the server registers again: it
  has a fresh session id, the broker lists exactly one new session under that id, with the
  configured name if no live session holds it and without a name otherwise, and every other session is
  still there.
\<close>

theorem evicted_session_returns:
  assumes "online L E tok c (v_host v)" and "v_session v = Some i" and "utf8Valid i"
    and "d = dbOf (net (v_host v))" and "i \<notin> p_ID ` set (peers d)"
    and "q = (registerReqFor E I)\<lparr>rq_Summary := []\<rparr>" and "cleanRegister q" and "room L 2 (net (v_host v))"
    and "freshIDs L (Suc (w_count (net (v_host v)))) 2 d"
    and "v' = heartbeatTick E I now v"
  shows "\<exists>j t. v_session v' = Some j \<and> j \<notin> p_ID ` set (peers d) \<and>
    peers (dbOf (net (v_host v'))) = peers d @ [newPeer j t (q\<lparr>rq_AgentName := grantedName q d\<rparr>)] \<and>
    online L E tok c (v_host v')"
proof -
  obtain h1 where 1: "brokerFetch E ''/heartbeat'' (Some (encHeartbeat (h_json E) \<lparr>hq_ID = i\<rparr>)) (Some (unHeartbeat (h_json E)))
        noHeartbeat (v_host v) = ((None, \<lparr>hr_OK = False, hr_Reason = HeartbeatReasonUnknownSession\<rparr>), h1)"
      "online L E tok c h1" "w_count (net h1) = Suc (w_count (net (v_host v)))"
      "registerRL (w_server (net h1)) = registerRL (w_server (net (v_host v)))" "peers (dbOf (net h1)) = peers d"
    using heartbeat_served[OF assms(1,3)] assms(4,5) by metis
  have names: "grantedName q (dbOf (net h1)) = grantedName q d" using 1(5) by (simp add: grantedName_def freeName_def)
  have "room L 2 (net h1)" "freshIDs L (w_count (net h1)) 2 (dbOf (net h1))"
    using assms(8,9) 1(3-5) by (simp_all add: room_def freshIDs_def)
  from fallback_served[OF 1(2) assms(7) this refl, of rebindMsgs] names 1(5)
  obtain h2 r j t where 2: "registerWithFallback E rebindMsgs q h1 = (Inr (r, grantedName q d), h2)" "rr_ID r = j"
      "online L E tok c h2" "peers (dbOf (net h2)) = peers d @ [newPeer j t (q\<lparr>rq_AgentName := grantedName q d\<rparr>)]"
      "j \<notin> p_ID ` set (peers d)" by auto
  then show ?thesis
    using 1(1) assms(2,6,10)
    by (intro exI[of _ j] exI[of _ t]) (simp add: heartbeatTick_def sessionGet_def rebindToBroker_def online_def Let_def split: prod.split)
qed

text \<open>The session \<open>s9\<close> was evicted; its configured name is held by another session, so it comes back without one.\<close>

lemma sample_room: "room sampleLink 2 (net (sampleHost b))"
  by (simp add: room_def sampleHost_def sampleServer_def newRateLimiter_def slot_def)

lemma sample_fresh: "peers d = peers (bdb waitingBroker) \<Longrightarrow> freshIDs sampleLink n k d"
  by (simp add: freshIDs_def sampleLink_def waiting_peers newPeer_def generatePeerID_def hexEncode_def hexc_def digitc_def)

lemma sample_online: "online sampleLink sampleClient (plainToken ''root'' sampleRootClaims) sampleRootClaims (sampleHost waitingBroker)"
  using sample_may_call sample_ready[OF waiting_up_ok] by (simp add: online_def sampleHost_def)

lemma sample_register_clean:
  "cleanRegister (registerReqFor sampleClient sampleSelf)" "cleanRegister ((registerReqFor sampleClient sampleSelf)\<lparr>rq_Summary := []\<rparr>)"
  by (simp_all add: cleanRegister_def registerReqFor_def sampleClient_def sampleSelf_def defaultConfig_def sampleOS_def orEmpty_def
      int64_def Let_def)

theorem evicted_session_returns_witness:
  "\<exists>j t. v_session (heartbeatTick sampleClient sampleSelf 0 ((sampleMcp waitingBroker)\<lparr>v_session := Some ''s9''\<rparr>)) = Some j \<and>
     j \<noteq> ''s1'' \<and> map p_AgentName (peers (dbOf (net (v_host (heartbeatTick sampleClient sampleSelf 0
        ((sampleMcp waitingBroker)\<lparr>v_session := Some ''s9''\<rparr>)))))) = [''bob'', []]"
proof -
  let ?v = "(sampleMcp waitingBroker)\<lparr>v_session := Some ''s9''\<rparr>"
  have h: "v_host ?v = sampleHost waitingBroker" "v_session ?v = Some ''s9''" "utf8Valid ''s9''"
    by (simp_all add: sampleMcp_def Let_def)
  have d: "dbOf (net (sampleHost waitingBroker)) = bdb waitingBroker" by (simp add: sampleHost_def)
  let ?q = "(registerReqFor sampleClient sampleSelf)\<lparr>rq_Summary := []\<rparr>"
  have g: "grantedName ?q (bdb waitingBroker) = []"
    by (simp add: grantedName_def freeName_def waiting_peers newPeer_def sampleReq_def registerReqFor_def sampleSelf_def)
  have "''s9'' \<notin> p_ID ` set (peers (bdb waitingBroker))" by (simp add: waiting_peers newPeer_def)
  from evicted_session_returns[of sampleLink sampleClient _ _ ?v "''s9''", unfolded h(1) d, OF sample_online h(2,3) refl this refl
      sample_register_clean(2) sample_room sample_fresh[OF refl] refl, of 0]
  show ?thesis by (auto simp: g waiting_peers) (auto simp: newPeer_def sampleReq_def)
qed

end
