(* ===== verification/Startup.thy ===== *)
theory Startup
  imports Rebind
begin

text \<open>
  The start of an MCP server against a running broker: the health probe, the identity challenge and the
  registration of \<open>runServer\<close> (\<^verbatim>\<open>src/fleet_server.go\<close>), served by the routes of \<^verbatim>\<open>src/broker_core.go\<close>.
\<close>

section \<open>The open routes\<close>

lemma open_serve:
  assumes "h_do E = brokerDo L" and "l_base L = g_BrokerURL (h_cfg E)" and "path \<in> set openPaths" and "CHR ''?'' \<notin> set path"
    and "\<And>req. q_Path req = path \<Longrightarrow> q_Method req = meth \<Longrightarrow> matching req = [(path, meth, None, hnd)]"
  obtains req where "q_Body req = b"
    "h_do E \<lparr>r_Method = meth, r_URL = g_BrokerURL (h_cfg E) @ path, r_Auth = a, r_Body = b\<rparr> w =
       answered L (w_count w) (hnd (l_env L) (l_clk L (w_count w)) (l_rnd L (w_count w)) None req (w_server w))"
proof -
  let ?q = "toRequest L \<lparr>r_Method = meth, r_URL = g_BrokerURL (h_cfg E) @ path, r_Auth = a, r_Body = b\<rparr>"
  have "takeWhile (\<lambda>x. x \<noteq> CHR ''?'') path = path"
    using assms(4) by (simp add: takeWhile_eq_all_conv) metis
  then have q: "q_Path ?q = path" "q_Method ?q = meth" "q_Body ?q = b"
    using assms(2) by (simp_all add: toRequest_def Let_def)
  show thesis
    using that[of ?q] q assms(1,3) assms(5)[OF q(1,2)]
    by (simp add: brokerDo_def serve_def ucanMiddleware_def mux_matched dispatch_def answered_def split: prod.split)
qed

lemma open_routes_match:
  "q_Path req = ''/health'' \<Longrightarrow> q_Method req = ''GET'' \<Longrightarrow> matching req = [(''/health'', ''GET'', None, handleHealth)]"
  "q_Path req = ''/challenge'' \<Longrightarrow> q_Method req = ''POST'' \<Longrightarrow> matching req = [(''/challenge'', ''POST'', None, handleChallenge)]"
  by (simp_all add: matching_def routes_def methodMatches_def)

lemma health_served:
  assumes "h_do E = brokerDo L" and "l_base L = g_BrokerURL (h_cfg E)"
  shows "isBrokerAlive E h = (True, h\<lparr>net := (net h)\<lparr>w_count := Suc (w_count (net h))\<rparr>\<rparr>)"
proof -
  obtain req where "h_do E \<lparr>r_Method = ''GET'', r_URL = g_BrokerURL (h_cfg E) @ ''/health'', r_Auth = [], r_Body = []\<rparr> (net h) =
       answered L (w_count (net h)) (handleHealth (l_env L) (l_clk L (w_count (net h))) (l_rnd L (w_count (net h))) None req (w_server (net h)))"
    by (rule open_serve[OF assms _ _ open_routes_match(1)]) (simp_all add: openPaths_def)
  then show ?thesis
    by (simp add: isBrokerAlive_def send_request_def handleHealth_def writeJSON_def respond_def answered_def)
qed

lemma challenge_served:
  assumes "h_do E = brokerDo L" and "l_base L = g_BrokerURL (h_cfg E)"
    and "w' = (net h)\<lparr>w_count := Suc (w_count (net h))\<rparr>"
  obtains req resp where "q_Body req = b"
    "handleChallenge (l_env L) (l_clk L (w_count (net h))) (l_rnd L (w_count (net h))) None req (w_server (net h)) = (resp, w_server (net h))"
    "send_request E \<lparr>r_Method = ''POST'', r_URL = g_BrokerURL (h_cfg E) @ ''/challenge'', r_Auth = [], r_Body = b\<rparr> h =
       (Inr (status resp, l_render L (payload resp)), h\<lparr>net := w'\<rparr>)"
proof -
  obtain req where x: "q_Body req = b"
      "h_do E \<lparr>r_Method = ''POST'', r_URL = g_BrokerURL (h_cfg E) @ ''/challenge'', r_Auth = [], r_Body = b\<rparr> (net h) =
       answered L (w_count (net h)) (handleChallenge (l_env L) (l_clk L (w_count (net h))) (l_rnd L (w_count (net h))) None req (w_server (net h)))"
    by (rule open_serve[OF assms(1,2) _ _ open_routes_match(2)]) (simp_all add: openPaths_def)
  have "snd (handleChallenge (l_env L) (l_clk L (w_count (net h))) (l_rnd L (w_count (net h))) None req (w_server (net h))) = w_server (net h)"
    by (simp add: handleChallenge_def decodeBody_def split: sum.split)
  then obtain resp where "handleChallenge (l_env L) (l_clk L (w_count (net h))) (l_rnd L (w_count (net h))) None req (w_server (net h)) = (resp, w_server (net h))"
    by (metis prod.collapse)
  with x that[of req resp] assms(3) show thesis by (simp add: send_request_def answered_def)
qed

section \<open>The identity of the broker\<close>

lemma b64Encode_utf8: "utf8Valid (b64Encode bs)"
proof -
  have "\<forall>c \<in> set b64Alphabet. (of_char c :: nat) < 128" by (simp add: b64Alphabet_def)
  moreover have "b64Char n \<in> set b64Alphabet" if "n < 64" for n
    using that nth_mem[of n b64Alphabet] by (simp add: b64Char_def b64Alphabet_def)
  moreover have "\<forall>x \<in> set (sextets (map of_char bs)). x < 64"
    by (rule sextets_less) (auto simp: nat_of_char_less_256)
  ultimately show ?thesis by (intro utf8_ascii) (auto simp: b64Encode_def list_all_iff)
qed

text \<open>
  C21: an honest broker passes the identity check.  When the client's \<^verbatim>\<open>root.pub\<close> is the public key of
  the broker's key pair, and signatures verify under it, then the challenge the client sends, signed by
  the broker's handler, is accepted, for every nonce: the broker answers with status 200 and with the nonce and a signature
  that the check passes, rather than the check being skipped.  Nothing but the request count changes.
\<close>

theorem honest_broker_verifies:
  assumes "h_do E = brokerDo L" and "l_base L = g_BrokerURL (h_cfg E)" and "wireOk (h_json E) (l_env L) (l_render L)"
    and "keyPairFile (l_env L) = Inr kp"
    and "LoadPublicKey P (Join [configDir (h_os E), rootPubKeyFile]) (disk h) = Inr (PublicKey kp)"
    and "\<And>m. verify (PublicKey kp) m (ed25519Sign (l_env L) (PrivateKey kp) m)"
  shows "verifyBrokerIdentity E P verify (Inr nonce) h = (None, h\<lparr>net := (net h)\<lparr>w_count := Suc (w_count (net h))\<rparr>\<rparr>) \<and>
    (\<exists>t c. fst (send_request E \<lparr>r_Method = ''POST'', r_URL = g_BrokerURL (h_cfg E) @ ''/challenge'', r_Auth = [],
         r_Body = encChallenge (h_json E) \<lparr>ch_Nonce = b64Encode nonce\<rparr>\<rparr> h) = Inr (200, t) \<and>
       unChallenge (h_json E) t noChallenge = (None, c) \<and> checkChallenge verify (PublicKey kp) (b64Encode nonce) c = None)"
proof -
  let ?b = "encChallenge (h_json E) \<lparr>ch_Nonce = b64Encode nonce\<rparr>"
  let ?c = "\<lparr>cs_Nonce = b64Encode nonce, cs_Signature = b64Encode (ed25519Sign (l_env L) (PrivateKey kp) (b64Encode nonce)),
     cs_PublicKey = pubKeyToString (PublicKey kp)\<rparr>"
  obtain req resp where x: "q_Body req = ?b"
    "handleChallenge (l_env L) (l_clk L (w_count (net h))) (l_rnd L (w_count (net h))) None req (w_server (net h)) = (resp, w_server (net h))"
    "send_request E \<lparr>r_Method = ''POST'', r_URL = g_BrokerURL (h_cfg E) @ ''/challenge'', r_Auth = [], r_Body = ?b\<rparr> h =
       (Inr (status resp, l_render L (payload resp)), h\<lparr>net := (net h)\<lparr>w_count := Suc (w_count (net h))\<rparr>\<rparr>)"
    by (rule challenge_served[OF assms(1,2) refl])
  have "resp = writeJSON (ChallengeBody ?c)"
    using x(1,2) assms(4) wire_requests(6)[OF assms(3) b64Encode_utf8[of nonce]] by (simp add: handleChallenge_def decodeBody_def)
  then have "fst (send_request E \<lparr>r_Method = ''POST'', r_URL = g_BrokerURL (h_cfg E) @ ''/challenge'', r_Auth = [], r_Body = ?b\<rparr> h) =
      Inr (200, l_render L (ChallengeBody ?c))"
    using x(3) by (simp add: writeJSON_def respond_def)
  moreover have "unChallenge (h_json E) (l_render L (ChallengeBody ?c)) noChallenge = (None, ?c)"
    by (rule wire_answers(5)[OF assms(3)]) (simp add: b64Encode_utf8 pubKeyToString_def)
  moreover have "checkChallenge verify (PublicKey kp) (b64Encode nonce) ?c = None"
    using assms(6) by (simp add: checkChallenge_def b64_round_trip)
  ultimately show ?thesis
    using x(3) assms(5) by (auto simp: verifyBrokerIdentity_def Let_def)
qed

lemma identity_check_harmless:
  assumes "h_do E = brokerDo L" and "l_base L = g_BrokerURL (h_cfg E)"
  shows "\<exists>k \<le> 1. snd (verifyBrokerIdentity E P verify rnd h) = h\<lparr>net := (net h)\<lparr>w_count := w_count (net h) + k\<rparr>\<rparr>"
proof -
  have "\<exists>r. send_request E \<lparr>r_Method = ''POST'', r_URL = g_BrokerURL (h_cfg E) @ ''/challenge'', r_Auth = [], r_Body = b\<rparr> h =
       (r, h\<lparr>net := (net h)\<lparr>w_count := Suc (w_count (net h))\<rparr>\<rparr>)" for b
    by (rule challenge_served[OF assms refl, where h = h and b = b]) blast
  then obtain r where s: "\<And>b. send_request E \<lparr>r_Method = ''POST'', r_URL = g_BrokerURL (h_cfg E) @ ''/challenge'', r_Auth = [], r_Body = b\<rparr> h =
       (r b, h\<lparr>net := (net h)\<lparr>w_count := Suc (w_count (net h))\<rparr>\<rparr>)" by metis
  show ?thesis
  proof (cases "\<exists>k nonce. LoadPublicKey P (Join [configDir (h_os E), rootPubKeyFile]) (disk h) = Inr k \<and> rnd = Inr nonce")
    case True
    then have "snd (verifyBrokerIdentity E P verify rnd h) = h\<lparr>net := (net h)\<lparr>w_count := w_count (net h) + 1\<rparr>\<rparr>"
      by (auto simp: verifyBrokerIdentity_def s Let_def split: sum.split prod.split option.split)
    then show ?thesis by blast
  next
    case False
    then have "snd (verifyBrokerIdentity E P verify rnd h) = h"
      by (auto simp: verifyBrokerIdentity_def split: sum.split)
    then show ?thesis by (intro exI[of _ 0]) simp
  qed
qed

section \<open>Starting\<close>

text \<open>
  C20: an MCP server starts against a running broker.  With a valid token on disk, the server passes
  the probe, whatever the outcome of the identity check, and registers: the broker lists one new session,
  with the session id the server goes on with, under the name found by the inspection of its surroundings
  if that name is free and without a name otherwise.
\<close>

theorem server_starts:
  assumes "mayCall L E tok c" and "ready c (w_server (net h))" and "loadAuthToken (h_os E) (disk h) = tok"
    and "q = registerReqFor E (inspectSelf E sh ovr pid ppid summary (disk h))" and "cleanRegister q"
    and "d = dbOf (net h)" and "room L 2 (net h)" and "freshIDs L (Suc (w_count (net h))) 3 d"
  shows "\<exists>v j t. runServer E P verify rnd start sh ovr pid ppid summary now h = Inr v \<and> v_session v = Some j \<and>
    peers (dbOf (net (v_host v))) = peers d @ [newPeer j t (q\<lparr>rq_AgentName := grantedName q d\<rparr>)] \<and>
    j \<notin> p_ID ` set (peers d) \<and> v_out v = [] \<and> online L E tok c (v_host v)"
proof -
  have E: "h_do E = brokerDo L" "l_base L = g_BrokerURL (h_cfg E)" using assms(1) by (simp_all add: mayCall_def)
  let ?h1 = "h\<lparr>net := (net h)\<lparr>w_count := Suc (w_count (net h))\<rparr>\<rparr>"
  have 1: "ensureBroker E start h = (None, ?h1)" by (simp add: ensureBroker_def health_served[OF E])
  obtain k where k: "k \<le> 1" "snd (verifyBrokerIdentity E P verify rnd ?h1) =
      ?h1\<lparr>net := (net ?h1)\<lparr>w_count := w_count (net ?h1) + k\<rparr>\<rparr>"
    using identity_check_harmless[OF E, of P verify rnd ?h1] by blast
  obtain e where e: "verifyBrokerIdentity E P verify rnd ?h1 = (e, ?h1\<lparr>net := (net ?h1)\<lparr>w_count := w_count (net ?h1) + k\<rparr>\<rparr>)"
    using k(2) by (metis prod.collapse)
  define h3 where "h3 = (snd (verifyBrokerIdentity E P verify rnd ?h1))\<lparr>authToken := tok\<rparr>"
  have h3: "disk h3 = disk h" "w_server (net h3) = w_server (net h)" "w_count (net h3) = Suc (w_count (net h)) + k"
    by (simp_all add: h3_def k(2))
  have on: "online L E tok c h3" using assms(1,2) h3(2) by (simp add: online_def h3_def)
  have rf: "room L 2 (net h3)" "freshIDs L (w_count (net h3)) 2 (dbOf (net h3))"
    using assms(6-8) h3 k(1) by (auto simp: room_def freshIDs_def)
  from fallback_served[OF on assms(5) rf refl, of startMsgs] h3(2) assms(6)
  obtain h4 r j t where 4: "registerWithFallback E startMsgs q h3 = (Inr (r, grantedName q d), h4)" "rr_ID r = j" "online L E tok c h4"
      "peers (dbOf (net h4)) = peers d @ [newPeer j t (q\<lparr>rq_AgentName := grantedName q d\<rparr>)]" "j \<notin> p_ID ` set (peers d)" by auto
  have run: "runServer E P verify rnd start sh ovr pid ppid summary now h =
      startSession E (inspectSelf E sh ovr pid ppid summary (disk h3)) now h3"
    using 1 e assms(3) by (simp add: runServer_def h3_def)
  let ?I = "inspectSelf E sh ovr pid ppid summary (disk h)"
  obtain path s where w: "writeSessionStateFile E (b_ppid ?I) (stateFor E ?I now j (grantedName q d)) (disk h4) = (path, s)" by fastforce
  show ?thesis
    unfolding run startSession_def h3(1) assms(4)[symmetric] 4(1)
    using 4 w
    by (intro exI[of _ "\<lparr>v_host = h4\<lparr>disk := s\<rparr>, v_session = Some j, v_statePath = path, v_pushed = {}, v_out = []\<rparr>"]
        exI[of _ j] exI[of _ t]) (simp add: online_def)
qed

section \<open>A start\<close>

definition signsNonce :: "bytes \<Rightarrow> string \<Rightarrow> bytes \<Rightarrow> bool" where
  "signsNonce pub m sig \<longleftrightarrow> pub = plainPublic ''root'' \<and> sig = ''root'' @ m"

definition keyHost :: "world host" where
  "keyHost = (sampleHost waitingBroker)\<lparr>disk := sampleFs [(Join [configDir sampleOS, rootPubKeyFile],
     jsonStrings [''PUBLIC KEY'', plainPublic ''root''])]\<rparr>"

lemma keyHost_key: "LoadPublicKey plainPem (Join [configDir sampleOS, rootPubKeyFile]) (disk keyHost) = Inr (plainPublic ''root'')"
  by (simp add: keyHost_def LoadPublicKey_def ReadFile_def sampleFs_def plainPem_def strings_round_trip)

theorem honest_broker_verifies_witness:
  "fst (verifyBrokerIdentity sampleClient plainPem signsNonce (Inr ''nonce'') keyHost) = None"
proof -
  let ?kp = "\<lparr>PrivateKey = ''root'', PublicKey = plainPublic ''root''\<rparr>"
  have c: "h_do sampleClient = brokerDo sampleLink" "l_base sampleLink = g_BrokerURL (h_cfg sampleClient)"
    "wireOk (h_json sampleClient) (l_env sampleLink) (l_render sampleLink)"
    using sample_may_call by (simp_all add: mayCall_def)
  have k: "keyPairFile (l_env sampleLink) = Inr ?kp" "ed25519Sign (l_env sampleLink) = (\<lambda>k x. k @ x)" "h_os sampleClient = sampleOS"
    by (simp_all add: sampleLink_def plainHttp_def sampleEnv_def sampleClient_def)
  have "signsNonce (PublicKey ?kp) m (ed25519Sign (l_env sampleLink) (PrivateKey ?kp) m)" for m
    by (simp add: k(2) signsNonce_def)
  from honest_broker_verifies[OF c k(1), where verify = signsNonce and P = plainPem and h = keyHost, unfolded k(3), OF _ this] keyHost_key
  show ?thesis by simp
qed

definition tokenClient :: "world clientEnv" where
  "tokenClient = sampleClient\<lparr>h_os := sampleOS\<lparr>Getenv :=
     (\<lambda>n. if n = ''CLAUDE_PEERS_TOKEN'' then plainToken ''root'' sampleRootClaims else [])\<rparr>\<rparr>"

definition noPrograms :: runner where
  "noPrograms args dir = ([], Some ''not found'')"

lemma sample_inspect: "inspectSelf tokenClient noPrograms ''zoe'' 7 6 None s = \<lparr>b_agent = ''zoe'', b_cwd = ''/'', b_root = [],
    b_tty = [], b_project = [], b_branch = [], b_summary = [], b_pid = 7, b_ppid = 6\<rparr>"
  by (simp add: inspectSelf_def tokenClient_def sampleClient_def sampleOS_def orEmpty_def noPrograms_def gitRoot_def gitBranch_def
      getTTY_def resolveAgentName_def autoProject_def filterEmpty_def path_eval trimSpace_def isSpace_def Let_def)

theorem server_starts_witness:
  "\<exists>v. runServer tokenClient plainPem signsNonce (Inr ''nonce'') (\<lambda>w. (None, w)) noPrograms ''zoe'' 7 6 None 0 keyHost = Inr v \<and>
     map p_AgentName (peers (dbOf (net (v_host v)))) = [''bob'', ''zoe'']"
proof -
  let ?I = "inspectSelf tokenClient noPrograms ''zoe'' 7 6 None (disk keyHost)"
  let ?q = "registerReqFor tokenClient ?I"
  have may: "mayCall sampleLink tokenClient (plainToken ''root'' sampleRootClaims) sampleRootClaims"
    using sample_may_call by (simp add: mayCall_def tokenClient_def)
  have ready: "ready sampleRootClaims (w_server (net keyHost))"
    using sample_ready[OF waiting_up_ok] by (simp add: keyHost_def sampleHost_def)
  have tok: "loadAuthToken (h_os tokenClient) (disk keyHost) = plainToken ''root'' sampleRootClaims"
    using sample_may_call by (simp add: loadAuthToken_def tokenClient_def mayCall_def)
  have d: "dbOf (net keyHost) = bdb waitingBroker" "room sampleLink 2 (net keyHost)"
    using sample_room by (simp_all add: keyHost_def sampleHost_def)
  have q: "cleanRegister ?q" "grantedName ?q (bdb waitingBroker) = ''zoe''"
    unfolding sample_inspect
    by (simp_all add: registerReqFor_def tokenClient_def sampleClient_def cleanRegister_def int64_def defaultConfig_def
        sampleOS_def orEmpty_def grantedName_def freeName_def waiting_peers newPeer_def sampleReq_def Let_def)
  from server_starts[OF may ready tok refl q(1) d(1)[symmetric] d(2) sample_fresh[OF refl],
      of plainPem signsNonce "Inr ''nonce''" "\<lambda>w. (None, w)" 0]
  show ?thesis unfolding q(2) by (auto simp: waiting_peers newPeer_def sampleReq_def)
qed

end
