(* ===== verification/Renewal.thy ===== *)
theory Renewal
  imports Wire
begin

text \<open>
  Renewal of an expired token (\<open>cliFetch\<close> and \<open>doRefreshToken\<close> of \<^verbatim>\<open>src/main.go\<close>): which requests a call to
  the broker puts on the network, in which order, and what it leaves on disk.
\<close>

section \<open>A network that keeps a log\<close>

definition traced :: "'w clientEnv \<Rightarrow> ('w \<times> httpRequest list) clientEnv" where
  "traced E = \<lparr>h_cfg = h_cfg E, h_os = h_os E, h_json = h_json E,
     h_do = (\<lambda>q w. (fst (h_do E q (fst w)), (snd (h_do E q (fst w)), snd w @ [q])))\<rparr>"

abbreviation sent :: "('w \<times> httpRequest list) host \<Rightarrow> httpRequest list" where
  "sent h \<equiv> snd (net h)"

lemma traced_simps [simp]: "h_cfg (traced E) = h_cfg E" "h_os (traced E) = h_os E" "h_json (traced E) = h_json E"
  by (simp_all add: traced_def)

lemma send_traced:
  assumes "send_request (traced E) q h = (res, h')"
  shows "sent h' = sent h @ [q] \<and> disk h' = disk h \<and> authToken h' = authToken h"
  using assms by (auto simp: send_request_def traced_def)

lemma once_traced:
  assumes "cliFetchOnce (traced E) path body dec r h = (res, h')"
  shows "sent h' = sent h @ [apiRequest E path body (authToken h)] \<and> disk h' = disk h \<and> authToken h' = authToken h"
proof -
  obtain x h1 where s: "send_request (traced E) (apiRequest (traced E) path body (authToken h)) h = (x, h1)" by fastforce
  have "apiRequest (traced E) path body t = apiRequest E path body t" for t by (simp add: apiRequest_def)
  with send_traced[OF s] s assms show ?thesis by (simp add: cliFetchOnce_def)
qed

section \<open>Renewal\<close>

text \<open>The token presented for renewal: the one in memory, else the one on disk.\<close>

definition presented :: "'w clientEnv \<Rightarrow> 'v host \<Rightarrow> string + string" where
  "presented E h = (if authToken h \<noteq> [] then Inr (authToken h) else loadTokenIn (configDir (h_os E)) (disk h))"

lemma refresh_traced:
  assumes "doRefreshToken (traced E) h = (e, h')"
  shows "case presented E h of
      Inl _ \<Rightarrow> e \<noteq> None \<and> h' = h
    | Inr cur \<Rightarrow> sent h' = sent h @ [refreshRequest E cur] \<and>
        (case e of Some _ \<Rightarrow> authToken h' = authToken h
         | None \<Rightarrow> authToken h' \<noteq> [] \<and> SaveTokenFile (authToken h') (configDir (h_os E)) (disk h) = (None, disk h'))"
proof (cases "presented E h")
  case (Inl x)
  then show ?thesis using assms by (auto simp: doRefreshToken_def presented_def split: if_splits sum.splits)
next
  case (Inr cur)
  obtain res h1 where s: "send_request (traced E) (refreshRequest (traced E) cur) h = (res, h1)" by fastforce
  have q: "refreshRequest (traced E) cur = refreshRequest E cur" by (simp add: refreshRequest_def)
  have "refreshAnswer (traced E) res h1 = (e, h')"
    using assms Inr s by (auto simp: doRefreshToken_def presented_def split: if_splits sum.splits)
  with Inr send_traced[OF s] q show ?thesis
    by (auto simp: refreshAnswer_def saveRefreshed_def split: sum.splits prod.splits if_splits option.splits)
qed

text \<open>
  C24: a call renews the token at most once.  It puts on the network the request with the token in
  memory; only if the answer is an error that says the token has expired, one renewal with the current
  token; and only if that succeeds, the request again, with the new token, which by then is the one in memory and
  has been written to the token file.  It never sends more than these three requests, and in every other
  case the token in memory is the old one.
\<close>

theorem renewed_at_most_once:
  assumes "cliFetch (traced E) path body dec r h = (res, h')"
  shows "sent h' = sent h @ [apiRequest E path body (authToken h)] \<and> authToken h' = authToken h \<and> disk h' = disk h \<or>
    (\<exists>e r1 h1 cur. cliFetchOnce (traced E) path body dec r h = ((Some e, r1), h1) \<and> isExpired e \<and> presented E h = Inr cur \<and>
      (sent h' = sent h @ [apiRequest E path body (authToken h), refreshRequest E cur] \<and>
         authToken h' = authToken h \<and> res = (Some e, r1) \<or>
       sent h' = sent h @ [apiRequest E path body (authToken h), refreshRequest E cur, apiRequest E path body (authToken h')] \<and>
         authToken h' \<noteq> [] \<and> SaveTokenFile (authToken h') (configDir (h_os E)) (disk h) = (None, disk h')))"
proof -
  obtain e r1 h1 where 1: "cliFetchOnce (traced E) path body dec r h = ((e, r1), h1)" by (metis surj_pair)
  note o1 = once_traced[OF 1]
  show ?thesis
  proof (cases "\<exists>x. e = Some x \<and> isExpired x")
    case False
    then show ?thesis using assms 1 o1 by (auto simp: cliFetch_def split: option.splits)
  next
    case True
    then obtain x where x: "e = Some x" "isExpired x" by blast
    obtain e2 h2 where 2: "doRefreshToken (traced E) h1 = (e2, h2)" by fastforce
    have p: "presented E h1 = presented E h" using o1 by (simp add: presented_def)
    have f: "cliFetch (traced E) path body dec r h =
        (case e2 of None \<Rightarrow> cliFetchOnce (traced E) path body dec r1 h2 | Some _ \<Rightarrow> ((Some x, r1), h2))"
      using 1 2 x by (simp add: cliFetch_def split: option.split)
    note t2 = refresh_traced[OF 2, unfolded p]
    show ?thesis
    proof (cases "presented E h")
      case (Inl y)
      then show ?thesis using t2 f assms o1 by auto
    next
      case (Inr cur)
      show ?thesis
      proof (cases e2)
        case None
        then have "cliFetchOnce (traced E) path body dec r1 h2 = (res, h')" using f assms by simp
        from once_traced[OF this] t2 None Inr 1 x o1 show ?thesis by auto
      next
        case (Some y)
        then show ?thesis using t2 f assms Inr 1 x o1 by auto
      qed
    qed
  qed
qed

text \<open>A broker that first answers that the token has expired.\<close>

definition expiringClient :: "nat clientEnv" where
  "expiringClient = \<lparr>h_cfg = defaultConfig sampleOS, h_os = sampleOS, h_json = plainCodec\<lparr>unToken := Inr\<rparr>,
     h_do = (\<lambda>q n. (Inr (if n = 0 then (401, ''token expired'') else (200, ''t2'')), Suc n))\<rparr>"

theorem renewed_at_most_once_witness:
  "let h = \<lparr>authToken = ''t1'', disk = sampleFs [], net = (0, [])\<rparr>;
       h' = snd (cliFetch (traced expiringClient) ''/ack-message'' (Some ''{}'') (None :: unit decoder option) () h)
   in length (sent h') \<le> 3"
proof -
  let ?h = "\<lparr>authToken = ''t1'', disk = sampleFs [], net = (0, [])\<rparr>"
  obtain res h' where c: "cliFetch (traced expiringClient) ''/ack-message'' (Some ''{}'') (None :: unit decoder option) () ?h = (res, h')"
    by fastforce
  from renewed_at_most_once[OF c] show ?thesis by (auto simp: c)
qed

end
