(* ===== verification/Conversation.thy ===== *)
theory Conversation
  imports Rebind
begin

text \<open>
  Two sessions talk through the broker: the tool \<open>send_message\<close> of one (\<^verbatim>\<open>src/fleet_server.go\<close>) and the tool
  \<open>check_messages\<close> of the other, with the broker's routes, middleware, limiter and database in between.
\<close>

section \<open>Sending behind the broker\<close>

definition sendRoom :: "link \<Rightarrow> world \<Rightarrow> bool" where
  "sendRoom L w \<longleftrightarrow> int (length (slot (sendRL (w_server w)) (stripPort (l_addr L)))) < limit (sendRL (w_server w))"

lemma send_route:
  "q_Path req = ''/send-message'' \<Longrightarrow> q_Method req = ''POST'' \<Longrightarrow> matching req = [(''/send-message'', ''POST'', Some ''msg/send'', handleSend)]"
  "''/send-message'' \<notin> set openPaths" "CHR ''?'' \<notin> set ''/send-message''"
  "''msg/send'' \<in> set (resources PeerSessionCapabilities)"
  by (simp_all add: matching_def routes_def methodMatches_def openPaths_def PeerSessionCapabilities_def capsOf_def resources_def)

text \<open>The row that a message to the agent \<open>n\<close> held by session \<open>i\<close> becomes.\<close>

definition boundRow :: "int \<Rightarrow> string \<Rightarrow> string \<Rightarrow> string \<Rightarrow> string \<Rightarrow> string \<Rightarrow> string \<Rightarrow> messageRow" where
  "boundRow k n i from fromAgent txt now = \<lparr>w_id = k, w_to_agent = n, w_to_session = i, w_from_session = from,
     w_from_agent = fromAgent, w_text = txt, w_sent_at = now, w_delivered_at = None, w_ack_at = None,
     w_ack_session = None, w_attempts = 0\<rparr>"

lemma send_served:
  assumes "online L E tok c h" and "d = dbOf (net h)" and "sendRoom L (net h)"
    and "q = \<lparr>mq_FromID = a, mq_ToAgent = p_AgentName p, mq_ToSession = [], mq_Text = txt\<rparr>"
    and "list_all utf8Valid [a, p_AgentName p, txt]" and "a \<noteq> []" and "p \<in> set (peers d)" and "p_AgentName p \<noteq> []" and "p_ID p \<noteq> []"
    and "int64 (messages_seq d + 1)"
  shows "\<exists>h'. fetchSend E q h = ((None, \<lparr>mr_OK = True, mr_MessageID = messages_seq d + 1, mr_Queued = False,
        mr_DeliveryStatus = DeliveryStatusBound, mr_Error = []\<rparr>), h') \<and> online L E tok c h' \<and>
    peers (dbOf (net h')) = peers d \<and>
    messages (dbOf (net h')) = messages d @
      [boundRow (messages_seq d + 1) (p_AgentName p) (p_ID p) a (agentNameOf a d) txt (nowISO (l_clk L (w_count (net h)) 2))]"
proof -
  let ?n = "w_count (net h)" and ?b = "encSend (h_json E) q"
  let ?clk = "later 1 (l_clk L ?n)" and ?ip = "stripPort (l_addr L)"
  let ?r = "\<lparr>mr_OK = True, mr_MessageID = messages_seq d + 1, mr_Queued = False, mr_DeliveryStatus = DeliveryStatusBound, mr_Error = []\<rparr>"
  have m: "mayCall L E tok c" "ready c (w_server (net h))" "authToken h = tok" using assms by (simp_all add: online_def)
  have wire: "wireOk (h_json E) (l_env L) (l_render L)" using m(1) by (simp add: mayCall_def)
  obtain srv req where x: "ready c srv" "sessionState srv = sessionState (w_server (net h))" "q_Body req = ?b"
      "q_RemoteAddr req = l_addr L"
      "h_do E (apiRequest E ''/send-message'' (Some ?b) tok) (net h) =
         answered L ?n (handleSend (l_env L) ?clk (l_rnd L ?n) (Some c) req srv)"
    by (rule exchange[OF m(1,2) send_route])
  note views = same_views[OF x(2,1) m(2)]
  have seq: "messages_seq (bdb (broker srv)) = messages_seq d" and rl: "sendRL srv = sendRL (w_server (net h))"
    using x(2) assms(2) by (simp_all add: sessionState_def sessionTables_def)
  have up: "dbErr (bdb (broker srv)) = None" "dbOk (bdb (broker srv))" using x(1) by (simp_all add: ready_def)
  obtain rl' where al: "allow (?clk 0) ?ip (sendRL srv) = (True, rl')"
    using allow_room[of "sendRL srv" ?ip 0 "?clk 0"] assms(3) rl by (auto simp: sendRoom_def prod_eq_iff)
  have "holderOf (p_AgentName p) (bdb (broker srv)) = Some p"
    using holderOf_unique[OF up] assms(2,7,8) views(1) by simp
  then have rt: "routeMessage q (bdb (broker srv)) = Inr (p_AgentName p, p_ID p, False, DeliveryStatusBound)"
    using assms(4,8,9) by (simp add: routeMessage_def)
  obtain resp b' where sd: "sendMessage (later 1 ?clk) q (broker srv) = (resp, b')" by fastforce
  have one: "(mq_ToAgent q = []) \<noteq> (mq_ToSession q = [])" using assms(4,8) by simp
  have resp: "resp = ?r" using sd up one rt seq by (simp add: sendMessage_def Let_def emitEvent_def)
  have db: "bdb b' = execAll [InsertMessage (p_AgentName p) (p_ID p) a (agentNameOf a d) txt (nowISO (later 1 ?clk 0)),
       InsertEvent ''message_sent'' a [] (''to='' @ p_AgentName p @ '' text='' @ preview txt) (nowISO (later 1 ?clk 1))] (bdb (broker srv))"
    using sendMessage_db[OF up(1) one rt, of "later 1 ?clk"] sd assms(2,4,8) views(3)[of a] by (simp del: execAll_simps)
  have "decSend (l_env L) ?b = Inr q" by (rule wire_requests(7)[OF wire]) (use assms(4,5) in simp)
  then have eq: "handleSend (l_env L) ?clk (l_rnd L ?n) (Some c) req srv = (writeJSON (SendBody ?r), srv\<lparr>sendRL := rl', broker := b'\<rparr>)"
    using al sd resp x(3,4) assms(4,6) by (simp add: handleSend_def decodeBody_def)
  let ?h = "h\<lparr>net := \<lparr>w_server = srv\<lparr>sendRL := rl', broker := b'\<rparr>, w_count = Suc ?n\<rparr>\<rparr>"
  have "fetchSend E q h = ((None, ?r), ?h)"
    unfolding fetchSend_def
    by (rule fetch_ok[where t = "l_render L (SendBody ?r)"])
      (use x(5)[unfolded eq] m(3) wire_answers(6)[OF wire, of ?r] assms(10) in \<open>simp_all add: answered_def writeJSON_def respond_def\<close>)
  moreover have "ready c (srv\<lparr>sendRL := rl', broker := b'\<rparr>)"
    using x(1) dbOk_execAll[OF up(2)] by (simp add: ready_def db del: execAll_simps)
  moreover have "peers (bdb b') = peers d" "messages (bdb b') = messages d @
      [boundRow (messages_seq d + 1) (p_AgentName p) (p_ID p) a (agentNameOf a d) txt (nowISO (later 1 ?clk 0))]"
    using views assms(2) up seq by (simp_all add: db exec_def boundRow_def)
  ultimately show ?thesis using m by (intro exI[of _ ?h]) (simp add: online_def later_def numeral_2_eq_2)
qed

lemma tool_send_bound:
  assumes "linkedTo L E tok c a (v_host v)" and "v_session v = Some a" and "a \<noteq> []"
    and "d = dbOf (net (v_host v))" and "sendRoom L (net (v_host v))"
    and "p \<in> set (peers d)" and "p_AgentName p = j_Arg call ''to''" and "j_Arg call ''to'' \<noteq> []" and "p_ID p \<noteq> []"
    and "\<not> isEphemeral (j_Arg call ''to'') (peers d)"
    and "utf8Valid (j_Arg call ''message'')" and "int64 (messages_seq d + 1)"
  obtains h t where "toolSend E rid call v = emit (ToolResult rid (''Message sent to '' @ j_Arg call ''to'' @
      '' (recipient is online, message is bound for delivery).'')) (withHost h v)"
    "online L E tok c h" "peers (dbOf (net h)) = peers d"
    "messages (dbOf (net h)) = messages d @
       [boundRow (messages_seq d + 1) (j_Arg call ''to'') (p_ID p) a (agentNameOf a d) (j_Arg call ''message'') (nowISO t)]"
proof -
  let ?q = "\<lparr>mq_FromID = a, mq_ToAgent = p_AgentName p, mq_ToSession = [], mq_Text = j_Arg call ''message''\<rparr>"
  obtain h1 where 1: "fetchPeers E listAll (v_host v) = ((None, peers d), h1)" "linkedTo L E tok c a h1"
      "sessionState (w_server (net h1)) = sessionState (w_server (net (v_host v)))"
    using list_served[OF assms(1)] assms(4) by blast
  have r: "ready c (w_server (net h1))" "ready c (w_server (net (v_host v)))" using 1(2) assms(1) by (simp_all add: linkedTo_def)
  have s1: "peers (dbOf (net h1)) = peers d" "messages_seq (dbOf (net h1)) = messages_seq d" "messages (dbOf (net h1)) = messages d"
      "agentNameOf a (dbOf (net h1)) = agentNameOf a d" "sendRoom L (net h1)"
    using 1(3) same_views[OF 1(3) r] assms(4,5) by (simp_all add: sessionState_def sessionTables_def sendRoom_def)
  have "list_all utf8Valid [a, p_AgentName p, j_Arg call ''message'']"
    using assms(1,4,6,11) by (auto simp: linkedTo_def list_all_iff cleanPeer_def)
  from send_served[OF linked_online[OF 1(2)] refl s1(5) refl this assms(3), unfolded s1] assms(6-9,12)
  obtain h2 where 2: "fetchSend E ?q h1 = ((None, \<lparr>mr_OK = True, mr_MessageID = messages_seq d + 1, mr_Queued = False,
        mr_DeliveryStatus = DeliveryStatusBound, mr_Error = []\<rparr>), h2)" "online L E tok c h2" "peers (dbOf (net h2)) = peers d"
      "messages (dbOf (net h2)) = messages d @ [boundRow (messages_seq d + 1) (j_Arg call ''to'') (p_ID p) a (agentNameOf a d)
         (j_Arg call ''message'') (nowISO (l_clk L (w_count (net h1)) 2))]"
    by auto
  have "toolSend E rid call v = emit (ToolResult rid (''Message sent to '' @ j_Arg call ''to'' @
      '' (recipient is online, message is bound for delivery).'')) (withHost h2 v)"
    using 1(1) 2(1) assms(2,7,8,10) by (simp add: toolSend_def addressed_def sessionGet_def toolSendReport_def Let_def)
  with that 2(2-4) show thesis by blast
qed

lemma drained_bound:
  "drained i n (boundRow k to i a fromAgent txt now) m' \<Longrightarrow> w_id m' = k \<and> w_text m' = txt \<and> w_from_session m' = a \<and>
     w_delivered_at m' \<noteq> None \<and> w_ack_at m' \<noteq> None \<and> w_ack_session m' = Some i"
  by (auto simp: drained_def waitingFor_def boundRow_def ackedBy_def marked_def)

section \<open>A conversation\<close>

text \<open>
  C1: what one agent sends, the other reads.  Session \<open>a\<close> calls \<open>send_message\<close> for a name that a live session
  holds: it is told that the recipient is online.  When that session then calls \<open>check_messages\<close>, the report
  it gets shows the message with its number, the text, the sender and the name; afterwards the row of the message is
  marked as delivered and as acknowledged by that session, and nothing waits for it any more.
\<close>

theorem send_then_check:
  assumes "linkedTo L E tok c a (v_host v)" and "v_session v = Some a" and "a \<noteq> []"
    and "d = dbOf (net (v_host v))" and "sendRoom L (net (v_host v))"
    and "p \<in> set (peers d)" and "p_AgentName p = j_Arg call ''to''" and "j_Arg call ''to'' \<noteq> []" and "p_ID p \<noteq> []"
    and "\<not> isEphemeral (j_Arg call ''to'') (peers d)"
    and "utf8Valid (j_Arg call ''message'')" and "int64 (messages_seq d + 1)"
    and "v1 = toolSend E rid call v"
    and "linkedTo L2 E2 tok2 c2 (p_ID p) (v_host u)" and "net (v_host u) = net (v_host v1)" and "v_session u = Some (p_ID p)"
    and "u1 = toolCheckMessages E2 rid2 u"
  shows "v_out v1 = v_out v @ [ToolResult rid (''Message sent to '' @ j_Arg call ''to'' @
      '' (recipient is online, message is bound for delivery).'')] \<and>
    (\<exists>ms m. v_out u1 = v_out u @ [ToolResult rid2 (messagesReport (peers d) ms)] \<and> m \<in> set ms \<and>
       m_ID m = messages_seq d + 1 \<and> m_Text m = j_Arg call ''message'' \<and> m_FromSession m = a \<and> m_ToAgent m = j_Arg call ''to'') \<and>
    (\<exists>m' \<in> set (messages (dbOf (net (v_host u1)))). w_id m' = messages_seq d + 1 \<and> w_text m' = j_Arg call ''message'' \<and>
       w_from_session m' = a \<and> w_delivered_at m' \<noteq> None \<and> w_ack_at m' \<noteq> None \<and> w_ack_session m' = Some (p_ID p)) \<and>
    waitingMessages (p_ID p) (dbOf (net (v_host u1))) = []"
proof -
  let ?to = "j_Arg call ''to''" and ?txt = "j_Arg call ''message''" and ?i = "p_ID p"
  obtain h t where 1: "v1 = emit (ToolResult rid (''Message sent to '' @ ?to @ '' (recipient is online, message is bound for delivery).'')) (withHost h v)"
    "peers (dbOf (net h)) = peers d"
    "messages (dbOf (net h)) = messages d @ [boundRow (messages_seq d + 1) ?to ?i a (agentNameOf a d) ?txt (nowISO t)]"
    unfolding assms(13) by (rule tool_send_bound[OF assms(1-12)])
  let ?row = "boundRow (messages_seq d + 1) ?to ?i a (agentNameOf a d) ?txt (nowISO t)"
  have d2: "dbOf (net (v_host u)) = dbOf (net h)" using 1(1) assms(15) by simp
  have up: "dbErr (dbOf (net h)) = None" using linked_up(1)[OF assms(14)] d2 by simp
  have "waitingFor ?i n ?row" for n by (simp add: waitingFor_def boundRow_def)
  then have r: "?row \<in> set (messages (dbOf (net h)))" "waitingFor ?i n ?row" for n unfolding 1(3) by auto
  then have w: "scanMessage ?row \<in> set (waitingMessages ?i (dbOf (net h)))"
    unfolding in_waiting_iff[OF up] by auto
  from served.check_messages[OF assms(14,16) refl assms(17) refl, unfolded d2 1(2)] w
  have u1: "v_out u1 = v_out u @ [ToolResult rid2 (messagesReport (peers d) (waitingMessages ?i (dbOf (net h))))]"
      "waitingMessages ?i (dbOf (net (v_host u1))) = []"
      "list_all2 (drained ?i (agentNameOf ?i (dbOf (net h)))) (messages (dbOf (net h))) (messages (dbOf (net (v_host u1))))" by auto
  from list_all2_left[OF u1(3) r(1)] drained_bound
  have "\<exists>m' \<in> set (messages (dbOf (net (v_host u1)))). w_id m' = messages_seq d + 1 \<and> w_text m' = ?txt \<and>
      w_from_session m' = a \<and> w_delivered_at m' \<noteq> None \<and> w_ack_at m' \<noteq> None \<and> w_ack_session m' = Some ?i"
    by fast
  moreover note u1(1,2)
  moreover have "m_ID (scanMessage ?row) = messages_seq d + 1" "m_Text (scanMessage ?row) = ?txt" "m_FromSession (scanMessage ?row) = a" "m_ToAgent (scanMessage ?row) = ?to"
    by (simp_all add: scanMessage_def boundRow_def)
  ultimately show ?thesis using 1(1) w by auto
qed

lemma padDigits_ascii: "c \<in> set (padDigits w n) \<Longrightarrow> (of_char c :: nat) < 128"
  by (induction w arbitrary: n) auto

lemma nowISO_utf8: "utf8Valid (nowISO t)"
proof (rule utf8_ascii)
  have "c \<in> set (fracDigits n) \<Longrightarrow> (of_char c :: nat) < 128" for c n
    by (auto simp: fracDigits_def dest!: set_dropWhileD intro: padDigits_ascii)
  then show "list_all (\<lambda>c. (of_char c :: nat) < 128) (nowISO t)"
    by (auto simp: list_all_iff nowISO_def fmtRFC3339Nano_def dateTime_def dateStr_def clockStr_def intro: padDigits_ascii)
qed

text \<open>The session \<open>s5\<close> writes to the agent \<open>bob\<close>, who already has a message waiting.\<close>

definition sampleCall :: toolCall where
  "sampleCall = \<lparr>j_Name = ''send_message'', j_Arg = (\<lambda>k. if k = ''to'' then ''bob'' else if k = ''message'' then ''yo'' else [])\<rparr>"

lemma sample_sender:
  "linkedTo sampleLink sampleClient (plainToken ''root'' sampleRootClaims) sampleRootClaims ''s5'' (sampleHost waitingBroker)"
proof -
  have "waitingMessages ''s5'' (bdb waitingBroker) = []"
    by (simp add: waiting_up[OF waiting_up_ok(1)] agentNameOf_def sessionRow_def)
      (simp add: waitingBroker_def sample_eval waitingFor_def query_def insertPeer_def nameHeld_def insert_row_def newPeer_def sampleReq_def)
  moreover have "list_all cleanPeer (peers (bdb waitingBroker))"
    by (simp add: waiting_peers) (simp add: newPeer_def sampleReq_def cleanPeer_def int64_def Let_def)
  ultimately show ?thesis
    using sample_may_call sample_ready[OF waiting_up_ok] by (simp add: linkedTo_def sampleHost_def Let_def)
qed

lemma waiting_rows:
  "messages (bdb waitingBroker) = [boundRow 1 ''bob'' ''s1'' ''s2'' ''eve'' ''hi'' ''t1'']" "messages_seq (bdb waitingBroker) = 1"
  by (simp_all add: waitingBroker_def sample_eval boundRow_def)

lemma bound_clean:
  assumes "int64 k" and "list_all utf8Valid [n, i, from, fromAgent, txt, now]"
  shows "cleanMessage (scanMessage (boundRow k n i from fromAgent txt now))"
  using assms by (simp add: cleanMessage_def scanMessage_def boundRow_def int64_def)

lemma clean_waiting:
  assumes "dbErr d = None" and "list_all (cleanMessage \<circ> scanMessage) (messages d)"
  shows "list_all cleanMessage (waitingMessages i d)"
  using assms by (auto simp: list_all_iff in_waiting_iff)

theorem send_then_check_witness:
  "\<exists>u1 ps ms. u1 = toolCheckMessages sampleClient None ((sampleMcp waitingBroker)\<lparr>v_host :=
       v_host (toolSend sampleClient None sampleCall ((sampleMcp waitingBroker)\<lparr>v_session := Some ''s5''\<rparr>))\<rparr>) \<and>
     v_out u1 = [ToolResult None (messagesReport ps ms)] \<and> ''yo'' \<in> m_Text ` set ms \<and>
     (\<exists>m' \<in> set (messages (dbOf (net (v_host u1)))). w_text m' = ''yo'' \<and> w_ack_session m' = Some ''s1'')"
proof -
  let ?v = "(sampleMcp waitingBroker)\<lparr>v_session := Some ''s5''\<rparr>" and ?tok = "plainToken ''root'' sampleRootClaims"
  let ?p = "newPeer ''s1'' ''t0'' (sampleReq ''bob'')" and ?v1 = "toolSend sampleClient None sampleCall ?v"
  let ?u = "(sampleMcp waitingBroker)\<lparr>v_host := v_host ?v1\<rparr>" and ?d = "bdb waitingBroker"
  have v: "v_host ?v = sampleHost waitingBroker" "v_session ?v = Some ''s5''" "''s5'' \<noteq> []" "v_out (sampleMcp waitingBroker) = []"
      "v_session (sampleMcp waitingBroker) = Some ''s1''"
    by (simp_all add: sampleMcp_def)
  have d: "dbOf (net (sampleHost waitingBroker)) = ?d" by (simp add: sampleHost_def)
  have room: "sendRoom sampleLink (net (sampleHost waitingBroker))"
    by (simp add: sendRoom_def sampleHost_def sampleServer_def newRateLimiter_def slot_def)
  have p: "?p \<in> set (peers ?d)" "p_AgentName ?p = j_Arg sampleCall ''to''" "j_Arg sampleCall ''to'' \<noteq> []" "p_ID ?p \<noteq> []"
      "\<not> isEphemeral (j_Arg sampleCall ''to'') (peers ?d)" "utf8Valid (j_Arg sampleCall ''message'')" "int64 (messages_seq ?d + 1)"
    by (simp_all add: waiting_peers waiting_rows sampleCall_def newPeer_def sampleReq_def isEphemeral_def int64_def)
  obtain h t where s: "?v1 = emit (ToolResult None (''Message sent to '' @ j_Arg sampleCall ''to'' @
        '' (recipient is online, message is bound for delivery).'')) (withHost h ?v)"
      "online sampleLink sampleClient ?tok sampleRootClaims h" "peers (dbOf (net h)) = peers ?d"
      "messages (dbOf (net h)) = messages ?d @ [boundRow (messages_seq ?d + 1) (j_Arg sampleCall ''to'') (p_ID ?p) ''s5''
        (agentNameOf ''s5'' ?d) (j_Arg sampleCall ''message'') (nowISO t)]"
    by (rule tool_send_bound[of sampleLink sampleClient _ _ "''s5''" ?v, unfolded v(1) d, OF sample_sender v(2,3) refl room p])
  have "agentNameOf ''s5'' ?d = []" by (simp add: agentNameOf_def sessionRow_def query_def waiting_up_ok waiting_peers newPeer_def select_one_def)
  then have "list_all (cleanMessage \<circ> scanMessage) (messages (dbOf (net h)))"
    unfolding s(4) waiting_rows by (auto intro!: bound_clean simp: int64_def sampleCall_def newPeer_def nowISO_utf8)
  then have "list_all cleanMessage (waitingMessages ''s1'' (dbOf (net h)))"
    by (intro clean_waiting) (use s(2) in \<open>simp_all add: online_def ready_def\<close>)
  then have u: "linkedTo sampleLink sampleClient ?tok sampleRootClaims (p_ID ?p) (v_host ?u)"
    using s sample_linked by (simp add: linkedTo_def online_def sampleMcp_def sampleHost_def newPeer_def)
  have "v_session ?u = Some (p_ID ?p)" "net (v_host ?u) = net (v_host ?v1)" using v(5) by (simp_all add: newPeer_def)
  from send_then_check[of sampleLink sampleClient _ _ "''s5''" ?v, unfolded v(1) d, OF sample_sender v(2,3) refl room p refl u
      this(2,1) refl, of None]
  obtain ms m m' where "v_out (toolCheckMessages sampleClient None ?u) = [ToolResult None (messagesReport (peers ?d) ms)]"
      "m \<in> set ms" "m_Text m = j_Arg sampleCall ''message''"
      "m' \<in> set (messages (dbOf (net (v_host (toolCheckMessages sampleClient None ?u)))))"
      "w_text m' = j_Arg sampleCall ''message''" "w_ack_session m' = Some (p_ID ?p)"
    using v(4) by auto
  moreover have "p_ID ?p = ''s1''" by (simp add: newPeer_def)
  ultimately show ?thesis
    by (intro exI[of _ "toolCheckMessages sampleClient None ?u"] exI[of _ "peers ?d"] exI[of _ ms] conjI refl)
      (auto simp: sampleCall_def intro: rev_image_eqI)
qed

end
