(* ===== verification/Stdio.thy ===== *)
theory Stdio
  imports Session
begin

text \<open>
  The main loop of the MCP server and its standard input and output (\<open>runServer\<close> of
  \<^verbatim>\<open>src/fleet_server.go\<close> over the transport of \<^verbatim>\<open>src/fleet_mcp.go\<close>): the loop ends with its input, every
  request is answered once and in order while the goroutines write in between, and every frame is a
  line of its own.
\<close>

section \<open>The loop\<close>

lemma Scan_shorter: "Scan inp = Line l rest \<Longrightarrow> length rest < length inp"
  by (cases inp) (auto simp: Scan_def Let_def split: if_splits)

lemma readRequest_shorter: "readRequest dec inp = Inr (req, rest) \<Longrightarrow> length rest < length inp"
  by (auto simp: readRequest_def dest: Scan_shorter split: scanned.splits sum.splits)

function serveInput :: "'w clientEnv \<Rightarrow> selfInfo \<Rightarrow> (string \<Rightarrow> string + jsonrpcRequest) \<Rightarrow> (string \<Rightarrow> toolCall) \<Rightarrow>
    string \<Rightarrow> 'w mcp \<Rightarrow> 'w mcp" where
  "serveInput E I dec dc inp v = (case readRequest dec inp of
      Inl _ \<Rightarrow> v
    | Inr (req, rest) \<Rightarrow> serveInput E I dec dc rest (handleRequest E I dc req v))"
  by pat_completeness auto
termination
  by (relation "measure (\<lambda>(E, I, dec, dc, inp, v). length inp)") (auto dest: readRequest_shorter)

declare serveInput.simps [simp del]

text \<open>The reference: the lines of the input, up to the first that is too long or cannot be decoded.\<close>

definition textLines :: "string \<Rightarrow> string list" where
  "textLines inp = (let ls = splitByte (CHR 0x0A) inp in if last ls = [] then butlast ls else ls)"

definition decodeLine :: "(string \<Rightarrow> string + jsonrpcRequest) \<Rightarrow> string \<Rightarrow> string + jsonrpcRequest" where
  "decodeLine dec l = (if length l \<ge> maxLine then Inl ''bufio.Scanner: token too long'' else dec (dropCR l))"

definition requestsOf :: "(string \<Rightarrow> string + jsonrpcRequest) \<Rightarrow> string \<Rightarrow> jsonrpcRequest list" where
  "requestsOf dec inp = map projr (takeWhile (Not \<circ> isl) (map (decodeLine dec) (textLines inp)))"

lemma splitByte_front:
  "splitByte c s = (let l = takeWhile (\<lambda>x. x \<noteq> c) s in if length l = length s then [l] else l # splitByte c (drop (Suc (length l)) s))"
  by (induction s) (auto simp: Let_def)

lemma textLines_front:
  assumes "inp \<noteq> []"
  shows "textLines inp = takeWhile (\<lambda>c. c \<noteq> CHR 0x0A) inp # textLines (drop (Suc (length (takeWhile (\<lambda>c. c \<noteq> CHR 0x0A) inp))) inp)"
proof -
  let ?l = "takeWhile (\<lambda>c. c \<noteq> CHR 0x0A) inp"
  show ?thesis
  proof (cases "length ?l = length inp")
    case True
    then have l: "?l = inp" by (metis append_Nil2 takeWhile_dropWhile_id length_0_conv length_append add_cancel_right_right)
    then have "splitByte (CHR 0x0A) inp = [inp]" using splitByte_front[of "CHR 0x0A" inp] by (simp only: Let_def if_True refl)
    with assms show ?thesis unfolding l by (simp add: textLines_def)
  next
    case False
    with splitByte_front[of "CHR 0x0A" inp] show ?thesis by (simp add: textLines_def Let_def)
  qed
qed

lemma requestsOf_rec:
  "requestsOf dec inp = (case readRequest dec inp of Inl _ \<Rightarrow> [] | Inr (req, rest) \<Rightarrow> req # requestsOf dec rest)"
proof (cases "inp = []")
  case True
  then show ?thesis by (simp add: requestsOf_def readRequest_def Scan_def textLines_def)
next
  case False
  then show ?thesis
    by (auto simp: requestsOf_def readRequest_def Scan_def Let_def textLines_front[OF False] decodeLine_def split: sum.splits)
qed

text \<open>
  C18: the main loop ends, and it has then handled exactly the requests that stand before the first line it
  cannot read: it equals the fold of the dispatch over the decoded lines of the input, whatever the
  input, and never handles more requests than there are lines.
\<close>

theorem main_loop_ends:
  "serveInput E I dec dc inp v = fold (handleRequest E I dc) (requestsOf dec inp) v \<and>
    length (requestsOf dec inp) \<le> length (textLines inp)"
proof
  show "serveInput E I dec dc inp v = fold (handleRequest E I dc) (requestsOf dec inp) v"
  proof (induction E I dec dc inp v rule: serveInput.induct)
    case (1 E I dec dc inp v)
    then show ?case
      using requestsOf_rec[of dec inp] serveInput.simps[of E I dec dc inp v]
      by (cases "readRequest dec inp") auto
  qed
  show "length (requestsOf dec inp) \<le> length (textLines inp)"
    unfolding requestsOf_def by (metis length_map length_takeWhile_le)
qed

section \<open>Answers\<close>

fun answerID :: "mcpOutput \<Rightarrow> rpcID option option" where
  "answerID (ToolResult rid _) = Some rid"
| "answerID (ToolError rid _) = Some rid"
| "answerID (RespondError rid _ _) = Some rid"
| "answerID (Initialized rid _) = Some rid"
| "answerID (ToolsListed rid) = Some rid"
| "answerID (ChannelNote _ _) = None"

definition answerIDs :: "mcpOutput list \<Rightarrow> rpcID option list" where
  "answerIDs out = List.map_filter answerID out"

lemma answerIDs_simps [simp]:
  "answerIDs [] = []" "answerIDs (out @ out') = answerIDs out @ answerIDs out'"
  "answerIDs (x # out) = (case answerID x of None \<Rightarrow> answerIDs out | Some i \<Rightarrow> i # answerIDs out)"
  by (simp_all add: answerIDs_def map_filter_def split: option.split)

text \<open>A call of a method the server has is always answered, an unknown one only when it carries an id.\<close>

definition expectsAnswer :: "jsonrpcRequest \<Rightarrow> bool" where
  "expectsAnswer req \<longleftrightarrow> jr_Method req \<in> {''initialize'', ''tools/list'', ''tools/call''} \<or>
     jr_Method req \<noteq> ''notifications/initialized'' \<and> jr_ID req \<noteq> None"

definition answers :: "rpcID option \<Rightarrow> 'w mcp \<Rightarrow> 'w mcp \<Rightarrow> bool" where
  "answers rid v v' \<longleftrightarrow> answerIDs (v_out v') = answerIDs (v_out v) @ [rid]"

lemma answers_emit:
  "answerID x = Some rid \<Longrightarrow> answers rid v (emit x (withHost h v))" "answerID x = Some rid \<Longrightarrow> answers rid v (emit x v)"
  by (simp_all add: answers_def)

lemma tool_answers: "answers rid v (handleToolCall E I rid call v)"
  using handleToolCall_outputs[of rid v E I call] by (auto simp: toolAnswers_def answers_emit)

lemma request_answers:
  "answerIDs (v_out (handleRequest E I dc req v)) = answerIDs (v_out v) @ (if expectsAnswer req then [jr_ID req] else [])"
proof -
  have "answers rid v (handleInitialize E rid v)" for rid
    by (auto simp: handleInitialize_def answers_emit Let_def split: prod.split)
  then show ?thesis
    using tool_answers[of "jr_ID req" v E I]
    by (simp add: handleRequest_def handleToolsList_def expectsAnswer_def answers_def)
qed

lemma push_answers: "answerIDs (v_out (pollAndPush E v)) = answerIDs (v_out v)"
proof -
  have "answerIDs (v_out (fold (pushOne ps) ms u)) = answerIDs (v_out u)" for ps ms and u :: "'a mcp"
    by (induction ms arbitrary: u) (simp_all add: pushOne_def pushNote_def Let_def)
  then show ?thesis by (auto simp: pollAndPush_def Let_def split: prod.split)
qed

lemma rebind_out: "v_out (snd (rebindToBroker E I now v)) = v_out v"
  by (simp add: rebindToBroker_def split: prod.split sum.split)

lemma turn_answers: "turn E I v v' \<Longrightarrow> answerIDs (v_out v') = answerIDs (v_out v)"
  by (induction rule: turn.induct)
    (auto simp: push_answers heartbeatTick_def summaryRefresh_def rebind_out Let_def split: prod.split)

section \<open>The loop among the goroutines\<close>

text \<open>
  The state of the process: what is left of the input, \<open>None\<close> once the loop has been left, and the
  state of the server.  The goroutines take turns at any time: leaving the loop cancels the two tickers, but
  a tick that is under way, or chosen by \<open>select\<close> at the same moment, is still finished.
\<close>

inductive procStep :: "'w clientEnv \<Rightarrow> selfInfo \<Rightarrow> (string \<Rightarrow> string + jsonrpcRequest) \<Rightarrow> (string \<Rightarrow> toolCall) \<Rightarrow>
    string option \<times> 'w mcp \<Rightarrow> string option \<times> 'w mcp \<Rightarrow> bool"
  for E :: "'w clientEnv" and I :: selfInfo and dec :: "string \<Rightarrow> string + jsonrpcRequest" and dc :: "string \<Rightarrow> toolCall" where
  Read: "readRequest dec inp = Inr (req, rest) \<Longrightarrow> procStep E I dec dc (Some inp, v) (Some rest, handleRequest E I dc req v)"
| Leave: "readRequest dec inp = Inl e \<Longrightarrow> procStep E I dec dc (Some inp, v) (None, v)"
| Other: "turn E I v v' \<Longrightarrow> procStep E I dec dc (left, v) (left, v')"

inductive_cases procStep_cases: "procStep E I dec dc st st'"

text \<open>What has been answered and what is still to be answered, together.\<close>

definition accounted :: "(string \<Rightarrow> string + jsonrpcRequest) \<Rightarrow> string option \<times> 'w mcp \<Rightarrow> rpcID option list" where
  "accounted dec st = answerIDs (v_out (snd st)) @
     map jr_ID (filter expectsAnswer (case fst st of None \<Rightarrow> [] | Some inp \<Rightarrow> requestsOf dec inp))"

lemma accounted_step: "procStep E I dec dc st st' \<Longrightarrow> accounted dec st' = accounted dec st"
proof (induction rule: procStep.induct)
  case (Read inp req rest v)
  then show ?case using requestsOf_rec[of dec inp] by (simp add: accounted_def request_answers)
next
  case (Leave inp e v)
  then show ?case using requestsOf_rec[of dec inp] by (simp add: accounted_def)
next
  case (Other v v' left)
  then show ?case by (simp add: accounted_def turn_answers)
qed

interpretation process_runs: inductive_invariant
  "\<lambda>st. accounted dec st = ids" "procStep E I dec dc" "\<lambda>st. accounted dec st = ids" for E I dec dc ids
  by unfold_locales (auto dest: accounted_step)

text \<open>
  C17: every request is answered exactly once and in order.  However the push loop, the heartbeats and the
  summaries interleave with the main loop, when the loop has been left the responses that were
  written carry the ids of the requests that want one, one response for each and in the order of the
  requests; channel notifications may stand between them.
\<close>

theorem answered_once_in_order:
  assumes "(procStep E I dec dc)\<^sup>*\<^sup>* (Some inp, v) (None, v')"
  shows "answerIDs (v_out v') = answerIDs (v_out v) @ map jr_ID (filter expectsAnswer (requestsOf dec inp))"
  using process_runs.holds_reachable[OF refl assms] by (simp add: accounted_def)

text \<open>Leaving the loop is always possible: without the goroutines, the run is the one of \<open>serveInput\<close>.\<close>

lemma loop_is_a_run: "(procStep E I dec dc)\<^sup>*\<^sup>* (Some inp, v) (None, serveInput E I dec dc inp v)"
proof (induction E I dec dc inp v rule: serveInput.induct)
  case (1 E I dec dc inp v)
  show ?case
  proof (cases "readRequest dec inp")
    case (Inl e)
    then show ?thesis using procStep.Leave[of dec inp e E I dc v] by (auto simp: serveInput.simps)
  next
    case (Inr r)
    then obtain req rest where r: "readRequest dec inp = Inr (req, rest)" by (cases r) auto
    then have "serveInput E I dec dc inp v = serveInput E I dec dc rest (handleRequest E I dc req v)" by (simp add: serveInput.simps)
    with 1[OF r refl] procStep.Read[OF r, of E I dc v] show ?thesis by (simp add: converse_rtranclp_into_rtranclp)
  qed
qed

text \<open>A client that asks for the tools and then for a method that does not exist, and sends a line that is no request.\<close>

definition sampleDec :: "string \<Rightarrow> string + jsonrpcRequest" where
  "sampleDec l = (if l = ''tools'' then Inr \<lparr>jr_JSONRPC = ''2.0'', jr_ID = Some (JNum ''1''), jr_Method = ''tools/list'', jr_Params = []\<rparr>
     else if l = ''ping'' then Inr \<lparr>jr_JSONRPC = ''2.0'', jr_ID = Some (JNum ''2''), jr_Method = ''ping'', jr_Params = []\<rparr>
     else Inl ''invalid character'')"

definition sampleServerState :: "unit mcp" where
  "sampleServerState = \<lparr>v_host = \<lparr>authToken = [], disk = sampleFs [], net = ()\<rparr>, v_session = None, v_statePath = [],
     v_pushed = {}, v_out = []\<rparr>"

theorem answered_once_in_order_witness:
  "answerIDs (v_out (serveInput agreeableClient sampleSelf sampleDec (\<lambda>_. \<lparr>j_Name = [], j_Arg = (\<lambda>_. [])\<rparr>)
     (''tools'' @ nl @ ''ping'' @ nl @ ''?'' @ nl @ ''tools'') sampleServerState)) = [Some (JNum ''1''), Some (JNum ''2'')]"
  using answered_once_in_order[OF loop_is_a_run[of agreeableClient sampleSelf sampleDec "\<lambda>_. \<lparr>j_Name = [], j_Arg = (\<lambda>_. [])\<rparr>"
      "''tools'' @ nl @ ''ping'' @ nl @ ''?'' @ nl @ ''tools''" sampleServerState]]
  by (simp add: requestsOf_def textLines_def decodeLine_def sampleDec_def maxLine_def dropCR_def sampleServerState_def expectsAnswer_def)

section \<open>The schemas and the tools\<close>

definition field :: "string \<Rightarrow> json \<Rightarrow> json option" where
  "field k j = (case j of JObj kvs \<Rightarrow> map_of kvs k | _ \<Rightarrow> None)"

definition keysOf :: "json \<Rightarrow> string list" where
  "keysOf j = (case j of JObj kvs \<Rightarrow> map fst kvs | _ \<Rightarrow> [])"

text \<open>The name of a tool and the names of the arguments that its schema declares.\<close>

definition schemaOf :: "json \<Rightarrow> string \<times> string list" where
  "schemaOf t = ((case field ''name'' t of Some (JStr n) \<Rightarrow> n | _ \<Rightarrow> []),
     (case field ''inputSchema'' t of None \<Rightarrow> [] | Some s \<Rightarrow> (case field ''properties'' s of None \<Rightarrow> [] | Some p \<Rightarrow> keysOf p)))"

definition advertised :: "string \<Rightarrow> string list option" where
  "advertised = map_of (map schemaOf mcpTools)"

lemma schemas: "map schemaOf mcpTools = [(''list_peers'', [''scope'']), (''send_message'', [''message'', ''to'']),
    (''set_summary'', [''summary'']), (''check_messages'', []), (''claim_agent_name'', [''name''])]"
  by code_simp

text \<open>
  C35: the tools are the ones advertised.  A call by a name that has no schema is answered with the
  error for an unknown tool and has no other effect; a call by a name that has one never is, and it
  depends on no argument but those that the schema declares.
\<close>

theorem tools_as_advertised:
  "case advertised (j_Name call) of
     None \<Rightarrow> handleToolCall E I rid call v = emit (RespondError rid (-32601) (''Unknown tool: '' @ j_Name call)) v
   | Some args \<Rightarrow>
       toolAnswers rid v (handleToolCall E I rid call v) \<and>
       (\<forall>arg. (\<forall>k \<in> set args. arg k = j_Arg call k) \<longrightarrow>
          handleToolCall E I rid (call\<lparr>j_Arg := arg\<rparr>) v = handleToolCall E I rid call v)"
proof (cases "advertised (j_Name call)")
  case None
  then show ?thesis by (auto simp: advertised_def schemas handleToolCall_def split: if_splits)
next
  case (Some args)
  then consider "j_Name call = ''list_peers''" "args = [''scope'']" | "j_Name call = ''send_message''" "args = [''message'', ''to'']"
    | "j_Name call = ''set_summary''" "args = [''summary'']" | "j_Name call = ''check_messages''"
    | "j_Name call = ''claim_agent_name''" "args = [''name'']"
    by (auto simp: advertised_def schemas split: if_splits)
  then show ?thesis
    unfolding Some option.case handleToolCall_def
    by cases (simp_all add: tool_outputs, simp_all add: toolListPeers_def toolSend_def toolSetSummary_def toolClaim_def cong: if_cong)
qed

theorem tools_as_advertised_witness:
  "handleToolCall agreeableClient sampleSelf None \<lparr>j_Name = ''set_summary'', j_Arg = (\<lambda>k. if k = ''summary'' then ''s'' else ''x'')\<rparr>
     sampleServerState =
   handleToolCall agreeableClient sampleSelf None \<lparr>j_Name = ''set_summary'', j_Arg = (\<lambda>_. ''s'')\<rparr> sampleServerState"
proof -
  let ?call = "\<lparr>j_Name = ''set_summary'', j_Arg = (\<lambda>_. ''s'')\<rparr>" and ?arg = "\<lambda>k. if k = ''summary'' then ''s'' else ''x''"
  have "advertised (j_Name ?call) = Some [''summary'']" by (simp add: advertised_def schemas)
  from tools_as_advertised[of agreeableClient sampleSelf None ?call sampleServerState, unfolded this option.case]
  have "handleToolCall agreeableClient sampleSelf None (?call\<lparr>j_Arg := ?arg\<rparr>) sampleServerState =
      handleToolCall agreeableClient sampleSelf None ?call sampleServerState"
    by (elim conjE allE[of _ ?arg]) simp
  then show ?thesis by simp
qed

end
