(* ===== verification/Closing.thy ===== *)
theory Closing
  imports Rebind Stdio
begin

text \<open>
  The end of an MCP server: when its input ends, the deferred function of \<open>runServer\<close>
  (\<^verbatim>\<open>src/fleet_server.go\<close>) unregisters the session at the broker and removes the state file.
\<close>

section \<open>Unregistering behind the broker\<close>

lemma unregister_route:
  "q_Path req = ''/unregister'' \<Longrightarrow> q_Method req = ''POST'' \<Longrightarrow> matching req = [(''/unregister'', ''POST'', Some ''peer/unregister'', handleUnregister)]"
  "''/unregister'' \<notin> set openPaths" "CHR ''?'' \<notin> set ''/unregister''"
  "''peer/unregister'' \<in> set (resources PeerSessionCapabilities)"
  by (simp_all add: matching_def routes_def methodMatches_def openPaths_def PeerSessionCapabilities_def capsOf_def resources_def)

text \<open>
  What becomes of the messages of a session that leaves: those sent to the session alone and not
  acknowledged are dropped, those to its agent name that are not acknowledged wait for the next holder.
\<close>

definition released :: "string \<Rightarrow> messageRow list \<Rightarrow> messageRow list" where
  "released i ms = update_where (\<lambda>m. w_to_session m = i \<and> w_to_agent m \<noteq> [] \<and> w_ack_at m = None)
     (\<lambda>m. m\<lparr>w_to_session := [], w_delivered_at := None\<rparr>)
     (delete_where (\<lambda>m. w_to_session m = i \<and> w_to_agent m = [] \<and> w_ack_at m = None) ms)"

lemma unregister_served:
  assumes "online L E tok c h" and "utf8Valid i"
  shows "\<exists>h'. fetchNil E ''/unregister'' (encUnregister (h_json E) \<lparr>uq_ID = i\<rparr>) h = (None, h') \<and> online L E tok c h' \<and>
    disk h' = disk h \<and> peers (dbOf (net h')) = filter (\<lambda>p. p_ID p \<noteq> i) (peers (dbOf (net h))) \<and>
    messages (dbOf (net h')) = released i (messages (dbOf (net h)))"
proof -
  let ?n = "w_count (net h)" and ?b = "encUnregister (h_json E) \<lparr>uq_ID = i\<rparr>" and ?q = "\<lparr>uq_ID = i\<rparr>"
  let ?clk = "later 1 (l_clk L ?n)"
  have m: "mayCall L E tok c" "ready c (w_server (net h))" "authToken h = tok" using assms by (simp_all add: online_def)
  have wire: "wireOk (h_json E) (l_env L) (l_render L)" using m(1) by (simp add: mayCall_def)
  obtain srv req where x: "ready c srv" "sessionState srv = sessionState (w_server (net h))" "q_Body req = ?b"
      "h_do E (apiRequest E ''/unregister'' (Some ?b) tok) (net h) =
         answered L ?n (handleUnregister (l_env L) ?clk (l_rnd L ?n) (Some c) req srv)"
    by (rule exchange[OF m(1,2) unregister_route])
  note views = same_views[OF x(2,1) m(2)]
  let ?srv = "srv\<lparr>broker := unregister ?clk ?q (broker srv)\<rparr>"
  have eq: "handleUnregister (l_env L) ?clk (l_rnd L ?n) (Some c) req srv = (writeJSON OkBody, ?srv)"
    using x(3) wire_requests(8)[OF wire assms(2)] by (simp add: handleUnregister_def decodeBody_def)
  let ?h = "h\<lparr>net := \<lparr>w_server = ?srv, w_count = Suc ?n\<rparr>\<rparr>"
  have "fetchNil E ''/unregister'' ?b h = (None, ?h)"
    by (rule fetchNil_ok[where t = "l_render L OkBody"])
      (use x(4)[unfolded eq] m(3) in \<open>simp add: answered_def writeJSON_def respond_def\<close>)
  moreover have "ready c ?srv"
    by (rule ready_broker[OF x(1)]) (simp_all add: unregister_db dbStep_intros del: execAll_simps)
  moreover have "dbErr (bdb (broker srv)) = None" using x(1) by (simp add: ready_def)
  then have "peers (dbOf (net ?h)) = filter (\<lambda>p. p_ID p \<noteq> i) (peers (dbOf (net h)))"
    "messages (dbOf (net ?h)) = released i (messages (dbOf (net h)))"
    using views by (simp_all add: unregister_db releaseSession_def exec_def released_def delete_where_def)
  ultimately show ?thesis using m by (intro exI[of _ ?h]) (simp add: online_def)
qed

text \<open>
  C19: a session that ends leaves nothing behind.  When a server whose token is valid shuts down, the
  broker lists its session no longer and every other session still; its state file is removed, unless the
  removal fails, whose error is ignored, and no other file is touched; messages to its name that it had
  not acknowledged wait for the next session of that name, and those of other sessions are as they were.
\<close>

theorem session_ends:
  assumes "online L E tok c (v_host v)" and "v_session v = Some i" and "utf8Valid i" and "i \<noteq> []"
    and "d = dbOf (net (v_host v))" and "v' = shutdown E v" and "d' = dbOf (net (v_host v'))"
  shows "peers d' = filter (\<lambda>p. p_ID p \<noteq> i) (peers d) \<and>
    fileContent (disk (v_host v')) =
      (if v_statePath v = [] \<or> removeErr (disk (v_host v)) (v_statePath v) \<noteq> None then fileContent (disk (v_host v))
       else (fileContent (disk (v_host v)))(v_statePath v := None)) \<and>
    (\<forall>m \<in> set (messages d). w_to_session m = i \<and> w_to_agent m \<noteq> [] \<and> w_ack_at m = None \<longrightarrow>
       (\<exists>m' \<in> set (messages d'). content m' = content m \<and> w_to_session m' = [] \<and> (\<forall>j. waitingFor j (w_to_agent m) m'))) \<and>
    (\<forall>m \<in> set (messages d). w_to_session m \<noteq> i \<longrightarrow> m \<in> set (messages d'))"
proof -
  obtain h' where h: "fetchNil E ''/unregister'' (encUnregister (h_json E) \<lparr>uq_ID = i\<rparr>) (v_host v) = (None, h')"
      "disk h' = disk (v_host v)" "peers (dbOf (net h')) = filter (\<lambda>p. p_ID p \<noteq> i) (peers d)"
      "messages (dbOf (net h')) = released i (messages d)"
    using unregister_served[OF assms(1,3)] assms(5) by blast
  have v': "v_host v' = (if v_statePath v \<noteq> [] then h'\<lparr>disk := snd (Remove (v_statePath v) (disk h'))\<rparr> else h')"
    using h(1) assms(2,6) by (simp add: shutdown_def sessionGet_def Let_def)
  then have d': "peers d' = filter (\<lambda>p. p_ID p \<noteq> i) (peers d)" "messages d' = released i (messages d)"
    using h(3,4) assms(7) by simp_all
  have "\<exists>m' \<in> set (messages d'). content m' = content m \<and> w_to_session m' = [] \<and> (\<forall>j. waitingFor j (w_to_agent m) m')"
    if "m \<in> set (messages d)" "w_to_session m = i" "w_to_agent m \<noteq> []" "w_ack_at m = None" for m
    using that d'(2)
    by (intro bexI[of _ "m\<lparr>w_to_session := [], w_delivered_at := None\<rparr>"])
      (force simp: released_def update_where_def delete_where_def content_def waitingFor_def)+
  moreover have "m \<in> set (messages d')" if "m \<in> set (messages d)" "w_to_session m \<noteq> i" for m
    using that d'(2) by (force simp: released_def update_where_def delete_where_def)
  moreover have "fileContent (disk (v_host v')) =
      (if v_statePath v = [] \<or> removeErr (disk (v_host v)) (v_statePath v) \<noteq> None then fileContent (disk (v_host v))
       else (fileContent (disk (v_host v)))(v_statePath v := None))"
    using v' h(2) by (auto simp: Remove_def fun_upd_idem split: option.split)
  ultimately show ?thesis using d'(1) by blast
qed

text \<open>The server of the session \<open>s1\<close>, with a state file.\<close>

definition closingMcp :: "world mcp" where
  "closingMcp = (sampleMcp waitingBroker)\<lparr>v_statePath := ''/s1.json'',
     v_host := (sampleHost waitingBroker)\<lparr>disk := sampleFs [(''/s1.json'', ''{}''), (''/s2.json'', ''{}'')]\<rparr>\<rparr>"

theorem session_ends_witness:
  "let v' = shutdown sampleClient closingMcp in
   peers (dbOf (net (v_host v'))) = [] \<and> (\<exists>m' \<in> set (messages (dbOf (net (v_host v')))). w_to_session m' = []) \<and>
   fileContent (disk (v_host v')) ''/s1.json'' = None \<and> fileContent (disk (v_host v')) ''/s2.json'' = Some ''{}''"
proof -
  have v: "v_session closingMcp = Some ''s1''" "utf8Valid ''s1''" "dbOf (net (v_host closingMcp)) = bdb waitingBroker"
      "v_statePath closingMcp = ''/s1.json''" "disk (v_host closingMcp) = sampleFs [(''/s1.json'', ''{}''), (''/s2.json'', ''{}'')]"
    by (simp_all add: closingMcp_def sampleMcp_def sampleHost_def Let_def)
  have o: "online sampleLink sampleClient (plainToken ''root'' sampleRootClaims) sampleRootClaims (v_host closingMcp)"
    using sample_online by (simp add: online_def closingMcp_def)
  have "\<exists>m \<in> set (messages (bdb waitingBroker)). w_to_session m = ''s1'' \<and> w_to_agent m \<noteq> [] \<and> w_ack_at m = None"
    by (simp add: waitingBroker_def sample_eval)
  with session_ends[OF o v(1,2) _ refl refl refl, unfolded v(3-5)] show ?thesis
    by (auto simp: Let_def waiting_peers newPeer_def sampleFs_def)
qed

end
