(* ===== verification/Process.thy ===== *)
theory Process
  imports Access Housekeeping Transport
begin

text \<open>
  The broker as a process (\<open>runBroker\<close> of \<^verbatim>\<open>src/broker_core.go\<close>): what it is started from, where it
  listens, how it ends, and what a restart on the same database file changes.
\<close>

section \<open>A process\<close>

text \<open>
  What a start reads besides the database: the columns of the two migrated tables, the publisher, the
  results of \<open>LoadKeyPair\<close> and \<open>loadBrokerRootToken\<close>, the clock, and the stale timeout of the configuration.  \<open>bo_sweep\<close> says
  how far the goroutine that \<open>newBroker\<close> starts has come: \<open>Some clk\<close> when it has run its first round, with the clock
  readings \<open>clk\<close>, and \<open>None\<close> in the moments before that.
\<close>

record bootEnv =
  bo_jwt :: jwtLib
  bo_clk :: clock
  bo_keys :: "string + KeyPair"
  bo_root :: "string + string"
  bo_peersInfo :: "string + string list"
  bo_messagesInfo :: "string + string list"
  bo_nats :: "NATSPublisher option"
  bo_stale :: int
  bo_sweep :: "clock option"

text \<open>The server when \<open>newBroker\<close> returns, and after the first round of its goroutine, which does not wait.\<close>

definition coldServer :: "bootEnv \<Rightarrow> db \<Rightarrow> server" where
  "coldServer B d =
     (let b = newBroker (bo_peersInfo B) (bo_messagesInfo B) (bo_nats B) d;
          (v, d') = startValidator (bo_jwt B) (bo_clk B) (bo_keys B) (bo_root B) (bdb b)
      in \<lparr>broker = b\<lparr>bdb := d'\<rparr>, validator = v, sendRL = newRateLimiter 10 minute, registerRL = newRateLimiter 5 minute\<rparr>)"

definition firstRound :: "bootEnv \<Rightarrow> Broker \<Rightarrow> Broker" where
  "firstRound B b = (case bo_sweep B of None \<Rightarrow> b | Some clk \<Rightarrow> snd (sweepRound (bo_stale B) clk (0, b)))"

definition bootServer :: "bootEnv \<Rightarrow> db \<Rightarrow> server" where
  "bootServer B d = (coldServer B d)\<lparr>broker := firstRound B (broker (coldServer B d))\<rparr>"

datatype listener = OnTLS autocertManager | OnTCP string

text \<open>
  \<open>mk\<close> and \<open>st\<close> are what the certificate cache meets on disk, \<open>bind\<close> the error of \<open>net.Listen\<close>, \<open>opened\<close> the error of
  \<open>sql.Open\<close>.
\<close>

definition listenerFor :: "osEnv \<Rightarrow> Config \<Rightarrow> string option \<Rightarrow> string + bool \<times> nat \<Rightarrow> (string \<Rightarrow> string option) \<Rightarrow> string + listener" where
  "listenerFor os cfg mk st bind =
     (let tlsCfg = tlsConfigFromGlobalConfig os cfg
      in if Enabled tlsCfg then
           (case newAutocertManager mk st tlsCfg of Inl e \<Rightarrow> Inl (''tls: '' @ e) | Inr m \<Rightarrow> Inr (OnTLS m))
         else (case bind (g_Listen cfg) of Some e \<Rightarrow> Inl (''listen: '' @ e) | None \<Rightarrow> Inr (OnTCP (g_Listen cfg))))"

definition ErrServerClosed :: string where "ErrServerClosed = ''http: Server closed''"

text \<open>The result of \<open>runBroker\<close> from the error with which \<open>Serve\<close> returns.\<close>

definition serveResult :: "string \<Rightarrow> string option" where
  "serveResult e = (if e \<noteq> ErrServerClosed then Some e else None)"

text \<open>The database is opened and brought up before the listener, whose error leaves what the start has done.\<close>

definition runBroker :: "bootEnv \<Rightarrow> osEnv \<Rightarrow> Config \<Rightarrow> string option \<Rightarrow> string option \<Rightarrow> string + bool \<times> nat \<Rightarrow> (string \<Rightarrow> string option) \<Rightarrow>
    db \<Rightarrow> (string + listener) \<times> server option" where
  "runBroker B os cfg opened mk st bind d = (case opened of
      Some e \<Rightarrow> (Inl (''init broker: '' @ e), None)
    | None \<Rightarrow> (listenerFor os cfg mk st bind, Some (bootServer B d)))"

text \<open>
  A broker for which a TLS domain is configured never serves plain HTTP: it listens with a certificate
  manager for exactly the configured domains, or not at all.
\<close>

lemma never_plain_with_domain:
  assumes "runBroker B os cfg opened mk st bind d = (Inr l, srv)"
  shows "case l of
      OnTCP addr \<Rightarrow> parseTLSDomains (g_TLSDomain cfg) = [] \<and> addr = g_Listen cfg \<and> bind addr = None
    | OnTLS m \<Rightarrow> am_HostPolicy m = parseTLSDomains (g_TLSDomain cfg) \<and> am_HostPolicy m \<noteq> [] \<and>
        (\<forall>dom \<in> set (am_HostPolicy m). domainError dom = None)"
  using assms
  by (auto simp: runBroker_def listenerFor_def Enabled_def tlsConfigFromGlobalConfig_def noTLS_def newAutocertManager_def validateTLS_def
      firstDomainError_None Let_def split: option.splits sum.splits if_splits)

section \<open>What a start changes\<close>

definition currentSchema :: "bootEnv \<Rightarrow> bool" where
  "currentSchema B \<longleftrightarrow> \<not> colMissing (bo_peersInfo B) ''agent_name'' \<and> \<not> colMissing (bo_messagesInfo B) ''to_agent''"

lemma cold_steps:
  assumes "currentSchema B"
  shows "dbStep\<^sup>*\<^sup>* d (bdb (broker (coldServer B d)))"
proof -
  let ?b = "newBroker (bo_peersInfo B) (bo_messagesInfo B) (bo_nats B) d"
  have "dbStep\<^sup>*\<^sup>* d (bdb ?b)"
    using brokerStep_dbStep[OF brokerStep.Restart, of "bo_peersInfo B" "bo_messagesInfo B" "\<lparr>bdb = d, nats = None, fleetMemory = []\<rparr>" "bo_nats B"]
      assms by (simp add: currentSchema_def)
  moreover have "dbStep\<^sup>*\<^sup>* e (snd (startValidator L clk kp rt e))" for L clk kp rt e
  proof -
    have "dbStep\<^sup>*\<^sup>* e (snd (loadKnownTokens (clk 0) e))" by (simp add: loadKnownTokens_def Let_def dbStep_intros)
    moreover have "dbStep\<^sup>*\<^sup>* x (snd (RegisterToken L Save now tok caps (v, x)))" for now tok caps v x by (rule RegisterToken_steps)
    ultimately show ?thesis
      by (auto simp: startValidator_def Let_def split: sum.split prod.split) (metis rtranclp_trans snd_conv)+
  qed
  ultimately show ?thesis by (auto simp: coldServer_def Let_def split: prod.split) (metis rtranclp_trans snd_conv)
qed

text \<open>The tables that a start leaves alone.\<close>

definition durable ::
  "db \<Rightarrow> Peer list \<times> messageRow list \<times> int \<times> Event list \<times> int \<times> (string \<times> string) list \<times> string option" where
  "durable d = (peers d, messages d, messages_seq d, events d, events_seq d, kv d, dbErr d)"

definition undisturbed :: "db \<Rightarrow> db \<Rightarrow> bool" where
  "undisturbed d d' \<longleftrightarrow> durable d' = durable d \<and> fst ` set (agent_names_seen d) \<subseteq> fst ` set (agent_names_seen d')"

lemma undisturbed_refl: "undisturbed d d"
  by (simp add: undisturbed_def)

lemma undisturbed_trans: "undisturbed d e \<Longrightarrow> undisturbed e f \<Longrightarrow> undisturbed d f"
  by (auto simp: undisturbed_def)

lemma undisturbed_seen: "undisturbed d (exec (SeenName n t) d)"
  by (auto simp: undisturbed_def durable_def exec_def insert_row_def)

lemma undisturbed_backfill: "\<forall>s \<in> set ss. \<exists>n t. s = SeenName n t \<Longrightarrow> undisturbed d (execAll ss d)"
  by (induction ss arbitrary: d) (auto intro: undisturbed_trans[OF undisturbed_seen] simp: undisturbed_refl)

lemma undisturbed_tokens:
  "undisturbed d (snd (loadKnownTokens now d))" "undisturbed d (snd (RegisterToken L Save now tok caps (v, d)))"
  by (simp_all add: loadKnownTokens_def RegisterToken_def Let_def persistKnown_def Save_def undisturbed_def durable_def exec_def)

lemma undisturbed_validator: "undisturbed d (snd (startValidator L clk kp rt d))"
proof -
  obtain rows d1 where l: "loadKnownTokens (clk 0) d = (rows, d1)" by fastforce
  then have "undisturbed d d1" using undisturbed_tokens(1)[of d "clk 0"] by simp
  with l undisturbed_tokens(2)[of d1 L "clk 1"] show ?thesis
    by (auto simp: startValidator_def Let_def undisturbed_refl split: sum.split prod.split) (metis snd_conv undisturbed_trans)
qed

lemma cold_undisturbed:
  assumes "currentSchema B"
  shows "undisturbed d (bdb (broker (coldServer B d)))" "fleetMemory (broker (coldServer B d)) = storedMemory d"
proof -
  let ?b = "newBroker (bo_peersInfo B) (bo_messagesInfo B) (bo_nats B) d"
  have "undisturbed e (execAll (backfillNames x) e)" "undisturbed e (execAll (backfillTargets x) e)" for x e
    by (rule undisturbed_backfill, force simp: backfillNames_def backfillTargets_def)+
  then have "undisturbed d (execAll (backfillTargets y) (execAll (backfillNames x) d))" for x y by (rule undisturbed_trans)
  then have d: "undisturbed d (bdb ?b)" using assms by (auto simp: currentSchema_def newBroker_def Let_def migrate_def)
  with undisturbed_trans[OF d undisturbed_validator]
  show "undisturbed d (bdb (broker (coldServer B d)))" by (auto simp: coldServer_def Let_def split: prod.split) (metis snd_conv)
  have "fleetMemory ?b = storedMemory (bdb ?b)" by (simp add: newBroker_def Let_def storedMemory_def)
  also have "\<dots> = storedMemory d"
    using d fleetMemoryRow_cong[of "bdb ?b" d] by (simp add: storedMemory_def undisturbed_def durable_def)
  finally show "fleetMemory (broker (coldServer B d)) = storedMemory d" by (simp add: coldServer_def Let_def split: prod.split)
qed

section \<open>The first round\<close>

lemma firstRound_simps [simp]:
  "fleetMemory (firstRound B b) = fleetMemory b" "dbErr (bdb (firstRound B b)) = dbErr (bdb b)"
  using frame_sweep[of b "bo_stale B" _ 0] by (auto simp: firstRound_def memoryFrame_def split: option.split)

lemma bootServer_simps [simp]:
  "broker (bootServer B d) = firstRound B (broker (coldServer B d))" "validator (bootServer B d) = validator (coldServer B d)"
  by (simp_all add: bootServer_def)

lemma firstRound_steps: "dbStep\<^sup>*\<^sup>* (bdb b) (bdb (firstRound B b))"
  using brokerStep_dbStep[OF brokerStep.Sweep] by (auto simp: firstRound_def split: option.split)

lemma boot_steps: "currentSchema B \<Longrightarrow> dbStep\<^sup>*\<^sup>* d (bdb (broker (bootServer B d)))"
  using rtranclp_trans[OF cold_steps firstRound_steps] by simp

lemma firstRound_db:
  "bdb (firstRound B b) = (case bo_sweep B of None \<Rightarrow> bdb b
     | Some clk \<Rightarrow> execAll (DeleteStalePeers (staleCutoff (bo_stale B) (clk 0)) #
         concat (map releaseSession (deadIDs (staleCutoff (bo_stale B) (clk 0)) (bdb b))) @
         [PurgeEvents (fmtRFC3339 (clk 1 - hour))]) (bdb b))"
  by (auto simp: firstRound_def sweepRound_def cleanStalePeers_db Let_def simp del: execAll_simps split: option.split)

lemma undisturbed_exec: "undisturbed d e \<Longrightarrow> undisturbed (exec s d) (exec s e)"
  by (cases s; cases "dbErr d") (auto simp: undisturbed_def durable_def exec_def insert_row_def)

lemma undisturbed_execAll: "undisturbed d e \<Longrightarrow> undisturbed (execAll ss d) (execAll ss e)"
  by (induction ss arbitrary: d e) (simp_all add: undisturbed_exec)

text \<open>A round does the same to two databases of which one is undisturbed from the other.\<close>

lemma undisturbed_firstRound:
  assumes "undisturbed (bdb b) (bdb b')"
  shows "undisturbed (bdb (firstRound B b)) (bdb (firstRound B b'))"
proof -
  have "deadIDs c (bdb b') = deadIDs c (bdb b)" for c
    using assms by (cases "dbErr (bdb b)") (simp_all add: deadIDs_def query_def undisturbed_def durable_def)
  then show ?thesis
    using undisturbed_execAll[OF assms] assms by (simp add: firstRound_db del: execAll_simps split: option.split)
qed

lemma boot_undisturbed:
  assumes "currentSchema B"
  shows "undisturbed (bdb (firstRound B b)) (bdb (broker (bootServer B (bdb b))))"
    "fleetMemory (broker (bootServer B (bdb b))) = storedMemory (bdb b)"
  using undisturbed_firstRound[OF cold_undisturbed(1)[OF assms]] cold_undisturbed(2)[OF assms] by simp_all

text \<open>The sessions that the first round finds stale.\<close>

definition staleAtStart :: "bootEnv \<Rightarrow> Peer \<Rightarrow> bool" where
  "staleAtStart B p \<longleftrightarrow> (case bo_sweep B of None \<Rightarrow> False | Some clk \<Rightarrow> p_LastSeen p < staleCutoff (bo_stale B) (clk 0))"

lemma firstRound_peers:
  assumes "dbErr (bdb b) = None"
  shows "peers (bdb (firstRound B b)) = filter (\<lambda>p. \<not> staleAtStart B p) (peers (bdb b))"
  using assms by (auto simp: firstRound_db staleAtStart_def delete_where_def split: option.split)

lemma firstRound_fresh:
  assumes "dbErr (bdb b) = None" and "\<forall>p \<in> set (peers (bdb b)). \<not> staleAtStart B p"
  shows "peers (bdb (firstRound B b)) = peers (bdb b)" "messages (bdb (firstRound B b)) = messages (bdb b)"
proof -
  show "peers (bdb (firstRound B b)) = peers (bdb b)" using assms by (simp add: firstRound_peers)
  have "deadIDs (staleCutoff (bo_stale B) (clk 0)) (bdb b) = []" if "bo_sweep B = Some clk" for clk
    using assms that by (auto simp: deadIDs_def filter_empty_conv staleAtStart_def)
  then show "messages (bdb (firstRound B b)) = messages (bdb b)"
    using assms(1) by (auto simp: firstRound_db split: option.split)
qed

section \<open>What a client sees of a restart\<close>

lemma durable_views:
  assumes "durable (bdb b) = durable (bdb b')"
  shows "waitingMessages i (bdb b) = waitingMessages i (bdb b')" "holderOf n (bdb b) = holderOf n (bdb b')"
    "sessionRow i (bdb b) = sessionRow i (bdb b')" "agentNameOf i (bdb b) = agentNameOf i (bdb b')"
    "listPeers lq b = listPeers lq b'" "recentEvents k b = recentEvents k b'" "fst (heartbeat clk hq b) = fst (heartbeat clk hq b')"
  using assms
  by (cases "dbErr (bdb b')"; simp add: durable_def waitingMessages_def holderOf_def sessionRow_def agentNameOf_def listPeers_def recentEvents_def
      heartbeat_def query_def Let_def)+

text \<open>The verdict on a message: the same, or unknown before and offline after.\<close>

lemma undisturbed_send:
  assumes "undisturbed (bdb b) (bdb b')"
  shows "fst (sendMessage clk q b') = fst (sendMessage clk q b) \<or>
     fst (sendMessage clk q b') = (fst (sendMessage clk q b))\<lparr>mr_DeliveryStatus := DeliveryStatusQueuedOffline\<rparr> \<and>
       mr_DeliveryStatus (fst (sendMessage clk q b)) = DeliveryStatusQueuedUnknown"
proof -
  have d: "durable (bdb b') = durable (bdb b)" using assms by (simp add: undisturbed_def)
  then have e: "dbErr (bdb b') = dbErr (bdb b)" "messages_seq (bdb b') = messages_seq (bdb b)" by (simp_all add: durable_def)
  have seen: "nameSeen n (bdb b) \<Longrightarrow> nameSeen n (bdb b')" for n
    using assms e(1) by (auto simp: undisturbed_def nameSeen_def query_def split: option.splits)
  have "nameSeen (mq_ToAgent q) (bdb b') = nameSeen (mq_ToAgent q) (bdb b) \<or>
      nameSeen (mq_ToAgent q) (bdb b') \<and> \<not> nameSeen (mq_ToAgent q) (bdb b)" using seen by blast
  then have "routeMessage q (bdb b') = routeMessage q (bdb b) \<or>
      (\<exists>a. routeMessage q (bdb b) = Inr (a, [], True, DeliveryStatusQueuedUnknown) \<and>
         routeMessage q (bdb b') = Inr (a, [], True, DeliveryStatusQueuedOffline))"
    unfolding routeMessage_def durable_views(2,3)[OF d] by (elim disjE) (simp_all split: option.split)
  then consider "routeMessage q (bdb b') = routeMessage q (bdb b)"
    | a where "routeMessage q (bdb b) = Inr (a, [], True, DeliveryStatusQueuedUnknown)"
      "routeMessage q (bdb b') = Inr (a, [], True, DeliveryStatusQueuedOffline)" by blast
  then show ?thesis
    by cases (use e durable_views(4)[OF d] in \<open>auto simp: sendMessage_def sendFail_def Let_def emitEvent_def split: sum.split option.split prod.split\<close>)
qed

text \<open>
  C15: a restart is one sweep.  A broker process started on the database of another, once the goroutine it starts
  has run its first round, gives the answers that the old process would have given after such a
  round: to polls and peeks, to the list of sessions and the list of events, to heartbeats, to registrations
  and to claims of a name, and the same fleet memory; a message is routed to the same place, with the one exception that a
  name nobody ever held may be reported as offline.  Before the first round the answers are those without it.  So a
  restart evicts exactly the sessions whose last heartbeat has become too old, and if there is none, the
  sessions and the messages are as they were.  This is about the operations of the broker core: the rate
  limiters of a new process are empty, and its validator knows what was stored.
\<close>

theorem restart_is_one_sweep:
  assumes "currentSchema B" and "memorySynced b" and "b' = broker (bootServer B (bdb b))" and "c = firstRound B b"
  shows "fst (pollMessages clk pq b') = fst (pollMessages clk pq c) \<and> peekMessages pq b' = peekMessages pq c \<and>
    listPeers lq b' = listPeers lq c \<and> recentEvents k b' = recentEvents k c \<and> getFleetMemory b' = getFleetMemory b \<and>
    fst (heartbeat clk hq b') = fst (heartbeat clk hq c) \<and> fst (register clk rnd rq b') = fst (register clk rnd rq c) \<and>
    fst (claimAgent clk cq b') = fst (claimAgent clk cq c) \<and>
    (fst (sendMessage clk mq b') = fst (sendMessage clk mq c) \<or>
     fst (sendMessage clk mq b') = (fst (sendMessage clk mq c))\<lparr>mr_DeliveryStatus := DeliveryStatusQueuedOffline\<rparr> \<and>
       mr_DeliveryStatus (fst (sendMessage clk mq c)) = DeliveryStatusQueuedUnknown) \<and>
    peers (bdb b') = filter (\<lambda>p. \<not> staleAtStart B p) (peers (bdb b)) \<and>
    ((\<forall>p \<in> set (peers (bdb b)). \<not> staleAtStart B p) \<longrightarrow> messages (bdb b') = messages (bdb b))"
proof -
  have up: "dbErr (bdb b) = None" using assms(2) by (simp add: memorySynced_def)
  have u: "undisturbed (bdb c) (bdb b')" "fleetMemory b' = fleetMemory b"
    using boot_undisturbed[OF assms(1), of b] assms(2-4) by (simp_all add: memorySynced_def)
  then have d: "durable (bdb b') = durable (bdb c)" by (simp add: undisturbed_def)
  note v = durable_views[OF d]
  have "fst (register clk rnd rq b') = fst (register clk rnd rq c)"
    by (simp add: register_def registerCheck_def registerCommit_def v Let_def split: option.split)
  moreover have "fst (claimAgent clk cq b') = fst (claimAgent clk cq c)"
    by (simp add: claimAgent_def claimCheck_def claimCommit_def v Let_def split: option.split)
  moreover have "peers (bdb b') = peers (bdb c)" "messages (bdb b') = messages (bdb c)" using d by (simp_all add: durable_def)
  ultimately show ?thesis
    using undisturbed_send[OF u(1)] u(2) v firstRound_peers[OF up] firstRound_fresh(2)[OF up] assms(4)
    by (simp add: pollMessages_def peekMessages_def getFleetMemory_def Let_def)
qed

text \<open>
  The exception is real: the start takes the targets of stored messages for names that were held, so a
  misspelt name that was reported as unknown is reported as an agent that is offline after a restart.
\<close>

definition typoSend :: "Broker \<Rightarrow> SendMessageResponse \<times> Broker" where
  "typoSend = sendMessage (\<lambda>_. 0) \<lparr>mq_FromID = ''s1'', mq_ToAgent = ''bbo'', mq_ToSession = [], mq_Text = ''hi''\<rparr>"

definition sampleBoot :: bootEnv where
  "sampleBoot = \<lparr>bo_jwt = plainLib, bo_clk = (\<lambda>_. 0), bo_keys = Inl ''no key'', bo_root = Inl ''no token'',
     bo_peersInfo = Inr [''id'', ''agent_name''], bo_messagesInfo = Inr [''id'', ''to_agent''], bo_nats = None,
     bo_stale = 20, bo_sweep = None\<rparr>"

text \<open>A start whose goroutine has swept at the time \<open>t\<close>.\<close>

definition sweptBoot :: "time \<Rightarrow> bootEnv" where
  "sweptBoot t = sampleBoot\<lparr>bo_sweep := Some (\<lambda>_. t)\<rparr>"

lemma sample_schema: "currentSchema sampleBoot" "currentSchema (sweptBoot t)"
  by (simp_all add: currentSchema_def sweptBoot_def sampleBoot_def colMissing_def)

lemma seen_after:
  assumes "dbErr d = None" and "n \<in> set names"
  shows "n \<in> fst ` set (agent_names_seen (execAll (map (\<lambda>a. SeenName a (f a)) names) d))"
  using assms
proof (induction names arbitrary: d)
  case (Cons a names)
  let ?d = "exec (SeenName a (f a)) d"
  show ?case
  proof (cases "n = a")
    case True
    have "a \<in> fst ` set (agent_names_seen ?d)" using Cons.prems(1) by (auto simp: exec_def insert_row_def)
    moreover have "undisturbed ?d (execAll (map (\<lambda>a. SeenName a (f a)) names) ?d)" by (rule undisturbed_backfill) auto
    ultimately show ?thesis using True by (auto simp: undisturbed_def)
  next
    case False
    then show ?thesis using Cons.IH[of ?d] Cons.prems by simp
  qed
qed simp

lemma cold_sees_targets:
  assumes "currentSchema B" and "dbErr d = None" and "m \<in> set (messages d)" and "w_to_agent m \<noteq> []"
  shows "nameSeen (w_to_agent m) (bdb (broker (coldServer B d)))"
proof -
  let ?b = "newBroker (bo_peersInfo B) (bo_messagesInfo B) (bo_nats B) d" and ?d = "execAll (backfillNames d) d"
  have "undisturbed d ?d" by (rule undisturbed_backfill) (force simp: backfillNames_def)
  then have "dbErr ?d = None" "messages ?d = messages d" using assms(2) by (simp_all add: undisturbed_def durable_def)
  then have "w_to_agent m \<in> fst ` set (agent_names_seen (execAll (backfillTargets ?d) ?d))"
    unfolding backfillTargets_def using assms(3,4) by (intro seen_after) auto
  then have "w_to_agent m \<in> fst ` set (agent_names_seen (bdb ?b))"
    using assms(1,2) by (simp add: currentSchema_def newBroker_def migrate_def Let_def)
  with undisturbed_validator[of "bdb ?b" "bo_jwt B" "bo_clk B" "bo_keys B" "bo_root B"] cold_undisturbed(1)[OF assms(1), of d] assms(2)
  show ?thesis by (auto simp: nameSeen_def query_def coldServer_def undisturbed_def durable_def Let_def split: prod.splits option.splits)
qed

lemma restart_forgets_typos:
  "mr_DeliveryStatus (fst (typoSend namedBroker)) = DeliveryStatusQueuedUnknown \<and>
   mr_DeliveryStatus (fst (typoSend (broker (coldServer sampleBoot (bdb (snd (typoSend namedBroker))))))) = DeliveryStatusQueuedOffline"
proof -
  let ?d = "bdb (snd (typoSend namedBroker))" and ?b = "broker (coldServer sampleBoot (bdb (snd (typoSend namedBroker))))"
  have one: "mr_DeliveryStatus (fst (typoSend namedBroker)) = DeliveryStatusQueuedUnknown" "dbErr ?d = None"
      "map p_AgentName (peers ?d) = [''bob'']" "map w_to_agent (messages ?d) = [''bbo'']"
    by (simp_all add: typoSend_def broker_eval nameSeen_def Let_def)
  have "nameSeen ''bbo'' (bdb ?b)" using cold_sees_targets[OF sample_schema(1) one(2)] one(4) by force
  moreover have b: "peers (bdb ?b) = peers ?d" "dbErr (bdb ?b) = None"
    using cold_undisturbed(1)[OF sample_schema(1), of ?d] one(2) by (simp_all add: undisturbed_def durable_def)
  moreover have "holderOf ''bbo'' (bdb ?b) = None" using b one(3) by (auto simp: holderOf_def select_one_def find_None_iff)
  ultimately show ?thesis using one(1) by (simp add: typoSend_def sendMessage_def routeMessage_def Let_def)
qed

lemma namedBroker_synced: "memorySynced namedBroker"
  by (simp add: memorySynced_def namedBroker_def emptyDB_def storedMemory_def fleetMemoryRow_def lookup_row_def select_one_def unique_key_def)

lemma namedBroker_peers: "peers (bdb namedBroker) = [newPeer ''s1'' (nowISO 0) (sampleReq ''bob'')]"
  by (simp add: broker_eval)

lemma sweptBoot_stale:
  assumes "p_LastSeen p = nowISO 0"
  shows "\<not> staleAtStart (sweptBoot (15 * second)) p" "staleAtStart (sweptBoot (25 * second)) p"
proof -
  have c: "staleCutoff 20 t = fmtRFC3339 (t - 20 * second)" for t by (simp add: staleCutoff_def wrap64_id second_def Let_def)
  have r: "calendarRange 0" "calendarRange (15 * second - 20 * second)" "calendarRange (25 * second - 20 * second)"
    by (simp_all add: calendarRange_def secsOf_def second_def)
  show "\<not> staleAtStart (sweptBoot (15 * second)) p" "staleAtStart (sweptBoot (25 * second)) p"
    using nano_above_cutoff[OF r(1,2)] nano_below_cutoff[OF r(1,3)] assms
    by (simp_all add: staleAtStart_def sweptBoot_def sampleBoot_def c nowISO_def second_def)
qed

text \<open>A session survives a restart after fifteen seconds, and is evicted by one after twenty-five.\<close>

theorem restart_is_one_sweep_witness:
  "map p_ID (peers (bdb (broker (bootServer (sweptBoot (15 * second)) (bdb namedBroker))))) = [''s1''] \<and>
   peers (bdb (broker (bootServer (sweptBoot (25 * second)) (bdb namedBroker)))) = []"
proof -
  have "p_LastSeen (newPeer ''s1'' (nowISO 0) (sampleReq ''bob'')) = nowISO 0" by (simp add: newPeer_def)
  note st = sweptBoot_stale[OF this]
  have "peers (bdb (broker (bootServer (sweptBoot t) (bdb namedBroker)))) =
      filter (\<lambda>p. \<not> staleAtStart (sweptBoot t) p) (peers (bdb namedBroker))" for t
    using restart_is_one_sweep[OF sample_schema(2) namedBroker_synced refl refl] by blast
  with st show ?thesis by (simp add: namedBroker_peers newPeer_def del: bootServer_simps)
qed

section \<open>Any number of processes\<close>

text \<open>One process on the database: a start, requests and sweep rounds, and an end at any moment.\<close>

inductive lifetime :: "db \<Rightarrow> db \<Rightarrow> bool" where
  Life: "currentSchema B \<Longrightarrow> serverStep\<^sup>*\<^sup>* (bootServer B d) srv \<Longrightarrow> lifetime d (bdb (broker srv))"

inductive_cases lifetime_cases: "lifetime d d'"

lemma serverSteps_dbSteps: "serverStep\<^sup>*\<^sup>* srv srv' \<Longrightarrow> dbStep\<^sup>*\<^sup>* (bdb (broker srv)) (bdb (broker srv'))"
proof (induction rule: rtranclp_induct)
  case (step srv1 srv2)
  from step(2) have "stepsTo srv1 srv2"
    by (cases rule: serverStep.cases) (auto intro: serve_step stepsTo_broker brokerStep.Sweep)
  with step(3) show ?case by (simp add: stepsTo_def)
qed simp

lemma lifetime_steps: "lifetime d d' \<Longrightarrow> dbStep\<^sup>*\<^sup>* d d'"
  by (auto elim!: lifetime_cases dest!: serverSteps_dbSteps intro: rtranclp_trans[OF boot_steps])

lemma lifetimes_steps: "lifetime\<^sup>*\<^sup>* d d' \<Longrightarrow> dbStep\<^sup>*\<^sup>* d d'"
  by (induction rule: rtranclp_induct) (auto dest: lifetime_steps)

interpretation processes: inductive_invariant dbOk lifetime dbOk
  by unfold_locales (auto dest: lifetime_steps statements.holds_steps)

text \<open>
  C16: the guarantees hold over the life of the database, not of a process.  From a well-formed database,
  such as the empty one, and through any number of broker processes on it, each serving any requests
  with any tokens and sweeping at any times, and each ended at any moment: the database stays well-formed,
  no two sessions share an id or a name, and a message that was delivered and acknowledged in one process stays so
  as long as its row exists, and is offered to nobody by a later one.  (A message that was acknowledged before it
  was delivered is still offered once.)
\<close>

theorem sound_across_restarts:
  assumes "dbOk d" and "lifetime\<^sup>*\<^sup>* d d'"
  shows "dbOk d' \<and> distinct (map p_ID (peers d')) \<and>
    (\<forall>p q. p \<in> set (peers d') \<and> q \<in> set (peers d') \<and> p_AgentName p = p_AgentName q \<longrightarrow> p_AgentName p = [] \<or> p = q) \<and>
    (\<forall>i m. msgAt i d = Some m \<and> phaseOf m = Acked \<longrightarrow>
       (case msgAt i d' of None \<Rightarrow> True | Some m' \<Rightarrow> phaseOf m' = Acked \<and> (\<forall>j n. \<not> waitingFor j n m')))"
proof -
  note steps = lifetimes_steps[OF assms(2)]
  have ok: "dbOk d'" by (rule processes.holds_reachable[OF assms])
  have acked: "case msgAt i d' of None \<Rightarrow> True | Some m' \<Rightarrow> phaseOf m' = Acked \<and> (\<forall>j n. \<not> waitingFor j n m')"
    if "msgAt i d = Some m" "phaseOf m = Acked" for i m
  proof -
    have "settled i d" using assms(1) that msgAt_seq[OF assms(1) that(1)] by (simp add: settled_def)
    then have "settled i d'" using settling.holds_steps[OF steps] by blast
    then show ?thesis by (auto simp: settled_def phaseOf_def waitingFor_def split: option.splits if_splits)
  qed
  have "namesUnique (peers d')" "distinct (map p_ID (peers d'))" using ok by (simp_all add: dbOk_def unique_key_def)
  moreover have "\<forall>p q. p \<in> set (peers d') \<and> q \<in> set (peers d') \<and> p_AgentName p = p_AgentName q \<longrightarrow> p_AgentName p = [] \<or> p = q"
    using namesUniqueD[OF calculation(1)] by metis
  ultimately show ?thesis using ok acked by (intro conjI allI impI) auto
qed

theorem sound_across_restarts_witness:
  "let d = sampleDB [MarkDelivered ''t2'' ''s1'' 1, AckRow ''t3'' ''s1'' 1];
       d' = bdb (broker (bootServer (sweptBoot (25 * second)) (bdb (broker (bootServer sampleBoot d))))) in
   distinct (map p_ID (peers d')) \<and> (case msgAt 1 d' of None \<Rightarrow> True | Some m' \<Rightarrow> \<not> waitingFor ''s1'' ''bob'' m')"
proof -
  let ?d = "sampleDB [MarkDelivered ''t2'' ''s1'' 1, AckRow ''t3'' ''s1'' 1]"
  let ?d1 = "bdb (broker (bootServer sampleBoot ?d))" and ?B = "sweptBoot (25 * second)"
  have "lifetime ?d ?d1" "lifetime ?d1 (bdb (broker (bootServer ?B ?d1)))"
    by (rule lifetime.Life[OF sample_schema(1) rtranclp.rtrancl_refl], rule lifetime.Life[OF sample_schema(2) rtranclp.rtrancl_refl])
  then have "lifetime\<^sup>*\<^sup>* ?d (bdb (broker (bootServer ?B ?d1)))"
    by (meson rtranclp.rtrancl_into_rtrancl rtranclp.rtrancl_refl)
  note s = sound_across_restarts[OF dbOk_sampleDB this]
  obtain m where m: "msgAt 1 ?d = Some m" "phaseOf m = Acked" by (simp add: sample_eval phaseOf_def)
  from s m have "case msgAt 1 (bdb (broker (bootServer ?B ?d1))) of None \<Rightarrow> True
      | Some m' \<Rightarrow> phaseOf m' = Acked \<and> (\<forall>j n. \<not> waitingFor j n m')" by blast
  with s show ?thesis unfolding Let_def by (auto simp del: bootServer_simps split: option.split)
qed

end
