(* ===== verification/NatsLink.thy ===== *)
theory NatsLink
  imports Dream
begin

text \<open>
  The connection to NATS (\<^verbatim>\<open>src/fleet_nats.go\<close>, \<^verbatim>\<open>src/fleet_nats_auth.go\<close>) and the watch that lives on it
  (\<open>cliDreamWatch\<close> of \<^verbatim>\<open>src/fleet_dream.go\<close>).  The client libraries \<open>nats.go\<close> and \<open>nkeys\<close> are the records
  \<open>natsLib\<close> and \<open>nkeysLib\<close>: every call the code makes is a field, over a state of the library's own.
  What the theorems need of them is \<open>natsOk\<close> and \<open>nkeysOk\<close>.
\<close>

section \<open>Keys\<close>

record 'k nkeysLib =
  nk_CreateUser :: "string + 'k"
  nk_Seed :: "'k \<Rightarrow> string + string"
  nk_PublicKey :: "'k \<Rightarrow> string + string"
  nk_FromSeed :: "string \<Rightarrow> string + 'k"
  nk_Sign :: "'k \<Rightarrow> string \<Rightarrow> string + string"

definition generateNKeySeed :: "'k nkeysLib \<Rightarrow> string + string \<times> string" where
  "generateNKeySeed K = (case nk_CreateUser K of
      Inl e \<Rightarrow> Inl (''create nkey user: '' @ e)
    | Inr user \<Rightarrow> (case nk_Seed K user of
        Inl e \<Rightarrow> Inl (''get seed: '' @ e)
      | Inr seed \<Rightarrow> (case nk_PublicKey K user of
          Inl e \<Rightarrow> Inl (''get public key: '' @ e)
        | Inr pub \<Rightarrow> Inr (seed, pub))))"

record natsOptions =
  no_Nkey :: string
  no_SignatureCB :: "string \<Rightarrow> string + string"

definition nkeyOptionFromSeed :: "'k nkeysLib \<Rightarrow> string \<Rightarrow> natsOptions \<Rightarrow> string + natsOptions" where
  "nkeyOptionFromSeed K seed o' = (case nk_FromSeed K seed of
      Inl e \<Rightarrow> Inl (''nkey from seed: '' @ e)
    | Inr kp \<Rightarrow> (case nk_PublicKey K kp of
        Inl e \<Rightarrow> Inl (''nkey public key: '' @ e)
      | Inr pub \<Rightarrow> Inr (o'\<lparr>no_Nkey := pub, no_SignatureCB := (\<lambda>nonce. case nk_FromSeed K seed of
            Inl e \<Rightarrow> Inl e | Inr kp2 \<Rightarrow> nk_Sign K kp2 nonce)\<rparr>)))"

datatype natsOption = OptName string | OptReconnectWait duration | OptMaxReconnects int | OptAuth natsAuth

definition natsConnectOptions :: "osEnv \<Rightarrow> Config \<Rightarrow> fs \<Rightarrow> string \<Rightarrow> natsOption list" where
  "natsConnectOptions os c s name =
     [OptName name, OptReconnectWait (2 * second), OptMaxReconnects (-1)] @
     (case natsAuthOption os c s of None \<Rightarrow> [] | Some auth \<Rightarrow> [OptAuth auth])"

section \<open>Streams and consumers\<close>

record StreamConfig =
  sc_Name :: string
  sc_Subjects :: "string list"
  sc_MaxAge :: duration
  sc_MaxBytes :: int
  sc_MaxMsgsPerSubject :: int
  sc_Duplicates :: duration
  sc_MaxMsgSize :: int
  sc_LimitsPolicy :: bool
  sc_FileStorage :: bool
  sc_DiscardOld :: bool

record ConsumerInfo =
  ci_NumPending :: nat
  ci_DeliveredStream :: nat
  ci_DeliveredLast :: "time option"

datatype subOpt = Durable string | DeliverNew | OtherOpt string

record ('c, 's) natsLib =
  n_Connect :: "string \<Rightarrow> natsOption list \<Rightarrow> 's \<Rightarrow> (string + 'c) \<times> 's"
  n_Close :: "'c \<Rightarrow> 's \<Rightarrow> 's"
  n_Drain :: "'c \<Rightarrow> 's \<Rightarrow> 's"
  n_JetStream :: "'c \<Rightarrow> 's \<Rightarrow> string option \<times> 's"
  n_StreamInfo :: "'c \<Rightarrow> string \<Rightarrow> 's \<Rightarrow> string option \<times> 's"
  n_AddStream :: "'c \<Rightarrow> StreamConfig \<Rightarrow> 's \<Rightarrow> string option \<times> 's"
  n_UpdateStream :: "'c \<Rightarrow> StreamConfig \<Rightarrow> 's \<Rightarrow> string option \<times> 's"
  n_ConsumerNames :: "'c \<Rightarrow> string \<Rightarrow> 's \<Rightarrow> string list \<times> 's"
  n_ConsumerInfo :: "'c \<Rightarrow> string \<Rightarrow> string \<Rightarrow> 's \<Rightarrow> (string + ConsumerInfo) \<times> 's"
  n_DeleteConsumer :: "'c \<Rightarrow> string \<Rightarrow> string \<Rightarrow> 's \<Rightarrow> string option \<times> 's"
  n_Subscribe :: "'c \<Rightarrow> string \<Rightarrow> subOpt list \<Rightarrow> 's \<Rightarrow> string option \<times> 's"

definition streamName :: string where "streamName = ''FLEET''"
definition fleetSubjects :: "string list" where "fleetSubjects = [''fleet.>'']"

definition streamCfg :: StreamConfig where
  "streamCfg = \<lparr>sc_Name = streamName, sc_Subjects = fleetSubjects, sc_MaxAge = 24 * hour, sc_MaxBytes = 256 * 1024 * 1024,
     sc_MaxMsgsPerSubject = 10000, sc_Duplicates = 2 * minute, sc_MaxMsgSize = 32 * 1024,
     sc_LimitsPolicy = True, sc_FileStorage = True, sc_DiscardOld = True\<rparr>"

definition staleConsumer :: "time \<Rightarrow> ConsumerInfo \<Rightarrow> bool" where
  "staleConsumer now info \<longleftrightarrow> ci_NumPending info = 0 \<and> ci_DeliveredStream info > 0 \<and>
     (case ci_DeliveredLast info of None \<Rightarrow> False | Some t \<Rightarrow> now - t > 24 * hour)"

definition cleanupOne :: "('c, 's) natsLib \<Rightarrow> time \<Rightarrow> 'c \<Rightarrow> string \<Rightarrow> 's \<Rightarrow> 's" where
  "cleanupOne L now c name s = (case n_ConsumerInfo L c streamName name s of
      (Inl _, s1) \<Rightarrow> s1
    | (Inr info, s1) \<Rightarrow> if staleConsumer now info then snd (n_DeleteConsumer L c streamName name s1) else s1)"

text \<open>\<open>clk i\<close> is the clock when the \<open>i\<close>-th name is looked at.\<close>

fun cleanupNames :: "('c, 's) natsLib \<Rightarrow> clock \<Rightarrow> 'c \<Rightarrow> string list \<Rightarrow> 's \<Rightarrow> 's" where
  "cleanupNames L clk c [] s = s"
| "cleanupNames L clk c (name # names) s = cleanupNames L (\<lambda>i. clk (Suc i)) c names (cleanupOne L (clk 0) c name s)"

definition cleanupStaleConsumers :: "('c, 's) natsLib \<Rightarrow> clock \<Rightarrow> 'c \<Rightarrow> 's \<Rightarrow> 's" where
  "cleanupStaleConsumers L clk c s = (let (names, s1) = n_ConsumerNames L c streamName s in cleanupNames L clk c names s1)"

definition newNATSPublisher :: "('c, 's) natsLib \<Rightarrow> clock \<Rightarrow> osEnv \<Rightarrow> Config \<Rightarrow> fs \<Rightarrow> 's \<Rightarrow> 'c option \<times> 's" where
  "newNATSPublisher L clk os cfg d s =
     (case n_Connect L (natsURL cfg) (natsConnectOptions os cfg d ''claude-peers-broker'') s of
        (Inl _, s1) \<Rightarrow> (None, s1)
      | (Inr nc, s1) \<Rightarrow>
          (case n_JetStream L nc s1 of
             (Some _, s2) \<Rightarrow> (None, n_Close L nc s2)
           | (None, s2) \<Rightarrow>
               (case n_StreamInfo L nc streamName s2 of
                  (Some _, s3) \<Rightarrow>
                    (case n_AddStream L nc streamCfg s3 of
                       (Some _, s4) \<Rightarrow> (None, n_Close L nc s4)
                     | (None, s4) \<Rightarrow> (Some nc, cleanupStaleConsumers L clk nc s4))
                | (None, s3) \<Rightarrow>
                    (let (_, s4) = n_UpdateStream L nc streamCfg s3 in (Some nc, cleanupStaleConsumers L clk nc s4)))))"

definition closePublisher :: "('c, 's) natsLib \<Rightarrow> 'c option \<Rightarrow> 's \<Rightarrow> 's" where
  "closePublisher L p s = (case p of None \<Rightarrow> s | Some nc \<Rightarrow> n_Close L nc (n_Drain L nc s))"

section \<open>Subscription\<close>

definition subscribeOpts :: "string \<Rightarrow> subOpt list \<Rightarrow> subOpt list" where
  "subscribeOpts consumer opts = (let base = [Durable consumer, DeliverNew] in if opts \<noteq> [] then take 1 base @ opts else base)"

definition subscribeFleet :: "('c, 's) natsLib \<Rightarrow> osEnv \<Rightarrow> Config \<Rightarrow> fs \<Rightarrow> string \<Rightarrow> subOpt list \<Rightarrow> 's \<Rightarrow> (string + 'c) \<times> 's" where
  "subscribeFleet L os cfg d consumer opts s =
     (case n_Connect L (natsURL cfg) (natsConnectOptions os cfg d (''claude-peers-'' @ consumer)) s of
        (Inl e, s1) \<Rightarrow> (Inl (''nats connect: '' @ e), s1)
      | (Inr nc, s1) \<Rightarrow>
          (case n_JetStream L nc s1 of
             (Some e, s2) \<Rightarrow> (Inl (''jetstream: '' @ e), n_Close L nc s2)
           | (None, s2) \<Rightarrow>
               (case n_Subscribe L nc ''fleet.>'' (subscribeOpts consumer opts) s2 of
                  (Some e, s3) \<Rightarrow> (Inl (''subscribe: '' @ e), n_Close L nc s3)
                | (None, s3) \<Rightarrow> (Inr nc, s3))))"

text \<open>
  The callback of the subscription: a payload that does not decode is passed over; every message is
  acknowledged, which is counted.
\<close>

definition onFleetMsg :: "(string \<Rightarrow> FleetEvent option) \<Rightarrow> (FleetEvent \<Rightarrow> 'a \<Rightarrow> 'a outcome) \<Rightarrow> string \<Rightarrow> 'a \<times> nat \<Rightarrow> ('a \<times> nat) outcome" where
  "onFleetMsg dec handler dat st = (case dec dat of
      None \<Rightarrow> Ret (fst st, Suc (snd st))
    | Some event \<Rightarrow> (case handler event (fst st) of Panic e \<Rightarrow> Panic e | Ret a \<Rightarrow> Ret (a, Suc (snd st))))"

section \<open>The watch\<close>

datatype watchInput = Delivered string | Ticked

text \<open>
  \<open>cliDreamWatch\<close> once it is subscribed, for the messages and ticks that reach it in turn; each step has
  its own clock and map order.
\<close>

fun watchRun :: "'w clientEnv \<Rightarrow> (string \<Rightarrow> FleetEvent option) \<Rightarrow> (nat \<Rightarrow> clock) \<Rightarrow> (string set \<Rightarrow> string list) \<Rightarrow>
    watchInput list \<Rightarrow> (FleetEvent list \<times> 'w host) \<times> nat \<Rightarrow> ((FleetEvent list \<times> 'w host) \<times> nat) outcome" where
  "watchRun E dec clks order [] st = Ret st"
| "watchRun E dec clks order (x # xs) st =
     (case (case x of
         Delivered dat \<Rightarrow> onFleetMsg dec (watchEvent E (clks 0) order) dat st
       | Ticked \<Rightarrow> (case watchTick E (clks 0) order (fst st) of Panic e \<Rightarrow> Panic e | Ret a \<Rightarrow> Ret (a, snd st))) of
        Panic e \<Rightarrow> Panic e
      | Ret st1 \<Rightarrow> watchRun E dec (\<lambda>i. clks (Suc i)) order xs st1)"

text \<open>\<open>dreamPollLoop\<close>: \<open>n\<close> iterations of the endless loop.\<close>

fun dreamPollLoop :: "nat \<Rightarrow> 'w clientEnv \<Rightarrow> (nat \<Rightarrow> clock) \<Rightarrow> (string set \<Rightarrow> string list) \<Rightarrow> 'w host \<Rightarrow> 'w host outcome" where
  "dreamPollLoop 0 E clks order h = Ret h"
| "dreamPollLoop (Suc n) E clks order h = (case consolidate E (clks 0) order h of
      Panic e \<Rightarrow> Panic e
    | Ret (_, h1) \<Rightarrow> dreamPollLoop n E (\<lambda>i. clks (Suc i)) order h1)"

definition cliDreamWatch :: "('c, 's) natsLib \<Rightarrow> 'w clientEnv \<Rightarrow> (string \<Rightarrow> FleetEvent option) \<Rightarrow> (nat \<Rightarrow> clock) \<Rightarrow>
    (string set \<Rightarrow> string list) \<Rightarrow> nat \<Rightarrow> watchInput list \<Rightarrow> 's \<Rightarrow> 'w host \<Rightarrow> 'w host outcome \<times> 's" where
  "cliDreamWatch L E dec clks order n xs s h =
     (case subscribeFleet L (h_os E) (h_cfg E) (disk h) ''dream-watch'' [] s of
        (Inl _, s1) \<Rightarrow> (dreamPollLoop n E clks order h, s1)
      | (Inr nc, s1) \<Rightarrow> ((case watchRun E dec clks order xs (([], h), 0) of Panic e \<Rightarrow> Panic e | Ret ((_, h1), _) \<Rightarrow> Ret h1), s1))"

section \<open>Connections\<close>

text \<open>
  What is relied on: \<open>conns\<close> are the open connections and \<open>cons\<close> the consumers of the stream.  A successful
  \<open>Connect\<close> opens one connection and \<open>Close\<close> closes it; \<open>ConsumerInfo\<close> tells the truth; \<open>DeleteConsumer\<close>
  deletes what it is given; the other calls change neither, except that \<open>Subscribe\<close> may create a consumer.
\<close>

definition keeps :: "('s \<Rightarrow> 'v) \<Rightarrow> ('s \<Rightarrow> 'r \<times> 's) \<Rightarrow> bool" where
  "keeps view f \<longleftrightarrow> (\<forall>s. view (snd (f s)) = view s)"

definition natsOk :: "('c, 's) natsLib \<Rightarrow> ('s \<Rightarrow> 'c set) \<Rightarrow> ('s \<Rightarrow> string \<Rightarrow> ConsumerInfo option) \<Rightarrow> bool" where
  "natsOk L conns cons \<longleftrightarrow>
     (\<forall>u opts s. cons (snd (n_Connect L u opts s)) = cons s \<and>
        (case n_Connect L u opts s of (Inl _, s') \<Rightarrow> conns s' = conns s | (Inr c, s') \<Rightarrow> c \<notin> conns s \<and> conns s' = insert c (conns s))) \<and>
     (\<forall>c s. conns (n_Close L c s) = conns s - {c} \<and> cons (n_Close L c s) = cons s \<and> conns (n_Drain L c s) = conns s) \<and>
     (\<forall>c st cfg. let view = (\<lambda>s. (conns s, cons s)) in
        keeps view (n_JetStream L c) \<and> keeps view (n_StreamInfo L c st) \<and> keeps view (n_AddStream L c cfg) \<and>
        keeps view (n_UpdateStream L c cfg) \<and> keeps view (n_ConsumerNames L c st) \<and>
        (\<forall>name. keeps view (n_ConsumerInfo L c st name) \<and> keeps conns (n_DeleteConsumer L c st name))) \<and>
     (\<forall>c name s info. fst (n_ConsumerInfo L c streamName name s) = Inr info \<longrightarrow> cons s name = Some info) \<and>
     (\<forall>c name s. cons (snd (n_DeleteConsumer L c streamName name s)) \<in> {cons s, (cons s)(name := None)}) \<and>
     (\<forall>c subj opts. keeps conns (n_Subscribe L c subj opts))"

lemma natsOk_calls:
  assumes "natsOk L conns cons"
  shows "n_Connect L u opts s = (Inl e, s') \<Longrightarrow> conns s' = conns s \<and> cons s' = cons s"
    and "n_Connect L u opts s = (Inr c, s') \<Longrightarrow> c \<notin> conns s \<and> conns s' = insert c (conns s) \<and> cons s' = cons s"
    and "conns (n_Close L c s) = conns s - {c}" and "cons (n_Close L c s) = cons s" and "conns (n_Drain L c s) = conns s"
    and "n_JetStream L c s = (r, s') \<Longrightarrow> conns s' = conns s \<and> cons s' = cons s"
    and "n_StreamInfo L c st s = (r, s') \<Longrightarrow> conns s' = conns s \<and> cons s' = cons s"
    and "n_AddStream L c cfg s = (r, s') \<Longrightarrow> conns s' = conns s \<and> cons s' = cons s"
    and "n_UpdateStream L c cfg s = (r, s') \<Longrightarrow> conns s' = conns s \<and> cons s' = cons s"
    and "n_ConsumerNames L c st s = (ns, s') \<Longrightarrow> conns s' = conns s \<and> cons s' = cons s"
    and "n_ConsumerInfo L c streamName name s = (q, s') \<Longrightarrow>
      conns s' = conns s \<and> cons s' = cons s \<and> (\<forall>info. q = Inr info \<longrightarrow> cons s name = Some info)"
    and "n_DeleteConsumer L c streamName name s = (r, s') \<Longrightarrow> conns s' = conns s \<and> (cons s' = cons s \<or> cons s' = (cons s)(name := None))"
    and "n_Subscribe L c subj so s = (r, s') \<Longrightarrow> conns s' = conns s"
  using assms unfolding natsOk_def keeps_def Let_def
  by (metis (mono_tags, lifting) prod.case sum.case snd_conv fst_conv prod.inject insert_iff empty_iff)+

text \<open>The consumers that survive: a consumer goes only when it is stale at some reading of the clock.\<close>

definition prunedOnly :: "clock \<Rightarrow> (string \<Rightarrow> ConsumerInfo option) \<Rightarrow> (string \<Rightarrow> ConsumerInfo option) \<Rightarrow> bool" where
  "prunedOnly clk before now \<longleftrightarrow> (\<forall>n. now n = before n \<or> now n = None \<and> (\<exists>i info. before n = Some info \<and> staleConsumer (clk i) info))"

lemma prunedOnly_refl: "prunedOnly clk c c"
  by (simp add: prunedOnly_def)

lemma prunedOnly_trans:
  assumes "prunedOnly (\<lambda>_. clk 0) a b" and "prunedOnly (\<lambda>i. clk (Suc i)) b c"
  shows "prunedOnly clk a c"
  using assms unfolding prunedOnly_def by (metis option.distinct(1))

lemma cleanupOne_pruned:
  assumes "natsOk L conns cons"
  shows "conns (cleanupOne L now c name s) = conns s" "prunedOnly (\<lambda>_. now) (cons s) (cons (cleanupOne L now c name s))"
proof -
  obtain r s1 where 1: "n_ConsumerInfo L c streamName name s = (r, s1)" by fastforce
  obtain e s2 where 2: "n_DeleteConsumer L c streamName name s1 = (e, s2)" by fastforce
  note facts = natsOk_calls(11)[OF assms 1] natsOk_calls(12)[OF assms 2]
  show "conns (cleanupOne L now c name s) = conns s" using 1 2 facts by (simp add: cleanupOne_def split: sum.split)
  show "prunedOnly (\<lambda>_. now) (cons s) (cons (cleanupOne L now c name s))"
    using 1 2 facts by (auto simp: cleanupOne_def prunedOnly_def split: sum.split if_splits)
qed

lemma cleanupNames_pruned:
  assumes "natsOk L conns cons"
  shows "conns (cleanupNames L clk c names s) = conns s \<and> prunedOnly clk (cons s) (cons (cleanupNames L clk c names s))"
proof (induction names arbitrary: s clk)
  case (Cons name names)
  then show ?case using cleanupOne_pruned[OF assms, where now = "clk 0" and c = c and name = name and s = s]
    by (auto intro: prunedOnly_trans)
qed (simp add: prunedOnly_refl)

lemma cleanup_pruned:
  assumes "natsOk L conns cons"
  shows "conns (cleanupStaleConsumers L clk c s) = conns s" "prunedOnly clk (cons s) (cons (cleanupStaleConsumers L clk c s))"
proof -
  obtain names s1 where "n_ConsumerNames L c streamName s = (names, s1)" by fastforce
  with natsOk_calls(10)[OF assms this] cleanupNames_pruned[OF assms, of clk c names s1]
  show "conns (cleanupStaleConsumers L clk c s) = conns s" "prunedOnly clk (cons s) (cons (cleanupStaleConsumers L clk c s))"
    by (simp_all add: cleanupStaleConsumers_def)
qed

text \<open>
  C36: the publisher of the broker leaks no connection and deletes no consumer in use.  Whichever call
  to NATS fails, a start without a publisher leaves the open connections as they were, and one with a
  publisher opens exactly one, which closing the publisher closes; and a consumer that is gone
  afterwards had nothing pending, had been delivered to, and had been idle for more than 24 hours.
\<close>

theorem publisher_balanced:
  assumes "natsOk L conns cons" and "newNATSPublisher L clk os cfg d s = (p, s')"
  shows "(case p of None \<Rightarrow> conns s' = conns s | Some c \<Rightarrow> c \<notin> conns s \<and> conns s' = insert c (conns s)) \<and>
    conns (closePublisher L p s') = conns s \<and> prunedOnly clk (cons s) (cons s')"
proof -
  note [simp] = cleanup_pruned(1)[OF assms(1)] natsOk_calls(3-5)[OF assms(1)]
  note [dest!] = natsOk_calls(1,2,6-9)[OF assms(1)]
  have "prunedOnly clk c0 c0" "cons s1 = c0 \<Longrightarrow> prunedOnly clk c0 (cons (cleanupStaleConsumers L clk nc s1))" for c0 s1 nc
    using cleanup_pruned(2)[OF assms(1), of clk s1 nc] by (auto simp: prunedOnly_def)
  then show ?thesis
    using assms(2) by (auto simp: newNATSPublisher_def closePublisher_def split: prod.splits sum.splits option.splits)
qed

text \<open>A subscription that fails leaves no connection behind either.\<close>

lemma subscribe_balanced:
  assumes "natsOk L conns cons" and "subscribeFleet L os cfg d consumer opts s = (r, s')"
  shows "case r of Inl _ \<Rightarrow> conns s' = conns s | Inr c \<Rightarrow> c \<notin> conns s \<and> conns s' = insert c (conns s)"
proof -
  note [simp] = natsOk_calls(3-5)[OF assms(1)]
  note [dest!] = natsOk_calls(1,2,6,13)[OF assms(1)]
  show ?thesis using assms(2) by (auto simp: subscribeFleet_def split: prod.splits sum.splits option.splits)
qed

text \<open>A NATS server with one stream and two consumers, of which one has been idle for two days.\<close>

record natsWorld =
  nw_conns :: "nat list"
  nw_cons :: "(string \<times> ConsumerInfo) list"

definition plainNats :: "(nat, natsWorld) natsLib" where
  "plainNats = \<lparr>
     n_Connect = (\<lambda>u opts s. let c = Suc (sum_list (nw_conns s)) in (Inr c, s\<lparr>nw_conns := c # nw_conns s\<rparr>)),
     n_Close = (\<lambda>c s. s\<lparr>nw_conns := filter (\<lambda>x. x \<noteq> c) (nw_conns s)\<rparr>), n_Drain = (\<lambda>c s. s), n_JetStream = (\<lambda>c s. (None, s)),
     n_StreamInfo = (\<lambda>c st s. (None, s)), n_AddStream = (\<lambda>c cfg s. (None, s)), n_UpdateStream = (\<lambda>c cfg s. (None, s)),
     n_ConsumerNames = (\<lambda>c st s. (map fst (nw_cons s), s)),
     n_ConsumerInfo = (\<lambda>c st n s. (case map_of (nw_cons s) n of None \<Rightarrow> Inl ''nats: consumer not found'' | Some i \<Rightarrow> Inr i, s)),
     n_DeleteConsumer = (\<lambda>c st n s. (None, s\<lparr>nw_cons := filter (\<lambda>p. fst p \<noteq> n) (nw_cons s)\<rparr>)),
     n_Subscribe = (\<lambda>c subj opts s. (None, s))\<rparr>"

lemma plainNats_eval:
  "n_Connect plainNats u opts s = (Inr (Suc (sum_list (nw_conns s))), s\<lparr>nw_conns := Suc (sum_list (nw_conns s)) # nw_conns s\<rparr>)"
  "n_JetStream plainNats c s = (None, s)" "n_StreamInfo plainNats c st s = (None, s)" "n_UpdateStream plainNats c cfg s = (None, s)"
  "n_ConsumerNames plainNats c st s = (map fst (nw_cons s), s)"
  "n_ConsumerInfo plainNats c st n s = (case map_of (nw_cons s) n of None \<Rightarrow> Inl ''nats: consumer not found'' | Some i \<Rightarrow> Inr i, s)"
  "n_DeleteConsumer plainNats c st n s = (None, s\<lparr>nw_cons := filter (\<lambda>p. fst p \<noteq> n) (nw_cons s)\<rparr>)"
  by (simp_all add: plainNats_def Let_def)

lemma map_of_delete_name: "map_of (filter (\<lambda>p. fst p \<noteq> n) kvs) = (map_of kvs)(n := None)"
  by (induction kvs) (auto simp: fun_eq_iff)

lemma plainNats_ok: "natsOk plainNats (\<lambda>s. set (nw_conns s)) (\<lambda>s. map_of (nw_cons s))"
proof -
  have "Suc (sum_list xs) \<notin> set xs" for xs :: "nat list" using member_le_sum_list[of "Suc (sum_list xs)" xs] by auto
  then show ?thesis
    by (auto simp: natsOk_def plainNats_def keeps_def Let_def map_of_delete_name split: option.splits)
qed

definition sampleNats :: natsWorld where
  "sampleNats = \<lparr>nw_conns = [],
     nw_cons = [(''old'', \<lparr>ci_NumPending = 0, ci_DeliveredStream = 4, ci_DeliveredLast = Some 0\<rparr>),
                (''busy'', \<lparr>ci_NumPending = 2, ci_DeliveredStream = 4, ci_DeliveredLast = Some 0\<rparr>)]\<rparr>"

theorem publisher_balanced_witness:
  "\<exists>c s'. newNATSPublisher plainNats (\<lambda>_. 48 * hour) sampleOS (defaultConfig sampleOS) (sampleFs []) sampleNats = (Some c, s') \<and>
     set (nw_conns s') = {c} \<and> map fst (nw_cons s') = [''busy''] \<and> nw_conns (closePublisher plainNats (Some c) s') = []"
proof -
  let ?r = "newNATSPublisher plainNats (\<lambda>_. 48 * hour) sampleOS (defaultConfig sampleOS) (sampleFs []) sampleNats"
  have st: "staleConsumer (48 * hour) \<lparr>ci_NumPending = 0, ci_DeliveredStream = 4, ci_DeliveredLast = Some 0\<rparr>"
    "\<not> staleConsumer (48 * hour) \<lparr>ci_NumPending = 2, ci_DeliveredStream = 4, ci_DeliveredLast = Some 0\<rparr>"
    by (simp_all add: staleConsumer_def hour_def minute_def second_def)
  have "\<exists>s'. ?r = (Some 1, s') \<and> map fst (nw_cons s') = [''busy'']"
    by (simp add: newNATSPublisher_def cleanupStaleConsumers_def cleanupOne_def plainNats_eval sampleNats_def st)
  then obtain s' where s': "?r = (Some 1, s') \<and> map fst (nw_cons s') = [''busy'']" ..
  with publisher_balanced[OF plainNats_ok conjunct1[OF s']]
  have "set (nw_conns s') = {1}" "nw_conns (closePublisher plainNats (Some 1) s') = []" by (simp_all add: sampleNats_def)
  with s' show ?thesis by (intro exI[of _ 1] exI[of _ s']) simp
qed

section \<open>The generated key\<close>

definition nkeysOk :: "'k nkeysLib \<Rightarrow> bool" where
  "nkeysOk K \<longleftrightarrow> (\<forall>u seed. nk_Seed K u = Inr seed \<longrightarrow> seed \<noteq> [] \<and> \<not> isSpace (hd seed) \<and> \<not> isSpace (last seed) \<and>
     (\<exists>u'. nk_FromSeed K seed = Inr u' \<and> nk_PublicKey K u' = nk_PublicKey K u \<and> nk_Sign K u' = nk_Sign K u))"

text \<open>
  The key that \<open>generate-nkey\<close> saved is the one the programs connect with.  After the command has
  succeeded, and unless another seed file is configured, the credential that is chosen is the saved
  seed; its connection option presents the public key that the command printed, and signs a nonce of
  the server as the generated user would.
\<close>

theorem generated_nkey_authenticates:
  assumes "nkeysOk K" and "nk_CreateUser K = Inr user" and "generateNKeySeed K = Inr (seed, pub)"
    and "cliGenerateNKey os (generateNKeySeed K) s = (0, out, s')" and "readErr s (Join [configDir os, nkeyFile]) = None"
    and "g_NatsNKeySeed cfg = []"
  shows "OptAuth (NKey seed) \<in> set (natsConnectOptions os cfg s' name) \<and>
    (\<exists>o'. nkeyOptionFromSeed K seed o0 = Inr o' \<and> no_Nkey o' = pub \<and> (\<forall>nonce. no_SignatureCB o' nonce = nk_Sign K user nonce))"
proof
  have gen: "nk_Seed K user = Inr seed" "nk_PublicKey K user = Inr pub"
    using assms(2,3) by (auto simp: generateNKeySeed_def split: sum.splits)
  with assms(1) obtain u' where k: "seed \<noteq> []" "\<not> isSpace (hd seed)" "\<not> isSpace (last seed)"
      "nk_FromSeed K seed = Inr u'" "nk_PublicKey K u' = Inr pub" "nk_Sign K u' = nk_Sign K user"
    unfolding nkeysOk_def by metis
  let ?p = "Join [configDir os, nkeyFile]"
  have "WriteFile ?p seed s = (None, s')"
    using assms(3,4) by (auto simp: cliGenerateNKey_def saveNKeySeed_def MkdirAll_def failWith_def split: prod.splits option.splits)
  then have "ReadFile ?p s' = Inr seed" using read_after_write[of ?p seed s] assms(5) by simp
  then have "natsAuthOption os cfg s' = Some (NKey seed)"
    using k(1-3) assms(6) trimSpace_idle[of seed] by (cases seed) (simp_all add: natsAuthOption_def loadNKeySeed_def)
  then show "OptAuth (NKey seed) \<in> set (natsConnectOptions os cfg s' name)" by (simp add: natsConnectOptions_def)
  show "\<exists>o'. nkeyOptionFromSeed K seed o0 = Inr o' \<and> no_Nkey o' = pub \<and> (\<forall>nonce. no_SignatureCB o' nonce = nk_Sign K user nonce)"
    using k by (simp add: nkeyOptionFromSeed_def)
qed

definition plainNkeys :: "string nkeysLib" where
  "plainNkeys = \<lparr>nk_CreateUser = Inr ''A'', nk_Seed = (\<lambda>u. Inr (''SU'' @ u @ ''X'')), nk_PublicKey = (\<lambda>u. Inr (''U'' @ u)),
     nk_FromSeed = (\<lambda>s. Inr (butlast (drop 2 s))), nk_Sign = (\<lambda>u n. Inr (u @ n))\<rparr>"

theorem generated_nkey_authenticates_witness:
  "OptAuth (NKey ''SUAX'') \<in> set (natsConnectOptions sampleOS (defaultConfig sampleOS)
     (snd (snd (cliGenerateNKey sampleOS (generateNKeySeed plainNkeys) (sampleFs [])))) ''n'')"
proof -
  have "nkeysOk plainNkeys" by (auto simp: nkeysOk_def plainNkeys_def isSpace_def)
  moreover have g: "generateNKeySeed plainNkeys = Inr (''SUAX'', ''UA'')" by (simp add: generateNKeySeed_def plainNkeys_def)
  moreover have "cliGenerateNKey sampleOS (Inr (''SUAX'', ''UA'')) (sampleFs []) =
      (0, [], snd (snd (cliGenerateNKey sampleOS (Inr (''SUAX'', ''UA'')) (sampleFs []))))"
    by (simp add: cliGenerateNKey_def saveNKeySeed_def MkdirAll_def WriteFile_def sampleFs_def)
  ultimately show ?thesis
    using generated_nkey_authenticates[of plainNkeys "''A''" "''SUAX''" "''UA''" sampleOS "sampleFs []" "[]" _ "defaultConfig sampleOS" "''n''"]
    by (simp add: plainNkeys_def sampleFs_def defaultConfig_def)
qed

section \<open>What the watch keeps\<close>

text \<open>The events since the last tick, and how many messages there were.\<close>

definition eventsOf :: "(string \<Rightarrow> FleetEvent option) \<Rightarrow> string \<Rightarrow> FleetEvent list" where
  "eventsOf dec dat = (case dec dat of None \<Rightarrow> [] | Some e \<Rightarrow> [e])"

fun sinceTick :: "(string \<Rightarrow> FleetEvent option) \<Rightarrow> watchInput list \<Rightarrow> FleetEvent list \<Rightarrow> FleetEvent list" where
  "sinceTick dec [] es = es"
| "sinceTick dec (Ticked # xs) es = sinceTick dec xs []"
| "sinceTick dec (Delivered dat # xs) es = sinceTick dec xs (es @ eventsOf dec dat)"

fun deliveries :: "watchInput list \<Rightarrow> nat" where
  "deliveries [] = 0"
| "deliveries (Ticked # xs) = deliveries xs"
| "deliveries (Delivered dat # xs) = Suc (deliveries xs)"

text \<open>What is left of a list of events once every thirty of them have been consolidated.\<close>

definition remainder :: "'a list \<Rightarrow> 'a list" where
  "remainder es = drop (30 * (length es div 30)) es"

lemma length_remainder: "length (remainder es) < 30"
  by (simp add: remainder_def)

lemma remainder_snoc: "remainder (es @ [e]) = (if length (remainder es) + 1 \<ge> 30 then [] else remainder es @ [e])"
proof -
  have r: "length (remainder es) = length es mod 30" by (simp add: remainder_def minus_mult_div_eq_mod)
  have le: "30 * (length es div 30) \<le> length es" by simp
  show ?thesis
  proof (cases "length es mod 30 + 1 \<ge> 30")
    case True
    moreover have "length es mod 30 < 30" by simp
    ultimately have "Suc (length es) mod 30 = 0" by (simp add: mod_Suc)
    then have "30 * (Suc (length es) div 30) = Suc (length es)" using mult_div_mod_eq[of 30 "Suc (length es)"] by linarith
    then have "remainder (es @ [e]) = []" by (simp add: remainder_def)
    with True r show ?thesis by simp
  next
    case False
    then have "Suc (length es) div 30 = length es div 30" by (simp add: div_Suc mod_Suc)
    with False r le show ?thesis by (simp add: remainder_def)
  qed
qed

lemma watchEvent_buffer:
  "watchEvent E clk order e (remainder l, h) = Ret (es, h') \<Longrightarrow> es = remainder (l @ [e])"
  by (auto simp: watchEvent_def remainder_snoc Let_def split: if_splits outcome.splits)

text \<open>
  The watch loses no event without consolidating, and keeps fewer than thirty.  After any messages
  and ticks, if no write panicked, the events still in memory are exactly those since the last tick that are
  left after taking away groups of thirty, and every message was acknowledged, the ones that
  do not decode too.
\<close>

lemma watch_buffer:
  assumes "watchRun E dec clks order xs ((remainder l, h), n) = Ret ((es, h'), n')"
  shows "es = remainder (sinceTick dec xs l) \<and> n' = n + deliveries xs"
  using assms
proof (induction xs arbitrary: clks l h n)
  case (Cons x xs)
  show ?case
  proof (cases x)
    case Ticked
    then obtain h1 where t: "watchTick E (clks 0) order (remainder l, h) = Ret ([], h1)"
      using Cons.prems by (auto simp: watchTick_def split: outcome.splits)
    have "remainder [] = ([] :: FleetEvent list)" by (simp add: remainder_def)
    with t Cons.prems Ticked have "watchRun E dec (\<lambda>i. clks (Suc i)) order xs ((remainder [], h1), n) = Ret ((es, h'), n')" by simp
    from Cons.IH[OF this] Ticked show ?thesis by simp
  next
    case (Delivered dat)
    show ?thesis
    proof (cases "dec dat")
      case None
      with Cons.prems Delivered have "watchRun E dec (\<lambda>i. clks (Suc i)) order xs ((remainder l, h), Suc n) = Ret ((es, h'), n')"
        by (simp add: onFleetMsg_def)
      from Cons.IH[OF this] Delivered None show ?thesis by (simp add: eventsOf_def)
    next
      case (Some e)
      with Cons.prems Delivered obtain es1 h1 where w: "watchEvent E (clks 0) order e (remainder l, h) = Ret (es1, h1)"
        by (auto simp: onFleetMsg_def split: outcome.splits)
      with Cons.prems Delivered Some watchEvent_buffer[OF w]
      have "watchRun E dec (\<lambda>i. clks (Suc i)) order xs ((remainder (l @ [e]), h1), Suc n) = Ret ((es, h'), n')"
        by (simp add: onFleetMsg_def)
      from Cons.IH[OF this] Delivered Some show ?thesis by (simp add: eventsOf_def)
    qed
  qed
qed simp

end
