(* ===== verification/Usage.thy ===== *)
theory Usage
  imports Client
begin

text \<open>
  The texts of the command line (\<open>printUsage\<close> and \<open>cliReauthFleet\<close> of \<^verbatim>\<open>src/main.go\<close>), what they name, and the
  commands that are run on other programs (\<open>execOutput\<close>, and \<^verbatim>\<open>src/helpers.go\<close>).
\<close>

section \<open>Texts\<close>

definition usageLines :: "string list" where
  "usageLines = [
     ''claude-peers - peer discovery and messaging for Claude Code'',
     [],
     ''Usage:'',
     ''  claude-peers init <role> [url]                Generate config (broker or client)'',
     ''  claude-peers config                           Show current config'',
     ''  claude-peers broker                           Start the broker daemon'',
     ''  claude-peers server                           Start MCP stdio server (used by Claude Code)'',
     ''  claude-peers run [claude-args...]             Launch claude with the claude-peers dev channel'',
     ''                                                loaded (exec-replaces this process). Strips --as'',
     ''                                                into CLAUDE_PEERS_AGENT for the child. Skips the'',
     ''                                                channel flag on -p / --print (daemon-call friendly).'',
     ''  claude-peers status                           Show broker status and all peers'',
     ''  claude-peers peers                            List all peers'',
     ''  claude-peers send <id> <msg>                  Send a message to a peer'',
     ''  claude-peers issue-token [--ttl D] <pub> <role>  Issue a UCAN token (default 24h; \"30d\", \"720h\", etc)'',
     ''  claude-peers save-token <jwt>                 Save a UCAN token locally'',
     ''  claude-peers refresh-token                    Renew current token (auto-refreshes with broker)'',
     ''  claude-peers mint-root                        Mint a new root token (broker only)'',
     ''  claude-peers dream                            Snapshot fleet state to Claude memory'',
     ''  claude-peers dream-watch                      Watch fleet via NATS and keep memory fresh'',
     ''  claude-peers generate-nkey                    Generate a NATS NKey pair for per-machine auth'',
     ''  claude-peers kill-broker                      Stop the broker daemon'',
     ''  claude-peers reauth-fleet                     Re-issue tokens for all fleet machines via SSH'',
     [],
     ''Token roles: peer-session, fleet-read, fleet-write, cli'',
     [],
     ''Setup:'',
     ''  # On the broker machine (e.g. your always-on server):'',
     ''  claude-peers init broker'',
     ''  claude-peers broker'',
     [],
     ''  # On each client machine:'',
     ''  claude-peers init client http://<broker-ip>:7899'',
     ''  # Copy root.pub from broker, then on broker:'',
     ''  claude-peers issue-token /path/to/client-identity.pub peer-session'',
     ''  # On client, save the issued token:'',
     ''  claude-peers save-token <jwt>'']"

definition printUsage :: string where
  "printUsage = concat (map (\<lambda>l. l @ nl) usageLines)"

definition cliReauthFleet :: string where
  "cliReauthFleet = ''reauth-fleet: Configure SSH targets in your SSH config.'' @ nl @
     ''For each machine:'' @ nl @
     ''  1. scp <machine>:~/.config/claude-peers/identity.pub /tmp/machine.pub'' @ nl @
     ''  2. claude-peers issue-token /tmp/machine.pub peer-session'' @ nl @
     ''  3. ssh <machine> 'claude-peers save-token <jwt>'' @ [CHR 0x27] @ nl"

section \<open>External programs\<close>

text \<open>
  \<open>sys\<close> runs an argument vector and gives what it wrote on both streams, or on standard output only, and its error;
  the time limits of the two helpers are not modelled.
\<close>

type_synonym executor = "string list \<Rightarrow> string \<times> string option"

definition execOutput :: "executor \<Rightarrow> string \<Rightarrow> string list \<Rightarrow> string \<times> string option" where
  "execOutput sys name args = sys (name # args)"

definition sendEmail :: "executor \<Rightarrow> string \<Rightarrow> string \<Rightarrow> string \<Rightarrow> string option" where
  "sendEmail sys to subject body = (case sys [''resend-email'', ''-m'', body, to, subject] of
      (out, Some err) \<Rightarrow> Some (''[email] send failed: '' @ err @ '': '' @ out)
    | (_, None) \<Rightarrow> None)"

definition sshRun :: "executor \<Rightarrow> string \<Rightarrow> string \<Rightarrow> string \<times> string option" where
  "sshRun sys target command = sys [''ssh'', ''-o'', ''ConnectTimeout=5'', ''-o'', ''StrictHostKeyChecking=no'',
     ''-o'', ''BatchMode=yes'', target, command]"

section \<open>The usage names the commands\<close>

text \<open>The words after the program name in the lines of the usage text.\<close>

definition usageCommands :: "string list" where
  "usageCommands = map (\<lambda>l. takeWhile (\<lambda>c. c \<noteq> CHR 0x20) (trimPrefix l ''  claude-peers ''))
     (filter (\<lambda>l. hasPrefix l ''  claude-peers '') usageLines)"

lemma usageCommands_eval: "usageCommands = [''init'', ''config'', ''broker'', ''server'', ''run'', ''status'', ''peers'', ''send'',
    ''issue-token'', ''save-token'', ''refresh-token'', ''mint-root'', ''dream'', ''dream-watch'', ''generate-nkey'', ''kill-broker'',
    ''reauth-fleet'', ''init'', ''broker'', ''init'', ''issue-token'', ''save-token'']"
  by code_simp

text \<open>
  The usage text names every command the program has, and no other: a word is dispatched to a
  command exactly when the text lists it.
\<close>

theorem usage_complete: "cmd \<in> set usageCommands \<longleftrightarrow> chooseCommand (prog # cmd # rest) \<noteq> PrintUsage"
  by (simp add: usageCommands_eval chooseCommand_def split: list.split)

end
