(* ===== verification/Spec2Isabelle.thy ===== *)
theory Spec2Isabelle
  imports Startup Renewal Conversation Closing Process NatsLink Usage
begin

text \<open>
  A verification development for \<^verbatim>\<open>claude-peers\<close>, a message broker for agent sessions and the programs
  around it, written in Go.

  \<^bold>\<open>The program.\<close>  A broker process (\<^verbatim>\<open>src/broker_core.go\<close>) keeps sessions, messages, events, a fleet
  memory and known tokens in SQLite and answers HTTP requests that carry capability tokens
  (\<^verbatim>\<open>src/auth_ucan.go\<close>, \<^verbatim>\<open>src/auth_middleware.go\<close>) under a rate limit (\<^verbatim>\<open>src/rate_limiter.go\<close>).  Each agent runs an
  MCP server (\<^verbatim>\<open>src/fleet_server.go\<close>, \<^verbatim>\<open>src/fleet_mcp.go\<close>) that registers a session, sends heartbeats, announces
  waiting messages and offers five tools over JSON-RPC on its standard streams.  Both use the API client and
  the commands of \<^verbatim>\<open>src/main.go\<close>, the configuration (\<^verbatim>\<open>src/config.go\<close>) and the key files
  (\<^verbatim>\<open>src/auth_ucan_keys.go\<close>).  The broker publishes its events to NATS (\<^verbatim>\<open>src/fleet_nats.go\<close>), and a watch keeps
  a memory file of the fleet up to date (\<^verbatim>\<open>src/fleet_dream.go\<close>).

  \<^bold>\<open>The layers.\<close>  Every theory imports the ones it builds on.

  \<^item> Ground: \<open>Prelude\<close> (row operations of SQL, orders, the contract \<open>inductive_invariant\<close>), \<open>GoLib\<close> (strings,
    base64, hex, wrap-around of int64), \<open>GoTime\<close> and \<open>TimeParse\<close> (RFC 3339 in both directions), \<open>Paths\<close> and \<open>Files\<close>
    (\<open>path/filepath\<close>, \<open>os\<close>, the contract \<open>file_store\<close>), \<open>Json\<close> (arrays of strings), \<open>Types\<close> (\<^verbatim>\<open>src/types.go\<close>).
  \<^item> Broker: \<open>Store\<close> (the tables and every SQL statement), \<open>Broker\<close> (one definition per operation of
    \<^verbatim>\<open>src/broker_core.go\<close>), \<open>Nats\<close> (the publisher), \<open>RateLimiter\<close>, \<open>TTL\<close> (\<^verbatim>\<open>src/ttl.go\<close>).  \<open>Delivery\<close> and
    \<open>Housekeeping\<close> hold what the operations promise.
  \<^item> Access: \<open>Ucan\<close> (minting and validation), \<open>TokenStore\<close> (tokens in SQLite and on disk), \<open>Http\<close> (middleware, routes
    and handlers), \<open>Access\<close> (what a request can change), \<open>Process\<close> (\<open>runBroker\<close>, restarts).
  \<^item> Command line: \<open>KeyFiles\<close>, \<open>Config\<close>, \<open>Transport\<close> (TLS and NATS settings), \<open>Cli\<close> (flags, token commands, the run
    wrapper), \<open>Identity\<close> (\<^verbatim>\<open>src/fleet_git.go\<close>), \<open>Client\<close> (API client and commands), \<open>Usage\<close> (texts and external
    programs), \<open>Dream\<close> (the memory file), \<open>NatsLink\<close> (NATS connection, consumers, keys and the watch).
  \<^item> MCP: \<open>Protocol\<close> (frames, schemas, lines), \<open>Mcp\<close> (start, registration, heartbeats, end), \<open>Tools\<close> (the tools, the
    push loop, the dispatch), \<open>Session\<close> and \<open>Stdio\<close> (the process with its goroutines and streams).
  \<^item> Together: \<open>Wire\<close> (what the two JSON codecs owe each other), \<open>Link\<close> (the broker as the network of a client, the
    contract \<open>broker_link\<close>), \<open>Rebind\<close>, \<open>Startup\<close>, \<open>Renewal\<close>, \<open>Conversation\<close>, \<open>Closing\<close>, and this theory.

  \<^bold>\<open>State and effects.\<close>  A struct is a record with the fields of the source, a table a list of rows, a handler
  a function from the state to an answer and the new state.  A database that fails answers every query and statement
  with its error (\<open>dbErr\<close>), and the operations then do what the code does.  Go's errors are
  values of a sum or option type, a panic is \<open>Panic\<close>.  What the program reads from outside is an argument: the clock
  as a function from the number of the reading to the time, random bytes, the environment, the file system, the
  order in which a map is ranged over, the answers of other programs.  A broker process is started by \<open>bootServer\<close>: what
  \<open>newBroker\<close> has built when it returns, with or without the first round of the stale sweep that it starts beside.  Log lines are
  left out.

  \<^bold>\<open>Libraries.\<close>  Code outside the repository is a parameter with named laws, each with an instance that meets them.
  The JWT library and Ed25519 are \<open>jwtLib\<close> (\<open>jwtSound\<close>: a parsed token was signed with the key of its issuer;
  \<open>jwtComplete\<close>: a signed token parses), PEM is \<open>pemLib\<close>, the JSON codecs of client and
  broker are related by \<open>wireOk\<close> for texts that are valid UTF-8 and integers of 64 bits, \<open>nats.go\<close> and \<open>nkeys\<close> by \<open>natsOk\<close> and
  \<open>nkeysOk\<close>.  HTTP between client and broker is \<open>brokerDo\<close>: one request at a time, each served to its end; a
  panic of a handler is an aborted connection.

  \<^bold>\<open>What is shown.\<close>
  \<^item> Messages: a message sent to a name reaches the next holder of the name if nobody holds it, if the session that
    got it leaves or is evicted unacknowledged, and across restarts of the broker, which evict only the sessions that have
    become stale; it is not lost before the retention of a day; one that was delivered and acknowledged never comes back; the life
    cycle of a row is a refinement of five phases; two agents that use the tools hear each other (\<open>Conversation\<close>).
  \<^item> Sessions: ids and names are unique under every interleaving of statements, requests, sweeps and processes;
    registration and claim succeed exactly on a free name; heartbeats keep a session, the eviction window
    is exact to a second; an evicted session returns, a starting server registers, an ending one is forgotten.
  \<^item> Rights: what a request changes, apart from the record of accepted tokens, was allowed by an accepted token; accepted tokens are authentic and never exceed what the
    root issued; renewal keeps rights; tokens survive restarts; a call renews at most once.
  \<^item> MCP: requests are answered once and in order, frames are lines, tools are as advertised, a message is
    announced at most once and announcing takes nothing; the main loop ends with its input.
  \<^item> The rest: rate limits over every window, lifetimes, key files, the search for the agent file, connections to NATS.
  \<^item> Behaviour that the code or its comments did not intend is stated as theorems too, among them
    \<open>register_race\<close>, \<open>empty_poll_takes_queue\<close>, \<open>poll_order_within_second\<close>, \<open>nil_validator_panics\<close>,
    \<open>day_shorthand_misread\<close>, \<open>restart_forgets_typos\<close>, \<open>child_outlives_parent\<close>.

  \<^bold>\<open>Bounds.\<close>  The only counter that is not the code's own is the number of iterations that \<open>dreamPollLoop\<close>, an
  endless loop, is followed for.  \<open>awaitBroker\<close> has the thirty probes of the code; every other loop is structural or
  comes with a termination proof (the duration parser, the walk to the home directory, the readers of JSON, the
  main loop over the length of its input).

  \<^bold>\<open>Not modelled.\<close>  Accepting connections, TLS handshakes and the graceful shutdown of \<open>net/http\<close> and autocert; what
  JetStream does with a published event; time limits of HTTP calls and external programs; file
  permissions beyond the errors they cause; SQLite's own concurrency, of which the statements are the atoms; the memory model of Go:
  goroutines take turns at whole handlers or statements, so the unsynchronised slice of \<open>cliDreamWatch\<close> appears as
  a sequence of turns.  Decoding a JSON-RPC request and the arguments of a tool call is a parameter.
\<close>

section \<open>Delivery across a restart of the broker\<close>

text \<open>
  A token that every process of the broker accepts: it is a root token, or it was issued from the root
  token that the process loads at its start.
\<close>

definition issuedByRoot :: "bootEnv \<Rightarrow> UCANClaims \<Rightarrow> bool" where
  "issuedByRoot B c \<longleftrightarrow> c_Subject c = ''claude-peers'' \<and>
     (case (bo_keys B, bo_root B) of
        (Inr kp, Inr root) \<Rightarrow>
          if c_Proof c = [] then pubKeyFromString (c_Issuer c) = Inr (PublicKey kp)
          else c_Proof c = TokenHash (bo_jwt B) root \<and> Resource ` set (c_Capabilities c) \<subseteq> set (resources AllCapabilities)
      | _ \<Rightarrow> False)"

lemma boot_accepts:
  assumes "issuedByRoot B c"
  shows "\<exists>v. validator (bootServer B d) = Some v \<and> chainError v c = None"
proof -
  obtain kp root where k: "bo_keys B = Inr kp" "bo_root B = Inr root" "c_Subject c = ''claude-peers''"
      "if c_Proof c = [] then pubKeyFromString (c_Issuer c) = Inr (PublicKey kp)
       else c_Proof c = TokenHash (bo_jwt B) root \<and> Resource ` set (c_Capabilities c) \<subseteq> set (resources AllCapabilities)"
    using assms by (auto simp: issuedByRoot_def split: sum.splits)
  obtain v where v: "validator (bootServer B d) = Some v" "rootPubKey v = PublicKey kp"
      "knownTokens v (TokenHash (bo_jwt B) root) = Some (resources AllCapabilities)"
    using k(1,2) by (auto simp: coldServer_def startValidator_def RegisterToken_def WithPersister_def NewTokenValidator_def
        loadKnownTokens_def Let_def split: prod.splits)
  have "chainError v c = None"
    using k(3,4) v(2,3) by (auto simp: chainError_def find_None_iff split: if_splits option.split)
  with v(1) show ?thesis by blast
qed

text \<open>What waits for a session that the first round keeps goes on waiting, whichever other sessions it evicts.\<close>

lemma release_waiting:
  "i \<notin> set dead \<Longrightarrow> waitingFor i n m \<Longrightarrow>
   \<exists>m'. rowEffects (concat (map releaseSession dead)) m = Some m' \<and> content m' = content m \<and> waitingFor i n m'"
proof (induction dead arbitrary: m)
  case (Cons s dead)
  show ?case
  proof (cases "w_to_session m = s \<and> w_ack_at m = None")
    case True
    let ?m = "m\<lparr>w_to_session := [], w_delivered_at := None\<rparr>"
    have "waitingFor i n ?m" "content ?m = content m" "w_to_agent m \<noteq> []"
      using Cons.prems True by (auto simp: waitingFor_def content_def)
    with Cons.IH[of ?m] Cons.prems True show ?thesis by (auto simp: releaseSession_def)
  next
    case False
    with Cons.IH[of m] Cons.prems show ?thesis by (auto simp: releaseSession_def)
  qed
qed simp

lemma fresh_not_dead:
  assumes "dbErr d = None" and "dbOk d" and "p \<in> set (peers d)" and "\<not> p_LastSeen p < c"
  shows "p_ID p \<notin> set (deadIDs c d)"
proof
  assume "p_ID p \<in> set (deadIDs c d)"
  then obtain q where "q \<in> set (peers d)" "p_ID q = p_ID p" "p_LastSeen q < c" using assms(1) by (auto simp: deadIDs_def)
  moreover from this have "q = p" using assms(2,3) by (auto simp: dbOk_def unique_key_def distinct_map inj_on_def)
  ultimately show False using assms(4) by simp
qed

lemma waiting_survives:
  assumes "dbErr (bdb b) = None" and "dbOk (bdb b)" and "p \<in> set (peers (bdb b))" and "\<not> staleAtStart B p"
    and "x \<in> set (waitingMessages (p_ID p) (bdb b))" and "d = bdb (firstRound B b)"
  shows "\<exists>x' \<in> set (waitingMessages (p_ID p) d). m_ID x' = m_ID x \<and> m_Text x' = m_Text x \<and>
    m_FromSession x' = m_FromSession x \<and> m_FromAgent x' = m_FromAgent x \<and> m_SentAt x' = m_SentAt x"
proof -
  have up: "dbErr d = None" and ok: "dbOk d"
    using assms(1,2,6) statements.holds_steps[OF firstRound_steps] by auto
  have "p \<in> set (peers d)" using assms(1,3,4,6) by (simp add: firstRound_peers)
  then have name: "agentNameOf (p_ID p) d = p_AgentName p" "agentNameOf (p_ID p) (bdb b) = p_AgentName p"
    using assms(1-3) sessionRow_iff[OF up ok, of "p_ID p" p] sessionRow_iff[OF assms(1,2), of "p_ID p" p] by (simp_all add: agentNameOf_def)
  obtain m where m: "m \<in> set (messages (bdb b))" "waitingFor (p_ID p) (p_AgentName p) m" "x = scanMessage m"
    using assms(5) by (auto simp: in_waiting_iff[OF assms(1)] name)
  then have at: "msgAt (w_id m) (bdb b) = Some m" by (simp add: msgAt_iff[OF assms(2)])
  have "\<exists>m'. msgAt (w_id m) d = Some m' \<and> content m' = content m \<and> waitingFor (p_ID p) (p_AgentName p) m'"
  proof (cases "bo_sweep B")
    case None
    then show ?thesis using at m(2) assms(6) by (simp add: firstRound_def)
  next
    case (Some clk)
    then have "p_ID p \<notin> set (deadIDs (staleCutoff (bo_stale B) (clk 0)) (bdb b))"
      using fresh_not_dead[OF assms(1-3)] assms(4) by (simp add: staleAtStart_def)
    from release_waiting[OF this m(2)] Some assms(6) show ?thesis
      unfolding firstRound_db Some option.case by (auto simp: msgAt_execAll[OF assms(2,1) at] simp del: execAll_simps)
  qed
  then obtain m' where m': "msgAt (w_id m) d = Some m'" "content m' = content m" "waitingFor (p_ID p) (p_AgentName p) m'" by blast
  then have "scanMessage m' \<in> set (waitingMessages (p_ID p) d)"
    using msgAt_iff[OF ok] by (auto simp: in_waiting_iff[OF up] name)
  with m(3) m'(2) show ?thesis by (intro bexI[of _ "scanMessage m'"]) (simp_all add: scanMessage_def content_def)
qed

lemma clean_exec:
  assumes "s \<in> {DropDirect j, RequeueAgent j, DeleteStalePeers t, PurgeEvents t}" and "\<forall>m \<in> set (messages d). cleanMessage (scanMessage m)"
  shows "\<forall>m \<in> set (messages (exec s d)). cleanMessage (scanMessage m)"
  using assms by (cases "dbErr d") (auto simp: exec_def update_where_def delete_where_def cleanMessage_def scanMessage_def)

lemma clean_execAll:
  assumes "\<forall>s \<in> set ss. \<exists>j t. s \<in> {DropDirect j, RequeueAgent j, DeleteStalePeers t, PurgeEvents t}"
    and "\<forall>m \<in> set (messages d). cleanMessage (scanMessage m)"
  shows "\<forall>m \<in> set (messages (execAll ss d)). cleanMessage (scanMessage m)"
  using assms
proof (induction ss arbitrary: d)
  case (Cons s ss)
  then have "\<forall>m \<in> set (messages (exec s d)). cleanMessage (scanMessage m)" using clean_exec by (metis list.set_intros(1))
  with Cons show ?case by simp
qed simp

lemma clean_firstRound:
  assumes "\<forall>m \<in> set (messages (bdb b)). cleanMessage (scanMessage m)"
  shows "\<forall>m \<in> set (messages (bdb (firstRound B b))). cleanMessage (scanMessage m)"
proof (cases "bo_sweep B")
  case None
  then show ?thesis using assms by (simp add: firstRound_def)
next
  case (Some clk)
  then show ?thesis unfolding firstRound_db Some option.case
    by (intro clean_execAll assms) (auto simp: releaseSession_def)
qed

lemma linked_after_restart:
  assumes "linkedTo L E tok c i h" and "currentSchema B" and "issuedByRoot B c"
    and "\<forall>m \<in> set (messages (dbOf (net h))). cleanMessage (scanMessage m)" and "d = bdb (firstRound B (broker (w_server (net h))))"
    and "h' = h\<lparr>net := \<lparr>w_server = bootServer B (dbOf (net h)), w_count = n\<rparr>\<rparr>"
  shows "linkedTo L E tok c i h'" "peers (dbOf (net h')) = peers d" "waitingMessages i (dbOf (net h')) = waitingMessages i d"
proof -
  let ?d = "bdb (broker (bootServer B (dbOf (net h))))"
  have u: "durable ?d = durable d"
    using boot_undisturbed(1)[OF assms(2), of "broker (w_server (net h))"] assms(5) by (simp add: undisturbed_def)
  have up: "dbErr d = None" using linked_up(1)[OF assms(1)] assms(5) by simp
  have ok: "dbErr ?d = None" "dbOk ?d"
    using u up linked_up[OF assms(1)] statements.holds_steps[OF boot_steps[OF assms(2)]] by (auto simp: durable_def)
  show p: "peers (dbOf (net h')) = peers d" "waitingMessages i (dbOf (net h')) = waitingMessages i d"
    using u durable_views(1)[OF u[unfolded assms(5)], of i] assms(5,6) by (simp_all add: durable_def)
  have "list_all cleanMessage (waitingMessages i d)"
    using clean_firstRound[OF assms(4)] assms(5) by (intro clean_waiting[OF up]) (simp add: list_all_iff)
  moreover have "list_all cleanPeer (peers d)"
    using assms(1,5) linked_up(1)[OF assms(1)] by (auto simp: linkedTo_def list_all_iff firstRound_peers)
  ultimately show "linkedTo L E tok c i h'"
    using assms(1,6) p ok boot_accepts[OF assms(3), of "dbOf (net h)"] by (simp add: linkedTo_def ready_def)
qed

text \<open>
  C2: a restart of the broker loses no message on its way to a live session.  Messages wait for a session; the
  broker process ends and another is started on the same database, with the same root token; the first
  sweep of the new process has run, or is still to come, and does not find the session stale.  When the
  session then calls \<open>check_messages\<close>, it is shown every message that waited before the restart,
  unchanged, and nothing waits any more.  If the sweep finds no session stale, it is shown exactly the messages that
  waited, with the senders of then; otherwise there may be more, returned by a holder of the same name who went stale.
\<close>

theorem delivered_across_restart:
  assumes "linkedTo L E tok c i (v_host v)" and "v_session v = Some i" and "d = dbOf (net (v_host v))"
    and "currentSchema B" and "issuedByRoot B c"
    and "p \<in> set (peers d)" and "p_ID p = i" and "\<not> staleAtStart B p" and "\<forall>m \<in> set (messages d). cleanMessage (scanMessage m)"
    and "u = v\<lparr>v_host := (v_host v)\<lparr>net := \<lparr>w_server = bootServer B d, w_count = n\<rparr>\<rparr>\<rparr>"
    and "u' = toolCheckMessages E rid u"
  shows "\<exists>ps ms. v_out u' = v_out v @ [ToolResult rid (if ms = [] then ''No new messages.'' else messagesReport ps ms)] \<and>
    (\<forall>x \<in> set (waitingMessages i d). \<exists>x' \<in> set ms. m_ID x' = m_ID x \<and> m_Text x' = m_Text x \<and>
       m_FromSession x' = m_FromSession x \<and> m_FromAgent x' = m_FromAgent x \<and> m_SentAt x' = m_SentAt x) \<and>
    ((\<forall>q \<in> set (peers d). \<not> staleAtStart B q) \<longrightarrow> ps = peers d \<and> ms = waitingMessages i d) \<and>
    waitingMessages i (dbOf (net (v_host u'))) = []"
proof -
  let ?b = "broker (w_server (net (v_host v)))"
  let ?d = "bdb (firstRound B ?b)"
  have h: "v_host u = (v_host v)\<lparr>net := \<lparr>w_server = bootServer B (dbOf (net (v_host v))), w_count = n\<rparr>\<rparr>"
      "v_session u = Some i" "v_out u = v_out v"
    using assms(2,3,10) by simp_all
  note a = linked_after_restart[OF assms(1,4,5) assms(9)[unfolded assms(3)] refl h(1)]
  have up: "dbErr (bdb ?b) = None" "dbOk (bdb ?b)" using linked_up[OF assms(1)] by simp_all
  have all: "\<forall>x \<in> set (waitingMessages i d). \<exists>x' \<in> set (waitingMessages i ?d). m_ID x' = m_ID x \<and> m_Text x' = m_Text x \<and>
       m_FromSession x' = m_FromSession x \<and> m_FromAgent x' = m_FromAgent x \<and> m_SentAt x' = m_SentAt x"
    using waiting_survives[OF up _ assms(8) _ refl] assms(3,6,7) by auto
  have "peers ?d = peers d \<and> waitingMessages i ?d = waitingMessages i d" if "\<forall>q \<in> set (peers d). \<not> staleAtStart B q"
    using firstRound_fresh[OF up(1)] that assms(3) up(1) agentNameOf_cong[of ?d "bdb ?b" i] by (simp add: waiting_up)
  with served.check_messages[OF a(1) h(2) refl assms(11) refl] all show ?thesis unfolding a(2,3) h(3)
    by (intro exI[of _ "peers ?d"] exI[of _ "waitingMessages i ?d"]) simp
qed

definition rootBoot :: bootEnv where
  "rootBoot = (sweptBoot 0)\<lparr>bo_keys := Inr \<lparr>PrivateKey = ''root'', PublicKey = plainPublic ''root''\<rparr>,
     bo_root := Inr (plainToken ''root'' sampleRootClaims)\<rparr>"

lemma waiting_not_stale: "\<forall>q \<in> set (peers (bdb waitingBroker)). \<not> staleAtStart rootBoot q"
proof -
  have "staleCutoff 20 0 = fmtRFC3339 (- (20 * second))" by (simp add: staleCutoff_def wrap64_id second_def Let_def)
  also have "\<dots> = ''1969-12-31T23:59:40Z''" by (simp add: second_def time_eval)
  finally have "\<not> ''t0'' < staleCutoff 20 0" by (simp add: less_char_def)
  then show ?thesis by (simp add: waiting_peers staleAtStart_def rootBoot_def sweptBoot_def sampleBoot_def newPeer_def)
qed

theorem delivered_across_restart_witness:
  "\<exists>ms. v_out (toolCheckMessages sampleClient None ((sampleMcp waitingBroker)\<lparr>v_host := (sampleHost waitingBroker)\<lparr>net :=
       \<lparr>w_server = bootServer rootBoot (bdb waitingBroker), w_count = 0\<rparr>\<rparr>\<rparr>)) =
     [ToolResult None (messagesReport (peers (bdb waitingBroker)) ms)] \<and> map m_Text ms = [''hi'']"
proof -
  let ?p = "newPeer ''s1'' ''t0'' (sampleReq ''bob'')"
  have v: "v_session (sampleMcp waitingBroker) = Some ''s1''" "v_host (sampleMcp waitingBroker) = sampleHost waitingBroker"
      "v_out (sampleMcp waitingBroker) = []" "dbOf (net (sampleHost waitingBroker)) = bdb waitingBroker"
    by (simp_all add: sampleMcp_def sampleHost_def)
  have cur: "currentSchema rootBoot" using sample_schema(2)[of 0] by (simp add: currentSchema_def rootBoot_def)
  have "c_Proof sampleRootClaims = []" "c_Subject sampleRootClaims = ''claude-peers''"
    by (simp_all add: sampleRootClaims_def newClaims_def)
  then have root: "issuedByRoot rootBoot sampleRootClaims"
    using rootClaims_checks(1) by (simp add: issuedByRoot_def rootBoot_def issuerKey_def split: sum.splits if_splits)
  have p: "?p \<in> set (peers (bdb waitingBroker))" "p_ID ?p = ''s1''" by (simp_all add: waiting_peers newPeer_def)
  have clean: "\<forall>m \<in> set (messages (bdb waitingBroker)). cleanMessage (scanMessage m)"
    by (auto simp: waiting_rows int64_def intro!: bound_clean)
  have "waitingMessages ''s1'' (bdb waitingBroker) \<noteq> []" using waiting_one(1) by auto
  with delivered_across_restart[OF sample_linked v(1) refl cur root, unfolded v, OF p waiting_not_stale[rule_format, OF p(1)] clean refl refl, of None 0]
    waiting_not_stale waiting_one(1)
  show ?thesis by auto
qed

end
